(* ===== verification/Prelude.thy ===== *)
theory Prelude
  imports Main "HOL-Library.Word" "HOL-Library.Char_ord" "HOL-Library.List_Lexorder"
begin

text \<open>
  Shared vocabulary of the development: machine integers, Rust results and the
  \<open>?\<close> operator, loops that stop at the first error, and the byte-string
  operations the sources call (\<open>trim\<close>, \<open>to_ascii_lowercase\<close>, \<open>is_ascii_alphanumeric\<close>,
  decimal and debug formatting, dotted IPv4 text).  A Rust \<open>String\<close> is the list of its
  UTF-8 bytes, so the lexicographic order of List_Lexorder over Char_ord is
  Rust's order on strings.
\<close>

named_theorems res_simps \<open>facts that run a chain of fallible steps\<close>
named_theorems str_simps \<open>facts on trimmed and formatted strings\<close>

type_synonym u16 = "16 word"
type_synonym u32 = "32 word"
type_synonym u64 = "64 word"

named_theorems errs_intro \<open>which errors a step can return\<close>

section \<open>Results\<close>

text \<open>\<open>Result<T, E>\<close> is the sum type, \<open>Inl\<close> the error.\<close>

definition is_ok :: "'e + 'a \<Rightarrow> bool" where
  "is_ok r = (case r of Inl _ \<Rightarrow> False | Inr _ \<Rightarrow> True)"

definition is_err :: "'e + 'a \<Rightarrow> bool" where
  "is_err r = (case r of Inl _ \<Rightarrow> True | Inr _ \<Rightarrow> False)"

text \<open>The \<open>?\<close> operator.\<close>

definition and_then :: "'e + 'a \<Rightarrow> ('a \<Rightarrow> 'e + 'b) \<Rightarrow> 'e + 'b" where
  "and_then r k = (case r of Inl e \<Rightarrow> Inl e | Inr x \<Rightarrow> k x)"

definition map_err :: "('e \<Rightarrow> 'f) \<Rightarrow> 'e + 'a \<Rightarrow> 'f + 'a" where
  "map_err f r = (case r of Inl e \<Rightarrow> Inl (f e) | Inr x \<Rightarrow> Inr x)"

text \<open>Every error of a result satisfies a predicate.\<close>

definition only_errs :: "('e \<Rightarrow> bool) \<Rightarrow> 'e + 'a \<Rightarrow> bool" where
  "only_errs P r = (case r of Inl e \<Rightarrow> P e | Inr _ \<Rightarrow> True)"

text \<open>A guard with an early \<open>return Err(e)\<close>, and \<open>ok_or_else\<close>.\<close>

definition ensure :: "bool \<Rightarrow> 'e \<Rightarrow> 'e + unit" where
  "ensure b e = (if b then Inr () else Inl e)"

definition ok_or :: "'a option \<Rightarrow> 'e \<Rightarrow> 'e + 'a" where
  "ok_or x e = (case x of None \<Rightarrow> Inl e | Some y \<Rightarrow> Inr y)"

text \<open>A \<open>for\<close> loop whose body threads a value and may return early with an error.\<close>

primrec try_fold :: "('s \<Rightarrow> 'a \<Rightarrow> 'e + 's) \<Rightarrow> 's \<Rightarrow> 'a list \<Rightarrow> 'e + 's" where
  "try_fold f s [] = Inr s"
| "try_fold f s (x # xs) = and_then (f s x) (\<lambda>s'. try_fold f s' xs)"

text \<open>A \<open>for\<close> loop that only checks.\<close>

primrec try_each :: "('a \<Rightarrow> 'e + unit) \<Rightarrow> 'a list \<Rightarrow> 'e + unit" where
  "try_each f [] = Inr ()"
| "try_each f (x # xs) = and_then (f x) (\<lambda>_. try_each f xs)"

text \<open>\<open>iter().map(f).collect::<Result<Vec<_>, _>>()\<close>.\<close>

primrec try_map :: "('a \<Rightarrow> 'e + 'b) \<Rightarrow> 'a list \<Rightarrow> 'e + 'b list" where
  "try_map f [] = Inr []"
| "try_map f (x # xs) = and_then (f x) (\<lambda>y. and_then (try_map f xs) (\<lambda>ys. Inr (y # ys)))"

lemma is_ok_simps [simp, res_simps]: "is_ok (Inr x)" "\<not> is_ok (Inl e)"
  by (simp_all add: is_ok_def)

lemma is_err_simps [simp, res_simps]: "is_err (Inl e)" "\<not> is_err (Inr x)"
  by (simp_all add: is_err_def)

lemma not_is_ok [simp]: "(\<not> is_ok r) = is_err r"
  by (cases r) simp_all

lemma is_ok_iff: "is_ok r \<longleftrightarrow> (\<exists>x. r = Inr x)"
  by (cases r) simp_all

lemma is_ok_unit: "is_ok (r :: 'e + unit) \<longleftrightarrow> r = Inr ()"
  by (cases r) simp_all

lemma and_then_simps [simp, res_simps]:
  "and_then (Inl e) k = Inl e" "and_then (Inr x) k = k x"
  by (simp_all add: and_then_def)

lemma and_then_Inr_iff: "and_then r k = Inr y \<longleftrightarrow> (\<exists>x. r = Inr x \<and> k x = Inr y)"
  by (cases r) simp_all

lemma and_then_Inl_iff: "and_then r k = Inl e \<longleftrightarrow> r = Inl e \<or> (\<exists>x. r = Inr x \<and> k x = Inl e)"
  by (cases r) simp_all

lemma is_ok_and_then:
  "is_ok (and_then r k) \<longleftrightarrow> (\<exists>x. r = Inr x \<and> is_ok (k x))"
  by (cases r) simp_all

lemma is_ok_and_then_unit [simp, res_simps]:
  "is_ok (and_then (r :: 'e + unit) k) \<longleftrightarrow> is_ok r \<and> is_ok (k ())"
  by (cases r) simp_all

lemma and_then_assoc [simp]: "and_then (and_then r f) g = and_then r (\<lambda>x. and_then (f x) g)"
  by (cases r) simp_all

lemma map_err_simps [simp, res_simps]: "map_err f (Inl e) = Inl (f e)" "map_err f (Inr x) = Inr x"
  by (simp_all add: map_err_def)

lemma is_ok_ensure [simp, res_simps]: "is_ok (ensure b e) = b"
  by (simp add: ensure_def)

lemma ensure_simps [simp]: "ensure True e = Inr ()" "ensure False e = Inl e"
  by (simp_all add: ensure_def)

lemma ensure_eq_iff: "ensure b e = Inr u \<longleftrightarrow> b" "ensure b e = Inl e' \<longleftrightarrow> \<not> b \<and> e = e'"
  by (auto simp: ensure_def)

lemma ok_or_simps [simp, res_simps]: "ok_or None e = Inl e" "ok_or (Some x) e = Inr x"
  by (simp_all add: ok_or_def)

lemma ok_or_Inr_iff: "ok_or x e = Inr y \<longleftrightarrow> x = Some y"
  by (cases x) simp_all

lemma try_each_ok [simp, res_simps]: "is_ok (try_each f xs) \<longleftrightarrow> (\<forall>x \<in> set xs. is_ok (f x))"
  by (induction xs) auto

lemma try_each_append [simp]:
  "try_each f (xs @ ys) = and_then (try_each f xs) (\<lambda>_. try_each f ys)"
  by (induction xs) auto

lemma try_each_Inl:
  "try_each f xs = Inl e \<longleftrightarrow>
    (\<exists>ys x zs. xs = ys @ x # zs \<and> (\<forall>y \<in> set ys. is_ok (f y)) \<and> f x = Inl e)"
proof
  assume "try_each f xs = Inl e"
  then show "\<exists>ys x zs. xs = ys @ x # zs \<and> (\<forall>y \<in> set ys. is_ok (f y)) \<and> f x = Inl e"
  proof (induction xs)
    case (Cons a xs)
    show ?case
    proof (cases "f a")
      case (Inl b)
      with Cons.prems show ?thesis by (intro exI[of _ "[]"]) auto
    next
      case (Inr b)
      with Cons obtain ys x zs where "xs = ys @ x # zs" "\<forall>y \<in> set ys. is_ok (f y)" "f x = Inl e"
        by auto
      with Inr show ?thesis by (intro exI[of _ "a # ys"]) auto
    qed
  qed simp
next
  assume "\<exists>ys x zs. xs = ys @ x # zs \<and> (\<forall>y \<in> set ys. is_ok (f y)) \<and> f x = Inl e"
  then obtain ys x zs where *: "xs = ys @ x # zs" "\<forall>y \<in> set ys. is_ok (f y)" "f x = Inl e"
    by blast
  then have "try_each f ys = Inr ()" by (simp flip: is_ok_unit)
  with * show "try_each f xs = Inl e" by simp
qed

lemma try_fold_append [simp]:
  "try_fold f s (xs @ ys) = and_then (try_fold f s xs) (\<lambda>s'. try_fold f s' ys)"
  by (induction xs arbitrary: s) auto

lemma try_fold_invariant:
  assumes "try_fold f s xs = Inr s'" "I s"
    and "\<And>s x s'. I s \<Longrightarrow> x \<in> set xs \<Longrightarrow> f s x = Inr s' \<Longrightarrow> I s'"
  shows "I s'"
  using assms
proof (induction xs arbitrary: s)
  case Nil
  from Nil.prems(1,2) show ?case by simp
next
  case (Cons x xs)
  from Cons.prems(1) obtain t where t: "f s x = Inr t" "try_fold f t xs = Inr s'"
    by (auto simp: and_then_Inr_iff)
  have "I t" by (rule Cons.prems(3)[OF Cons.prems(2) _ t(1)]) simp
  then show ?case
    by (rule Cons.IH[OF t(2) _ Cons.prems(3)[OF _ list.set_intros(2)]])
qed

lemma try_map_Inr_iff: "try_map f xs = Inr ys \<longleftrightarrow> list_all2 (\<lambda>x y. f x = Inr y) xs ys"
  by (induction xs arbitrary: ys)
    (auto simp: and_then_Inr_iff list_all2_Cons1)

text \<open>
  The commonest loop of the validators: check the element, insert its key into a
  \<open>seen\<close> set, fail on a duplicate, then check the rest of the element.  It succeeds iff
  the keys are new and distinct and every element passes both checks.
\<close>

primrec try_unique ::
  "('a \<Rightarrow> 'e + unit) \<Rightarrow> ('a \<Rightarrow> 'k) \<Rightarrow> ('a \<Rightarrow> 'e) \<Rightarrow> ('a \<Rightarrow> 'e + unit) \<Rightarrow> 'k set \<Rightarrow> 'a list \<Rightarrow> 'e + 'k set"
where
  "try_unique pre key dup post seen [] = Inr seen"
| "try_unique pre key dup post seen (x # xs) =
     and_then (pre x) (\<lambda>_.
       if key x \<in> seen then Inl (dup x)
       else and_then (post x) (\<lambda>_. try_unique pre key dup post (insert (key x) seen) xs))"

lemma try_unique_Inr:
  "try_unique pre key dup post seen xs = Inr s \<longleftrightarrow>
     distinct (map key xs) \<and> key ` set xs \<inter> seen = {} \<and>
     (\<forall>x \<in> set xs. is_ok (pre x) \<and> is_ok (post x)) \<and> s = seen \<union> key ` set xs"
  by (induction xs arbitrary: seen) (auto simp: and_then_Inr_iff is_ok_unit)

lemma try_unique_ok [simp, res_simps]:
  "is_ok (try_unique pre key dup post seen xs) \<longleftrightarrow>
     distinct (map key xs) \<and> key ` set xs \<inter> seen = {} \<and>
     (\<forall>x \<in> set xs. is_ok (pre x) \<and> is_ok (post x))"
  by (simp add: is_ok_iff[of "try_unique pre key dup post seen xs"] try_unique_Inr)

lemma is_ok_and_then_const [simp, res_simps]:
  "is_ok (and_then r (\<lambda>_. t)) \<longleftrightarrow> is_ok r \<and> is_ok t"
  by (cases r) simp_all

section \<open>Which errors a step can return\<close>

lemma only_errs_simps [simp]: "only_errs P (Inr x)" "only_errs P (Inl e) = P e"
  by (simp_all add: only_errs_def)

lemma only_errs_and_then [errs_intro]:
  "only_errs P r \<Longrightarrow> (\<And>x. only_errs P (k x)) \<Longrightarrow> only_errs P (and_then r k)"
  by (cases r) simp_all

lemma only_errs_ensure [errs_intro]: "P e \<Longrightarrow> only_errs P (ensure b e)"
  by (simp add: ensure_def)

lemma only_errs_Inr [errs_intro]: "only_errs P (Inr x)"
  by simp

lemma only_errs_Let [errs_intro]: "(\<And>x. only_errs P (f x)) \<Longrightarrow> only_errs P (let x = y in f x)"
  by simp

lemma only_errs_case_option [errs_intro]:
  "(\<And>x. only_errs P (f x)) \<Longrightarrow> only_errs P g \<Longrightarrow>
   only_errs P (case x of Some x \<Rightarrow> f x | None \<Rightarrow> g)"
  by (cases x) simp_all

lemma only_errs_case_prod [errs_intro]:
  "(\<And>a b. only_errs P (f a b)) \<Longrightarrow> only_errs P (case x of (a, b) \<Rightarrow> f a b)"
  by (cases x) simp

lemma only_errs_if [errs_intro]:
  "only_errs P x \<Longrightarrow> only_errs P y \<Longrightarrow> only_errs P (if b then x else y)"
  by simp

lemma only_errs_try_each [errs_intro]: "(\<And>x. only_errs P (f x)) \<Longrightarrow> only_errs P (try_each f xs)"
  by (induction xs) (auto intro!: errs_intro)

lemma only_errs_try_unique [errs_intro]:
  "(\<And>x. only_errs P (pre x)) \<Longrightarrow> (\<And>x. P (dup x)) \<Longrightarrow> (\<And>x. only_errs P (post x)) \<Longrightarrow>
   only_errs P (try_unique pre key dup post seen xs)"
  by (induction xs arbitrary: seen) (auto intro!: errs_intro)

end
