(* ===== verification/Strings.thy ===== *)
theory Strings
  imports Prelude "HOL-Library.Sublist"
begin

text \<open>
  The string operations of the Rust standard library that the sources call, on UTF-8
  byte lists.  \<open>trim\<close> removes the encodings of the Unicode White_Space characters at both
  ends; UTF-8 is self-synchronising, so removing an encoded prefix or suffix is
  removing a character.
\<close>

section \<open>trim\<close>

definition whitespace :: "string list" where
  "whitespace =
    [[CHR 0x09], [CHR 0x0A], [CHR 0x0B], [CHR 0x0C], [CHR 0x0D], [CHR 0x20],
     [CHR 0xC2, CHR 0x85], [CHR 0xC2, CHR 0xA0], [CHR 0xE1, CHR 0x9A, CHR 0x80],
     [CHR 0xE2, CHR 0x80, CHR 0x80], [CHR 0xE2, CHR 0x80, CHR 0x81], [CHR 0xE2, CHR 0x80, CHR 0x82],
     [CHR 0xE2, CHR 0x80, CHR 0x83], [CHR 0xE2, CHR 0x80, CHR 0x84], [CHR 0xE2, CHR 0x80, CHR 0x85],
     [CHR 0xE2, CHR 0x80, CHR 0x86], [CHR 0xE2, CHR 0x80, CHR 0x87], [CHR 0xE2, CHR 0x80, CHR 0x88],
     [CHR 0xE2, CHR 0x80, CHR 0x89], [CHR 0xE2, CHR 0x80, CHR 0x8A], [CHR 0xE2, CHR 0x80, CHR 0xA8],
     [CHR 0xE2, CHR 0x80, CHR 0xA9], [CHR 0xE2, CHR 0x80, CHR 0xAF], [CHR 0xE2, CHR 0x81, CHR 0x9F],
     [CHR 0xE3, CHR 0x80, CHR 0x80]]"

text \<open>Remove members of \<open>ps\<close> from the front as long as there is one.\<close>

function strip_front :: "'a list list \<Rightarrow> 'a list \<Rightarrow> 'a list" where
  "strip_front ps s =
     (case find (\<lambda>p. p \<noteq> [] \<and> prefix p s) ps of
        None \<Rightarrow> s
      | Some p \<Rightarrow> strip_front ps (drop (length p) s))"
  by pat_completeness auto
termination
proof (relation "measure (\<lambda>(_, s). length s)")
  fix ps s and p :: "'a list"
  assume "find (\<lambda>p. p \<noteq> [] \<and> prefix p s) ps = Some p"
  then have "p \<noteq> []" "prefix p s" by (auto simp: find_Some_iff)
  then show "((ps, drop (length p) s), ps, s) \<in> measure (\<lambda>(_, s). length s)"
    by (cases s) auto
qed simp

declare strip_front.simps [simp del]

definition trim_start :: "string \<Rightarrow> string" where
  "trim_start s = strip_front whitespace s"

definition trim_end :: "string \<Rightarrow> string" where
  "trim_end s = rev (strip_front (map rev whitespace) (rev s))"

definition trim :: "string \<Rightarrow> string" where
  "trim s = trim_end (trim_start s)"

text \<open>No member of \<open>ps\<close> is a prefix: what \<open>strip_front\<close> leaves.\<close>

definition stripped :: "'a list list \<Rightarrow> 'a list \<Rightarrow> bool" where
  "stripped ps s \<longleftrightarrow> (\<forall>p \<in> set ps. p \<noteq> [] \<longrightarrow> \<not> prefix p s)"

lemma strip_front_id: "stripped ps s \<Longrightarrow> strip_front ps s = s"
  by (subst strip_front.simps)
    (auto simp: stripped_def find_Some_iff split: option.split dest: nth_mem)

lemma strip_front_stripped: "stripped ps (strip_front ps s)"
proof (induction ps s rule: strip_front.induct)
  case (1 ps s)
  show ?case
  proof (cases "find (\<lambda>p. p \<noteq> [] \<and> prefix p s) ps")
    case None
    then have "stripped ps s" by (auto simp: stripped_def find_None_iff)
    then show ?thesis by (simp add: strip_front_id)
  next
    case (Some p)
    with 1 show ?thesis by (subst strip_front.simps) simp
  qed
qed

lemma strip_front_suffix: "suffix (strip_front ps s) s"
proof (induction ps s rule: strip_front.induct)
  case (1 ps s)
  show ?case
  proof (cases "find (\<lambda>p. p \<noteq> [] \<and> prefix p s) ps")
    case None
    then show ?thesis by (subst strip_front.simps) simp
  next
    case (Some p)
    have "suffix (drop (length p) s) s" by (rule suffix_drop)
    with 1[OF Some] Some show ?thesis
      by (subst strip_front.simps) (auto intro: suffix_order.order_trans)
  qed
qed

lemma stripped_prefix: "stripped ps s \<Longrightarrow> prefix t s \<Longrightarrow> stripped ps t"
  by (auto simp: stripped_def dest: prefix_order.order_trans)

lemma trim_end_prefix: "prefix (trim_end s) s"
  using strip_front_suffix[of "map rev whitespace" "rev s"]
  by (simp add: trim_end_def suffix_to_prefix)

lemma trim_id_iff: "trim s = s \<longleftrightarrow> stripped whitespace s \<and> stripped (map rev whitespace) (rev s)"
proof
  assume eq: "trim s = s"
  have "stripped whitespace (trim s)"
    unfolding trim_def trim_start_def
    using strip_front_stripped stripped_prefix trim_end_prefix by blast
  moreover have "stripped (map rev whitespace) (rev (trim s))"
    by (simp add: trim_def trim_end_def strip_front_stripped)
  ultimately show "stripped whitespace s \<and> stripped (map rev whitespace) (rev s)" using eq by simp
qed (simp add: trim_def trim_start_def trim_end_def strip_front_id)

lemma prefix_append_stop:
  assumes "prefix q (a @ c # b)" "c \<notin> set q"
  shows "prefix q a"
  using assms by (auto simp: prefix_append prefix_Cons)

theorem trim_idem [simp, str_simps]: "trim (trim s) = trim s"
proof -
  have "stripped whitespace (trim s)"
    unfolding trim_def trim_start_def
    using strip_front_stripped stripped_prefix trim_end_prefix by blast
  then show ?thesis
    by (simp add: trim_id_iff) (simp add: trim_def trim_end_def strip_front_stripped)
qed

text \<open>Replacing a prefix by another one that neither starts with nor ends in a white space
  byte keeps a string trimmed.\<close>

lemma trim_replace_prefix:
  assumes "trim (p @ rest) = p @ rest" "stripped whitespace (q @ c # rest)"
    and "\<forall>w \<in> set whitespace. c \<notin> set w"
  shows "trim (q @ c # rest) = q @ c # rest"
proof -
  have "stripped (map rev whitespace) (rev rest @ c # rev q)"
    unfolding stripped_def
  proof (intro ballI impI notI)
    fix w assume w: "w \<in> set (map rev whitespace)" "w \<noteq> []" "prefix w (rev rest @ c # rev q)"
    from w(1) assms(3) have "c \<notin> set w" by auto
    from prefix_append_stop[OF w(3) this] have "prefix w (rev (p @ rest))"
      by simp
    with w(1,2) assms(1)[unfolded trim_id_iff] show False by (auto simp: stripped_def)
  qed
  with assms(2) show ?thesis by (simp add: trim_id_iff)
qed

lemma trim_Nil [simp, str_simps]: "trim [] = []"
  by code_simp

lemma trim_length: "length (trim s) \<le> length s"
  using prefix_length_le[OF trim_end_prefix, of "trim_start s"]
    suffix_length_le[OF strip_front_suffix, of whitespace s]
  unfolding trim_def trim_start_def by linarith

section \<open>Characters\<close>

definition is_ascii_digit :: "char \<Rightarrow> bool" where
  "is_ascii_digit c \<longleftrightarrow> 48 \<le> (of_char c :: nat) \<and> (of_char c :: nat) \<le> 57"

definition is_ascii_uppercase :: "char \<Rightarrow> bool" where
  "is_ascii_uppercase c \<longleftrightarrow> 65 \<le> (of_char c :: nat) \<and> (of_char c :: nat) \<le> 90"

definition is_ascii_lowercase :: "char \<Rightarrow> bool" where
  "is_ascii_lowercase c \<longleftrightarrow> 97 \<le> (of_char c :: nat) \<and> (of_char c :: nat) \<le> 122"

definition is_ascii_alphanumeric :: "char \<Rightarrow> bool" where
  "is_ascii_alphanumeric c \<longleftrightarrow>
     is_ascii_digit c \<or> is_ascii_uppercase c \<or> is_ascii_lowercase c"

definition lower_char :: "char \<Rightarrow> char" where
  "lower_char c = (if is_ascii_uppercase c then char_of ((of_char c :: nat) + 32) else c)"

definition to_ascii_lowercase :: "string \<Rightarrow> string" where
  "to_ascii_lowercase s = map lower_char s"

lemma lower_char_not_upper: "\<not> is_ascii_uppercase (lower_char c)"
  by (auto simp: lower_char_def is_ascii_uppercase_def of_char_of)

lemma lower_char_idem [simp]: "lower_char (lower_char c) = lower_char c"
  using lower_char_not_upper[of c] by (simp add: lower_char_def[of "lower_char c"])

lemma to_ascii_lowercase_idem [simp, str_simps]:
  "to_ascii_lowercase (to_ascii_lowercase s) = to_ascii_lowercase s"
  by (simp add: to_ascii_lowercase_def)

text \<open>\<open>str::contains\<close> for a string pattern.\<close>

definition str_contains :: "string \<Rightarrow> string \<Rightarrow> bool" where
  "str_contains s p \<longleftrightarrow> (\<exists>t \<in> set (suffixes s). prefix p t)"

lemma str_contains_sublist: "str_contains s p \<longleftrightarrow> (\<exists>a b. s = a @ p @ b)"
proof
  assume "\<exists>a b. s = a @ p @ b"
  then obtain a b where "s = a @ p @ b" by blast
  then show "str_contains s p"
    by (auto simp: str_contains_def intro!: bexI[of _ "p @ b"] suffixI)
qed (auto simp: str_contains_def suffix_def prefix_def, blast)

section \<open>Formatting\<close>

definition digit_char :: "nat \<Rightarrow> char" where
  "digit_char d = char_of (48 + d)"

fun show_nat :: "nat \<Rightarrow> string" where
  "show_nat n = (if n < 10 then [digit_char n] else show_nat (n div 10) @ [digit_char (n mod 10)])"

declare show_nat.simps [simp del]

fun read_nat :: "string \<Rightarrow> nat" where
  "read_nat s = foldl (\<lambda>n c. n * 10 + ((of_char c :: nat) - 48)) 0 s"

lemma digit_char_val: "d < 10 \<Longrightarrow> (of_char (digit_char d) :: nat) = 48 + d"
  by (simp add: digit_char_def of_char_of)

lemma read_show_nat [simp]: "read_nat (show_nat n) = n"
proof (induction n rule: show_nat.induct)
  case (1 n)
  then show ?case
    by (cases "n < 10") (simp_all add: show_nat.simps[of n] digit_char_val)
qed

lemma show_nat_inject [simp, str_simps]: "show_nat m = show_nat n \<longleftrightarrow> m = n"
  by (metis read_show_nat)

lemma show_nat_digits: "c \<in> set (show_nat n) \<Longrightarrow> is_ascii_digit c"
proof (induction n rule: show_nat.induct)
  case (1 n)
  then show ?case
    by (cases "n < 10") (auto simp: show_nat.simps[of n] is_ascii_digit_def digit_char_val)
qed

abbreviation show_word :: "'a::len word \<Rightarrow> string" where
  "show_word w \<equiv> show_nat (unat w)"

text \<open>\<open>{:?}\<close> of a string: quoted, with quotes, backslashes and the common control
  characters escaped.\<close>

definition escape_char :: "char \<Rightarrow> string" where
  "escape_char c =
     (if c = CHR 0x22 then [CHR 0x5C, CHR 0x22]
      else if c = CHR 0x5C then [CHR 0x5C, CHR 0x5C]
      else if c = CHR 0x0A then [CHR 0x5C, CHR ''n'']
      else if c = CHR 0x0D then [CHR 0x5C, CHR ''r'']
      else if c = CHR 0x09 then [CHR 0x5C, CHR ''t'']
      else [c])"

definition debug_str :: "string \<Rightarrow> string" where
  "debug_str s = [CHR 0x22] @ concat (map escape_char s) @ [CHR 0x22]"

fun join_with :: "string \<Rightarrow> string list \<Rightarrow> string" where
  "join_with sep [] = []"
| "join_with sep [x] = x"
| "join_with sep (x # y # xs) = x @ sep @ join_with sep (y # xs)"

section \<open>Dotted IPv4 text\<close>

text \<open>\<open>str::parse::<Ipv4Addr>\<close>: four decimal octets of one to three digits without a
  leading zero, separated by dots.\<close>

fun split_on :: "char \<Rightarrow> string \<Rightarrow> string list" where
  "split_on c [] = [[]]"
| "split_on c (x # xs) =
     (if x = c then [] # split_on c xs
      else case split_on c xs of [] \<Rightarrow> [[x]] | w # ws \<Rightarrow> (x # w) # ws)"

definition is_octet :: "string \<Rightarrow> bool" where
  "is_octet s \<longleftrightarrow>
     s \<noteq> [] \<and> length s \<le> 3 \<and> (\<forall>c \<in> set s. is_ascii_digit c) \<and>
     (length s > 1 \<longrightarrow> hd s \<noteq> CHR ''0'') \<and> read_nat s \<le> 255"

definition is_ipv4_text :: "string \<Rightarrow> bool" where
  "is_ipv4_text s \<longleftrightarrow>
     (let os = split_on (CHR ''.'') s in length os = 4 \<and> (\<forall>p \<in> set os. is_octet p))"

lemma split_on_join: "c \<notin> set x \<Longrightarrow> split_on c (x @ c # y) = x # split_on c y"
  by (induction x) auto

lemma split_on_single: "c \<notin> set x \<Longrightarrow> split_on c x = [x]"
  by (induction x) auto

lemma is_ipv4_text_examples:
  "is_ipv4_text ''10.0.0.1''" "\<not> is_ipv4_text ''10.0.0.01''" "\<not> is_ipv4_text ''10.0.0''"
  "\<not> is_ipv4_text ''256.0.0.1''" "\<not> is_ipv4_text ''10.0.0.1/24''"
  by code_simp+

end
