(* ===== verification/Btree.thy ===== *)
theory Btree
  imports Prelude
begin

text \<open>
  \<open>std::collections::BTreeMap\<close>.  A map is the list of its entries in strictly
  ascending key order, which is what iteration, \<open>keys()\<close> and \<open>values()\<close> enumerate; two maps
  with the same bindings are equal.  The interface the clients use is the locale
  \<open>ordered_map\<close>, interpreted on the type at the end of the theory.
  A \<open>BTreeSet\<close> is a map into the unit type.
\<close>

named_theorems bmap_simps \<open>lookups in updated ordered maps\<close>

section \<open>The interface\<close>

locale ordered_map =
  fixes empty :: 'm
    and lookup :: "'m \<Rightarrow> 'k::linorder \<Rightarrow> 'v option"
    and update :: "'k \<Rightarrow> 'v \<Rightarrow> 'm \<Rightarrow> 'm"
    and delete :: "'k \<Rightarrow> 'm \<Rightarrow> 'm"
    and retain :: "('k \<Rightarrow> 'v \<Rightarrow> bool) \<Rightarrow> 'm \<Rightarrow> 'm"
    and elements :: "'m \<Rightarrow> ('k \<times> 'v) list"
  assumes lookup_empty: "lookup empty k = None"
    and lookup_update: "lookup (update k v m) k' = (if k' = k then Some v else lookup m k')"
    and lookup_delete: "lookup (delete k m) k' = (if k' = k then None else lookup m k')"
    and lookup_retain:
      "lookup (retain P m) k = (case lookup m k of None \<Rightarrow> None | Some v \<Rightarrow> if P k v then Some v else None)"
    and lookup_elements: "map_of (elements m) = lookup m"
    and elements_sorted: "sorted_wrt (<) (map fst (elements m))"
begin

lemma elements_distinct: "distinct (map fst (elements m))"
  using elements_sorted strict_sorted_iff by blast

lemma in_elements: "(k, v) \<in> set (elements m) \<longleftrightarrow> lookup m k = Some v"
  using map_of_eq_Some_iff[OF elements_distinct] lookup_elements by metis

lemma keys_elements: "fst ` set (elements m) = dom (lookup m)"
  by (metis dom_map_of_conv_image_fst lookup_elements)

lemma finite_dom: "finite (dom (lookup m))"
  by (metis finite_dom_map_of lookup_elements)

lemma elements_by_keys: "elements m = map (\<lambda>k. (k, the (lookup m k))) (map fst (elements m))"
  by (rule map_idI[symmetric, unfolded o_def, of _ "\<lambda>e. (fst e, the (lookup m (fst e)))", THEN trans])
    (auto simp: in_elements)

lemma elements_eqI:
  assumes "lookup m = lookup m'"
  shows "elements m = elements m'"
proof -
  have "map fst (elements m) = map fst (elements m')"
    by (rule sorted_distinct_set_unique)
      (use elements_sorted strict_sorted_iff keys_elements assms in auto)
  then show ?thesis using elements_by_keys assms by metis
qed

lemma delete_fresh: "lookup m k = None \<Longrightarrow> lookup (delete k m) = lookup m"
  by (rule ext) (simp add: lookup_delete)

lemma update_delete: "lookup (delete k (update k v m)) = lookup (delete k m)"
  by (rule ext) (simp add: lookup_delete lookup_update)

lemma update_commute:
  "k \<noteq> k' \<Longrightarrow> lookup (update k v (update k' v' m)) = lookup (update k' v' (update k v m))"
  by (rule ext) (auto simp: lookup_update)

end

section \<open>The type\<close>

fun ins_entry :: "'k::linorder \<Rightarrow> 'v \<Rightarrow> ('k \<times> 'v) list \<Rightarrow> ('k \<times> 'v) list" where
  "ins_entry k v [] = [(k, v)]"
| "ins_entry k v (e # es) =
     (if k < fst e then (k, v) # e # es
      else if k = fst e then (k, v) # es
      else e # ins_entry k v es)"

lemma ins_entry_keys: "fst ` set (ins_entry k v es) = insert k (fst ` set es)"
  by (induction es) auto

lemma ins_entry_sorted:
  "sorted_wrt (<) (map fst es) \<Longrightarrow> sorted_wrt (<) (map fst (ins_entry k v es))"
proof (induction es)
  case (Cons e es)
  then have "\<forall>x \<in> fst ` set (ins_entry k v es). \<not> k < fst e \<longrightarrow> k \<noteq> fst e \<longrightarrow> fst e < x"
    unfolding ins_entry_keys by auto
  with Cons show ?case by auto
qed simp

lemma map_of_ins_entry:
  "sorted_wrt (<) (map fst es) \<Longrightarrow>
   map_of (ins_entry k v es) k' = (if k' = k then Some v else map_of es k')"
  by (induction es) auto

typedef (overloaded) ('k::linorder, 'v) bmap =
  "{es :: ('k \<times> 'v) list. sorted_wrt (<) (map fst es)}"
  morphisms entries Bmap
  by (rule exI[of _ "[]"]) simp

setup_lifting type_definition_bmap

lift_definition bm_empty :: "('k::linorder, 'v) bmap" is "[]" by simp

lift_definition bm_get :: "('k::linorder, 'v) bmap \<Rightarrow> 'k \<Rightarrow> 'v option" is map_of .

lift_definition bm_insert :: "'k::linorder \<Rightarrow> 'v \<Rightarrow> ('k, 'v) bmap \<Rightarrow> ('k, 'v) bmap" is ins_entry
  by (rule ins_entry_sorted)

lift_definition bm_retain ::
  "('k::linorder \<Rightarrow> 'v \<Rightarrow> bool) \<Rightarrow> ('k, 'v) bmap \<Rightarrow> ('k, 'v) bmap" is
  "\<lambda>P. filter (\<lambda>(k, v). P k v)"
  by (metis (no_types, lifting) sorted_wrt_map sorted_wrt_filter)

definition bm_remove :: "'k::linorder \<Rightarrow> ('k, 'v) bmap \<Rightarrow> ('k, 'v) bmap" where
  "bm_remove k m = bm_retain (\<lambda>k' _. k' \<noteq> k) m"

definition bm_keys :: "('k::linorder, 'v) bmap \<Rightarrow> 'k list" where
  "bm_keys m = map fst (entries m)"

definition bm_values :: "('k::linorder, 'v) bmap \<Rightarrow> 'v list" where
  "bm_values m = map snd (entries m)"

definition bm_contains :: "('k::linorder, 'v) bmap \<Rightarrow> 'k \<Rightarrow> bool" where
  "bm_contains m k = (bm_get m k \<noteq> None)"

definition bm_is_empty :: "('k::linorder, 'v) bmap \<Rightarrow> bool" where
  "bm_is_empty m = (entries m = [])"

text \<open>\<open>collect()\<close> into a map: insertion in order, so the last of equal keys wins.\<close>

definition bm_of_list :: "('k::linorder \<times> 'v) list \<Rightarrow> ('k, 'v) bmap" where
  "bm_of_list kvs = foldl (\<lambda>m (k, v). bm_insert k v m) bm_empty kvs"

instantiation bmap :: (linorder, equal) equal
begin

definition equal_bmap :: "('a, 'b) bmap \<Rightarrow> ('a, 'b) bmap \<Rightarrow> bool" where
  "equal_bmap m n \<longleftrightarrow> entries m = entries n"

instance
  by standard (simp add: equal_bmap_def entries_inject)

end

instantiation bmap :: (linorder, type) size
begin

definition size_bmap :: "('a, 'b) bmap \<Rightarrow> nat" where
  "size_bmap m = length (entries m)"

instance ..

end

section \<open>Its laws\<close>

lemma bm_get_empty [simp, bmap_simps]: "bm_get bm_empty k = None"
  by transfer simp

lemma bm_get_insert [bmap_simps]:
  "bm_get (bm_insert k v m) k' = (if k' = k then Some v else bm_get m k')"
  by transfer (rule map_of_ins_entry)

lemma map_of_filter_distinct:
  "distinct (map fst es) \<Longrightarrow>
   map_of (filter (\<lambda>(k, v). P k v) es) k =
     (case map_of es k of None \<Rightarrow> None | Some v \<Rightarrow> if P k v then Some v else None)"
proof (induction es)
  case (Cons e es)
  obtain a b where e: "e = (a, b)" by (cases e)
  have "k = a \<Longrightarrow> map_of es k = None"
    using Cons.prems e by (simp add: map_of_eq_None_iff)
  with Cons e show ?case by (auto simp: map_of_eq_None_iff)
qed simp

lemma bm_get_retain [bmap_simps]:
  "bm_get (bm_retain P m) k =
     (case bm_get m k of None \<Rightarrow> None | Some v \<Rightarrow> if P k v then Some v else None)"
  by transfer (rule map_of_filter_distinct, use strict_sorted_iff in blast)

lemma bm_get_remove [bmap_simps]:
  "bm_get (bm_remove k m) k' = (if k' = k then None else bm_get m k')"
  by (simp add: bm_remove_def bm_get_retain split: option.split)

lemma bm_get_entries: "map_of (entries m) = bm_get m"
  by transfer simp

lemma entries_sorted: "sorted_wrt (<) (map fst (entries m))"
  by transfer simp

interpretation bm: ordered_map bm_empty bm_get bm_insert bm_remove bm_retain entries
  by unfold_locales
    (simp_all add: bm_get_insert bm_get_remove bm_get_retain bm_get_entries entries_sorted)

lemma bmap_eqI: "(\<And>k. bm_get m k = bm_get m' k) \<Longrightarrow> m = m'"
  using bm.elements_eqI[of m m'] entries_inject by blast

lemma bmap_eq_iff: "m = m' \<longleftrightarrow> (\<forall>k. bm_get m k = bm_get m' k)"
  using bmap_eqI by auto

lemma bm_get_of_list: "bm_get (bm_of_list kvs) k = map_of (rev kvs) k"
proof -
  have "bm_get (foldl (\<lambda>m (k, v). bm_insert k v m) m kvs) k =
      (case map_of (rev kvs) k of None \<Rightarrow> bm_get m k | Some v \<Rightarrow> Some v)" for m
    by (induction kvs arbitrary: m)
      (auto simp: bm_get_insert map_add_def split: option.split)
  then show ?thesis by (simp add: bm_of_list_def split: option.split)
qed

lemma map_of_rev_distinct:
  assumes "distinct (map fst kvs)"
  shows "map_of (rev kvs) = map_of kvs"
proof -
  have "distinct (map fst (rev kvs))" using assms by (simp flip: rev_map)
  then show ?thesis using assms by (intro map_of_eqI) (auto simp: map_of_eq_Some_iff)
qed

lemma bm_of_list_entries [simp]: "bm_of_list (entries m) = m"
  by (rule bmap_eqI)
    (simp add: bm_get_of_list map_of_rev_distinct bm.elements_distinct bm_get_entries)

lemma set_bm_keys: "set (bm_keys m) = dom (bm_get m)"
  by (simp add: bm_keys_def bm.keys_elements)

lemma distinct_bm_keys: "distinct (bm_keys m)"
  by (simp add: bm_keys_def bm.elements_distinct)

lemma set_bm_values: "set (bm_values m) = ran (bm_get m)"
  by (force simp: bm_values_def ran_def bm.in_elements image_iff simp flip: bm.in_elements)

lemma bm_is_empty_iff: "bm_is_empty m \<longleftrightarrow> (\<forall>k. bm_get m k = None)"
  by (metis bm_empty.rep_eq bm_get_empty bm_is_empty_def bmap_eq_iff entries_inject)

lemma bm_contains_iff: "bm_contains m k \<longleftrightarrow> k \<in> dom (bm_get m)"
  by (auto simp: bm_contains_def)

lemma bm_of_list_foldl:
  "foldl (\<lambda>m x. bm_insert (f x) (g x) m) bm_empty xs = bm_of_list (map (\<lambda>x. (f x, g x)) xs)"
  unfolding bm_of_list_def by (induction xs rule: rev_induct) simp_all

lemma bm_get_of_keys:
  "bm_get (bm_of_list (map (\<lambda>x. (key x, g (key x))) xs)) k = (if k \<in> key ` set xs then Some (g k) else None)"
proof -
  have "map_of (map (\<lambda>x. (key x, g (key x))) ys) k = (if k \<in> key ` set ys then Some (g k) else None)"
    for ys by (induction ys) auto
  from this[of "rev xs"] show ?thesis by (simp add: bm_get_of_list rev_map)
qed

section \<open>Ordered sets\<close>

type_synonym 'k bset = "('k, unit) bmap"

abbreviation bs_member :: "'k::linorder bset \<Rightarrow> 'k \<Rightarrow> bool" where
  "bs_member s k \<equiv> bm_contains s k"

definition bs_insert :: "'k::linorder \<Rightarrow> 'k bset \<Rightarrow> 'k bset" where
  "bs_insert k s = bm_insert k () s"

definition bs_of_list :: "'k::linorder list \<Rightarrow> 'k bset" where
  "bs_of_list ks = bm_of_list (map (\<lambda>k. (k, ())) ks)"

abbreviation bs_elems :: "'k::linorder bset \<Rightarrow> 'k list" where
  "bs_elems s \<equiv> bm_keys s"

lemma bs_member_empty [simp]: "\<not> bs_member bm_empty k"
  by (simp add: bm_contains_def)

lemma bs_member_insert [simp]: "bs_member (bs_insert k s) k' \<longleftrightarrow> k' = k \<or> bs_member s k'"
  by (simp add: bs_insert_def bm_contains_def bm_get_insert)

lemma bs_member_of_list [simp]: "bs_member (bs_of_list ks) k \<longleftrightarrow> k \<in> set ks"
proof -
  have "map_of (map (\<lambda>k. (k, ())) ks) k \<noteq> None \<longleftrightarrow> k \<in> set ks" for ks
    by (induction ks) auto
  from this[of "rev ks"] show ?thesis
    by (simp add: bs_of_list_def bm_contains_def bm_get_of_list rev_map)
qed

lemma bs_eqI: "(\<And>k. bs_member s k = bs_member t k) \<Longrightarrow> s = t"
  by (rule bmap_eqI) (metis bm_contains_def not_None_eq old.unit.exhaust)

lemma set_bs_elems [simp]: "set (bs_elems s) = {k. bs_member s k}"
  by (auto simp: set_bm_keys bm_contains_def)

lemma bs_of_list_foldl:
  "foldl (\<lambda>s x. bs_insert (f x) s) bm_empty xs = bs_of_list (map f xs)"
  unfolding bs_of_list_def bs_insert_def by (simp add: bm_of_list_foldl comp_def)

end
