(* ===== verification/Model.thy ===== *)
theory Model
  imports Strings Btree
begin

text \<open>
  The data of the controller: \<open>src/error.rs\<close> and \<open>src/model/*.rs\<close>.  A struct is a record
  whose fields carry a two or three letter prefix of the struct (record fields share
  one name space), an enum is a datatype with the source's variants, and the
  \<open>DeviceId\<close> newtype is its string.
\<close>

section \<open>Errors (error.rs)\<close>

record AdapterErrorDetail =
  ad_code :: string
  ad_message :: string

datatype UnderlayError =
    DeviceAlreadyExists string
  | DeviceNotFound string
  | InvalidDeviceState string
  | AdapterTransport string
  | AdapterOperation string string bool "AdapterErrorDetail list"
  | InvalidIntent string
  | AuthorizationDenied string
  | AuthenticationFailed string
  | ProductAuditWriteFailed string
  | InvalidPhaseTransition string string
  | UnsupportedTransactionStrategy
  | Internal string

type_synonym 'a result = "UnderlayError + 'a"

text \<open>The \<open>Display\<close> text that \<open>thiserror\<close> derives from the \<open>#[error(..)]\<close> attributes.\<close>

fun error_display :: "UnderlayError \<Rightarrow> string" where
  "error_display (DeviceAlreadyExists s) = ''device already exists: '' @ s"
| "error_display (DeviceNotFound s) = ''device not found: '' @ s"
| "error_display (InvalidDeviceState s) = ''invalid device state: '' @ s"
| "error_display (AdapterTransport s) = ''adapter transport error: '' @ s"
| "error_display (AdapterOperation code message retryable errors) =
     ''adapter operation error: '' @ code @ '': '' @ message"
| "error_display (InvalidIntent s) = ''invalid intent: '' @ s"
| "error_display (AuthorizationDenied s) = ''authorization denied: '' @ s"
| "error_display (AuthenticationFailed s) = ''authentication failed: '' @ s"
| "error_display (ProductAuditWriteFailed s) = ''product audit write failed: '' @ s"
| "error_display (InvalidPhaseTransition a b) = ''invalid phase transition: '' @ a @ '' -> '' @ b"
| "error_display UnsupportedTransactionStrategy = ''unsupported transaction strategy''"
| "error_display (Internal s) = ''internal error: '' @ s"

section \<open>Identifiers, vendors and roles (model/common.rs)\<close>

type_synonym DeviceId = string

definition is_canonical_identifier :: "string \<Rightarrow> bool" where
  "is_canonical_identifier v \<longleftrightarrow>
     v \<noteq> [] \<and> list_all (\<lambda>ch. is_ascii_alphanumeric ch \<or> ch = CHR ''-'' \<or> ch = CHR ''_'') v"

definition is_canonical :: "DeviceId \<Rightarrow> bool" where
  "is_canonical d = is_canonical_identifier d"

definition canonical_rule :: string where
  "canonical_rule =
     ''must be non-empty and contain only ASCII letters, digits, '' @
     [CHR 0x27, CHR ''-'', CHR 0x27] @ '' or '' @ [CHR 0x27, CHR ''_'', CHR 0x27]"

datatype Vendor = Huawei | H3c | Cisco | Ruijie | Unknown

datatype DeviceRole = LeafA | LeafB

section \<open>VLANs and interfaces (model/vlan.rs, model/interface.rs)\<close>

record VlanConfig =
  vc_vlan_id :: u16
  vc_name :: "string option"
  vc_description :: "string option"

datatype AdminState = Up | Down

datatype PortMode = Access u16 | Trunk "u16 option" "u16 list"

record InterfaceConfig =
  ic_name :: string
  ic_admin_state :: AdminState
  ic_description :: "string option"
  ic_mode :: PortMode

section \<open>Access control lists (model/acl.rs)\<close>

datatype AclAction = Permit | Deny

datatype AclProtocol = Ip | Tcp | Udp | Icmp

datatype AclDirection = Inbound | Outbound

datatype AclKind = AdvancedIpv4 | BasicIpv4

record AclEndpoint =
  ae_address :: string
  ae_wildcard :: string

record AclRule =
  ar_sequence :: u16
  ar_action :: AclAction
  ar_protocol :: AclProtocol
  ar_source :: "AclEndpoint option"
  ar_destination :: "AclEndpoint option"
  ar_source_port_eq :: "u16 option"
  ar_destination_port_eq :: "u16 option"
  ar_description :: "string option"

record AclConfig =
  ac_acl_id :: u16
  ac_kind :: AclKind
  ac_name :: "string option"
  ac_description :: "string option"
  ac_rules :: "AclRule list"

record AclBinding =
  ab_interface_name :: string
  ab_direction :: AclDirection
  ab_acl_id :: u16

fun direction_text :: "AclDirection \<Rightarrow> string" where
  "direction_text Inbound = ''inbound''"
| "direction_text Outbound = ''outbound''"

definition acl_binding_key :: "string \<Rightarrow> AclDirection \<Rightarrow> string" where
  "acl_binding_key interface_name direction = interface_name @ ''|'' @ direction_text direction"

definition ab_key :: "AclBinding \<Rightarrow> string" where
  "ab_key b = acl_binding_key (ab_interface_name b) (ab_direction b)"

text \<open>The derived order of \<open>AclDirection\<close>.\<close>

instantiation AclDirection :: linorder
begin

definition less_eq_AclDirection :: "AclDirection \<Rightarrow> AclDirection \<Rightarrow> bool" where
  "less_eq_AclDirection a b \<longleftrightarrow> a = Inbound \<or> b = Outbound"

definition less_AclDirection :: "AclDirection \<Rightarrow> AclDirection \<Rightarrow> bool" where
  "less_AclDirection a b \<longleftrightarrow> a = Inbound \<and> b = Outbound"

instance
proof
  fix x y z :: AclDirection
  show "x < y \<longleftrightarrow> x \<le> y \<and> \<not> y \<le> x" "x \<le> x" "x \<le> y \<or> y \<le> x"
    "x \<le> y \<Longrightarrow> y \<le> x \<Longrightarrow> x = y" "x \<le> y \<Longrightarrow> y \<le> z \<Longrightarrow> x \<le> z"
    by (cases x; cases y; simp add: less_eq_AclDirection_def less_AclDirection_def)+
qed

end

section \<open>BGP (model/bgp.rs)\<close>

record BgpProcess =
  bp_vrf :: string
  bp_local_as :: u32
  bp_router_id :: "string option"

record BgpNeighbor =
  bn_vrf :: string
  bn_address :: string
  bn_remote_as :: u32
  bn_description :: "string option"
  bn_import_policy :: "string option"
  bn_export_policy :: "string option"

definition bgp_neighbor_key :: "string \<Rightarrow> string \<Rightarrow> string" where
  "bgp_neighbor_key vrf address = vrf @ ''|'' @ address"

definition bn_key :: "BgpNeighbor \<Rightarrow> string" where
  "bn_key n = bgp_neighbor_key (bn_vrf n) (bn_address n)"

section \<open>The map keys identify what they are built from\<close>

lemma acl_binding_key_inject [simp]:
  "acl_binding_key i d = acl_binding_key i' d' \<longleftrightarrow> i = i' \<and> d = d'"
proof
  assume "acl_binding_key i d = acl_binding_key i' d'"
  then have "rev (acl_binding_key i d) = rev (acl_binding_key i' d')" by simp
  then show "i = i' \<and> d = d'"
    by (cases d; cases d') (simp_all add: acl_binding_key_def)
qed simp

lemma bgp_neighbor_key_address:
  "CHR ''|'' \<notin> set a \<Longrightarrow> takeWhile (\<lambda>c. c \<noteq> CHR ''|'') (rev (bgp_neighbor_key v a)) = rev a"
  by (auto simp: bgp_neighbor_key_def takeWhile_append)

lemma bgp_neighbor_key_inject:
  assumes "CHR ''|'' \<notin> set a" "CHR ''|'' \<notin> set a'"
  shows "bgp_neighbor_key v a = bgp_neighbor_key v' a' \<longleftrightarrow> v = v' \<and> a = a'"
proof
  assume eq: "bgp_neighbor_key v a = bgp_neighbor_key v' a'"
  then have "rev a = rev a'"
    using bgp_neighbor_key_address[OF assms(1), of v] bgp_neighbor_key_address[OF assms(2), of v']
    by simp
  with eq show "v = v' \<and> a = a'" by (simp add: bgp_neighbor_key_def)
qed simp

text \<open>An IPv4 text has no bar, so validated neighbours have distinct keys.\<close>

lemma in_split_on: "x \<in> set s \<Longrightarrow> x \<noteq> c \<Longrightarrow> \<exists>p \<in> set (split_on c s). x \<in> set p"
  by (induction s) (auto split: list.split)

lemma is_ipv4_text_no_bar:
  assumes "is_ipv4_text s"
  shows "CHR ''|'' \<notin> set s"
proof
  assume "CHR ''|'' \<in> set s"
  then obtain p where "p \<in> set (split_on (CHR ''.'') s)" "CHR ''|'' \<in> set p"
    using in_split_on[of "CHR ''|''" s "CHR ''.''"] by auto
  with assms have "is_ascii_digit (CHR ''|'')"
    unfolding is_ipv4_text_def Let_def is_octet_def by blast
  moreover have "\<not> is_ascii_digit (CHR ''|'')" by code_simp
  ultimately show False by blast
qed

end
