(* ===== verification/Intent.thy ===== *)
theory Intent
  imports Model
begin

text \<open>
  Intents (\<open>src/intent/*.rs\<close>) and their validation (\<open>src/intent/validation.rs\<close>).  Every
  \<open>return Err(..)\<close> of the source is a branch with the source's message, in the source's
  order; a loop over a \<open>seen\<close> set is \<open>try_unique\<close>.
\<close>

section \<open>Intents\<close>

record VlanIntent =
  vi_vlan_id :: u16
  vi_name :: "string option"
  vi_description :: "string option"

record InterfaceIntent =
  ii_device_id :: DeviceId
  ii_name :: string
  ii_admin_state :: AdminState
  ii_description :: "string option"
  ii_mode :: PortMode

record InterfaceDeleteIntent =
  ixd_device_id :: DeviceId
  ixd_name :: string

record AclIntent =
  ai_acl_id :: u16
  ai_kind :: AclKind
  ai_name :: "string option"
  ai_description :: "string option"
  ai_rules :: "AclRule list"

record AclBindingIntent =
  abi_device_id :: DeviceId
  abi_interface_name :: string
  abi_direction :: AclDirection
  abi_acl_id :: u16

record BgpProcessIntent =
  bpi_device_id :: DeviceId
  bpi_vrf :: string
  bpi_local_as :: u32
  bpi_router_id :: "string option"

record BgpNeighborIntent =
  bni_device_id :: DeviceId
  bni_vrf :: string
  bni_address :: string
  bni_remote_as :: u32
  bni_description :: "string option"
  bni_import_policy :: "string option"
  bni_export_policy :: "string option"

record BgpProcessDeleteIntent =
  bpd_device_id :: DeviceId
  bpd_vrf :: string

record BgpNeighborDeleteIntent =
  bnd_device_id :: DeviceId
  bnd_vrf :: string
  bnd_address :: string

datatype UnderlayTopology = StackSingleManagementIp | MlagDualManagementIp | SmallFabric

record ManagementEndpointIntent =
  me_endpoint_id :: string
  me_host :: string
  me_port :: u16
  me_secret_ref :: string
  me_vendor_hint :: "Vendor option"
  me_model_hint :: "string option"

record SwitchMemberIntent =
  sm_member_id :: string
  sm_role :: "DeviceRole option"
  sm_management_endpoint_id :: string

record UnderlayDomainIntent =
  di_domain_id :: string
  di_topology :: UnderlayTopology
  di_endpoints :: "ManagementEndpointIntent list"
  di_members :: "SwitchMemberIntent list"
  di_vlans :: "VlanIntent list"
  di_interfaces :: "InterfaceIntent list"
  di_acls :: "AclIntent list"
  di_acl_bindings :: "AclBindingIntent list"
  di_delete_vlan_ids :: "u16 list"
  di_delete_interfaces :: "InterfaceDeleteIntent list"
  di_delete_acl_ids :: "u16 list"
  di_delete_acl_bindings :: "AclBindingIntent list"
  di_bgp_processes :: "BgpProcessIntent list"
  di_bgp_neighbors :: "BgpNeighborIntent list"
  di_delete_bgp_processes :: "BgpProcessDeleteIntent list"
  di_delete_bgp_neighbors :: "BgpNeighborDeleteIntent list"

record SwitchIntent =
  si_device_id :: DeviceId
  si_role :: DeviceRole

record SwitchPairIntent =
  sp_pair_id :: string
  sp_switches :: "SwitchIntent list"
  sp_vlans :: "VlanIntent list"
  sp_interfaces :: "InterfaceIntent list"

section \<open>Checks on one value\<close>

definition validate_non_empty :: "string \<Rightarrow> string \<Rightarrow> unit result" where
  "validate_non_empty field v = ensure (trim v \<noteq> []) (InvalidIntent (field @ '' is empty''))"

definition validate_identifier :: "string \<Rightarrow> string \<Rightarrow> unit result" where
  "validate_identifier field v =
     ensure (is_canonical_identifier v) (InvalidIntent (field @ '' is invalid: '' @ canonical_rule))"

definition validate_device_id :: "string \<Rightarrow> DeviceId \<Rightarrow> unit result" where
  "validate_device_id field device_id =
     ensure (is_canonical device_id)
       (InvalidIntent (field @ '' '' @ device_id @ '' is invalid: '' @ canonical_rule))"

definition validate_ipv4_text :: "string \<Rightarrow> string \<Rightarrow> unit result" where
  "validate_ipv4_text field v =
     ensure (is_ipv4_text v) (InvalidIntent (''invalid '' @ field @ '' '' @ v))"

definition ensure_known_member :: "DeviceId set \<Rightarrow> DeviceId \<Rightarrow> string \<Rightarrow> unit result" where
  "ensure_known_member member_ids device_id subject =
     ensure (device_id \<in> member_ids)
       (InvalidIntent (subject @ '' references unknown switch member '' @ device_id))"

definition validate_declared_vlan ::
  "u16 \<Rightarrow> u16 set \<Rightarrow> string \<Rightarrow> DeviceId \<Rightarrow> string \<Rightarrow> unit result" where
  "validate_declared_vlan vlan_id declared_vlans ctx device_id interface_name =
     ensure (vlan_id \<in> declared_vlans)
       (InvalidIntent (ctx @ '' interface '' @ interface_name @ '' on '' @ device_id @
          '' references undeclared VLAN '' @ show_word vlan_id))"

definition validate_port_mode ::
  "PortMode \<Rightarrow> u16 set \<Rightarrow> string \<Rightarrow> DeviceId \<Rightarrow> string \<Rightarrow> unit result" where
  "validate_port_mode mode declared_vlans ctx device_id interface_name =
     (case mode of
        Access vlan_id \<Rightarrow>
          validate_declared_vlan vlan_id declared_vlans ctx device_id interface_name
      | Trunk native_vlan allowed_vlans \<Rightarrow>
          and_then (ensure (\<not> (allowed_vlans = [] \<and> native_vlan = None))
            (InvalidIntent (ctx @ '' trunk interface '' @ interface_name @ '' on '' @ device_id @
               '' has no native or allowed VLAN''))) (\<lambda>_.
          and_then (case native_vlan of
              Some vlan_id \<Rightarrow>
                validate_declared_vlan vlan_id declared_vlans ctx device_id interface_name
            | None \<Rightarrow> Inr ()) (\<lambda>_.
          and_then (try_unique
              (\<lambda>vlan_id. validate_declared_vlan vlan_id declared_vlans ctx device_id interface_name)
              (\<lambda>vlan_id. vlan_id)
              (\<lambda>vlan_id. InvalidIntent (ctx @ '' trunk interface '' @ interface_name @ '' on '' @
                 device_id @ '' has duplicate allowed VLAN '' @ show_word vlan_id))
              (\<lambda>_. Inr ()) {} allowed_vlans) (\<lambda>_. Inr ()))))"

definition validate_acl_endpoint ::
  "string \<Rightarrow> u16 \<Rightarrow> u16 \<Rightarrow> string \<Rightarrow> AclEndpoint \<Rightarrow> unit result" where
  "validate_acl_endpoint ctx acl_id sequence field ep =
     (let at = ctx @ '' ACL '' @ show_word acl_id @ '' rule '' @ show_word sequence in
      and_then (ensure (is_ipv4_text (ae_address ep))
        (InvalidIntent (at @ '' has invalid '' @ field @ '' IPv4 address '' @ ae_address ep))) (\<lambda>_.
      ensure (is_ipv4_text (ae_wildcard ep))
        (InvalidIntent (at @ '' has invalid '' @ field @ '' wildcard '' @ ae_wildcard ep))))"

definition validate_acl_id_for_kind :: "string \<Rightarrow> u16 \<Rightarrow> AclKind \<Rightarrow> unit result" where
  "validate_acl_id_for_kind ctx acl_id kind =
     (case kind of
        AdvancedIpv4 \<Rightarrow> ensure (3000 \<le> acl_id \<and> acl_id \<le> 3999)
          (InvalidIntent (ctx @ '' has invalid IPv4 advanced acl_id '' @ show_word acl_id @
             ''; valid range is 3000..=3999''))
      | BasicIpv4 \<Rightarrow> ensure (2000 \<le> acl_id \<and> acl_id \<le> 2999)
          (InvalidIntent (ctx @ '' has invalid IPv4 basic acl_id '' @ show_word acl_id @
             ''; valid range is 2000..=2999'')))"

definition validate_basic_acl_rule :: "string \<Rightarrow> AclConfig \<Rightarrow> AclRule \<Rightarrow> unit result" where
  "validate_basic_acl_rule ctx acl rule =
     (let at = ctx @ '' basic IPv4 ACL '' @ show_word (ac_acl_id acl) @ '' rule '' @
               show_word (ar_sequence rule) in
      and_then (ensure (ar_protocol rule = Ip)
        (InvalidIntent (at @ '' must use ip protocol''))) (\<lambda>_.
      and_then (ensure (ar_destination rule = None)
        (InvalidIntent (at @ '' cannot match destination''))) (\<lambda>_.
      ensure (\<not> (ar_source_port_eq rule \<noteq> None \<or> ar_destination_port_eq rule \<noteq> None))
        (InvalidIntent (at @ '' cannot match ports'')))))"

end
