(* ===== verification/Validation.thy ===== *)
theory Validation
  imports Intent
begin

text \<open>
  The collection checks and the two entry points of \<open>src/intent/validation.rs\<close>, and what an
  accepted intent satisfies.
\<close>

section \<open>VLANs and interfaces\<close>

definition validate_vlans :: "u16 list \<Rightarrow> string \<Rightarrow> unit result" where
  "validate_vlans vlan_ids ctx =
     and_then (try_unique
       (\<lambda>vlan_id. ensure (1 \<le> vlan_id \<and> vlan_id \<le> 4094)
          (InvalidIntent (ctx @ '' has invalid vlan_id '' @ show_word vlan_id @
             ''; valid range is 1..=4094'')))
       (\<lambda>vlan_id. vlan_id)
       (\<lambda>vlan_id. InvalidIntent (ctx @ '' has duplicate vlan_id '' @ show_word vlan_id))
       (\<lambda>_. Inr ()) {} vlan_ids) (\<lambda>_. Inr ())"

definition validate_interfaces ::
  "(DeviceId \<times> string \<times> PortMode) list \<Rightarrow> DeviceId set \<Rightarrow> u16 set \<Rightarrow> string \<Rightarrow> string \<Rightarrow> unit result" where
  "validate_interfaces interfaces valid_device_ids declared_vlans ctx unknown_device_label =
     and_then (try_unique
       (\<lambda>(device_id, name, mode).
          and_then (validate_non_empty ''interface name'' name) (\<lambda>_.
          ensure (device_id \<in> valid_device_ids)
            (InvalidIntent (ctx @ '' interface '' @ name @ '' references unknown '' @
               unknown_device_label @ '' '' @ device_id))))
       (\<lambda>(device_id, name, mode). (device_id, name))
       (\<lambda>(device_id, name, mode).
          InvalidIntent (ctx @ '' has duplicate interface '' @ name @ '' on '' @ device_id))
       (\<lambda>(device_id, name, mode). validate_port_mode mode declared_vlans ctx device_id name)
       {} interfaces) (\<lambda>_. Inr ())"

definition validate_interface_deletes ::
  "(DeviceId \<times> string) list \<Rightarrow> (DeviceId \<times> string) list \<Rightarrow> DeviceId set \<Rightarrow> string \<Rightarrow> unit result" where
  "validate_interface_deletes deletes upserts valid_device_ids ctx =
     (let upsert_keys = set upserts in
      and_then (try_unique
        (\<lambda>(device_id, name).
           and_then (validate_non_empty ''interface delete name'' name) (\<lambda>_.
           and_then (ensure (device_id \<in> valid_device_ids)
             (InvalidIntent (ctx @ '' interface delete '' @ name @
                '' references unknown switch member '' @ device_id))) (\<lambda>_.
           ensure ((device_id, name) \<notin> upsert_keys)
             (InvalidIntent (ctx @ '' cannot upsert and delete interface '' @ name @ '' on '' @
                device_id @ '' in the same request'')))))
        (\<lambda>key. key)
        (\<lambda>(device_id, name).
           InvalidIntent (ctx @ '' has duplicate interface delete '' @ name @ '' on '' @ device_id))
        (\<lambda>_. Inr ()) {} deletes) (\<lambda>_. Inr ()))"

section \<open>Access control lists\<close>

definition validate_acl_rule :: "string \<Rightarrow> AclConfig \<Rightarrow> AclRule \<Rightarrow> unit result" where
  "validate_acl_rule ctx acl rule =
     (let at = ctx @ '' ACL '' @ show_word (ac_acl_id acl) @ '' rule '' @ show_word (ar_sequence rule);
          ports_ok = ar_protocol rule = Tcp \<or> ar_protocol rule = Udp in
      and_then (ensure (\<not> (ar_source_port_eq rule \<noteq> None \<and> \<not> ports_ok))
        (InvalidIntent (at @ '' has source_port_eq but protocol is not tcp/udp''))) (\<lambda>_.
      and_then (ensure (\<not> (ar_destination_port_eq rule \<noteq> None \<and> \<not> ports_ok))
        (InvalidIntent (at @ '' has destination_port_eq but protocol is not tcp/udp''))) (\<lambda>_.
      and_then (ensure (\<not> (ar_source_port_eq rule = Some 0 \<or> ar_destination_port_eq rule = Some 0))
        (InvalidIntent (at @ '' has invalid port 0''))) (\<lambda>_.
      and_then (if ac_kind acl = BasicIpv4 then validate_basic_acl_rule ctx acl rule else Inr ()) (\<lambda>_.
      and_then (case ar_source rule of
          Some ep \<Rightarrow> validate_acl_endpoint ctx (ac_acl_id acl) (ar_sequence rule) ''source'' ep
        | None \<Rightarrow> Inr ()) (\<lambda>_.
      case ar_destination rule of
          Some ep \<Rightarrow> validate_acl_endpoint ctx (ac_acl_id acl) (ar_sequence rule) ''destination'' ep
        | None \<Rightarrow> Inr ()))))))"

definition validate_acls :: "AclConfig list \<Rightarrow> string \<Rightarrow> unit result" where
  "validate_acls acls ctx =
     and_then (try_unique
       (\<lambda>acl. validate_acl_id_for_kind ctx (ac_acl_id acl) (ac_kind acl))
       ac_acl_id
       (\<lambda>acl. InvalidIntent (ctx @ '' has duplicate acl_id '' @ show_word (ac_acl_id acl)))
       (\<lambda>acl. and_then (try_unique
          (\<lambda>_. Inr ())
          ar_sequence
          (\<lambda>rule. InvalidIntent (ctx @ '' ACL '' @ show_word (ac_acl_id acl) @
             '' has duplicate rule sequence '' @ show_word (ar_sequence rule)))
          (validate_acl_rule ctx acl)
          {} (ac_rules acl)) (\<lambda>_. Inr ()))
       {} acls) (\<lambda>_. Inr ())"

definition validate_acl_ids :: "u16 list \<Rightarrow> string \<Rightarrow> unit result" where
  "validate_acl_ids acl_ids ctx =
     and_then (try_unique
       (\<lambda>acl_id. ensure (2000 \<le> acl_id \<and> acl_id \<le> 3999)
          (InvalidIntent (ctx @ '' has invalid numeric IPv4 acl_id '' @ show_word acl_id @
             ''; valid range is 2000..=3999'')))
       (\<lambda>acl_id. acl_id)
       (\<lambda>acl_id. InvalidIntent (ctx @ '' has duplicate acl_id '' @ show_word acl_id))
       (\<lambda>_. Inr ()) {} acl_ids) (\<lambda>_. Inr ())"

fun debug_direction :: "AclDirection \<Rightarrow> string" where
  "debug_direction Inbound = ''Inbound''"
| "debug_direction Outbound = ''Outbound''"

definition abi_key :: "AclBindingIntent \<Rightarrow> DeviceId \<times> string" where
  "abi_key b = (abi_device_id b, acl_binding_key (abi_interface_name b) (abi_direction b))"

definition validate_acl_bindings ::
  "AclBindingIntent list \<Rightarrow> DeviceId set \<Rightarrow> u16 set \<Rightarrow> string \<Rightarrow> unit result" where
  "validate_acl_bindings bindings valid_device_ids declared_acls ctx =
     and_then (try_unique
       (\<lambda>b. and_then (validate_non_empty ''ACL binding interface_name'' (abi_interface_name b)) (\<lambda>_.
          and_then (ensure (abi_device_id b \<in> valid_device_ids)
            (InvalidIntent (ctx @ '' ACL binding for interface '' @ abi_interface_name b @
               '' references unknown switch member '' @ abi_device_id b))) (\<lambda>_.
          ensure (abi_acl_id b \<in> declared_acls)
            (InvalidIntent (ctx @ '' ACL binding on '' @ abi_interface_name b @
               '' references undeclared ACL '' @ show_word (abi_acl_id b))))))
       abi_key
       (\<lambda>b. InvalidIntent (ctx @ '' has duplicate ACL binding on '' @ abi_interface_name b @
          '' direction '' @ debug_direction (abi_direction b)))
       (\<lambda>_. Inr ()) {} bindings) (\<lambda>_. Inr ())"

definition validate_acl_binding_deletes ::
  "AclBindingIntent list \<Rightarrow> AclBindingIntent list \<Rightarrow> DeviceId set \<Rightarrow> string \<Rightarrow> unit result" where
  "validate_acl_binding_deletes deletes upserts valid_device_ids ctx =
     (let upsert_keys = abi_key ` set upserts in
      and_then (try_unique
        (\<lambda>b. and_then (validate_non_empty ''ACL binding delete interface_name'' (abi_interface_name b)) (\<lambda>_.
           and_then (ensure (abi_device_id b \<in> valid_device_ids)
             (InvalidIntent (ctx @ '' ACL binding delete for interface '' @ abi_interface_name b @
                '' references unknown switch member '' @ abi_device_id b))) (\<lambda>_.
           and_then (ensure (2000 \<le> abi_acl_id b \<and> abi_acl_id b \<le> 3999)
             (InvalidIntent (ctx @ '' ACL binding delete on '' @ abi_interface_name b @
                '' has invalid numeric IPv4 acl_id '' @ show_word (abi_acl_id b) @
                ''; valid range is 2000..=3999''))) (\<lambda>_.
           ensure (abi_key b \<notin> upsert_keys)
             (InvalidIntent (ctx @ '' cannot upsert and delete ACL binding on '' @
                abi_interface_name b @ '' direction '' @ debug_direction (abi_direction b) @
                '' in the same request''))))))
        abi_key
        (\<lambda>b. InvalidIntent (ctx @ '' has duplicate ACL binding delete on '' @ abi_interface_name b @
           '' direction '' @ debug_direction (abi_direction b)))
        (\<lambda>_. Inr ()) {} deletes) (\<lambda>_. Inr ()))"

section \<open>BGP\<close>

definition bpi_key :: "BgpProcessIntent \<Rightarrow> DeviceId \<times> string" where
  "bpi_key p = (bpi_device_id p, trim (bpi_vrf p))"

definition bpd_key :: "BgpProcessDeleteIntent \<Rightarrow> DeviceId \<times> string" where
  "bpd_key d = (bpd_device_id d, trim (bpd_vrf d))"

definition bni_key :: "BgpNeighborIntent \<Rightarrow> DeviceId \<times> string \<times> string" where
  "bni_key n = (bni_device_id n, trim (bni_vrf n), trim (bni_address n))"

definition bnd_key :: "BgpNeighborDeleteIntent \<Rightarrow> DeviceId \<times> string \<times> string" where
  "bnd_key d = (bnd_device_id d, trim (bnd_vrf d), trim (bnd_address d))"

definition validate_bgp_processes ::
  "BgpProcessIntent list \<Rightarrow> BgpProcessDeleteIntent list \<Rightarrow> DeviceId set \<Rightarrow> string \<Rightarrow> unit result" where
  "validate_bgp_processes processes deletes member_ids ctx =
     and_then (try_unique
       (\<lambda>p. let vrf = trim (bpi_vrf p) in
          and_then (validate_device_id ''BGP process device_id'' (bpi_device_id p)) (\<lambda>_.
          and_then (ensure_known_member member_ids (bpi_device_id p) ''BGP process'') (\<lambda>_.
          and_then (validate_non_empty ''BGP process vrf'' (bpi_vrf p)) (\<lambda>_.
          and_then (ensure (bpi_local_as p \<noteq> 0)
            (InvalidIntent (ctx @ '' BGP process '' @ bpi_device_id p @ ''/'' @ vrf @
               '' has invalid local_as 0''))) (\<lambda>_.
          case bpi_router_id p of
            Some router_id \<Rightarrow>
              and_then (validate_non_empty ''BGP router_id'' (trim router_id)) (\<lambda>_.
              validate_ipv4_text ''BGP router_id'' (trim router_id))
          | None \<Rightarrow> Inr ())))))
       bpi_key
       (\<lambda>p. InvalidIntent (ctx @ '' has duplicate BGP process '' @ bpi_device_id p @ ''/'' @
          trim (bpi_vrf p)))
       (\<lambda>_. Inr ()) {} processes) (\<lambda>upserts.
     and_then (try_unique
       (\<lambda>d. let vrf = trim (bpd_vrf d) in
          and_then (validate_device_id ''BGP process delete device_id'' (bpd_device_id d)) (\<lambda>_.
          and_then (ensure_known_member member_ids (bpd_device_id d) ''BGP process delete'') (\<lambda>_.
          and_then (validate_non_empty ''BGP process delete vrf'' (bpd_vrf d)) (\<lambda>_.
          ensure (bpd_key d \<notin> upserts)
            (InvalidIntent (ctx @ '' cannot upsert and delete BGP process '' @ bpd_device_id d @
               ''/'' @ vrf @ '' in the same request''))))))
       bpd_key
       (\<lambda>d. InvalidIntent (ctx @ '' has duplicate BGP process delete '' @ bpd_device_id d @ ''/'' @
          trim (bpd_vrf d)))
       (\<lambda>_. Inr ()) {} deletes) (\<lambda>_. Inr ()))"

definition validate_bgp_neighbors ::
  "BgpNeighborIntent list \<Rightarrow> BgpNeighborDeleteIntent list \<Rightarrow> BgpProcessDeleteIntent list \<Rightarrow>
   DeviceId set \<Rightarrow> string \<Rightarrow> unit result" where
  "validate_bgp_neighbors neighbors deletes process_deletes member_ids ctx =
     (let deleted_process_keys = bpd_key ` set process_deletes;
          show_key = (\<lambda>(device_id, vrf, address). device_id @ ''/'' @ vrf @ ''/'' @ address) in
      and_then (try_unique
        (\<lambda>n. let vrf = trim (bni_vrf n); address = trim (bni_address n) in
           and_then (validate_device_id ''BGP neighbor device_id'' (bni_device_id n)) (\<lambda>_.
           and_then (ensure_known_member member_ids (bni_device_id n) ''BGP neighbor'') (\<lambda>_.
           and_then (validate_non_empty ''BGP neighbor vrf'' (bni_vrf n)) (\<lambda>_.
           and_then (validate_non_empty ''BGP neighbor address'' (bni_address n)) (\<lambda>_.
           and_then (validate_ipv4_text ''BGP neighbor address'' address) (\<lambda>_.
           and_then (ensure ((bni_device_id n, vrf) \<notin> deleted_process_keys)
             (InvalidIntent (ctx @ '' cannot delete BGP process '' @ bni_device_id n @ ''/'' @ vrf @
                '' and upsert BGP neighbor '' @ show_key (bni_key n) @ '' in the same request''))) (\<lambda>_.
           ensure (bni_remote_as n \<noteq> 0)
             (InvalidIntent (ctx @ '' BGP neighbor '' @ show_key (bni_key n) @
                '' has invalid remote_as 0'')))))))))
        bni_key
        (\<lambda>n. InvalidIntent (ctx @ '' has duplicate BGP neighbor '' @ show_key (bni_key n)))
        (\<lambda>_. Inr ()) {} neighbors) (\<lambda>upserts.
      and_then (try_unique
        (\<lambda>d. and_then (validate_device_id ''BGP neighbor delete device_id'' (bnd_device_id d)) (\<lambda>_.
           and_then (ensure_known_member member_ids (bnd_device_id d) ''BGP neighbor delete'') (\<lambda>_.
           and_then (validate_non_empty ''BGP neighbor delete vrf'' (bnd_vrf d)) (\<lambda>_.
           and_then (validate_non_empty ''BGP neighbor delete address'' (bnd_address d)) (\<lambda>_.
           and_then (validate_ipv4_text ''BGP neighbor delete address'' (trim (bnd_address d))) (\<lambda>_.
           ensure (bnd_key d \<notin> upserts)
             (InvalidIntent (ctx @ '' cannot upsert and delete BGP neighbor '' @
                show_key (bnd_key d) @ '' in the same request''))))))))
        bnd_key
        (\<lambda>d. InvalidIntent (ctx @ '' has duplicate BGP neighbor delete '' @ show_key (bnd_key d)))
        (\<lambda>_. Inr ()) {} deletes) (\<lambda>_. Inr ())))"

section \<open>The entry points\<close>

definition validate_topology_shape :: "UnderlayDomainIntent \<Rightarrow> unit result" where
  "validate_topology_shape intent =
     (let n = length (di_endpoints intent) in
      case di_topology intent of
        StackSingleManagementIp \<Rightarrow> ensure (n = 1)
          (InvalidIntent (''stack topology requires exactly one management endpoint, got '' @ show_nat n))
      | MlagDualManagementIp \<Rightarrow> ensure (n = 2)
          (InvalidIntent (''mlag topology requires exactly two management endpoints, got '' @ show_nat n))
      | SmallFabric \<Rightarrow> ensure (\<not> n < 2)
          (InvalidIntent (''small fabric topology requires at least two management endpoints, got '' @
             show_nat n)))"

definition validate_endpoint :: "ManagementEndpointIntent \<Rightarrow> unit result" where
  "validate_endpoint ep =
     and_then (validate_identifier ''management endpoint endpoint_id'' (me_endpoint_id ep)) (\<lambda>_.
     and_then (validate_non_empty ''management endpoint host'' (me_host ep)) (\<lambda>_.
     and_then (validate_non_empty ''management endpoint secret_ref'' (me_secret_ref ep)) (\<lambda>_.
     ensure (me_port ep \<noteq> 0)
       (InvalidIntent (''management endpoint '' @ me_endpoint_id ep @ '' has invalid port 0'')))))"

definition acl_intent_config :: "AclIntent \<Rightarrow> AclConfig" where
  "acl_intent_config a =
     \<lparr>ac_acl_id = ai_acl_id a, ac_kind = ai_kind a, ac_name = ai_name a,
      ac_description = ai_description a, ac_rules = ai_rules a\<rparr>"

definition validate_underlay_domain_intent :: "UnderlayDomainIntent \<Rightarrow> unit result" where
  "validate_underlay_domain_intent intent =
     and_then (validate_non_empty ''underlay domain_id'' (di_domain_id intent)) (\<lambda>_.
     and_then (ensure (di_endpoints intent \<noteq> [])
       (InvalidIntent ''underlay domain has no management endpoints'')) (\<lambda>_.
     and_then (ensure (di_members intent \<noteq> [])
       (InvalidIntent ''underlay domain has no switch members'')) (\<lambda>_.
     and_then (validate_topology_shape intent) (\<lambda>_.
     and_then (try_unique validate_endpoint me_endpoint_id
       (\<lambda>ep. InvalidIntent (''duplicate management endpoint '' @ me_endpoint_id ep))
       (\<lambda>_. Inr ()) {} (di_endpoints intent)) (\<lambda>endpoint_ids.
     and_then (try_unique
       (\<lambda>m. and_then (validate_identifier ''switch member member_id'' (sm_member_id m)) (\<lambda>_.
          validate_identifier ''switch member management_endpoint_id'' (sm_management_endpoint_id m)))
       sm_member_id
       (\<lambda>m. InvalidIntent (''duplicate switch member '' @ sm_member_id m))
       (\<lambda>m. ensure (sm_management_endpoint_id m \<in> endpoint_ids)
          (InvalidIntent (''switch member '' @ sm_member_id m @
             '' references unknown management endpoint '' @ sm_management_endpoint_id m)))
       {} (di_members intent)) (\<lambda>member_ids.
     and_then (validate_vlans (map vi_vlan_id (di_vlans intent)) ''underlay domain'') (\<lambda>_.
     and_then (validate_vlans (di_delete_vlan_ids intent) ''underlay domain delete'') (\<lambda>_.
     let declared_vlans = vi_vlan_id ` set (di_vlans intent) in
     and_then (try_each (\<lambda>vlan_id. ensure (vlan_id \<notin> declared_vlans)
         (InvalidIntent (''underlay domain cannot upsert and delete VLAN '' @ show_word vlan_id @
            '' in the same request''))) (di_delete_vlan_ids intent)) (\<lambda>_.
     and_then (validate_interfaces
       (map (\<lambda>i. (ii_device_id i, ii_name i, ii_mode i)) (di_interfaces intent))
       member_ids declared_vlans ''underlay domain'' ''switch member'') (\<lambda>_.
     and_then (validate_interface_deletes
       (map (\<lambda>i. (ixd_device_id i, ixd_name i)) (di_delete_interfaces intent))
       (map (\<lambda>i. (ii_device_id i, ii_name i)) (di_interfaces intent))
       member_ids ''underlay domain'') (\<lambda>_.
     and_then (validate_acls (map acl_intent_config (di_acls intent)) ''underlay domain'') (\<lambda>_.
     and_then (validate_acl_ids (di_delete_acl_ids intent) ''underlay domain delete'') (\<lambda>_.
     let declared_acls = ai_acl_id ` set (di_acls intent) in
     and_then (try_each (\<lambda>acl_id. ensure (acl_id \<notin> declared_acls)
         (InvalidIntent (''underlay domain cannot upsert and delete ACL '' @ show_word acl_id @
            '' in the same request''))) (di_delete_acl_ids intent)) (\<lambda>_.
     and_then (validate_acl_bindings (di_acl_bindings intent) member_ids declared_acls
       ''underlay domain'') (\<lambda>_.
     and_then (validate_acl_binding_deletes (di_delete_acl_bindings intent) (di_acl_bindings intent)
       member_ids ''underlay domain'') (\<lambda>_.
     and_then (validate_bgp_processes (di_bgp_processes intent) (di_delete_bgp_processes intent)
       member_ids ''underlay domain'') (\<lambda>_.
     validate_bgp_neighbors (di_bgp_neighbors intent) (di_delete_bgp_neighbors intent)
       (di_delete_bgp_processes intent) member_ids ''underlay domain'')))))))))))))))))"

definition validate_switch_pair_intent :: "SwitchPairIntent \<Rightarrow> unit result" where
  "validate_switch_pair_intent intent =
     and_then (ensure (trim (sp_pair_id intent) \<noteq> [])
       (InvalidIntent ''switch pair intent has empty pair_id'')) (\<lambda>_.
     and_then (ensure (sp_switches intent \<noteq> []) (InvalidIntent ''intent has no switches'')) (\<lambda>_.
     and_then (try_unique
       (\<lambda>s. validate_device_id ''switch device_id'' (si_device_id s)) si_device_id
       (\<lambda>s. InvalidIntent (''duplicate switch device_id '' @ si_device_id s))
       (\<lambda>_. Inr ()) {} (sp_switches intent)) (\<lambda>switch_ids.
     and_then (validate_vlans (map vi_vlan_id (sp_vlans intent)) ''switch pair'') (\<lambda>_.
     let declared_vlans = vi_vlan_id ` set (sp_vlans intent) in
     validate_interfaces
       (map (\<lambda>i. (ii_device_id i, ii_name i, ii_mode i)) (sp_interfaces intent))
       switch_ids declared_vlans ''switch pair'' ''switch''))))"

section \<open>What an accepted intent satisfies\<close>

text \<open>The declarative reading of the validator, one predicate per group of rules.\<close>

definition distinct_by :: "('a \<Rightarrow> 'k) \<Rightarrow> 'a list \<Rightarrow> bool" where
  "distinct_by key xs = distinct (map key xs)"

definition endpoints_ok :: "UnderlayDomainIntent \<Rightarrow> bool" where
  "endpoints_ok i \<longleftrightarrow>
     distinct_by me_endpoint_id (di_endpoints i) \<and>
     (case di_topology i of
        StackSingleManagementIp \<Rightarrow> length (di_endpoints i) = 1
      | MlagDualManagementIp \<Rightarrow> length (di_endpoints i) = 2
      | SmallFabric \<Rightarrow> 2 \<le> length (di_endpoints i)) \<and>
     (\<forall>e \<in> set (di_endpoints i). is_canonical_identifier (me_endpoint_id e) \<and>
        trim (me_host e) \<noteq> [] \<and> trim (me_secret_ref e) \<noteq> [] \<and> me_port e \<noteq> 0)"

definition members_ok :: "UnderlayDomainIntent \<Rightarrow> bool" where
  "members_ok i \<longleftrightarrow>
     di_members i \<noteq> [] \<and> distinct_by sm_member_id (di_members i) \<and>
     (\<forall>m \<in> set (di_members i). is_canonical_identifier (sm_member_id m) \<and>
        sm_management_endpoint_id m \<in> me_endpoint_id ` set (di_endpoints i))"

definition vlan_ids_ok :: "u16 list \<Rightarrow> bool" where
  "vlan_ids_ok vs \<longleftrightarrow> distinct vs \<and> (\<forall>v \<in> set vs. 1 \<le> v \<and> v \<le> 4094)"

definition vlans_ok :: "UnderlayDomainIntent \<Rightarrow> bool" where
  "vlans_ok i \<longleftrightarrow>
     vlan_ids_ok (map vi_vlan_id (di_vlans i)) \<and> vlan_ids_ok (di_delete_vlan_ids i) \<and>
     set (di_delete_vlan_ids i) \<inter> vi_vlan_id ` set (di_vlans i) = {}"

definition port_mode_ok :: "u16 set \<Rightarrow> PortMode \<Rightarrow> bool" where
  "port_mode_ok declared mode =
     (case mode of
        Access v \<Rightarrow> v \<in> declared
      | Trunk native allowed \<Rightarrow>
          \<not> (allowed = [] \<and> native = None) \<and> set_option native \<subseteq> declared \<and>
          set allowed \<subseteq> declared \<and> distinct allowed)"

definition interface_list_ok :: "DeviceId set \<Rightarrow> u16 set \<Rightarrow> InterfaceIntent list \<Rightarrow> bool" where
  "interface_list_ok devices declared is \<longleftrightarrow>
     distinct_by (\<lambda>f. (ii_device_id f, ii_name f)) is \<and>
     (\<forall>f \<in> set is. trim (ii_name f) \<noteq> [] \<and> ii_device_id f \<in> devices \<and>
        port_mode_ok declared (ii_mode f))"

definition member_id_set :: "UnderlayDomainIntent \<Rightarrow> DeviceId set" where
  "member_id_set i = sm_member_id ` set (di_members i)"

definition interfaces_ok :: "UnderlayDomainIntent \<Rightarrow> bool" where
  "interfaces_ok i \<longleftrightarrow>
     interface_list_ok (member_id_set i) (vi_vlan_id ` set (di_vlans i)) (di_interfaces i) \<and>
     distinct_by (\<lambda>d. (ixd_device_id d, ixd_name d)) (di_delete_interfaces i) \<and>
     (\<forall>d \<in> set (di_delete_interfaces i). trim (ixd_name d) \<noteq> [] \<and> ixd_device_id d \<in> member_id_set i \<and>
        (ixd_device_id d, ixd_name d) \<notin> (\<lambda>f. (ii_device_id f, ii_name f)) ` set (di_interfaces i))"

definition acl_endpoint_ok :: "AclEndpoint \<Rightarrow> bool" where
  "acl_endpoint_ok e \<longleftrightarrow> is_ipv4_text (ae_address e) \<and> is_ipv4_text (ae_wildcard e)"

definition acl_rule_ok :: "AclKind \<Rightarrow> AclRule \<Rightarrow> bool" where
  "acl_rule_ok kind r \<longleftrightarrow>
     ((ar_source_port_eq r \<noteq> None \<or> ar_destination_port_eq r \<noteq> None) \<longrightarrow>
        ar_protocol r = Tcp \<or> ar_protocol r = Udp) \<and>
     ar_source_port_eq r \<noteq> Some 0 \<and> ar_destination_port_eq r \<noteq> Some 0 \<and>
     (kind = BasicIpv4 \<longrightarrow> ar_protocol r = Ip \<and> ar_destination r = None) \<and>
     (\<forall>e \<in> set_option (ar_source r) \<union> set_option (ar_destination r). acl_endpoint_ok e)"

definition acl_intent_ok :: "AclIntent \<Rightarrow> bool" where
  "acl_intent_ok a \<longleftrightarrow>
     (case ai_kind a of
        AdvancedIpv4 \<Rightarrow> 3000 \<le> ai_acl_id a \<and> ai_acl_id a \<le> 3999
      | BasicIpv4 \<Rightarrow> 2000 \<le> ai_acl_id a \<and> ai_acl_id a \<le> 2999) \<and>
     distinct_by ar_sequence (ai_rules a) \<and>
     (\<forall>r \<in> set (ai_rules a). acl_rule_ok (ai_kind a) r)"

definition acls_ok :: "UnderlayDomainIntent \<Rightarrow> bool" where
  "acls_ok i \<longleftrightarrow>
     distinct_by ai_acl_id (di_acls i) \<and> (\<forall>a \<in> set (di_acls i). acl_intent_ok a) \<and>
     distinct (di_delete_acl_ids i) \<and>
     (\<forall>a \<in> set (di_delete_acl_ids i). 2000 \<le> a \<and> a \<le> 3999 \<and> a \<notin> ai_acl_id ` set (di_acls i))"

definition bindings_ok :: "UnderlayDomainIntent \<Rightarrow> bool" where
  "bindings_ok i \<longleftrightarrow>
     distinct_by abi_key (di_acl_bindings i) \<and>
     (\<forall>b \<in> set (di_acl_bindings i). trim (abi_interface_name b) \<noteq> [] \<and>
        abi_device_id b \<in> member_id_set i \<and> abi_acl_id b \<in> ai_acl_id ` set (di_acls i)) \<and>
     distinct_by abi_key (di_delete_acl_bindings i) \<and>
     (\<forall>b \<in> set (di_delete_acl_bindings i). trim (abi_interface_name b) \<noteq> [] \<and>
        abi_device_id b \<in> member_id_set i \<and> 2000 \<le> abi_acl_id b \<and> abi_acl_id b \<le> 3999 \<and>
        abi_key b \<notin> abi_key ` set (di_acl_bindings i))"

definition bgp_ok :: "UnderlayDomainIntent \<Rightarrow> bool" where
  "bgp_ok i \<longleftrightarrow>
     distinct_by bpi_key (di_bgp_processes i) \<and>
     (\<forall>p \<in> set (di_bgp_processes i). is_canonical (bpi_device_id p) \<and>
        bpi_device_id p \<in> member_id_set i \<and> trim (bpi_vrf p) \<noteq> [] \<and> bpi_local_as p \<noteq> 0 \<and>
        (\<forall>r \<in> set_option (bpi_router_id p). is_ipv4_text (trim r))) \<and>
     distinct_by bpd_key (di_delete_bgp_processes i) \<and>
     (\<forall>d \<in> set (di_delete_bgp_processes i). is_canonical (bpd_device_id d) \<and>
        bpd_device_id d \<in> member_id_set i \<and> trim (bpd_vrf d) \<noteq> [] \<and>
        bpd_key d \<notin> bpi_key ` set (di_bgp_processes i)) \<and>
     distinct_by bni_key (di_bgp_neighbors i) \<and>
     (\<forall>n \<in> set (di_bgp_neighbors i). is_canonical (bni_device_id n) \<and>
        bni_device_id n \<in> member_id_set i \<and> trim (bni_vrf n) \<noteq> [] \<and>
        is_ipv4_text (trim (bni_address n)) \<and> bni_remote_as n \<noteq> 0 \<and>
        (bni_device_id n, trim (bni_vrf n)) \<notin> bpd_key ` set (di_delete_bgp_processes i)) \<and>
     distinct_by bnd_key (di_delete_bgp_neighbors i) \<and>
     (\<forall>d \<in> set (di_delete_bgp_neighbors i). is_canonical (bnd_device_id d) \<and>
        bnd_device_id d \<in> member_id_set i \<and> trim (bnd_vrf d) \<noteq> [] \<and>
        is_ipv4_text (trim (bnd_address d)) \<and> bnd_key d \<notin> bni_key ` set (di_bgp_neighbors i))"

definition domain_intent_ok :: "UnderlayDomainIntent \<Rightarrow> bool" where
  "domain_intent_ok i \<longleftrightarrow>
     trim (di_domain_id i) \<noteq> [] \<and> endpoints_ok i \<and> members_ok i \<and> vlans_ok i \<and> interfaces_ok i \<and>
     acls_ok i \<and> bindings_ok i \<and> bgp_ok i"

section \<open>Correctness of the checks\<close>

named_theorems valid_simps \<open>when a check of the validator succeeds\<close>

lemma validate_value_ok [valid_simps]:
  "is_ok (validate_non_empty f v) \<longleftrightarrow> trim v \<noteq> []"
  "is_ok (validate_identifier f v) \<longleftrightarrow> is_canonical_identifier v"
  "is_ok (validate_device_id f d) \<longleftrightarrow> is_canonical d"
  "is_ok (validate_ipv4_text f v) \<longleftrightarrow> is_ipv4_text v"
  "is_ok (ensure_known_member ms d f) \<longleftrightarrow> d \<in> ms"
  "is_ok (validate_declared_vlan vl vs c d n) \<longleftrightarrow> vl \<in> vs"
  by (simp_all add: validate_non_empty_def validate_identifier_def validate_device_id_def
      validate_ipv4_text_def ensure_known_member_def validate_declared_vlan_def)

lemma is_ipv4_text_nonempty: "is_ipv4_text s \<Longrightarrow> s \<noteq> []"
  by (auto simp: is_ipv4_text_def)

lemma validate_port_mode_ok [valid_simps]:
  "is_ok (validate_port_mode mode declared ctx d n) \<longleftrightarrow> port_mode_ok declared mode"
  by (auto simp: validate_port_mode_def port_mode_ok_def valid_simps
      split: PortMode.split option.split)

lemma validate_vlans_ok [valid_simps]: "is_ok (validate_vlans vs ctx) \<longleftrightarrow> vlan_ids_ok vs"
  by (auto simp: validate_vlans_def vlan_ids_ok_def)

lemma validate_interfaces_ok [valid_simps]:
  "is_ok (validate_interfaces (map (\<lambda>i. (ii_device_id i, ii_name i, ii_mode i)) is) devs declared ctx l)
     \<longleftrightarrow> interface_list_ok devs declared is"
  by (auto simp: validate_interfaces_def interface_list_ok_def distinct_by_def valid_simps comp_def)

lemma validate_interface_deletes_ok [valid_simps]:
  "is_ok (validate_interface_deletes ds us devs ctx) \<longleftrightarrow>
     distinct ds \<and> (\<forall>(d, n) \<in> set ds. trim n \<noteq> [] \<and> d \<in> devs \<and> (d, n) \<notin> set us)"
  by (auto simp: validate_interface_deletes_def Let_def valid_simps)

lemma validate_acl_endpoint_ok [valid_simps]:
  "is_ok (validate_acl_endpoint ctx a s f e) \<longleftrightarrow> acl_endpoint_ok e"
  by (simp add: validate_acl_endpoint_def acl_endpoint_ok_def Let_def)

lemma validate_acl_rule_ok [valid_simps]:
  "is_ok (validate_acl_rule ctx acl r) \<longleftrightarrow> acl_rule_ok (ac_kind acl) r"
  by (auto simp: validate_acl_rule_def validate_basic_acl_rule_def acl_rule_ok_def Let_def valid_simps
      split: option.splits)

lemma validate_acls_ok [valid_simps]:
  "is_ok (validate_acls (map acl_intent_config as) ctx) \<longleftrightarrow>
     distinct_by ai_acl_id as \<and> (\<forall>a \<in> set as. acl_intent_ok a)"
  by (auto simp: validate_acls_def acl_intent_config_def acl_intent_ok_def distinct_by_def comp_def
      validate_acl_id_for_kind_def valid_simps split: AclKind.splits)

lemma validate_acl_ids_ok [valid_simps]:
  "is_ok (validate_acl_ids as ctx) \<longleftrightarrow> distinct as \<and> (\<forall>a \<in> set as. 2000 \<le> a \<and> a \<le> 3999)"
  by (auto simp: validate_acl_ids_def)

lemma validate_acl_bindings_ok [valid_simps]:
  "is_ok (validate_acl_bindings bs devs acls ctx) \<longleftrightarrow>
     distinct_by abi_key bs \<and>
     (\<forall>b \<in> set bs. trim (abi_interface_name b) \<noteq> [] \<and> abi_device_id b \<in> devs \<and> abi_acl_id b \<in> acls)"
  by (auto simp: validate_acl_bindings_def distinct_by_def valid_simps)

lemma validate_acl_binding_deletes_ok [valid_simps]:
  "is_ok (validate_acl_binding_deletes ds us devs ctx) \<longleftrightarrow>
     distinct_by abi_key ds \<and>
     (\<forall>b \<in> set ds. trim (abi_interface_name b) \<noteq> [] \<and> abi_device_id b \<in> devs \<and>
        2000 \<le> abi_acl_id b \<and> abi_acl_id b \<le> 3999 \<and> abi_key b \<notin> abi_key ` set us)"
  by (auto simp: validate_acl_binding_deletes_def distinct_by_def valid_simps Let_def)

lemma validate_bgp_processes_ok [valid_simps]:
  "is_ok (validate_bgp_processes ps ds ms ctx) \<longleftrightarrow>
     distinct_by bpi_key ps \<and>
     (\<forall>p \<in> set ps. is_canonical (bpi_device_id p) \<and> bpi_device_id p \<in> ms \<and> trim (bpi_vrf p) \<noteq> [] \<and>
        bpi_local_as p \<noteq> 0 \<and> (\<forall>r \<in> set_option (bpi_router_id p). is_ipv4_text (trim r))) \<and>
     distinct_by bpd_key ds \<and>
     (\<forall>d \<in> set ds. is_canonical (bpd_device_id d) \<and> bpd_device_id d \<in> ms \<and> trim (bpd_vrf d) \<noteq> [] \<and>
        bpd_key d \<notin> bpi_key ` set ps)"
  by (auto simp: validate_bgp_processes_def distinct_by_def valid_simps Let_def is_ok_and_then
      try_unique_Inr is_ipv4_text_nonempty split: option.splits)

lemma validate_bgp_neighbors_ok [valid_simps]:
  "is_ok (validate_bgp_neighbors ns ds pds ms ctx) \<longleftrightarrow>
     distinct_by bni_key ns \<and>
     (\<forall>n \<in> set ns. is_canonical (bni_device_id n) \<and> bni_device_id n \<in> ms \<and> trim (bni_vrf n) \<noteq> [] \<and>
        is_ipv4_text (trim (bni_address n)) \<and> bni_remote_as n \<noteq> 0 \<and>
        (bni_device_id n, trim (bni_vrf n)) \<notin> bpd_key ` set pds) \<and>
     distinct_by bnd_key ds \<and>
     (\<forall>d \<in> set ds. is_canonical (bnd_device_id d) \<and> bnd_device_id d \<in> ms \<and> trim (bnd_vrf d) \<noteq> [] \<and>
        is_ipv4_text (trim (bnd_address d)) \<and> bnd_key d \<notin> bni_key ` set ns)"
  by (auto simp: validate_bgp_neighbors_def distinct_by_def valid_simps Let_def is_ok_and_then
      try_unique_Inr is_ipv4_text_nonempty)

lemma validate_topology_shape_ok [valid_simps]:
  "is_ok (validate_topology_shape i) \<longleftrightarrow>
     (case di_topology i of
        StackSingleManagementIp \<Rightarrow> length (di_endpoints i) = 1
      | MlagDualManagementIp \<Rightarrow> length (di_endpoints i) = 2
      | SmallFabric \<Rightarrow> 2 \<le> length (di_endpoints i))"
  by (auto simp: validate_topology_shape_def Let_def split: UnderlayTopology.split)

lemma validate_endpoint_ok [valid_simps]:
  "is_ok (validate_endpoint e) \<longleftrightarrow> is_canonical_identifier (me_endpoint_id e) \<and>
     trim (me_host e) \<noteq> [] \<and> trim (me_secret_ref e) \<noteq> [] \<and> me_port e \<noteq> 0"
  by (simp add: validate_endpoint_def valid_simps)

lemma distinct_deletes:
  "distinct (map (\<lambda>i. (ixd_device_id i, ixd_name i)) ds) = distinct_by (\<lambda>d. (ixd_device_id d, ixd_name d)) ds"
  by (simp add: distinct_by_def)

lemma domain_intent_ok_validated:
  "is_ok (validate_underlay_domain_intent i) \<longleftrightarrow> domain_intent_ok i"
proof -
  have "is_ok (validate_underlay_domain_intent i) \<longleftrightarrow>
      trim (di_domain_id i) \<noteq> [] \<and> di_endpoints i \<noteq> [] \<and> di_members i \<noteq> [] \<and>
      is_ok (validate_topology_shape i) \<and>
      distinct_by me_endpoint_id (di_endpoints i) \<and>
      (\<forall>e \<in> set (di_endpoints i). is_ok (validate_endpoint e)) \<and>
      distinct_by sm_member_id (di_members i) \<and>
      (\<forall>m \<in> set (di_members i). is_canonical_identifier (sm_member_id m) \<and>
         is_canonical_identifier (sm_management_endpoint_id m) \<and>
         sm_management_endpoint_id m \<in> me_endpoint_id ` set (di_endpoints i)) \<and>
      vlans_ok i \<and> interfaces_ok i \<and> acls_ok i \<and> bindings_ok i \<and> bgp_ok i"
    unfolding validate_underlay_domain_intent_def
    by (simp add: is_ok_and_then try_unique_Inr Let_def valid_simps is_ok_unit[symmetric]
        vlans_ok_def interfaces_ok_def acls_ok_def bindings_ok_def bgp_ok_def distinct_deletes
        flip: distinct_by_def member_id_set_def)
      (auto simp: distinct_by_def)
  also have "\<dots> \<longleftrightarrow> domain_intent_ok i"
    by (auto simp: domain_intent_ok_def endpoints_ok_def members_ok_def valid_simps
        split: UnderlayTopology.splits)
  finally show ?thesis .
qed

text \<open>Every rejection is an \<open>InvalidIntent\<close>.\<close>

fun is_invalid_intent :: "UnderlayError \<Rightarrow> bool" where
  "is_invalid_intent (InvalidIntent _) = True"
| "is_invalid_intent _ = False"

lemmas check_defs =
  validate_non_empty_def validate_identifier_def validate_device_id_def validate_ipv4_text_def
  ensure_known_member_def validate_declared_vlan_def validate_port_mode_def
  validate_acl_endpoint_def validate_acl_id_for_kind_def validate_basic_acl_rule_def
  validate_vlans_def validate_interfaces_def validate_interface_deletes_def validate_acl_rule_def
  validate_acls_def validate_acl_ids_def validate_acl_bindings_def
  validate_acl_binding_deletes_def validate_bgp_processes_def validate_bgp_neighbors_def
  validate_topology_shape_def validate_endpoint_def

lemma only_errs_case_enums [errs_intro]:
  "only_errs P x \<Longrightarrow> only_errs P y \<Longrightarrow> only_errs P (case k of AdvancedIpv4 \<Rightarrow> x | BasicIpv4 \<Rightarrow> y)"
  "only_errs P x \<Longrightarrow> only_errs P y \<Longrightarrow> only_errs P z \<Longrightarrow>
   only_errs P (case t of StackSingleManagementIp \<Rightarrow> x | MlagDualManagementIp \<Rightarrow> y | SmallFabric \<Rightarrow> z)"
  "(\<And>v. only_errs P (f v)) \<Longrightarrow> (\<And>n a. only_errs P (g n a)) \<Longrightarrow>
   only_errs P (case m of Access v \<Rightarrow> f v | Trunk n a \<Rightarrow> g n a)"
  by (simp_all split: AclKind.split UnderlayTopology.split PortMode.split)

lemma validate_errs:
  "only_errs is_invalid_intent (validate_underlay_domain_intent i)"
  "only_errs is_invalid_intent (validate_switch_pair_intent p)"
  unfolding validate_underlay_domain_intent_def validate_switch_pair_intent_def check_defs
  by (intro errs_intro; simp split: prod.split)+

section \<open>Properties\<close>

text \<open>C2: the domain validator accepts exactly the intents that satisfy the declarative
  rules: unique canonical endpoints in the number the topology asks for, unique members on
  declared endpoints, unique VLAN and ACL identifiers in range, references only to declared
  VLANs, ACLs and members, and no object that is both upserted and deleted.  Every rejection
  is an \<open>InvalidIntent\<close> error.\<close>

theorem validate_underlay_domain_intent_correct:
  "is_ok (validate_underlay_domain_intent i) = domain_intent_ok i \<and>
   only_errs is_invalid_intent (validate_underlay_domain_intent i)"
  by (simp add: domain_intent_ok_validated validate_errs)

text \<open>the switch pair validator accepts exactly the intents with a non-blank pair id,
  at least one switch, unique canonical switch ids, unique VLAN ids in range, and unique
  named interfaces on those switches that only use declared VLANs.\<close>

theorem validate_switch_pair_intent_correct:
  "is_ok (validate_switch_pair_intent i) \<longleftrightarrow>
     trim (sp_pair_id i) \<noteq> [] \<and> sp_switches i \<noteq> [] \<and>
     distinct_by si_device_id (sp_switches i) \<and>
     list_all (\<lambda>s. is_canonical (si_device_id s)) (sp_switches i) \<and>
     vlan_ids_ok (map vi_vlan_id (sp_vlans i)) \<and>
     interface_list_ok (si_device_id ` set (sp_switches i)) (vi_vlan_id ` set (sp_vlans i))
       (sp_interfaces i)"
  unfolding validate_switch_pair_intent_def
  by (auto simp: is_ok_and_then try_unique_Inr Let_def valid_simps distinct_by_def list_all_iff
      simp flip: is_ok_unit)

end
