(* ===== verification/Plan.thy ===== *)
theory Plan
  imports Validation
begin

text \<open>
  The planner (\<open>src/planner/device_plan.rs\<close>, \<open>src/planner/domain_plan.rs\<close>): it turns a
  validated intent into one desired state per management endpoint.  The source updates a
  map of states in place, one loop per kind of object; the model threads that map through
  the same loops.
\<close>

section \<open>Desired states (planner/device_plan.rs)\<close>

record DeviceDesiredState =
  ds_device_id :: DeviceId
  ds_vlans :: "(u16, VlanConfig) bmap"
  ds_interfaces :: "(string, InterfaceConfig) bmap"
  ds_acls :: "(u16, AclConfig) bmap"
  ds_acl_bindings :: "(string, AclBinding) bmap"
  ds_route_policy_refs :: "string bset"
  ds_bgp_processes :: "(string, BgpProcess) bmap"
  ds_bgp_neighbors :: "(string, BgpNeighbor) bmap"
  ds_delete_vlan_ids :: "u16 bset"
  ds_delete_interface_names :: "string bset"
  ds_delete_acl_ids :: "u16 bset"
  ds_delete_acl_bindings :: "(string, AclBinding) bmap"
  ds_delete_bgp_process_vrfs :: "string bset"
  ds_delete_bgp_neighbors :: "(string, BgpNeighbor) bmap"

definition vlan_intent_config :: "VlanIntent \<Rightarrow> VlanConfig" where
  "vlan_intent_config v =
     \<lparr>vc_vlan_id = vi_vlan_id v, vc_name = vi_name v, vc_description = vi_description v\<rparr>"

definition interface_intent_config :: "InterfaceIntent \<Rightarrow> InterfaceConfig" where
  "interface_intent_config i =
     \<lparr>ic_name = ii_name i, ic_admin_state = ii_admin_state i, ic_description = ii_description i,
      ic_mode = ii_mode i\<rparr>"

definition binding_intent_config :: "AclBindingIntent \<Rightarrow> AclBinding" where
  "binding_intent_config b =
     \<lparr>ab_interface_name = abi_interface_name b, ab_direction = abi_direction b,
      ab_acl_id = abi_acl_id b\<rparr>"

definition bgp_process_intent_config :: "BgpProcessIntent \<Rightarrow> BgpProcess" where
  "bgp_process_intent_config p =
     \<lparr>bp_vrf = bpi_vrf p, bp_local_as = bpi_local_as p, bp_router_id = bpi_router_id p\<rparr>"

definition bgp_neighbor_intent_config :: "BgpNeighborIntent \<Rightarrow> BgpNeighbor" where
  "bgp_neighbor_intent_config n =
     \<lparr>bn_vrf = bni_vrf n, bn_address = bni_address n, bn_remote_as = bni_remote_as n,
      bn_description = bni_description n, bn_import_policy = bni_import_policy n,
      bn_export_policy = bni_export_policy n\<rparr>"

definition bgp_neighbor_delete_config :: "BgpNeighborDeleteIntent \<Rightarrow> BgpNeighbor" where
  "bgp_neighbor_delete_config d =
     \<lparr>bn_vrf = bnd_vrf d, bn_address = bnd_address d, bn_remote_as = 0,
      bn_description = None, bn_import_policy = None, bn_export_policy = None\<rparr>"

definition vlan_map :: "VlanIntent list \<Rightarrow> (u16, VlanConfig) bmap" where
  "vlan_map vs = bm_of_list (map (\<lambda>v. (vi_vlan_id v, vlan_intent_config v)) vs)"

definition acl_map :: "AclIntent list \<Rightarrow> (u16, AclConfig) bmap" where
  "acl_map as = bm_of_list (map (\<lambda>a. (ai_acl_id a, acl_intent_config a)) as)"

definition empty_desired :: "DeviceId \<Rightarrow> DeviceDesiredState" where
  "empty_desired d =
     \<lparr>ds_device_id = d, ds_vlans = bm_empty, ds_interfaces = bm_empty, ds_acls = bm_empty,
      ds_acl_bindings = bm_empty, ds_route_policy_refs = bm_empty, ds_bgp_processes = bm_empty,
      ds_bgp_neighbors = bm_empty, ds_delete_vlan_ids = bm_empty,
      ds_delete_interface_names = bm_empty, ds_delete_acl_ids = bm_empty,
      ds_delete_acl_bindings = bm_empty, ds_delete_bgp_process_vrfs = bm_empty,
      ds_delete_bgp_neighbors = bm_empty\<rparr>"

definition plan_switch_pair :: "SwitchPairIntent \<Rightarrow> DeviceDesiredState list" where
  "plan_switch_pair intent =
     map (\<lambda>switch.
       (empty_desired (si_device_id switch))
         \<lparr>ds_vlans := vlan_map (sp_vlans intent),
          ds_interfaces := bm_of_list
            (map (\<lambda>i. (ii_name i, interface_intent_config i))
               (filter (\<lambda>i. ii_device_id i = si_device_id switch) (sp_interfaces intent)))\<rparr>)
       (sp_switches intent)"

section \<open>The domain planner (planner/domain_plan.rs)\<close>

type_synonym states = "(DeviceId, DeviceDesiredState) bmap"

definition member_to_endpoint :: "UnderlayDomainIntent \<Rightarrow> (DeviceId, DeviceId) bmap" where
  "member_to_endpoint intent =
     bm_of_list (map (\<lambda>m. (sm_member_id m, sm_management_endpoint_id m)) (di_members intent))"

definition initial_states :: "UnderlayDomainIntent \<Rightarrow> states" where
  "initial_states intent =
     bm_of_list (map (\<lambda>e. (me_endpoint_id e,
       (empty_desired (me_endpoint_id e))
         \<lparr>ds_vlans := vlan_map (di_vlans intent),
          ds_acls := acl_map (di_acls intent),
          ds_delete_vlan_ids := bs_of_list (di_delete_vlan_ids intent),
          ds_delete_acl_ids := bs_of_list (di_delete_acl_ids intent)\<rparr>))
       (di_endpoints intent))"

text \<open>The common head of the eight loops: find the endpoint of the member and its state.\<close>

definition update_member_state ::
  "(DeviceId, DeviceId) bmap \<Rightarrow> string \<Rightarrow> DeviceId \<Rightarrow> (DeviceDesiredState \<Rightarrow> DeviceDesiredState) \<Rightarrow>
   states \<Rightarrow> states result" where
  "update_member_state mte subject device_id f states =
     and_then (ok_or (bm_get mte device_id)
       (InvalidIntent (subject @ '' references unknown switch member '' @ device_id))) (\<lambda>endpoint_id.
     and_then (ok_or (bm_get states endpoint_id)
       (InvalidIntent (''member references unknown management endpoint '' @ endpoint_id))) (\<lambda>state.
     Inr (bm_insert endpoint_id (f state) states)))"

definition plan_interfaces ::
  "(DeviceId, DeviceId) bmap \<Rightarrow> InterfaceIntent list \<Rightarrow> states \<Rightarrow> states result" where
  "plan_interfaces mte is states =
     try_fold (\<lambda>st i. update_member_state mte ''interface'' (ii_device_id i)
       (ds_interfaces_update (bm_insert (ii_name i) (interface_intent_config i))) st) states is"

definition plan_delete_interfaces ::
  "(DeviceId, DeviceId) bmap \<Rightarrow> InterfaceDeleteIntent list \<Rightarrow> states \<Rightarrow> states result" where
  "plan_delete_interfaces mte is states =
     try_fold (\<lambda>st i. update_member_state mte ''interface delete'' (ixd_device_id i)
       (ds_delete_interface_names_update (bs_insert (ixd_name i))) st) states is"

definition plan_acl_bindings ::
  "(DeviceId, DeviceId) bmap \<Rightarrow> AclBindingIntent list \<Rightarrow> states \<Rightarrow> states result" where
  "plan_acl_bindings mte bs states =
     try_fold (\<lambda>st b. update_member_state mte ''ACL binding'' (abi_device_id b)
       (ds_acl_bindings_update (bm_insert (ab_key (binding_intent_config b)) (binding_intent_config b))) st)
       states bs"

definition plan_delete_acl_bindings ::
  "(DeviceId, DeviceId) bmap \<Rightarrow> AclBindingIntent list \<Rightarrow> states \<Rightarrow> states result" where
  "plan_delete_acl_bindings mte bs states =
     try_fold (\<lambda>st b. update_member_state mte ''ACL binding delete'' (abi_device_id b)
       (ds_delete_acl_bindings_update
          (bm_insert (ab_key (binding_intent_config b)) (binding_intent_config b))) st)
       states bs"

definition plan_bgp_processes ::
  "(DeviceId, DeviceId) bmap \<Rightarrow> BgpProcessIntent list \<Rightarrow> states \<Rightarrow> states result" where
  "plan_bgp_processes mte ps states =
     try_fold (\<lambda>st p. update_member_state mte ''BGP process'' (bpi_device_id p)
       (ds_bgp_processes_update (bm_insert (bpi_vrf p) (bgp_process_intent_config p))) st) states ps"

definition plan_bgp_neighbors ::
  "(DeviceId, DeviceId) bmap \<Rightarrow> BgpNeighborIntent list \<Rightarrow> states \<Rightarrow> states result" where
  "plan_bgp_neighbors mte ns states =
     try_fold (\<lambda>st n. update_member_state mte ''BGP neighbor'' (bni_device_id n)
       (ds_bgp_neighbors_update
          (bm_insert (bn_key (bgp_neighbor_intent_config n)) (bgp_neighbor_intent_config n))) st)
       states ns"

definition plan_delete_bgp_processes ::
  "(DeviceId, DeviceId) bmap \<Rightarrow> BgpProcessDeleteIntent list \<Rightarrow> states \<Rightarrow> states result" where
  "plan_delete_bgp_processes mte ps states =
     try_fold (\<lambda>st p. update_member_state mte ''BGP process delete'' (bpd_device_id p)
       (ds_delete_bgp_process_vrfs_update (bs_insert (bpd_vrf p))) st) states ps"

definition plan_delete_bgp_neighbors ::
  "(DeviceId, DeviceId) bmap \<Rightarrow> BgpNeighborDeleteIntent list \<Rightarrow> states \<Rightarrow> states result" where
  "plan_delete_bgp_neighbors mte ns states =
     try_fold (\<lambda>st n. update_member_state mte ''BGP neighbor delete'' (bnd_device_id n)
       (ds_delete_bgp_neighbors_update
          (bm_insert (bn_key (bgp_neighbor_delete_config n)) (bgp_neighbor_delete_config n))) st)
       states ns"

definition plan_underlay_domain :: "UnderlayDomainIntent \<Rightarrow> DeviceDesiredState list result" where
  "plan_underlay_domain intent =
     and_then (validate_underlay_domain_intent intent) (\<lambda>_.
     let mte = member_to_endpoint intent in
     and_then (plan_interfaces mte (di_interfaces intent) (initial_states intent)) (\<lambda>states.
     and_then (plan_delete_interfaces mte (di_delete_interfaces intent) states) (\<lambda>states.
     and_then (plan_acl_bindings mte (di_acl_bindings intent) states) (\<lambda>states.
     and_then (plan_delete_acl_bindings mte (di_delete_acl_bindings intent) states) (\<lambda>states.
     and_then (plan_bgp_processes mte (di_bgp_processes intent) states) (\<lambda>states.
     and_then (plan_bgp_neighbors mte (di_bgp_neighbors intent) states) (\<lambda>states.
     and_then (plan_delete_bgp_processes mte (di_delete_bgp_processes intent) states) (\<lambda>states.
     and_then (plan_delete_bgp_neighbors mte (di_delete_bgp_neighbors intent) states) (\<lambda>states.
     Inr (bm_values states))))))))))"

section \<open>What the planner computes\<close>

text \<open>The endpoint that manages a member, and the state an endpoint should get: read
  off the intent, with no map of states and no order of loops.\<close>

definition owner :: "UnderlayDomainIntent \<Rightarrow> DeviceId \<Rightarrow> DeviceId option" where
  "owner i d = map_option sm_management_endpoint_id (find (\<lambda>m. sm_member_id m = d) (di_members i))"

definition owned :: "UnderlayDomainIntent \<Rightarrow> DeviceId \<Rightarrow> ('a \<Rightarrow> DeviceId) \<Rightarrow> 'a list \<Rightarrow> 'a list" where
  "owned i e dev xs = filter (\<lambda>x. owner i (dev x) = Some e) xs"

definition planned_state :: "UnderlayDomainIntent \<Rightarrow> DeviceId \<Rightarrow> DeviceDesiredState" where
  "planned_state i e =
     \<lparr>ds_device_id = e,
      ds_vlans = vlan_map (di_vlans i),
      ds_interfaces = bm_of_list (map (\<lambda>x. (ii_name x, interface_intent_config x))
        (owned i e ii_device_id (di_interfaces i))),
      ds_acls = acl_map (di_acls i),
      ds_acl_bindings = bm_of_list (map (\<lambda>b. (ab_key (binding_intent_config b), binding_intent_config b))
        (owned i e abi_device_id (di_acl_bindings i))),
      ds_route_policy_refs = bm_empty,
      ds_bgp_processes = bm_of_list (map (\<lambda>p. (bpi_vrf p, bgp_process_intent_config p))
        (owned i e bpi_device_id (di_bgp_processes i))),
      ds_bgp_neighbors = bm_of_list
        (map (\<lambda>n. (bn_key (bgp_neighbor_intent_config n), bgp_neighbor_intent_config n))
          (owned i e bni_device_id (di_bgp_neighbors i))),
      ds_delete_vlan_ids = bs_of_list (di_delete_vlan_ids i),
      ds_delete_interface_names = bs_of_list (map ixd_name
        (owned i e ixd_device_id (di_delete_interfaces i))),
      ds_delete_acl_ids = bs_of_list (di_delete_acl_ids i),
      ds_delete_acl_bindings = bm_of_list
        (map (\<lambda>b. (ab_key (binding_intent_config b), binding_intent_config b))
          (owned i e abi_device_id (di_delete_acl_bindings i))),
      ds_delete_bgp_process_vrfs = bs_of_list (map bpd_vrf
        (owned i e bpd_device_id (di_delete_bgp_processes i))),
      ds_delete_bgp_neighbors = bm_of_list
        (map (\<lambda>n. (bn_key (bgp_neighbor_delete_config n), bgp_neighbor_delete_config n))
          (owned i e bnd_device_id (di_delete_bgp_neighbors i)))\<rparr>"

section \<open>One loop\<close>

lemma planning_loop:
  assumes "\<forall>x \<in> set xs. \<exists>e. bm_get mte (dev x) = Some e \<and> bm_get st e \<noteq> None"
  shows "\<exists>st'. try_fold (\<lambda>st x. update_member_state mte subject (dev x) (f x) st) st xs = Inr st' \<and>
    (\<forall>e. bm_get st' e =
      map_option (\<lambda>s. foldl (\<lambda>s x. f x s) s (filter (\<lambda>x. bm_get mte (dev x) = Some e) xs)) (bm_get st e))"
  using assms
proof (induction xs arbitrary: st)
  case Nil
  show ?case by (simp add: option.map_ident)
next
  case (Cons x xs)
  then obtain e s where e: "bm_get mte (dev x) = Some e" "bm_get st e = Some s" by auto
  let ?st = "bm_insert e (f x s) st"
  have grow: "bm_get st e' \<noteq> None \<Longrightarrow> bm_get ?st e' \<noteq> None" for e'
    by (simp add: bm_get_insert)
  have "\<forall>x \<in> set xs. \<exists>e. bm_get mte (dev x) = Some e \<and> bm_get ?st e \<noteq> None"
    using Cons.prems grow by (meson list.set_intros(2))
  from Cons.IH[OF this] obtain st' where st':
    "try_fold (\<lambda>st x. update_member_state mte subject (dev x) (f x) st) ?st xs = Inr st'"
    "\<And>e'. bm_get st' e' = map_option (\<lambda>s. foldl (\<lambda>s x. f x s) s
        (filter (\<lambda>x. bm_get mte (dev x) = Some e') xs)) (bm_get ?st e')"
    by blast
  have "bm_get st' e' = map_option (\<lambda>s. foldl (\<lambda>s x. f x s) s
      (filter (\<lambda>x. bm_get mte (dev x) = Some e') (x # xs))) (bm_get st e')" for e'
    using st'(2)[of e'] e by (auto simp: bm_get_insert)
  with st'(1) e show ?case
    by (auto simp: update_member_state_def)
qed

lemma find_distinct_map_of:
  "map_option v (find (\<lambda>m. k m = d) ms) = map_of (map (\<lambda>m. (k m, v m)) ms) d"
  by (induction ms) auto

lemma member_to_endpoint_owner:
  "members_ok i \<Longrightarrow> bm_get (member_to_endpoint i) d = owner i d"
  unfolding members_ok_def distinct_by_def
  by (simp add: member_to_endpoint_def bm_get_of_list owner_def find_distinct_map_of
      map_of_rev_distinct comp_def)

lemma owner_known:
  assumes "members_ok i" "d \<in> member_id_set i"
  obtains e where "owner i d = Some e" "e \<in> me_endpoint_id ` set (di_endpoints i)"
proof (cases "find (\<lambda>m. sm_member_id m = d) (di_members i)")
  case None
  with assms(2) show thesis by (auto simp: find_None_iff member_id_set_def)
next
  case (Some m)
  then have "m \<in> set (di_members i)" by (auto simp: find_Some_iff)
  with Some assms(1) that show thesis by (auto simp: owner_def members_ok_def)
qed


text \<open>The loop in the form the planner uses it: over objects of known members, from states
  that contain every endpoint.\<close>

lemma planned_loop:
  assumes "members_ok i" "\<forall>x \<in> set xs. dev x \<in> member_id_set i"
    and "\<And>e. bm_get st e = (if e \<in> me_endpoint_id ` set (di_endpoints i) then Some (s e) else None)"
  obtains st' where
    "try_fold (\<lambda>st x. update_member_state (member_to_endpoint i) subject (dev x) (f x) st) st xs = Inr st'"
    "\<And>e. bm_get st' e = (if e \<in> me_endpoint_id ` set (di_endpoints i)
       then Some (foldl (\<lambda>s x. f x s) (s e) (owned i e dev xs)) else None)"
proof -
  have "\<forall>x \<in> set xs. \<exists>e. bm_get (member_to_endpoint i) (dev x) = Some e \<and> bm_get st e \<noteq> None"
  proof
    fix x assume "x \<in> set xs"
    with assms(2) obtain e where "owner i (dev x) = Some e" "e \<in> me_endpoint_id ` set (di_endpoints i)"
      using owner_known[OF assms(1)] by metis
    then show "\<exists>e. bm_get (member_to_endpoint i) (dev x) = Some e \<and> bm_get st e \<noteq> None"
      by (auto simp: member_to_endpoint_owner[OF assms(1)] assms(3))
  qed
  from planning_loop[OF this, of subject f] that show thesis
    by (auto simp: owned_def member_to_endpoint_owner[OF assms(1)] assms(3))
qed

text \<open>A loop that only updates one field folds into one update of that field.\<close>

lemma foldl_field:
  assumes "\<And>g h s. upd g (upd h s) = upd (g \<circ> h) s" "\<And>s. upd (\<lambda>m. m) s = s"
  shows "foldl (\<lambda>s x. upd (F x) s) s xs = upd (\<lambda>m. foldl (\<lambda>m x. F x m) m xs) s"
proof (induction xs rule: rev_induct)
  case Nil
  show ?case by (simp add: assms(2))
next
  case (snoc x xs)
  then show ?case by (simp add: assms(1) comp_def)
qed

lemma initial_states_get:
  "bm_get (initial_states i) e =
    (if e \<in> me_endpoint_id ` set (di_endpoints i)
     then Some ((empty_desired e)\<lparr>ds_vlans := vlan_map (di_vlans i), ds_acls := acl_map (di_acls i),
          ds_delete_vlan_ids := bs_of_list (di_delete_vlan_ids i),
          ds_delete_acl_ids := bs_of_list (di_delete_acl_ids i)\<rparr>)
     else None)"
  unfolding initial_states_def by (rule bm_get_of_keys)

lemma bm_values_of_get:
  assumes "\<And>e. bm_get m e = (if e \<in> set ks then Some (f e) else None)"
  shows "bm_values m = map f (sorted_list_of_set (set ks))"
proof -
  have keys: "map fst (entries m) = sorted_list_of_set (set ks)"
    by (rule sorted_distinct_set_unique)
      (use bm.elements_sorted[of m] strict_sorted_iff bm.keys_elements[of m] assms
        in \<open>auto simp: dom_def split: if_splits\<close>)
  have "snd x = f (fst x)" if "x \<in> set (entries m)" for x
    using that assms[of "fst x"] bm.in_elements[of "fst x" "snd x" m] by (auto split: if_splits)
  then have "bm_values m = map f (map fst (entries m))" by (simp add: bm_values_def)
  then show ?thesis by (simp only: keys)
qed

text \<open>The states of a map that holds exactly the endpoints of the intent.\<close>

definition states_are :: "UnderlayDomainIntent \<Rightarrow> (DeviceId \<Rightarrow> DeviceDesiredState) \<Rightarrow> states \<Rightarrow> bool" where
  "states_are i s st \<longleftrightarrow>
     (\<forall>e. bm_get st e = (if e \<in> me_endpoint_id ` set (di_endpoints i) then Some (s e) else None))"

definition all_known :: "UnderlayDomainIntent \<Rightarrow> bool" where
  "all_known i \<longleftrightarrow>
     ii_device_id ` set (di_interfaces i) \<union> ixd_device_id ` set (di_delete_interfaces i) \<union>
     abi_device_id ` set (di_acl_bindings i) \<union> abi_device_id ` set (di_delete_acl_bindings i) \<union>
     bpi_device_id ` set (di_bgp_processes i) \<union> bni_device_id ` set (di_bgp_neighbors i) \<union>
     bpd_device_id ` set (di_delete_bgp_processes i) \<union> bnd_device_id ` set (di_delete_bgp_neighbors i)
     \<subseteq> member_id_set i"

lemma domain_intent_ok_known: "domain_intent_ok i \<Longrightarrow> members_ok i \<and> all_known i"
  by (auto simp: domain_intent_ok_def interfaces_ok_def interface_list_ok_def bindings_ok_def
      bgp_ok_def all_known_def)

lemma initial_states_are:
  "states_are i (\<lambda>e. (empty_desired e)\<lparr>ds_vlans := vlan_map (di_vlans i), ds_acls := acl_map (di_acls i),
      ds_delete_vlan_ids := bs_of_list (di_delete_vlan_ids i),
      ds_delete_acl_ids := bs_of_list (di_delete_acl_ids i)\<rparr>) (initial_states i)"
  unfolding states_are_def by (simp only: initial_states_get simp_thms)

text \<open>A step that succeeds on such a map and acts on each state by itself.\<close>

definition acts :: "UnderlayDomainIntent \<Rightarrow> (states \<Rightarrow> states result) \<Rightarrow>
    (DeviceId \<Rightarrow> DeviceDesiredState \<Rightarrow> DeviceDesiredState) \<Rightarrow> bool" where
  "acts i f g \<longleftrightarrow>
     (\<forall>s st. states_are i s st \<longrightarrow> (\<exists>st'. f st = Inr st' \<and> states_are i (\<lambda>e. g e (s e)) st'))"

lemma acts_and_then:
  "acts i f g \<Longrightarrow> acts i f' g' \<Longrightarrow> acts i (\<lambda>st. and_then (f st) f') (\<lambda>e s. g' e (g e s))"
  unfolding acts_def by (metis and_then_simps(2))

lemma loop_acts:
  assumes "members_ok i" "dev ` set xs \<subseteq> member_id_set i"
    and "\<And>g h s. upd g (upd h s) = upd (g \<circ> h) s" "\<And>s. upd (\<lambda>m. m) s = s"
  shows "acts i
    (\<lambda>st. try_fold (\<lambda>st x. update_member_state (member_to_endpoint i) subject (dev x) (upd (F x)) st) st xs)
    (\<lambda>e. upd (\<lambda>m. foldl (\<lambda>m x. F x m) m (owned i e dev xs)))"
  unfolding acts_def
proof (intro allI impI)
  fix s st assume "states_are i s st"
  then obtain st' where "try_fold (\<lambda>st x. update_member_state (member_to_endpoint i) subject (dev x) (upd (F x)) st) st xs = Inr st'"
    and "\<And>e. bm_get st' e = (if e \<in> me_endpoint_id ` set (di_endpoints i)
       then Some (foldl (\<lambda>s x. upd (F x) s) (s e) (owned i e dev xs)) else None)"
    using planned_loop[OF assms(1), of xs dev st s subject "\<lambda>x. upd (F x)"] assms(2)
    unfolding states_are_def by blast
  moreover have "foldl (\<lambda>s x. upd (F x) s) t ys = upd (\<lambda>m. foldl (\<lambda>m x. F x m) m ys) t" for t ys
    by (rule foldl_field) (rule assms)+
  ultimately show "\<exists>st'. try_fold (\<lambda>st x. update_member_state (member_to_endpoint i) subject (dev x) (upd (F x)) st) st xs = Inr st' \<and>
    states_are i (\<lambda>e. upd (\<lambda>m. foldl (\<lambda>m x. F x m) m (owned i e dev xs)) (s e)) st'"
    by (auto simp: states_are_def)
qed

lemma plan_loops_act:
  assumes m: "members_ok i" and k: "all_known i"
  shows
    "acts i (plan_interfaces (member_to_endpoint i) (di_interfaces i))
       (\<lambda>e. ds_interfaces_update (\<lambda>m. foldl (\<lambda>m x. bm_insert (ii_name x) (interface_intent_config x) m) m
          (owned i e ii_device_id (di_interfaces i))))"
    "acts i (plan_delete_interfaces (member_to_endpoint i) (di_delete_interfaces i))
       (\<lambda>e. ds_delete_interface_names_update (\<lambda>m. foldl (\<lambda>m x. bs_insert (ixd_name x) m) m
          (owned i e ixd_device_id (di_delete_interfaces i))))"
    "acts i (plan_acl_bindings (member_to_endpoint i) (di_acl_bindings i))
       (\<lambda>e. ds_acl_bindings_update (\<lambda>m. foldl (\<lambda>m x. bm_insert (ab_key (binding_intent_config x)) (binding_intent_config x) m) m
          (owned i e abi_device_id (di_acl_bindings i))))"
    "acts i (plan_delete_acl_bindings (member_to_endpoint i) (di_delete_acl_bindings i))
       (\<lambda>e. ds_delete_acl_bindings_update (\<lambda>m. foldl (\<lambda>m x. bm_insert (ab_key (binding_intent_config x)) (binding_intent_config x) m) m
          (owned i e abi_device_id (di_delete_acl_bindings i))))"
    "acts i (plan_bgp_processes (member_to_endpoint i) (di_bgp_processes i))
       (\<lambda>e. ds_bgp_processes_update (\<lambda>m. foldl (\<lambda>m x. bm_insert (bpi_vrf x) (bgp_process_intent_config x) m) m
          (owned i e bpi_device_id (di_bgp_processes i))))"
    "acts i (plan_bgp_neighbors (member_to_endpoint i) (di_bgp_neighbors i))
       (\<lambda>e. ds_bgp_neighbors_update (\<lambda>m. foldl (\<lambda>m x. bm_insert (bn_key (bgp_neighbor_intent_config x)) (bgp_neighbor_intent_config x) m) m
          (owned i e bni_device_id (di_bgp_neighbors i))))"
    "acts i (plan_delete_bgp_processes (member_to_endpoint i) (di_delete_bgp_processes i))
       (\<lambda>e. ds_delete_bgp_process_vrfs_update (\<lambda>m. foldl (\<lambda>m x. bs_insert (bpd_vrf x) m) m
          (owned i e bpd_device_id (di_delete_bgp_processes i))))"
    "acts i (plan_delete_bgp_neighbors (member_to_endpoint i) (di_delete_bgp_neighbors i))
       (\<lambda>e. ds_delete_bgp_neighbors_update (\<lambda>m. foldl (\<lambda>m x. bm_insert (bn_key (bgp_neighbor_delete_config x)) (bgp_neighbor_delete_config x) m) m
          (owned i e bnd_device_id (di_delete_bgp_neighbors i))))"
  unfolding plan_interfaces_def plan_delete_interfaces_def plan_acl_bindings_def
    plan_delete_acl_bindings_def plan_bgp_processes_def plan_bgp_neighbors_def
    plan_delete_bgp_processes_def plan_delete_bgp_neighbors_def
  by (rule loop_acts[OF m]; use k in \<open>simp add: all_known_def\<close>)+

lemma planned_state_eq:
  "planned_state i e =
   ds_delete_bgp_neighbors_update (\<lambda>m. foldl (\<lambda>m x. bm_insert (bn_key (bgp_neighbor_delete_config x)) (bgp_neighbor_delete_config x) m) m
     (owned i e bnd_device_id (di_delete_bgp_neighbors i)))
   (ds_delete_bgp_process_vrfs_update (\<lambda>m. foldl (\<lambda>m x. bs_insert (bpd_vrf x) m) m
     (owned i e bpd_device_id (di_delete_bgp_processes i)))
   (ds_bgp_neighbors_update (\<lambda>m. foldl (\<lambda>m x. bm_insert (bn_key (bgp_neighbor_intent_config x)) (bgp_neighbor_intent_config x) m) m
     (owned i e bni_device_id (di_bgp_neighbors i)))
   (ds_bgp_processes_update (\<lambda>m. foldl (\<lambda>m x. bm_insert (bpi_vrf x) (bgp_process_intent_config x) m) m
     (owned i e bpi_device_id (di_bgp_processes i)))
   (ds_delete_acl_bindings_update (\<lambda>m. foldl (\<lambda>m x. bm_insert (ab_key (binding_intent_config x)) (binding_intent_config x) m) m
     (owned i e abi_device_id (di_delete_acl_bindings i)))
   (ds_acl_bindings_update (\<lambda>m. foldl (\<lambda>m x. bm_insert (ab_key (binding_intent_config x)) (binding_intent_config x) m) m
     (owned i e abi_device_id (di_acl_bindings i)))
   (ds_delete_interface_names_update (\<lambda>m. foldl (\<lambda>m x. bs_insert (ixd_name x) m) m
     (owned i e ixd_device_id (di_delete_interfaces i)))
   (ds_interfaces_update (\<lambda>m. foldl (\<lambda>m x. bm_insert (ii_name x) (interface_intent_config x) m) m
     (owned i e ii_device_id (di_interfaces i)))
   ((empty_desired e)\<lparr>ds_vlans := vlan_map (di_vlans i), ds_acls := acl_map (di_acls i),
      ds_delete_vlan_ids := bs_of_list (di_delete_vlan_ids i),
      ds_delete_acl_ids := bs_of_list (di_delete_acl_ids i)\<rparr>))))))))"
  by (simp add: planned_state_def empty_desired_def bm_of_list_foldl bs_of_list_foldl)

lemma plan_underlay_domain_planned:
  "plan_underlay_domain i =
     (case validate_underlay_domain_intent i of
        Inl e \<Rightarrow> Inl e
      | Inr _ \<Rightarrow> Inr (map (planned_state i) (sorted_list_of_set (me_endpoint_id ` set (di_endpoints i)))))"
proof (cases "validate_underlay_domain_intent i")
  case (Inl e)
  then show ?thesis by (simp add: plan_underlay_domain_def)
next
  case (Inr u)
  then have "members_ok i" "all_known i"
    using domain_intent_ok_known[of i] by (simp_all flip: domain_intent_ok_validated)
  note a = plan_loops_act[OF this]
  note all = acts_and_then[OF a(1) acts_and_then[OF a(2) acts_and_then[OF a(3) acts_and_then[OF a(4)
      acts_and_then[OF a(5) acts_and_then[OF a(6) acts_and_then[OF a(7) a(8)]]]]]]]
  from all[unfolded acts_def, rule_format, OF initial_states_are]
  obtain st where st: "states_are i (planned_state i) st"
    "plan_underlay_domain i = Inr (bm_values st)"
    unfolding planned_state_eq[symmetric]
    by (auto simp: plan_underlay_domain_def Inr Let_def and_then_Inr_iff)
  then show ?thesis
    using bm_values_of_get[of st "map me_endpoint_id (di_endpoints i)" "planned_state i"] Inr
    by (simp add: states_are_def)
qed

section \<open>Properties\<close>

text \<open>C1: the planner refines its specification.  On an intent that validation rejects it
  returns that error; otherwise it never fails and returns exactly one desired state per
  management endpoint, in ascending order of endpoint id, and the state of an endpoint holds
  exactly the interfaces, bindings, BGP objects and deletes of the members it manages, plus
  the VLANs and ACLs of the whole domain.\<close>

theorem plan_underlay_domain_refines:
  "plan_underlay_domain i =
     (case validate_underlay_domain_intent i of
        Inl e \<Rightarrow> Inl e
      | Inr _ \<Rightarrow> Inr (map (planned_state i) (sorted_list_of_set (me_endpoint_id ` set (di_endpoints i)))))"
  by (rule plan_underlay_domain_planned)

end
