(* ===== verification/Atomic_File.thy ===== *)
theory Atomic_File
  imports Model
begin

text \<open>
  \<open>src/utils/atomic_file.rs\<close>: replace a file by writing a temporary file, syncing it,
  renaming it over the target and syncing the directory.  A directory is a map from file
  names to contents, lists of bytes of a type \<open>'b\<close>.  Every system call may fail; \<open>fault\<close> names the call that does and
  carries the operating system's message.  A failing write may have written any prefix of
  the payload.  The model returns the directory after the call, and the sequence of
  directories a crash could leave behind.
\<close>

type_synonym 'b dir = "(string, 'b list) bmap"

datatype io_step = CreateDirAll | OpenTmp | WriteAll nat | SyncAll | Rename | SyncParent

type_synonym io_fault = "(io_step \<times> string) option"

definition fails_at :: "io_fault \<Rightarrow> io_step \<Rightarrow> bool" where
  "fails_at fault s \<longleftrightarrow> map_option fst fault = Some s"

definition fault_text :: "io_fault \<Rightarrow> string" where
  "fault_text fault = (case fault of None \<Rightarrow> [] | Some (_, t) \<Rightarrow> t)"

definition unique_tmp_path :: "string \<Rightarrow> string \<Rightarrow> string" where
  "unique_tmp_path uuid file_name = ''.'' @ file_name @ ''.'' @ uuid @ ''.tmp''"

definition write_then_rename ::
  "io_fault \<Rightarrow> string \<Rightarrow> string \<Rightarrow> 'b list \<Rightarrow> (string \<Rightarrow> UnderlayError) \<Rightarrow> 'b dir \<Rightarrow> unit result \<times> 'b dir" where
  "write_then_rename fault path tmp_path payload io_error d =
     (let err = Inl (io_error (fault_text fault)) in
      if fails_at fault OpenTmp then (err, d)
      else case fault of
        Some (WriteAll n, _) \<Rightarrow> (err, bm_insert tmp_path (take n payload) d)
      | _ \<Rightarrow>
         (let d = bm_insert tmp_path payload d in
          if fails_at fault SyncAll \<or> fails_at fault Rename then (err, d)
          else (let d = bm_insert path payload (bm_remove tmp_path d) in
                if fails_at fault SyncParent then (err, d) else (Inr (), d))))"

definition atomic_write ::
  "io_fault \<Rightarrow> string \<Rightarrow> string \<Rightarrow> 'b list \<Rightarrow> (string \<Rightarrow> UnderlayError) \<Rightarrow> 'b dir \<Rightarrow> unit result \<times> 'b dir" where
  "atomic_write fault uuid path payload io_error d =
     (if fails_at fault CreateDirAll then (Inl (io_error (fault_text fault)), d)
      else (let tmp_path = unique_tmp_path uuid path;
                (result, d') = write_then_rename fault path tmp_path payload io_error d in
            if is_err result then (result, bm_remove tmp_path d') else (result, d')))"

text \<open>The directories a crash can leave: before the call, with a partial or whole temporary
  file, and after the rename.\<close>

definition crash_states :: "string \<Rightarrow> string \<Rightarrow> 'b list \<Rightarrow> 'b dir \<Rightarrow> 'b dir list" where
  "crash_states uuid path payload d =
     (let tmp_path = unique_tmp_path uuid path in
      [d] @ map (\<lambda>n. bm_insert tmp_path (take n payload) d) [0..<length payload + 1] @
      [bm_insert path payload (bm_remove tmp_path (bm_insert tmp_path payload d))])"

lemma tmp_path_neq: "unique_tmp_path uuid path \<noteq> path"
proof
  assume "unique_tmp_path uuid path = path"
  then have "length (unique_tmp_path uuid path) = length path" by (rule arg_cong)
  then show False by (simp add: unique_tmp_path_def)
qed

lemmas tmp_path_neqs [simp] = tmp_path_neq tmp_path_neq[symmetric]

text \<open>Where a fault hits decides whether the target holds the new payload.\<close>

definition replaced :: "io_fault \<Rightarrow> bool" where
  "replaced fault \<longleftrightarrow> fault = None \<or> fails_at fault SyncParent"

lemma atomic_write_get:
  assumes "name \<noteq> unique_tmp_path uuid path"
  shows "bm_get (snd (atomic_write fault uuid path payload io_error d)) name =
    (if name = path \<and> replaced fault then Some payload else bm_get d name)"
proof (cases fault)
  case None
  then show ?thesis using assms
    by (simp add: atomic_write_def write_then_rename_def fails_at_def replaced_def Let_def
        bm_get_insert bm_get_remove)
next
  case (Some f)
  obtain s t where "f = (s, t)" by (cases f)
  with Some show ?thesis using assms
    by (cases s) (simp_all add: atomic_write_def write_then_rename_def fails_at_def replaced_def Let_def
        bm_get_insert bm_get_remove)
qed

lemma atomic_write_result:
  "fst (atomic_write fault uuid path payload io_error d) =
    (if fault = None then Inr () else Inl (io_error (fault_text fault)))"
proof (cases fault)
  case None
  then show ?thesis
    by (simp add: atomic_write_def write_then_rename_def fails_at_def Let_def)
next
  case (Some f)
  obtain s t where "f = (s, t)" by (cases f)
  with Some show ?thesis
    by (cases s) (simp_all add: atomic_write_def write_then_rename_def fails_at_def Let_def)
qed

text \<open>The temporary name never survives, whatever the outcome.\<close>

lemma atomic_write_tmp:
  assumes "bm_get d (unique_tmp_path uuid path) = None"
  shows "bm_get (snd (atomic_write fault uuid path payload io_error d)) (unique_tmp_path uuid path) = None"
proof (cases fault)
  case None
  then show ?thesis
    by (simp add: atomic_write_def write_then_rename_def fails_at_def Let_def bm_get_insert bm_get_remove)
next
  case (Some f)
  obtain s t where "f = (s, t)" by (cases f)
  with Some assms show ?thesis
    by (cases s) (simp_all add: atomic_write_def write_then_rename_def fails_at_def Let_def
        bm_get_insert bm_get_remove)
qed

section \<open>Properties\<close>



end
