(* ===== verification/Shadow.thy ===== *)
theory Shadow
  imports Plan Atomic_File
begin

text \<open>
  Shadow states and their stores (\<open>src/state/shadow.rs\<close>).  The trait \<open>ShadowStateStore\<close> is
  the locale \<open>shadow_store\<close>: its laws are what the callers rely on, and both
  implementations are interpretations.  The file store takes the JSON codec
  (\<open>serde_json\<close>) as a parameter with its round trip as the hypothesis.
\<close>

section \<open>Shadow states\<close>

record DeviceShadowState =
  ss_device_id :: DeviceId
  ss_revision :: u64
  ss_vlans :: "(u16, VlanConfig) bmap"
  ss_interfaces :: "(string, InterfaceConfig) bmap"
  ss_acls :: "(u16, AclConfig) bmap"
  ss_acl_bindings :: "(string, AclBinding) bmap"
  ss_bgp_processes :: "(string, BgpProcess) bmap"
  ss_bgp_neighbors :: "(string, BgpNeighbor) bmap"
  ss_warnings :: "string list"

definition from_desired :: "DeviceDesiredState \<Rightarrow> u64 \<Rightarrow> DeviceShadowState" where
  "from_desired d revision =
     \<lparr>ss_device_id = ds_device_id d, ss_revision = revision, ss_vlans = ds_vlans d,
      ss_interfaces = ds_interfaces d, ss_acls = ds_acls d, ss_acl_bindings = ds_acl_bindings d,
      ss_bgp_processes = ds_bgp_processes d, ss_bgp_neighbors = ds_bgp_neighbors d,
      ss_warnings = []\<rparr>"

definition with_revision :: "DeviceShadowState \<Rightarrow> u64 \<Rightarrow> DeviceShadowState" where
  "with_revision s revision = s\<lparr>ss_revision := revision\<rparr>"

definition missing_shadow_state :: "DeviceId \<Rightarrow> UnderlayError" where
  "missing_shadow_state d = InvalidDeviceState (''missing shadow state for device '' @ d)"

text \<open>\<open>u64::saturating_add(1)\<close>.\<close>

definition sat_inc :: "u64 \<Rightarrow> u64" where
  "sat_inc w = (if w = - 1 then w else w + 1)"

text \<open>The revision a put assigns, given what is stored.\<close>

definition next_revision :: "DeviceShadowState option \<Rightarrow> u64 \<Rightarrow> u64" where
  "next_revision current revision =
     (case current of Some c \<Rightarrow> sat_inc (ss_revision c) | None \<Rightarrow> max revision 1)"

lemma sat_inc_unat: "unat (sat_inc w) = (if w = - 1 then unat w else Suc (unat w))"
  by (simp add: sat_inc_def unatSuc add.commute[of w] add_eq_0_iff)

lemma sat_inc_ge: "w \<le> sat_inc w"
  by (simp add: word_le_nat_alt sat_inc_unat)

lemma sat_inc_pos: "1 \<le> sat_inc w"
proof (cases "w = - 1")
  case True
  then show ?thesis by (simp add: sat_inc_def)
next
  case False
  then show ?thesis by (simp add: word_le_nat_alt sat_inc_unat)
qed

section \<open>The trait\<close>

text \<open>A store call returns its result and the store.  \<open>inv\<close> is the representation
  invariant.\<close>

locale shadow_store =
  fixes inv :: "'s \<Rightarrow> bool"
    and lookup :: "DeviceId \<Rightarrow> 's \<Rightarrow> DeviceShadowState option result"
    and store :: "DeviceShadowState \<Rightarrow> 's \<Rightarrow> DeviceShadowState result \<times> 's"
  assumes store_inv: "inv s \<Longrightarrow> inv (snd (store st s))"
    and store_ok: "inv s \<Longrightarrow> store st s = (Inr st', s') \<Longrightarrow>
        \<exists>c. lookup (ss_device_id st) s = Inr c \<and>
            st' = st\<lparr>ss_revision := next_revision c (ss_revision st)\<rparr> \<and>
            lookup (ss_device_id st) s' = Inr (Some st')"
    and store_frame: "inv s \<Longrightarrow> d \<noteq> ss_device_id st \<Longrightarrow> lookup d (snd (store st s)) = lookup d s"
    and store_err: "inv s \<Longrightarrow> store st s = (Inl e, s') \<Longrightarrow>
        lookup (ss_device_id st) s' = lookup (ss_device_id st) s \<or>
        (\<exists>c. lookup (ss_device_id st) s = Inr c \<and> lookup (ss_device_id st) s' =
          Inr (Some (st\<lparr>ss_revision := next_revision c (ss_revision st)\<rparr>)))"
begin

text \<open>The revision of a device in the store, 0 if it has none.\<close>

definition rev_of :: "DeviceId \<Rightarrow> 's \<Rightarrow> u64" where
  "rev_of d s = (case lookup d s of Inr (Some st) \<Rightarrow> ss_revision st | _ \<Rightarrow> 0)"

lemma store_then_lookup:
  assumes "inv s" "store st s = (Inr st', s')"
  shows "lookup (ss_device_id st) s' = Inr (Some st')"
  using store_ok[OF assms] by blast

lemma store_revision:
  assumes "inv s" "store st s = (Inr st', s')"
  shows "rev_of (ss_device_id st) s \<le> ss_revision st' \<and> 1 \<le> ss_revision st'"
proof -
  obtain c where c: "lookup (ss_device_id st) s = Inr c"
    "ss_revision st' = next_revision c (ss_revision st)"
    using store_ok[OF assms] by auto
  then show ?thesis
    by (cases c) (simp_all add: rev_of_def next_revision_def sat_inc_ge sat_inc_pos)
qed

lemma rev_mono: "inv s \<Longrightarrow> rev_of d s \<le> rev_of d (snd (store st s))"
proof (cases "d = ss_device_id st")
  case False
  moreover assume "inv s"
  ultimately show ?thesis by (simp add: rev_of_def store_frame)
next
  case True
  assume i: "inv s"
  obtain r s' where rs: "store st s = (r, s')" by (cases "store st s")
  show ?thesis
  proof (cases r)
    case (Inl e)
    with store_err[OF i] rs True show ?thesis
      by (fastforce simp: rev_of_def next_revision_def sat_inc_ge split: option.splits)
  next
    case (Inr st')
    with rs have "store st s = (Inr st', s')" by simp
    from store_revision[OF i this] store_then_lookup[OF i this] rs True show ?thesis
      by (simp add: rev_of_def)
  qed
qed

text \<open>Any sequence of puts.\<close>

definition store_all :: "DeviceShadowState list \<Rightarrow> 's \<Rightarrow> 's" where
  "store_all sts s = foldl (\<lambda>s st. snd (store st s)) s sts"

lemma store_all_inv: "inv s \<Longrightarrow> inv (store_all sts s)"
  unfolding store_all_def by (induction sts arbitrary: s) (auto dest: store_inv)

lemma store_all_rev_mono: "inv s \<Longrightarrow> rev_of d s \<le> rev_of d (store_all sts s)"
  unfolding store_all_def
proof (induction sts arbitrary: s)
  case (Cons st sts)
  from rev_mono[OF Cons.prems, of d st] Cons.IH[OF store_inv[OF Cons.prems], of st]
  show ?case by simp
qed simp

end

section \<open>The in-memory store\<close>

type_synonym memory_shadow = "(DeviceId, DeviceShadowState) bmap"

definition shadow_get :: "DeviceId \<Rightarrow> memory_shadow \<Rightarrow> DeviceShadowState option result" where
  "shadow_get d s = Inr (bm_get s d)"

definition shadow_put :: "DeviceShadowState \<Rightarrow> memory_shadow \<Rightarrow> DeviceShadowState result \<times> memory_shadow" where
  "shadow_put state s =
     (case bm_get s (ss_device_id state) of
        Some c \<Rightarrow>
          (let state = state\<lparr>ss_revision := sat_inc (ss_revision c)\<rparr> in
           (Inr state, bm_insert (ss_device_id state) state s))
      | None \<Rightarrow>
          (let state = state\<lparr>ss_revision := max (ss_revision state) 1\<rparr> in
           (Inr state, bm_insert (ss_device_id state) state s)))"

definition shadow_remove ::
  "DeviceId \<Rightarrow> memory_shadow \<Rightarrow> DeviceShadowState option result \<times> memory_shadow" where
  "shadow_remove d s = (Inr (bm_get s d), bm_remove d s)"

definition shadow_list :: "memory_shadow \<Rightarrow> DeviceShadowState list result" where
  "shadow_list s = Inr (sort_key ss_device_id (bm_values s))"

definition memory_inv :: "memory_shadow \<Rightarrow> bool" where
  "memory_inv s \<longleftrightarrow> (\<forall>d st. bm_get s d = Some st \<longrightarrow> ss_device_id st = d)"

lemma shadow_put_eq:
  "shadow_put st s =
     (let st' = st\<lparr>ss_revision := next_revision (bm_get s (ss_device_id st)) (ss_revision st)\<rparr> in
      (Inr st', bm_insert (ss_device_id st) st' s))"
  by (simp add: shadow_put_def next_revision_def Let_def split: option.split)

interpretation mem: shadow_store memory_inv shadow_get shadow_put
  by unfold_locales
    (auto simp: shadow_put_eq shadow_get_def memory_inv_def bm_get_insert Let_def split: if_splits)

section \<open>The file store\<close>

text \<open>One file per device in the root directory.  \<open>enc\<close> and \<open>dec\<close> are the JSON codec, \<open>uuid\<close>
  names the temporary file and \<open>fault\<close> is the outcome of the file system calls of one write.\<close>

definition validate_shadow_device_id :: "DeviceId \<Rightarrow> unit result" where
  "validate_shadow_device_id d =
     ensure (is_canonical d)
       (InvalidDeviceState (''device_id '' @ d @ '' is invalid for file shadow store: '' @ canonical_rule))"

definition shadow_path_for :: "DeviceId \<Rightarrow> string result" where
  "shadow_path_for d = and_then (validate_shadow_device_id d) (\<lambda>_. Inr (d @ ''.json''))"

definition shadow_io_error :: "string \<Rightarrow> UnderlayError" where
  "shadow_io_error err = Internal (''shadow state io error: '' @ err)"

definition read_shadow_state ::
  "('b list \<Rightarrow> string + DeviceShadowState) \<Rightarrow> string \<Rightarrow> 'b list \<Rightarrow> DeviceShadowState result" where
  "read_shadow_state dec path payload =
     map_err (\<lambda>err. Internal (''parse shadow state '' @ debug_str path @ '': '' @ err)) (dec payload)"

definition file_shadow_get ::
  "('b list \<Rightarrow> string + DeviceShadowState) \<Rightarrow> DeviceId \<Rightarrow> 'b dir \<Rightarrow> DeviceShadowState option result" where
  "file_shadow_get dec d files =
     and_then (shadow_path_for d) (\<lambda>path.
     case bm_get files path of
       None \<Rightarrow> Inr None
     | Some payload \<Rightarrow> and_then (read_shadow_state dec path payload) (\<lambda>st. Inr (Some st)))"

definition file_shadow_put ::
  "(DeviceShadowState \<Rightarrow> 'b list) \<Rightarrow> ('b list \<Rightarrow> string + DeviceShadowState) \<Rightarrow> io_fault \<Rightarrow> string \<Rightarrow>
   DeviceShadowState \<Rightarrow> 'b dir \<Rightarrow> DeviceShadowState result \<times> 'b dir" where
  "file_shadow_put enc dec fault uuid state files =
     (case file_shadow_get dec (ss_device_id state) files of
        Inl e \<Rightarrow> (Inl e, files)
      | Inr current \<Rightarrow>
         (let state = state\<lparr>ss_revision := next_revision current (ss_revision state)\<rparr> in
          case shadow_path_for (ss_device_id state) of
            Inl e \<Rightarrow> (Inl e, files)
          | Inr path \<Rightarrow>
             (case atomic_write fault uuid path (enc state) shadow_io_error files of
                (Inl e, files') \<Rightarrow> (Inl e, files')
              | (Inr _, files') \<Rightarrow> (Inr state, files'))))"

definition file_shadow_remove ::
  "('b list \<Rightarrow> string + DeviceShadowState) \<Rightarrow> DeviceId \<Rightarrow> 'b dir \<Rightarrow> DeviceShadowState option result \<times> 'b dir" where
  "file_shadow_remove dec d files =
     (case shadow_path_for d of
        Inl e \<Rightarrow> (Inl e, files)
      | Inr path \<Rightarrow>
         (case bm_get files path of
            None \<Rightarrow> (Inr None, files)
          | Some payload \<Rightarrow>
             (case read_shadow_state dec path payload of
                Inl e \<Rightarrow> (Inl e, files)
              | Inr st \<Rightarrow> (Inr (Some st), bm_remove path files))))"

text \<open>\<open>Path::extension\<close>: what follows the last dot, if the dot is not the first character.\<close>

definition file_extension :: "string \<Rightarrow> string option" where
  "file_extension name =
     (let ext = rev (takeWhile (\<lambda>c. c \<noteq> CHR ''.'') (rev name)) in
      if length ext < length name - 1 then Some ext else None)"

definition file_shadow_list ::
  "('b list \<Rightarrow> string + DeviceShadowState) \<Rightarrow> 'b dir \<Rightarrow> DeviceShadowState list result" where
  "file_shadow_list dec files =
     and_then (try_map (\<lambda>(path, payload). read_shadow_state dec path payload)
       (filter (\<lambda>(path, _). file_extension path = Some ''json'') (entries files))) (\<lambda>states.
     Inr (sort_key ss_device_id states))"

text \<open>The codec the file store relies on.\<close>

locale shadow_codec =
  fixes enc :: "DeviceShadowState \<Rightarrow> 'b list"
    and dec :: "'b list \<Rightarrow> string + DeviceShadowState"
  assumes dec_enc: "dec (enc st) = Inr st"

lemma canonical_no_dot: "is_canonical_identifier s \<Longrightarrow> CHR ''.'' \<notin> set s"
proof -
  have "\<not> is_ascii_alphanumeric (CHR ''.'')" by code_simp
  moreover assume "is_canonical_identifier s"
  ultimately show ?thesis by (auto simp: is_canonical_identifier_def list_all_iff)
qed

lemma shadow_path_for_Inr:
  "shadow_path_for d = Inr p \<longleftrightarrow> is_canonical d \<and> p = d @ ''.json''"
  by (auto simp: shadow_path_for_def validate_shadow_device_id_def and_then_Inr_iff ensure_eq_iff)

lemma shadow_path_no_tmp:
  assumes "is_canonical d"
  shows "d @ ''.json'' \<noteq> unique_tmp_path uuid path"
proof
  assume "d @ ''.json'' = unique_tmp_path uuid path"
  then have "hd (d @ ''.json'') = CHR ''.''" by (simp add: unique_tmp_path_def)
  moreover have "d \<noteq> []" "CHR ''.'' \<notin> set d"
    using assms canonical_no_dot[of d] by (simp_all add: is_canonical_def is_canonical_identifier_def)
  then have "d \<noteq> []" "hd d \<noteq> CHR ''.''" by (metis hd_in_set)+
  ultimately show False by simp
qed

lemma file_get_after_write:
  assumes "is_canonical d"
  shows "bm_get (snd (atomic_write fault uuid path payload io_error files)) (d @ ''.json'') =
    (if d @ ''.json'' = path \<and> replaced fault then Some payload else bm_get files (d @ ''.json''))"
  by (rule atomic_write_get[OF shadow_path_no_tmp[OF assms]])

lemma file_shadow_put_cases:
  "file_shadow_put enc dec fault uuid st files =
     (case file_shadow_get dec (ss_device_id st) files of
        Inl e \<Rightarrow> (Inl e, files)
      | Inr c \<Rightarrow>
         (let st' = st\<lparr>ss_revision := next_revision c (ss_revision st)\<rparr>;
              (r, files') = atomic_write fault uuid (ss_device_id st @ ''.json'') (enc st') shadow_io_error files in
          (if fault = None then Inr st' else Inl (shadow_io_error (fault_text fault)), files')))"
proof (cases "is_canonical (ss_device_id st)")
  case False
  then have "file_shadow_get dec (ss_device_id st) files =
      Inl (InvalidDeviceState (''device_id '' @ ss_device_id st @ '' is invalid for file shadow store: '' @ canonical_rule))"
    by (simp add: file_shadow_get_def shadow_path_for_def validate_shadow_device_id_def)
  then show ?thesis by (simp add: file_shadow_put_def)
next
  case True
  then have p: "shadow_path_for (ss_device_id st) = Inr (ss_device_id st @ ''.json'')"
    by (simp add: shadow_path_for_Inr)
  show ?thesis
  proof (cases "file_shadow_get dec (ss_device_id st) files")
    case (Inr c)
    let ?st' = "st\<lparr>ss_revision := next_revision c (ss_revision st)\<rparr>"
    obtain files' where "atomic_write fault uuid (ss_device_id st @ ''.json'') (enc ?st') shadow_io_error files =
        (if fault = None then Inr () else Inl (shadow_io_error (fault_text fault)), files')"
      using atomic_write_result[of fault uuid "ss_device_id st @ ''.json''" "enc ?st'" shadow_io_error files]
      by (cases "atomic_write fault uuid (ss_device_id st @ ''.json'') (enc ?st') shadow_io_error files") simp
    with p Inr show ?thesis by (simp add: file_shadow_put_def Let_def)
  qed (simp add: file_shadow_put_def)
qed

lemma file_shadow_put_snd:
  "snd (file_shadow_put enc dec fault uuid st files) =
     (case file_shadow_get dec (ss_device_id st) files of
        Inl e \<Rightarrow> files
      | Inr c \<Rightarrow> snd (atomic_write fault uuid (ss_device_id st @ ''.json'')
          (enc (st\<lparr>ss_revision := next_revision c (ss_revision st)\<rparr>)) shadow_io_error files))"
  by (simp add: file_shadow_put_cases Let_def case_prod_beta split: sum.split)

lemma file_shadow_put_fst:
  "fst (file_shadow_put enc dec fault uuid st files) =
     (case file_shadow_get dec (ss_device_id st) files of
        Inl e \<Rightarrow> Inl e
      | Inr c \<Rightarrow> if fault = None then Inr (st\<lparr>ss_revision := next_revision c (ss_revision st)\<rparr>)
                 else Inl (shadow_io_error (fault_text fault)))"
  by (simp add: file_shadow_put_cases Let_def case_prod_beta split: sum.split)

lemma file_shadow_get_path:
  "is_canonical d \<Longrightarrow> file_shadow_get dec d files =
     (case bm_get files (d @ ''.json'') of
        None \<Rightarrow> Inr None
      | Some payload \<Rightarrow> and_then (read_shadow_state dec (d @ ''.json'') payload) (\<lambda>st. Inr (Some st)))"
  "\<not> is_canonical d \<Longrightarrow> file_shadow_get dec d files = file_shadow_get dec d files'"
  by (simp_all add: file_shadow_get_def shadow_path_for_def validate_shadow_device_id_def)

lemma file_shadow_get_Inr_canonical: "file_shadow_get dec d files = Inr c \<Longrightarrow> is_canonical d"
  by (auto simp: file_shadow_get_def and_then_Inr_iff shadow_path_for_Inr)

lemma file_shadow_put_get:
  assumes "\<And>st. dec (enc st) = Inr st"
    and "file_shadow_get dec (ss_device_id st) files = Inr c"
  shows "file_shadow_get dec (ss_device_id st) (snd (file_shadow_put enc dec fault uuid st files)) =
    (if replaced fault then Inr (Some (st\<lparr>ss_revision := next_revision c (ss_revision st)\<rparr>)) else Inr c)"
proof -
  have can: "is_canonical (ss_device_id st)" by (rule file_shadow_get_Inr_canonical[OF assms(2)])
  let ?st' = "st\<lparr>ss_revision := next_revision c (ss_revision st)\<rparr>"
  have "bm_get (snd (file_shadow_put enc dec fault uuid st files)) (ss_device_id st @ ''.json'') =
      (if replaced fault then Some (enc ?st') else bm_get files (ss_device_id st @ ''.json''))"
    by (simp add: file_shadow_put_snd assms(2) file_get_after_write[OF can])
  then show ?thesis
    using assms(2) by (simp add: file_shadow_get_path(1)[OF can] read_shadow_state_def assms(1))
qed

lemma file_shadow_put_frame:
  assumes "d \<noteq> ss_device_id st"
  shows "file_shadow_get dec d (snd (file_shadow_put enc dec fault uuid st files)) = file_shadow_get dec d files"
proof (cases "is_canonical d")
  case True
  then show ?thesis
    using assms by (simp add: file_shadow_put_snd file_shadow_get_path(1) file_get_after_write
        split: sum.split)
next
  case False
  then show ?thesis by (rule file_shadow_get_path(2))
qed

sublocale shadow_codec \<subseteq> on_disk: shadow_store "\<lambda>_. True" "file_shadow_get dec" "file_shadow_put enc dec fault uuid"
  for fault uuid
proof
  fix s :: "'b dir" and st st' s'
  assume put: "file_shadow_put enc dec fault uuid st s = (Inr st', s')"
  then have r: "fst (file_shadow_put enc dec fault uuid st s) = Inr st'" by simp
  then obtain c where c: "file_shadow_get dec (ss_device_id st) s = Inr c"
    by (auto simp: file_shadow_put_fst split: sum.splits)
  with r have "fault = None" "st' = st\<lparr>ss_revision := next_revision c (ss_revision st)\<rparr>"
    by (auto simp: file_shadow_put_fst split: if_splits)
  with file_shadow_put_get[OF dec_enc c, of fault uuid] put c
  show "\<exists>c. file_shadow_get dec (ss_device_id st) s = Inr c \<and>
       st' = st\<lparr>ss_revision := next_revision c (ss_revision st)\<rparr> \<and>
       file_shadow_get dec (ss_device_id st) s' = Inr (Some st')"
    by (simp add: replaced_def)
next
  fix s :: "'b dir" and st e s'
  assume put: "file_shadow_put enc dec fault uuid st s = (Inl e, s')"
  show "file_shadow_get dec (ss_device_id st) s' = file_shadow_get dec (ss_device_id st) s \<or>
     (\<exists>c. file_shadow_get dec (ss_device_id st) s = Inr c \<and>
       file_shadow_get dec (ss_device_id st) s' =
         Inr (Some (st\<lparr>ss_revision := next_revision c (ss_revision st)\<rparr>)))"
  proof (cases "file_shadow_get dec (ss_device_id st) s")
    case (Inl a)
    with put show ?thesis by (simp add: file_shadow_put_cases)
  next
    case (Inr c)
    from file_shadow_put_get[OF dec_enc Inr, of fault uuid] put Inr show ?thesis
      by (simp split: if_splits)
  qed
qed (simp_all add: file_shadow_put_frame)

text \<open>Contents kept verbatim, the trivial codec.\<close>

definition verbatim_enc :: "'a \<Rightarrow> 'a list" where
  "verbatim_enc s = [s]"

definition verbatim_dec :: "'a list \<Rightarrow> string + 'a" where
  "verbatim_dec p = (case p of [s] \<Rightarrow> Inr s | _ \<Rightarrow> Inl ''EOF while parsing'')"

interpretation verbatim: shadow_codec verbatim_enc verbatim_dec
  by unfold_locales (simp add: verbatim_enc_def verbatim_dec_def)

section \<open>Properties\<close>

lemma shadow_put_get:
  "bm_get (snd (shadow_put st s)) d =
     (if d = ss_device_id st then Some (st\<lparr>ss_revision := next_revision (bm_get s d) (ss_revision st)\<rparr>)
      else bm_get s d)"
  by (simp add: shadow_put_eq Let_def bm_get_insert)

text \<open>The in-memory shadow store after any sequence of puts.  A device that is stored
  stays stored; its revision has advanced by one for every put to it, saturating at the
  largest 64-bit value; and its content is that of the last put to it.  In particular
  revisions never decrease, whatever revision the callers put.\<close>

theorem shadow_put_sequence:
  assumes "shadow_get d s = Inr (Some a)"
  shows "let ps = filter (\<lambda>st. ss_device_id st = d) sts;
             revision = (sat_inc ^^ length ps) (ss_revision a) in
    shadow_get d (foldl (\<lambda>s st. snd (shadow_put st s)) s sts) =
      Inr (Some ((if ps = [] then a else last ps)\<lparr>ss_revision := revision\<rparr>)) \<and>
    ss_revision a \<le> revision"
  using assms
proof (induction sts arbitrary: s a)
  case Nil
  then show ?case by (simp add: shadow_get_def)
next
  case (Cons st sts)
  let ?a = "if ss_device_id st = d then st\<lparr>ss_revision := sat_inc (ss_revision a)\<rparr> else a"
  have "shadow_get d (snd (shadow_put st s)) = Inr (Some ?a)"
    using Cons.prems by (auto simp: shadow_get_def shadow_put_get next_revision_def)
  note IH = Cons.IH[OF this]
  let ?ps = "filter (\<lambda>st. ss_device_id st = d) sts"
  show ?case
  proof (cases "ss_device_id st = d")
    case False
    with IH show ?thesis by (simp add: Let_def)
  next
    case True
    have "shadow_get d (foldl (\<lambda>s st. snd (shadow_put st s)) s (st # sts)) =
        Inr (Some ((if ?ps = [] then st else last ?ps)
          \<lparr>ss_revision := (sat_inc ^^ length ?ps) (sat_inc (ss_revision a))\<rparr>))"
      using IH True by (simp add: Let_def)
    moreover have "sat_inc (ss_revision a) \<le> (sat_inc ^^ length ?ps) (sat_inc (ss_revision a))"
      using IH True by (simp add: Let_def)
    then have "ss_revision a \<le> (sat_inc ^^ length ?ps) (sat_inc (ss_revision a))"
      by (rule order_trans[OF sat_inc_ge])
    moreover have "(sat_inc ^^ length (st # ?ps)) (ss_revision a) = (sat_inc ^^ length ?ps) (sat_inc (ss_revision a))"
      by (simp add: funpow_Suc_right del: funpow.simps(2))
    ultimately show ?thesis using True by (simp add: Let_def del: funpow.simps)
  qed
qed

theorem shadow_put_sequence_witness:
  "let st = from_desired (empty_desired ''sw1'') 0;
       s = snd (shadow_put st bm_empty);
       s' = foldl (\<lambda>s st. snd (shadow_put st s)) s [st, from_desired (empty_desired ''sw2'') 9, st] in
   shadow_get ''sw1'' s' = Inr (Some (st\<lparr>ss_revision := 3\<rparr>))"
proof -
  let ?st = "from_desired (empty_desired ''sw1'') 0"
  let ?sts = "[?st, from_desired (empty_desired ''sw2'') 9, ?st]"
  have "shadow_get ''sw1'' (snd (shadow_put ?st bm_empty)) = Inr (Some (?st\<lparr>ss_revision := 1\<rparr>))"
    by (simp add: shadow_get_def shadow_put_get next_revision_def from_desired_def empty_desired_def)
  note seq = shadow_put_sequence[OF this, of ?sts]
  have "filter (\<lambda>st. ss_device_id st = ''sw1'') ?sts = [?st, ?st]"
    by (simp add: from_desired_def empty_desired_def)
  moreover have "(sat_inc ^^ 2) (ss_revision (?st\<lparr>ss_revision := 1\<rparr>)) = 3" by code_simp
  ultimately show ?thesis using seq by (simp add: Let_def numeral_2_eq_2)
qed



end
