(* ===== verification/Normalize.thy ===== *)
theory Normalize
  imports Shadow
begin

text \<open>
  \<open>src/engine/normalize.rs\<close>.  The trait \<open>Normalize\<close> with the key under which a map stores a
  value is the locale \<open>keyed_normal\<close>; what the engine needs of it is that normalising is
  idempotent, which is proved once for the re-keyed maps and holds for the six kinds of
  objects.
\<close>

section \<open>Normal forms of single objects\<close>

definition none_if_empty :: "string option \<Rightarrow> string option" where
  "none_if_empty s = (if s = Some [] then None else s)"

definition normalize_vlan :: "VlanConfig \<Rightarrow> VlanConfig" where
  "normalize_vlan v =
     v\<lparr>vc_name := none_if_empty (vc_name v), vc_description := none_if_empty (vc_description v)\<rparr>"

definition strip_prefix :: "string \<Rightarrow> string \<Rightarrow> string option" where
  "strip_prefix p s = (if prefix p s then Some (drop (length p) s) else None)"

definition canonical_interface_name :: "string \<Rightarrow> string" where
  "canonical_interface_name name =
     (let trimmed = trim name in
      case strip_prefix ''GigabitEthernet'' trimmed of
        Some rest \<Rightarrow> ''GE'' @ rest
      | None \<Rightarrow>
         (case strip_prefix ''Ten-GigabitEthernet'' trimmed of
            Some rest \<Rightarrow> ''XGE'' @ rest
          | None \<Rightarrow>
             (case strip_prefix ''FortyGigE'' trimmed of
                Some rest \<Rightarrow> ''FGE'' @ rest
              | None \<Rightarrow> trimmed)))"

definition normalize_mode :: "PortMode \<Rightarrow> PortMode" where
  "normalize_mode m =
     (case m of
        Access v \<Rightarrow> Access v
      | Trunk native allowed \<Rightarrow> Trunk native (remdups_adj (sort allowed)))"

definition normalize_interface :: "InterfaceConfig \<Rightarrow> InterfaceConfig" where
  "normalize_interface i =
     i\<lparr>ic_name := canonical_interface_name (ic_name i),
       ic_description := none_if_empty (ic_description i),
       ic_mode := normalize_mode (ic_mode i)\<rparr>"

definition normalize_acl_rule :: "AclRule \<Rightarrow> AclRule" where
  "normalize_acl_rule r = r\<lparr>ar_description := none_if_empty (ar_description r)\<rparr>"

definition normalize_acl :: "AclConfig \<Rightarrow> AclConfig" where
  "normalize_acl a =
     a\<lparr>ac_name := none_if_empty (ac_name a), ac_description := none_if_empty (ac_description a),
       ac_rules := sort_key ar_sequence (map normalize_acl_rule (ac_rules a))\<rparr>"

definition normalize_acl_binding :: "AclBinding \<Rightarrow> AclBinding" where
  "normalize_acl_binding b =
     b\<lparr>ab_interface_name := canonical_interface_name (ab_interface_name b)\<rparr>"

definition normalize_bgp_process :: "BgpProcess \<Rightarrow> BgpProcess" where
  "normalize_bgp_process p =
     p\<lparr>bp_vrf := trim (bp_vrf p), bp_router_id := none_if_empty (bp_router_id p)\<rparr>"

definition normalize_bgp_neighbor :: "BgpNeighbor \<Rightarrow> BgpNeighbor" where
  "normalize_bgp_neighbor n =
     n\<lparr>bn_vrf := trim (bn_vrf n), bn_address := trim (bn_address n),
       bn_description := none_if_empty (bn_description n),
       bn_import_policy := none_if_empty (bn_import_policy n),
       bn_export_policy := none_if_empty (bn_export_policy n)\<rparr>"

section \<open>Normal forms of states\<close>

text \<open>\<open>into_values().map(normalize).map(|v| (key, v)).collect()\<close>.\<close>

definition rekey :: "('v \<Rightarrow> 'v) \<Rightarrow> ('v \<Rightarrow> 'k::linorder) \<Rightarrow> ('k, 'v) bmap \<Rightarrow> ('k, 'v) bmap" where
  "rekey norm key m = bm_of_list (map (\<lambda>v. let v' = norm v in (key v', v')) (bm_values m))"

definition normalize_desired_state :: "DeviceDesiredState \<Rightarrow> DeviceDesiredState" where
  "normalize_desired_state s =
     s\<lparr>ds_vlans := rekey normalize_vlan vc_vlan_id (ds_vlans s),
       ds_interfaces := rekey normalize_interface ic_name (ds_interfaces s),
       ds_delete_interface_names :=
         bs_of_list (map canonical_interface_name (bs_elems (ds_delete_interface_names s))),
       ds_acls := rekey normalize_acl ac_acl_id (ds_acls s),
       ds_acl_bindings := rekey normalize_acl_binding ab_key (ds_acl_bindings s),
       ds_delete_acl_bindings := rekey normalize_acl_binding ab_key (ds_delete_acl_bindings s),
       ds_route_policy_refs :=
         bs_of_list (filter (\<lambda>p. p \<noteq> []) (map trim (bs_elems (ds_route_policy_refs s)))),
       ds_bgp_processes := rekey normalize_bgp_process bp_vrf (ds_bgp_processes s),
       ds_bgp_neighbors := rekey normalize_bgp_neighbor bn_key (ds_bgp_neighbors s),
       ds_delete_bgp_process_vrfs := bs_of_list (map trim (bs_elems (ds_delete_bgp_process_vrfs s))),
       ds_delete_bgp_neighbors := rekey normalize_bgp_neighbor bn_key (ds_delete_bgp_neighbors s)\<rparr>"

definition normalize_shadow_state :: "DeviceShadowState \<Rightarrow> DeviceShadowState" where
  "normalize_shadow_state s =
     s\<lparr>ss_vlans := rekey normalize_vlan vc_vlan_id (ss_vlans s),
       ss_interfaces := rekey normalize_interface ic_name (ss_interfaces s),
       ss_acls := rekey normalize_acl ac_acl_id (ss_acls s),
       ss_acl_bindings := rekey normalize_acl_binding ab_key (ss_acl_bindings s),
       ss_bgp_processes := rekey normalize_bgp_process bp_vrf (ss_bgp_processes s),
       ss_bgp_neighbors := rekey normalize_bgp_neighbor bn_key (ss_bgp_neighbors s)\<rparr>"

section \<open>Maps of normal objects\<close>

text \<open>Every object is normal and stored under its own key.\<close>

definition keyed :: "('v \<Rightarrow> 'v) \<Rightarrow> ('v \<Rightarrow> 'k::linorder) \<Rightarrow> ('k, 'v) bmap \<Rightarrow> bool" where
  "keyed norm key m \<longleftrightarrow> (\<forall>k v. bm_get m k = Some v \<longrightarrow> norm v = v \<and> key v = k)"

locale keyed_normal =
  fixes norm :: "'v \<Rightarrow> 'v" and key :: "'v \<Rightarrow> 'k::linorder"
  assumes norm_idem: "norm (norm v) = norm v"
begin

lemma rekey_get:
  "bm_get (rekey norm key m) k =
     map_option norm (find (\<lambda>v. key (norm v) = k) (rev (bm_values m)))"
proof -
  have "map_of (map (\<lambda>v. (key (norm v), norm v)) vs) k =
      map_option norm (find (\<lambda>v. key (norm v) = k) vs)" for vs
    by (induction vs) auto
  then show ?thesis by (simp add: rekey_def bm_get_of_list rev_map Let_def)
qed

lemma rekey_keyed: "keyed norm key (rekey norm key m)"
  by (auto simp: keyed_def rekey_get norm_idem find_Some_iff)

lemma keyed_rekey:
  assumes "keyed norm key m"
  shows "rekey norm key m = m"
proof -
  have "map (\<lambda>v. (key (norm v), norm v)) (bm_values m) = map (\<lambda>e. e) (entries m)"
    unfolding bm_values_def map_map
    using assms by (intro map_cong refl) (auto simp: keyed_def bm.in_elements)
  then show ?thesis by (simp add: rekey_def Let_def)
qed

lemma rekey_idem: "rekey norm key (rekey norm key m) = rekey norm key m"
  by (rule keyed_rekey[OF rekey_keyed])

lemma rekey_empty: "rekey norm key bm_empty = bm_empty"
  by (rule keyed_rekey) (simp add: keyed_def)

lemma keyed_insert: "keyed norm key m \<Longrightarrow> norm v = v \<Longrightarrow> keyed norm key (bm_insert (key v) v m)"
  by (auto simp: keyed_def bm_get_insert)

lemma keyed_remove: "keyed norm key m \<Longrightarrow> keyed norm key (bm_remove k m)"
  by (auto simp: keyed_def bm_get_remove split: if_splits)

lemma keyed_retain: "keyed norm key m \<Longrightarrow> keyed norm key (bm_retain P m)"
  by (auto simp: keyed_def bm_get_retain split: option.splits if_splits)

end

section \<open>Idempotence\<close>

lemma none_if_empty_idem [simp]: "none_if_empty (none_if_empty s) = none_if_empty s"
  by (simp add: none_if_empty_def)

lemma strip_prefix_Some: "strip_prefix p s = Some r \<longleftrightarrow> s = p @ r"
  by (auto simp: strip_prefix_def prefix_def)

lemma strip_prefix_None: "strip_prefix p s = None \<longleftrightarrow> \<not> prefix p s"
  by (simp add: strip_prefix_def)

text \<open>The canonical name is trimmed and starts with none of the long names.\<close>

definition canonical_name :: "string \<Rightarrow> bool" where
  "canonical_name s \<longleftrightarrow>
     trim s = s \<and> \<not> prefix ''GigabitEthernet'' s \<and> \<not> prefix ''Ten-GigabitEthernet'' s \<and>
     \<not> prefix ''FortyGigE'' s"

lemma canonical_name_id: "canonical_name s \<Longrightarrow> canonical_interface_name s = s"
  by (simp add: canonical_name_def canonical_interface_name_def strip_prefix_def)

lemma ws_no_E: "\<forall>w \<in> set whitespace. CHR ''E'' \<notin> set w"
  by code_simp

lemma canonical_short:
  assumes "trim (p @ rest) = p @ rest" "s \<in> {''GE'', ''XGE'', ''FGE''}"
  shows "canonical_name (s @ rest)"
proof -
  have ws: "stripped whitespace (''GE'' @ rest)" "stripped whitespace (''XGE'' @ rest)"
    "stripped whitespace (''FGE'' @ rest)"
    by (simp_all add: stripped_def whitespace_def)
  note t = trim_replace_prefix[OF assms(1) _ ws_no_E]
  have "trim (s @ rest) = s @ rest"
    using assms(2) t[of "''G''"] t[of "''XG''"] t[of "''FG''"] ws by auto
  then show ?thesis using assms(2) by (auto simp: canonical_name_def)
qed

lemma canonical_interface_name_cases:
  obtains rest where "trim s = ''GigabitEthernet'' @ rest" "canonical_interface_name s = ''GE'' @ rest"
  | rest where "trim s = ''Ten-GigabitEthernet'' @ rest" "canonical_interface_name s = ''XGE'' @ rest"
  | rest where "trim s = ''FortyGigE'' @ rest" "canonical_interface_name s = ''FGE'' @ rest"
  | "canonical_name (trim s)" "canonical_interface_name s = trim s"
proof -
  note d = canonical_interface_name_def[of s] Let_def
  show thesis
  proof (cases "strip_prefix ''GigabitEthernet'' (trim s)")
    case (Some rest)
    show thesis by (rule that(1)[OF iffD1[OF strip_prefix_Some Some]]) (simp only: d Some option.case)
  next
    case None1: None
    show thesis
    proof (cases "strip_prefix ''Ten-GigabitEthernet'' (trim s)")
      case (Some rest)
      show thesis by (rule that(2)[OF iffD1[OF strip_prefix_Some Some]]) (simp only: d None1 Some option.case)
    next
      case None2: None
      show thesis
      proof (cases "strip_prefix ''FortyGigE'' (trim s)")
        case (Some rest)
        show thesis
          by (rule that(3)[OF iffD1[OF strip_prefix_Some Some]]) (simp only: d None1 None2 Some option.case)
      next
        case None
        with None1 None2 have "canonical_name (trim s)"
          by (simp add: canonical_name_def strip_prefix_None)
        then show thesis by (rule that(4)) (simp only: d None1 None2 None option.case)
      qed
    qed
  qed
qed

lemma canonical_interface_name_canonical: "canonical_name (canonical_interface_name s)"
proof (cases s rule: canonical_interface_name_cases)
  case (1 rest)
  from canonical_short[of "''GigabitEthernet''" rest "''GE''"] trim_idem[of s] show ?thesis
    unfolding 1 by blast
next
  case (2 rest)
  from canonical_short[of "''Ten-GigabitEthernet''" rest "''XGE''"] trim_idem[of s] show ?thesis
    unfolding 2 by blast
next
  case (3 rest)
  from canonical_short[of "''FortyGigE''" rest "''FGE''"] trim_idem[of s] show ?thesis
    unfolding 3 by blast
qed simp

lemma canonical_interface_name_idem [simp]:
  "canonical_interface_name (canonical_interface_name s) = canonical_interface_name s"
  by (rule canonical_name_id[OF canonical_interface_name_canonical])

lemma remdups_adj_idem [simp]: "remdups_adj (remdups_adj xs) = remdups_adj xs"
proof (induction xs rule: remdups_adj.induct)
  case (3 x y xs)
  obtain ts where ts: "remdups_adj (y # xs) = y # ts"
    using remdups_adj_Cons_alt[of y xs] by metis
  show ?case
  proof (cases "x = y")
    case False
    with "3.IH"(2) ts show ?thesis by simp
  qed (use "3.IH"(1) in simp)
qed simp_all

lemma normalize_mode_idem [simp]: "normalize_mode (normalize_mode m) = normalize_mode m"
  by (simp add: normalize_mode_def sorted_remdups_adj sorted_sort_id split: PortMode.split)

lemma normalize_acl_rule_idem [simp]: "normalize_acl_rule (normalize_acl_rule r) = normalize_acl_rule r"
  by (simp add: normalize_acl_rule_def)

lemma normalize_acl_rule_sequence [simp]: "ar_sequence (normalize_acl_rule r) = ar_sequence r"
  by (simp add: normalize_acl_rule_def)

lemma normalize_acl_idem: "normalize_acl (normalize_acl a) = normalize_acl a"
proof -
  have "map normalize_acl_rule (sort_key ar_sequence (map normalize_acl_rule rs)) =
      sort_key ar_sequence (map normalize_acl_rule rs)" for rs
    by (rule map_idI) auto
  then show ?thesis by (simp add: normalize_acl_def sort_key_id_if_sorted)
qed

interpretation vlans: keyed_normal normalize_vlan vc_vlan_id
  by unfold_locales (simp add: normalize_vlan_def)

interpretation interfaces: keyed_normal normalize_interface ic_name
  by unfold_locales (simp add: normalize_interface_def)

interpretation acls: keyed_normal normalize_acl ac_acl_id
  by unfold_locales (rule normalize_acl_idem)

interpretation bindings: keyed_normal normalize_acl_binding ab_key
  by unfold_locales (simp add: normalize_acl_binding_def)

interpretation processes: keyed_normal normalize_bgp_process bp_vrf
  by unfold_locales (simp add: normalize_bgp_process_def)

interpretation neighbors: keyed_normal normalize_bgp_neighbor bn_key
  by unfold_locales (simp add: normalize_bgp_neighbor_def)

section \<open>Normal states\<close>

definition normal_shadow :: "DeviceShadowState \<Rightarrow> bool" where
  "normal_shadow s \<longleftrightarrow>
     keyed normalize_vlan vc_vlan_id (ss_vlans s) \<and>
     keyed normalize_interface ic_name (ss_interfaces s) \<and>
     keyed normalize_acl ac_acl_id (ss_acls s) \<and>
     keyed normalize_acl_binding ab_key (ss_acl_bindings s) \<and>
     keyed normalize_bgp_process bp_vrf (ss_bgp_processes s) \<and>
     keyed normalize_bgp_neighbor bn_key (ss_bgp_neighbors s)"

definition normal_desired :: "DeviceDesiredState \<Rightarrow> bool" where
  "normal_desired d \<longleftrightarrow>
     keyed normalize_vlan vc_vlan_id (ds_vlans d) \<and>
     keyed normalize_interface ic_name (ds_interfaces d) \<and>
     keyed normalize_acl ac_acl_id (ds_acls d) \<and>
     keyed normalize_acl_binding ab_key (ds_acl_bindings d) \<and>
     keyed normalize_bgp_process bp_vrf (ds_bgp_processes d) \<and>
     keyed normalize_bgp_neighbor bn_key (ds_bgp_neighbors d) \<and>
     keyed normalize_acl_binding ab_key (ds_delete_acl_bindings d) \<and>
     keyed normalize_bgp_neighbor bn_key (ds_delete_bgp_neighbors d) \<and>
     (\<forall>n. bs_member (ds_delete_interface_names d) n \<longrightarrow> canonical_interface_name n = n) \<and>
     (\<forall>v. bs_member (ds_delete_bgp_process_vrfs d) v \<longrightarrow> trim v = v) \<and>
     (\<forall>p. bs_member (ds_route_policy_refs d) p \<longrightarrow> trim p = p \<and> p \<noteq> [])"

lemmas keyed_rekey_all =
  vlans.keyed_rekey interfaces.keyed_rekey acls.keyed_rekey bindings.keyed_rekey
  processes.keyed_rekey neighbors.keyed_rekey

lemmas rekey_keyed_all =
  vlans.rekey_keyed interfaces.rekey_keyed acls.rekey_keyed bindings.rekey_keyed
  processes.rekey_keyed neighbors.rekey_keyed

lemma bs_map_id: "(\<And>k. bs_member s k \<Longrightarrow> f k = k) \<Longrightarrow> bs_of_list (map f (bs_elems s)) = s"
  by (rule bs_eqI) force

lemma normalize_shadow_normal [simp]: "normal_shadow (normalize_shadow_state s)"
  by (simp add: normal_shadow_def normalize_shadow_state_def rekey_keyed_all)

lemma normal_shadow_id [simp]: "normal_shadow s \<Longrightarrow> normalize_shadow_state s = s"
  by (simp add: normal_shadow_def normalize_shadow_state_def keyed_rekey_all)

lemma normalize_desired_normal [simp]: "normal_desired (normalize_desired_state d)"
  by (auto simp: normal_desired_def normalize_desired_state_def rekey_keyed_all)

lemma normal_desired_id [simp]: "normal_desired d \<Longrightarrow> normalize_desired_state d = d"
proof -
  assume n: "normal_desired d"
  then have "bs_of_list (map canonical_interface_name (bs_elems (ds_delete_interface_names d))) =
      ds_delete_interface_names d"
    "bs_of_list (map trim (bs_elems (ds_delete_bgp_process_vrfs d))) = ds_delete_bgp_process_vrfs d"
    by (auto simp: normal_desired_def intro!: bs_map_id)
  moreover have "bs_of_list (filter (\<lambda>p. p \<noteq> []) (map trim (bs_elems (ds_route_policy_refs d)))) =
      ds_route_policy_refs d"
    using n by (intro bs_eqI) (force simp: normal_desired_def)
  ultimately show ?thesis
    using n by (simp add: normal_desired_def normalize_desired_state_def keyed_rekey_all)
qed

section \<open>Properties\<close>

text \<open>normalising is idempotent, on desired and on shadow states: a normalised state is a
  fixed point, and the fixed points are exactly the states in which every object is normal
  and stored under its own canonical key.\<close>

theorem normalize_states_idempotent:
  "normalize_desired_state (normalize_desired_state d) = normalize_desired_state d \<and>
   normalize_shadow_state (normalize_shadow_state s) = normalize_shadow_state s \<and>
   (normalize_shadow_state s = s \<longleftrightarrow> normal_shadow s) \<and>
   (normalize_desired_state d = d \<longleftrightarrow> normal_desired d)"
  by (metis normal_desired_id normal_shadow_id normalize_desired_normal normalize_shadow_normal)

end
