(* ===== verification/Diff.thy ===== *)
theory Diff
  imports Normalize
begin

text \<open>
  \<open>src/engine/diff.rs\<close>: the change set between a desired and a current state, and its
  application to a shadow state.
\<close>

section \<open>Change sets\<close>

datatype ChangeOp =
    CreateVlan VlanConfig
  | UpdateVlan VlanConfig VlanConfig
  | DeleteVlan u16
  | UpdateInterface "InterfaceConfig option" InterfaceConfig
  | DeleteInterfaceConfig string
  | CreateAcl AclConfig
  | UpdateAcl AclConfig AclConfig
  | DeleteAcl u16
  | CreateAclBinding AclBinding
  | UpdateAclBinding AclBinding AclBinding
  | DeleteAclBinding string AclDirection u16
  | CreateBgpProcess BgpProcess
  | UpdateBgpProcess BgpProcess BgpProcess
  | DeleteBgpProcess string
  | CreateBgpNeighbor BgpNeighbor
  | UpdateBgpNeighbor BgpNeighbor BgpNeighbor
  | DeleteBgpNeighbor string string

record ChangeSet =
  cs_device_id :: DeviceId
  cs_ops :: "ChangeOp list"

definition empty_change_set :: "DeviceId \<Rightarrow> ChangeSet" where
  "empty_change_set d = \<lparr>cs_device_id = d, cs_ops = []\<rparr>"

definition cs_is_empty :: "ChangeSet \<Rightarrow> bool" where
  "cs_is_empty cs \<longleftrightarrow> cs_ops cs = []"

section \<open>Computing the difference\<close>

text \<open>The shape of the upsert loops: nothing for an equal object, an update for a different
  one, a create for a missing one.\<close>

definition diff_upserts ::
  "('v \<Rightarrow> ChangeOp) \<Rightarrow> ('v \<Rightarrow> 'v \<Rightarrow> ChangeOp) \<Rightarrow> ('k::linorder, 'v) bmap \<Rightarrow> ('k, 'v) bmap \<Rightarrow> ChangeOp list"
where
  "diff_upserts create update desired current =
     concat (map (\<lambda>(k, d).
       case bm_get current k of
         Some c \<Rightarrow> if c = d then [] else [update c d]
       | None \<Rightarrow> [create d]) (entries desired))"

definition diff_ops :: "DeviceDesiredState \<Rightarrow> DeviceShadowState \<Rightarrow> ChangeOp list" where
  "diff_ops desired current =
     diff_upserts CreateVlan UpdateVlan (ds_vlans desired) (ss_vlans current) @
     diff_upserts (UpdateInterface None) (\<lambda>b. UpdateInterface (Some b))
       (ds_interfaces desired) (ss_interfaces current) @
     map DeleteInterfaceConfig
       (filter (bm_contains (ss_interfaces current)) (bs_elems (ds_delete_interface_names desired))) @
     map DeleteVlan
       (filter (bm_contains (ss_vlans current)) (bs_elems (ds_delete_vlan_ids desired))) @
     diff_upserts CreateAcl UpdateAcl (ds_acls desired) (ss_acls current) @
     diff_upserts CreateAclBinding UpdateAclBinding (ds_acl_bindings desired) (ss_acl_bindings current) @
     map (\<lambda>(_, b). DeleteAclBinding (ab_interface_name b) (ab_direction b) (ab_acl_id b))
       (filter (\<lambda>(key, b). case bm_get (ss_acl_bindings current) key of
            Some c \<Rightarrow> ab_acl_id c = ab_acl_id b | None \<Rightarrow> False)
          (entries (ds_delete_acl_bindings desired))) @
     map DeleteAcl
       (filter (bm_contains (ss_acls current)) (bs_elems (ds_delete_acl_ids desired))) @
     diff_upserts CreateBgpProcess UpdateBgpProcess (ds_bgp_processes desired) (ss_bgp_processes current) @
     diff_upserts CreateBgpNeighbor UpdateBgpNeighbor (ds_bgp_neighbors desired) (ss_bgp_neighbors current) @
     map (\<lambda>(_, n). DeleteBgpNeighbor (bn_vrf n) (bn_address n))
       (filter (\<lambda>(key, _). bm_contains (ss_bgp_neighbors current) key)
          (entries (ds_delete_bgp_neighbors desired))) @
     map DeleteBgpProcess
       (filter (bm_contains (ss_bgp_processes current)) (bs_elems (ds_delete_bgp_process_vrfs desired)))"

definition compute_diff :: "DeviceDesiredState \<Rightarrow> DeviceShadowState \<Rightarrow> ChangeSet" where
  "compute_diff desired current =
     (let desired = normalize_desired_state desired;
          current = normalize_shadow_state current in
      (empty_change_set (ds_device_id desired))\<lparr>cs_ops := diff_ops desired current\<rparr>)"

section \<open>Applying a change set to a shadow state\<close>

fun apply_op :: "DeviceShadowState \<Rightarrow> ChangeOp \<Rightarrow> DeviceShadowState" where
  "apply_op s (CreateVlan v) = ss_vlans_update (bm_insert (vc_vlan_id v) v) s"
| "apply_op s (UpdateVlan _ v) = ss_vlans_update (bm_insert (vc_vlan_id v) v) s"
| "apply_op s (DeleteVlan i) = ss_vlans_update (bm_remove i) s"
| "apply_op s (UpdateInterface _ f) = ss_interfaces_update (bm_insert (ic_name f) f) s"
| "apply_op s (DeleteInterfaceConfig n) = ss_interfaces_update (bm_remove n) s"
| "apply_op s (CreateAcl a) = ss_acls_update (bm_insert (ac_acl_id a) a) s"
| "apply_op s (UpdateAcl _ a) = ss_acls_update (bm_insert (ac_acl_id a) a) s"
| "apply_op s (DeleteAcl i) =
     ss_acl_bindings_update (bm_retain (\<lambda>_ b. ab_acl_id b \<noteq> i)) (ss_acls_update (bm_remove i) s)"
| "apply_op s (CreateAclBinding b) = ss_acl_bindings_update (bm_insert (ab_key b) b) s"
| "apply_op s (UpdateAclBinding _ b) = ss_acl_bindings_update (bm_insert (ab_key b) b) s"
| "apply_op s (DeleteAclBinding n d _) = ss_acl_bindings_update (bm_remove (acl_binding_key n d)) s"
| "apply_op s (CreateBgpProcess p) = ss_bgp_processes_update (bm_insert (bp_vrf p) p) s"
| "apply_op s (UpdateBgpProcess _ p) = ss_bgp_processes_update (bm_insert (bp_vrf p) p) s"
| "apply_op s (DeleteBgpProcess v) =
     ss_bgp_neighbors_update (bm_retain (\<lambda>_ n. bn_vrf n \<noteq> v)) (ss_bgp_processes_update (bm_remove v) s)"
| "apply_op s (CreateBgpNeighbor n) = ss_bgp_neighbors_update (bm_insert (bn_key n) n) s"
| "apply_op s (UpdateBgpNeighbor _ n) = ss_bgp_neighbors_update (bm_insert (bn_key n) n) s"
| "apply_op s (DeleteBgpNeighbor v a) = ss_bgp_neighbors_update (bm_remove (bgp_neighbor_key v a)) s"

definition blank_shadow :: "DeviceId \<Rightarrow> u64 \<Rightarrow> DeviceShadowState" where
  "blank_shadow d revision =
     \<lparr>ss_device_id = d, ss_revision = revision, ss_vlans = bm_empty, ss_interfaces = bm_empty,
      ss_acls = bm_empty, ss_acl_bindings = bm_empty, ss_bgp_processes = bm_empty,
      ss_bgp_neighbors = bm_empty, ss_warnings = []\<rparr>"

definition apply_to_shadow ::
  "ChangeSet \<Rightarrow> DeviceShadowState option \<Rightarrow> DeviceDesiredState \<Rightarrow> u64 \<Rightarrow> DeviceShadowState" where
  "apply_to_shadow cs base desired revision =
     (let state = (case base of Some b \<Rightarrow> b | None \<Rightarrow> blank_shadow (ds_device_id desired) revision) in
      foldl apply_op
        (state\<lparr>ss_device_id := ds_device_id desired, ss_revision := revision, ss_warnings := []\<rparr>)
        (cs_ops cs))"

section \<open>What diff and apply compute together\<close>

text \<open>Left-biased union of maps.\<close>

definition bm_union :: "('k::linorder, 'v) bmap \<Rightarrow> ('k, 'v) bmap \<Rightarrow> ('k, 'v) bmap" where
  "bm_union m n = bm_of_list (entries n @ entries m)"

lemma bm_get_union [bmap_simps]:
  "bm_get (bm_union m n) k = (case bm_get m k of Some v \<Rightarrow> Some v | None \<Rightarrow> bm_get n k)"
  by (simp add: bm_union_def bm_get_of_list map_add_def map_of_rev_distinct bm.elements_distinct
      bm_get_entries)

text \<open>The state that a desired state asks for on top of a current one: desired objects
  replace current ones, deletes of current objects win, deleting an ACL takes its bindings
  along and deleting a BGP process its neighbours.\<close>

definition overlay :: "DeviceDesiredState \<Rightarrow> DeviceShadowState \<Rightarrow> u64 \<Rightarrow> DeviceShadowState" where
  "overlay d c revision =
     (let dead_acl = (\<lambda>i. bs_member (ds_delete_acl_ids d) i \<and> bm_contains (ss_acls c) i);
          dead_vrf = (\<lambda>v. bs_member (ds_delete_bgp_process_vrfs d) v \<and> bm_contains (ss_bgp_processes c) v) in
      \<lparr>ss_device_id = ds_device_id d,
       ss_revision = revision,
       ss_vlans = bm_retain (\<lambda>k _. \<not> (bs_member (ds_delete_vlan_ids d) k \<and> bm_contains (ss_vlans c) k))
         (bm_union (ds_vlans d) (ss_vlans c)),
       ss_interfaces = bm_retain
         (\<lambda>k _. \<not> (bs_member (ds_delete_interface_names d) k \<and> bm_contains (ss_interfaces c) k))
         (bm_union (ds_interfaces d) (ss_interfaces c)),
       ss_acls = bm_retain (\<lambda>k _. \<not> dead_acl k) (bm_union (ds_acls d) (ss_acls c)),
       ss_acl_bindings = bm_retain
         (\<lambda>k b. \<not> dead_acl (ab_acl_id b) \<and>
            (case (bm_get (ds_delete_acl_bindings d) k, bm_get (ss_acl_bindings c) k) of
               (Some x, Some y) \<Rightarrow> ab_acl_id y \<noteq> ab_acl_id x | _ \<Rightarrow> True))
         (bm_union (ds_acl_bindings d) (ss_acl_bindings c)),
       ss_bgp_processes = bm_retain (\<lambda>k _. \<not> dead_vrf k)
         (bm_union (ds_bgp_processes d) (ss_bgp_processes c)),
       ss_bgp_neighbors = bm_retain
         (\<lambda>k n. \<not> dead_vrf (bn_vrf n) \<and>
            \<not> (bm_contains (ds_delete_bgp_neighbors d) k \<and> bm_contains (ss_bgp_neighbors c) k))
         (bm_union (ds_bgp_neighbors d) (ss_bgp_neighbors c)),
       ss_warnings = []\<rparr>)"

section \<open>Segments of a change set\<close>

text \<open>The objects for which an upsert loop emits an operation.\<close>

definition changed :: "('k::linorder, 'v) bmap \<Rightarrow> ('k, 'v) bmap \<Rightarrow> 'v list" where
  "changed desired current =
     map snd (filter (\<lambda>(k, d). bm_get current k \<noteq> Some d) (entries desired))"

lemma foldl_upserts:
  assumes "\<And>d s. f s (create d) = g d s" "\<And>c d s. f s (update c d) = g d s"
  shows "foldl f s (diff_upserts create update desired current) = foldl (\<lambda>s d. g d s) s (changed desired current)"
proof -
  have "foldl f s (concat (map (\<lambda>(k, d). case bm_get current k of
        Some c \<Rightarrow> if c = d then [] else [update c d] | None \<Rightarrow> [create d]) es)) =
      foldl (\<lambda>s d. g d s) s (map snd (filter (\<lambda>(k, d). bm_get current k \<noteq> Some d) es))" for es
    by (induction es arbitrary: s) (auto simp: assms split: option.split)
  then show ?thesis by (simp add: diff_upserts_def changed_def)
qed

lemma bm_get_inserts:
  "bm_get (foldl (\<lambda>m v. bm_insert (key v) v m) m vs) k =
     (case map_of (rev (map (\<lambda>v. (key v, v)) vs)) k of Some v \<Rightarrow> Some v | None \<Rightarrow> bm_get m k)"
  by (induction vs arbitrary: m) (auto simp: bm_get_insert map_add_def split: option.split)

lemma insert_changed:
  assumes "keyed norm key desired"
  shows "foldl (\<lambda>m v. bm_insert (key v) v m) current (changed desired current) = bm_union desired current"
proof (rule bmap_eqI)
  fix k
  let ?P = "\<lambda>(k, d). bm_get current k \<noteq> Some d"
  have "map (\<lambda>v. (key v, v)) (changed desired current) = map (\<lambda>e. e) (filter ?P (entries desired))"
    unfolding changed_def map_map
    using assms by (intro map_cong refl) (auto simp: keyed_def bm.in_elements)
  moreover have "map_of (rev (filter ?P (entries desired))) k =
      (case bm_get desired k of None \<Rightarrow> None | Some d \<Rightarrow> if bm_get current k \<noteq> Some d then Some d else None)"
  proof -
    have "distinct (map fst (filter ?P (entries desired)))"
      using bm.elements_distinct[of desired] by (simp add: distinct_map_filter)
    then show ?thesis
      by (simp add: map_of_rev_distinct map_of_filter_distinct bm.elements_distinct bm_get_entries)
  qed
  ultimately show "bm_get (foldl (\<lambda>m v. bm_insert (key v) v m) current (changed desired current)) k =
      bm_get (bm_union desired current) k"
    by (auto simp: bm_get_inserts bm_get_union split: option.split)
qed

lemma foldl_upsert_field:
  assumes "\<And>d s. f s (create d) = upd (bm_insert (key d) d) s"
    and "\<And>c d s. f s (update c d) = upd (bm_insert (key d) d) s"
    and "\<And>g h s. upd g (upd h s) = upd (g \<circ> h) s" "\<And>s. upd (\<lambda>m. m) s = s"
    and "\<And>g h s. g (fld s) = h (fld s) \<Longrightarrow> upd g s = upd h s"
    and "keyed norm key desired" "fld s = current"
  shows "foldl f s (diff_upserts create update desired current) = upd (\<lambda>_. bm_union desired current) s"
proof -
  have "foldl f s (diff_upserts create update desired current) =
      foldl (\<lambda>s d. upd (bm_insert (key d) d) s) s (changed desired current)"
    by (rule foldl_upserts) (rule assms)+
  also have "\<dots> = upd (\<lambda>m. foldl (\<lambda>m v. bm_insert (key v) v m) m (changed desired current)) s"
    by (rule foldl_field) (rule assms)+
  also have "\<dots> = upd (\<lambda>_. bm_union desired current) s"
    by (rule assms(5)) (simp add: assms(7) insert_changed[OF assms(6)])
  finally show ?thesis .
qed

lemma retain_retain [simp]: "bm_retain P (bm_retain Q m) = bm_retain (\<lambda>k v. Q k v \<and> P k v) m"
  by (rule bmap_eqI) (simp add: bm_get_retain split: option.split)

lemma retain_True: "(\<And>k v. bm_get m k = Some v \<Longrightarrow> P k v) \<Longrightarrow> bm_retain P m = m"
  by (rule bmap_eqI) (simp add: bm_get_retain split: option.split)

lemma retain_cong:
  "(\<And>k v. bm_get m k = Some v \<Longrightarrow> P k v = Q k v) \<Longrightarrow> bm_retain P m = bm_retain Q m"
  by (rule bmap_eqI) (simp add: bm_get_retain split: option.split)

lemma apply_upserts:
  "keyed normalize_vlan vc_vlan_id d1 \<Longrightarrow> ss_vlans s = c1 \<Longrightarrow>
   foldl apply_op s (diff_upserts CreateVlan UpdateVlan d1 c1) = s\<lparr>ss_vlans := bm_union d1 c1\<rparr>"
  "keyed normalize_interface ic_name d2 \<Longrightarrow> ss_interfaces s = c2 \<Longrightarrow>
   foldl apply_op s (diff_upserts (UpdateInterface None) (\<lambda>b. UpdateInterface (Some b)) d2 c2) =
     s\<lparr>ss_interfaces := bm_union d2 c2\<rparr>"
  "keyed normalize_acl ac_acl_id d3 \<Longrightarrow> ss_acls s = c3 \<Longrightarrow>
   foldl apply_op s (diff_upserts CreateAcl UpdateAcl d3 c3) = s\<lparr>ss_acls := bm_union d3 c3\<rparr>"
  "keyed normalize_acl_binding ab_key d4 \<Longrightarrow> ss_acl_bindings s = c4 \<Longrightarrow>
   foldl apply_op s (diff_upserts CreateAclBinding UpdateAclBinding d4 c4) =
     s\<lparr>ss_acl_bindings := bm_union d4 c4\<rparr>"
  "keyed normalize_bgp_process bp_vrf d5 \<Longrightarrow> ss_bgp_processes s = c5 \<Longrightarrow>
   foldl apply_op s (diff_upserts CreateBgpProcess UpdateBgpProcess d5 c5) =
     s\<lparr>ss_bgp_processes := bm_union d5 c5\<rparr>"
  "keyed normalize_bgp_neighbor bn_key d6 \<Longrightarrow> ss_bgp_neighbors s = c6 \<Longrightarrow>
   foldl apply_op s (diff_upserts CreateBgpNeighbor UpdateBgpNeighbor d6 c6) =
     s\<lparr>ss_bgp_neighbors := bm_union d6 c6\<rparr>"
  subgoal by (rule foldl_upsert_field[where upd = ss_vlans_update and fld = ss_vlans]) simp_all
  subgoal by (rule foldl_upsert_field[where upd = ss_interfaces_update and fld = ss_interfaces]) simp_all
  subgoal by (rule foldl_upsert_field[where upd = ss_acls_update and fld = ss_acls]) simp_all
  subgoal by (rule foldl_upsert_field[where upd = ss_acl_bindings_update and fld = ss_acl_bindings]) simp_all
  subgoal by (rule foldl_upsert_field[where upd = ss_bgp_processes_update and fld = ss_bgp_processes]) simp_all
  subgoal by (rule foldl_upsert_field[where upd = ss_bgp_neighbors_update and fld = ss_bgp_neighbors]) simp_all
  done

lemma remove_retain: "bm_remove k (bm_retain P m) = bm_retain (\<lambda>k' v. P k' v \<and> k' \<noteq> k) m"
  by (simp add: bm_remove_def)

lemma apply_deletes:
  "foldl apply_op s (map DeleteVlan vs) = ss_vlans_update (bm_retain (\<lambda>k _. k \<notin> set vs)) s"
  "foldl apply_op s (map DeleteInterfaceConfig ns) = ss_interfaces_update (bm_retain (\<lambda>k _. k \<notin> set ns)) s"
  "foldl apply_op s (map DeleteAcl is) =
     ss_acl_bindings_update (bm_retain (\<lambda>_ b. ab_acl_id b \<notin> set is))
       (ss_acls_update (bm_retain (\<lambda>k _. k \<notin> set is)) s)"
  "foldl apply_op s (map DeleteBgpProcess ws) =
     ss_bgp_neighbors_update (bm_retain (\<lambda>_ n. bn_vrf n \<notin> set ws))
       (ss_bgp_processes_update (bm_retain (\<lambda>k _. k \<notin> set ws)) s)"
  "foldl apply_op s (map (\<lambda>(_, b). DeleteAclBinding (ab_interface_name b) (ab_direction b) (ab_acl_id b)) bs) =
     ss_acl_bindings_update (bm_retain (\<lambda>k _. k \<notin> ab_key ` snd ` set bs)) s"
  "foldl apply_op s (map (\<lambda>(_, n). DeleteBgpNeighbor (bn_vrf n) (bn_address n)) xs) =
     ss_bgp_neighbors_update (bm_retain (\<lambda>k _. k \<notin> bn_key ` snd ` set xs)) s"
  subgoal by (induction vs rule: rev_induct) (auto simp: retain_True remove_retain comp_def conj_commute)
  subgoal by (induction ns rule: rev_induct) (auto simp: retain_True remove_retain comp_def conj_commute)
  subgoal by (induction "is" rule: rev_induct) (auto simp: retain_True remove_retain comp_def conj_commute)
  subgoal by (induction ws rule: rev_induct) (auto simp: retain_True remove_retain comp_def conj_commute)
  subgoal
    by (induction bs rule: rev_induct)
      (auto simp: retain_True remove_retain comp_def conj_commute ab_key_def)
  subgoal
    by (induction xs rule: rev_induct)
      (auto simp: retain_True remove_retain comp_def conj_commute bn_key_def)
  done

lemma keyed_keys_filter:
  assumes "keyed norm key m"
  shows "key ` snd ` set (filter P (entries m)) = {k. \<exists>v. bm_get m k = Some v \<and> P (k, v)}"
  using assms by (force simp: keyed_def bm.in_elements image_iff)

lemma foldl_diff_ops:
  assumes "normal_desired d" "normal_shadow c"
  shows "foldl apply_op (c\<lparr>ss_device_id := ds_device_id d, ss_revision := r, ss_warnings := []\<rparr>) (diff_ops d c) =
    overlay d c r"
proof -
  have k: "keyed normalize_vlan vc_vlan_id (ds_vlans d)"
    "keyed normalize_interface ic_name (ds_interfaces d)"
    "keyed normalize_acl ac_acl_id (ds_acls d)"
    "keyed normalize_acl_binding ab_key (ds_acl_bindings d)"
    "keyed normalize_bgp_process bp_vrf (ds_bgp_processes d)"
    "keyed normalize_bgp_neighbor bn_key (ds_bgp_neighbors d)"
    and del: "keyed normalize_acl_binding ab_key (ds_delete_acl_bindings d)"
    "keyed normalize_bgp_neighbor bn_key (ds_delete_bgp_neighbors d)"
    using assms(1) by (simp_all add: normal_desired_def)
  show ?thesis
    unfolding diff_ops_def foldl_append
    by (simp add: apply_upserts(1)[OF k(1)] apply_upserts(2)[OF k(2)] apply_upserts(3)[OF k(3)]
        apply_upserts(4)[OF k(4)] apply_upserts(5)[OF k(5)] apply_upserts(6)[OF k(6)] apply_deletes
        keyed_keys_filter[OF del(1)] keyed_keys_filter[OF del(2)] overlay_def Let_def
        del: set_filter)
      (rule DeviceShadowState.equality; simp;
        rule retain_cong; auto simp: bm_contains_def split: option.splits)
qed

lemma keyed_union: "keyed norm key m \<Longrightarrow> keyed norm key n \<Longrightarrow> keyed norm key (bm_union m n)"
  by (auto simp: keyed_def bm_get_union split: option.splits)

lemmas keyed_retain_all =
  vlans.keyed_retain interfaces.keyed_retain acls.keyed_retain bindings.keyed_retain
  processes.keyed_retain neighbors.keyed_retain

lemma normal_overlay: "normal_desired d \<Longrightarrow> normal_shadow c \<Longrightarrow> normal_shadow (overlay d c r)"
  by (simp add: normal_desired_def normal_shadow_def overlay_def Let_def keyed_retain_all keyed_union)

lemma normalize_desired_device [simp]: "ds_device_id (normalize_desired_state d) = ds_device_id d"
  by (simp add: normalize_desired_state_def)

lemma apply_to_shadow_diff:
  "apply_to_shadow (compute_diff d c) (Some (normalize_shadow_state c)) d r =
     overlay (normalize_desired_state d) (normalize_shadow_state c) r"
proof -
  have "apply_to_shadow (compute_diff d c) (Some (normalize_shadow_state c)) d r =
      foldl apply_op ((normalize_shadow_state c)
        \<lparr>ss_device_id := ds_device_id (normalize_desired_state d), ss_revision := r, ss_warnings := []\<rparr>)
        (diff_ops (normalize_desired_state d) (normalize_shadow_state c))"
    by (simp add: apply_to_shadow_def compute_diff_def Let_def)
  then show ?thesis by (simp only: foldl_diff_ops[OF normalize_desired_normal normalize_shadow_normal])
qed

section \<open>When there is nothing to do\<close>

text \<open>The current state already has every desired object and none of the deleted ones.\<close>

definition submap :: "('k::linorder, 'v) bmap \<Rightarrow> ('k, 'v) bmap \<Rightarrow> bool" where
  "submap m n \<longleftrightarrow> (\<forall>k v. bm_get m k = Some v \<longrightarrow> bm_get n k = Some v)"

definition satisfied :: "DeviceDesiredState \<Rightarrow> DeviceShadowState \<Rightarrow> bool" where
  "satisfied d c \<longleftrightarrow>
     submap (ds_vlans d) (ss_vlans c) \<and> submap (ds_interfaces d) (ss_interfaces c) \<and>
     submap (ds_acls d) (ss_acls c) \<and> submap (ds_acl_bindings d) (ss_acl_bindings c) \<and>
     submap (ds_bgp_processes d) (ss_bgp_processes c) \<and>
     submap (ds_bgp_neighbors d) (ss_bgp_neighbors c) \<and>
     (\<forall>k. bs_member (ds_delete_vlan_ids d) k \<longrightarrow> bm_get (ss_vlans c) k = None) \<and>
     (\<forall>k. bs_member (ds_delete_interface_names d) k \<longrightarrow> bm_get (ss_interfaces c) k = None) \<and>
     (\<forall>k. bs_member (ds_delete_acl_ids d) k \<longrightarrow> bm_get (ss_acls c) k = None) \<and>
     (\<forall>k. bs_member (ds_delete_bgp_process_vrfs d) k \<longrightarrow> bm_get (ss_bgp_processes c) k = None) \<and>
     (\<forall>k. bm_contains (ds_delete_bgp_neighbors d) k \<longrightarrow> bm_get (ss_bgp_neighbors c) k = None) \<and>
     (\<forall>k x y. bm_get (ds_delete_acl_bindings d) k = Some x \<longrightarrow>
        bm_get (ss_acl_bindings c) k = Some y \<longrightarrow> ab_acl_id y \<noteq> ab_acl_id x)"

lemma ball_entries: "(\<forall>e \<in> set (entries m). P e) \<longleftrightarrow> (\<forall>k v. bm_get m k = Some v \<longrightarrow> P (k, v))"
  by (auto simp flip: bm.in_elements)

lemma diff_upserts_empty: "diff_upserts create update m n = [] \<longleftrightarrow> submap m n"
  by (auto simp: diff_upserts_def submap_def ball_entries split: option.splits if_splits)
    (metis not_None_eq)

lemma filter_bs_empty:
  "filter (bm_contains m) (bs_elems s) = [] \<longleftrightarrow> (\<forall>k. bs_member s k \<longrightarrow> bm_get m k = None)"
  by (auto simp: filter_empty_conv bm_contains_def[of m])

lemma diff_ops_empty: "diff_ops d c = [] \<longleftrightarrow> satisfied d c"
  by (auto simp: diff_ops_def satisfied_def diff_upserts_empty filter_bs_empty filter_empty_conv
      ball_entries bm_contains_def split: option.splits)

text \<open>No object is both wanted and deleted, and nothing wanted hangs on something deleted.\<close>

definition conflict_free :: "DeviceDesiredState \<Rightarrow> bool" where
  "conflict_free d \<longleftrightarrow>
     (\<forall>k. bs_member (ds_delete_vlan_ids d) k \<longrightarrow> bm_get (ds_vlans d) k = None) \<and>
     (\<forall>k. bs_member (ds_delete_interface_names d) k \<longrightarrow> bm_get (ds_interfaces d) k = None) \<and>
     (\<forall>k. bs_member (ds_delete_acl_ids d) k \<longrightarrow> bm_get (ds_acls d) k = None) \<and>
     (\<forall>k. bm_contains (ds_delete_acl_bindings d) k \<longrightarrow> bm_get (ds_acl_bindings d) k = None) \<and>
     (\<forall>k. bs_member (ds_delete_bgp_process_vrfs d) k \<longrightarrow> bm_get (ds_bgp_processes d) k = None) \<and>
     (\<forall>k. bm_contains (ds_delete_bgp_neighbors d) k \<longrightarrow> bm_get (ds_bgp_neighbors d) k = None) \<and>
     (\<forall>k b. bm_get (ds_acl_bindings d) k = Some b \<longrightarrow> \<not> bs_member (ds_delete_acl_ids d) (ab_acl_id b)) \<and>
     (\<forall>k n. bm_get (ds_bgp_neighbors d) k = Some n \<longrightarrow> \<not> bs_member (ds_delete_bgp_process_vrfs d) (bn_vrf n))"

lemma overlay_satisfied:
  assumes "conflict_free d"
  shows "satisfied d (overlay d c r)"
  using assms unfolding conflict_free_def satisfied_def overlay_def Let_def submap_def
  by (auto simp: bm_get_retain bm_get_union bm_contains_def split: option.splits if_splits)

lemma overlay_get_bindings:
  "bm_get (ss_acl_bindings (overlay d c r)) k = Some b \<Longrightarrow>
     (bm_get (ds_acl_bindings d) k = Some b \<or>
      bm_get (ds_acl_bindings d) k = None \<and> bm_get (ss_acl_bindings c) k = Some b) \<and>
     \<not> (bs_member (ds_delete_acl_ids d) (ab_acl_id b) \<and> bm_contains (ss_acls c) (ab_acl_id b))"
  by (auto simp: overlay_def Let_def bm_get_retain bm_get_union split: option.splits if_splits)

lemma overlay_get_neighbors:
  "bm_get (ss_bgp_neighbors (overlay d c r)) k = Some n \<Longrightarrow>
     (bm_get (ds_bgp_neighbors d) k = Some n \<or>
      bm_get (ds_bgp_neighbors d) k = None \<and> bm_get (ss_bgp_neighbors c) k = Some n) \<and>
     \<not> (bs_member (ds_delete_bgp_process_vrfs d) (bn_vrf n) \<and> bm_contains (ss_bgp_processes c) (bn_vrf n))"
  by (auto simp: overlay_def Let_def bm_get_retain bm_get_union split: option.splits if_splits)

text \<open>Every binding names an ACL of the state, every neighbour a BGP process.\<close>

definition no_orphans :: "DeviceShadowState \<Rightarrow> bool" where
  "no_orphans s \<longleftrightarrow>
     (\<forall>k b. bm_get (ss_acl_bindings s) k = Some b \<longrightarrow> bm_contains (ss_acls s) (ab_acl_id b)) \<and>
     (\<forall>k n. bm_get (ss_bgp_neighbors s) k = Some n \<longrightarrow> bm_contains (ss_bgp_processes s) (bn_vrf n))"

definition closed_desired :: "DeviceDesiredState \<Rightarrow> bool" where
  "closed_desired d \<longleftrightarrow>
     (\<forall>k b. bm_get (ds_acl_bindings d) k = Some b \<longrightarrow> bm_contains (ds_acls d) (ab_acl_id b)) \<and>
     (\<forall>k n. bm_get (ds_bgp_neighbors d) k = Some n \<longrightarrow> bm_contains (ds_bgp_processes d) (bn_vrf n))"

lemma overlay_contains:
  "bm_contains (ss_acls (overlay d c r)) i \<longleftrightarrow>
     (bm_contains (ds_acls d) i \<or> bm_contains (ss_acls c) i) \<and>
     \<not> (bs_member (ds_delete_acl_ids d) i \<and> bm_contains (ss_acls c) i)"
  "bm_contains (ss_bgp_processes (overlay d c r)) v \<longleftrightarrow>
     (bm_contains (ds_bgp_processes d) v \<or> bm_contains (ss_bgp_processes c) v) \<and>
     \<not> (bs_member (ds_delete_bgp_process_vrfs d) v \<and> bm_contains (ss_bgp_processes c) v)"
  by (auto simp: overlay_def Let_def bm_contains_def bm_get_retain bm_get_union
      split: option.splits if_splits)

lemma conflict_free_converges:
  assumes "conflict_free (normalize_desired_state d)"
  shows "cs_is_empty (compute_diff d
    (apply_to_shadow (compute_diff d c) (Some (normalize_shadow_state c)) d r))"
proof -
  let ?d = "normalize_desired_state d" and ?c = "normalize_shadow_state c"
  have "satisfied ?d (overlay ?d ?c r)" by (rule overlay_satisfied[OF assms])
  then show ?thesis
    unfolding apply_to_shadow_diff
    by (simp add: cs_is_empty_def compute_diff_def Let_def normal_overlay diff_ops_empty)
qed

section \<open>Properties\<close>

text \<open>C6: diff followed by apply is the overlay.  Applying the computed change set to the
  normalised current state gives exactly the state the request asks for: desired objects
  replace current ones, deletes of present objects take effect, deleting an ACL removes its
  bindings and deleting a BGP process its neighbours, everything else is untouched, the
  device id and revision are the requested ones and the warnings are cleared.\<close>

theorem apply_diff_is_overlay:
  "apply_to_shadow (compute_diff d c) (Some (normalize_shadow_state c)) d r =
     overlay (normalize_desired_state d) (normalize_shadow_state c) r"
  by (rule apply_to_shadow_diff)

text \<open>Convergence.  If no object of the normalised desired state is both wanted and
  deleted, then after its change set has been applied to the normalised current state the
  next change set is empty: a second apply is a no-op.\<close>

theorem compute_diff_converges:
  assumes "conflict_free (normalize_desired_state d)"
  shows "cs_is_empty (compute_diff d
    (apply_to_shadow (compute_diff d c) (Some (normalize_shadow_state c)) d r))"
  by (rule conflict_free_converges[OF assms])

theorem compute_diff_converges_witness:
  "let d = (empty_desired ''sw1'')
         \<lparr>ds_vlans := bm_insert 10 \<lparr>vc_vlan_id = 10, vc_name = Some ''a'', vc_description = Some []\<rparr> bm_empty,
          ds_delete_vlan_ids := bs_insert 20 bm_empty\<rparr>;
       c = (blank_shadow ''sw1'' 1)
         \<lparr>ss_vlans := bm_insert 20 \<lparr>vc_vlan_id = 20, vc_name = None, vc_description = None\<rparr> bm_empty\<rparr> in
   \<not> cs_is_empty (compute_diff d c) \<and>
   cs_is_empty (compute_diff d (apply_to_shadow (compute_diff d c) (Some (normalize_shadow_state c)) d 2))"
proof -
  let ?d = "(empty_desired ''sw1'')
         \<lparr>ds_vlans := bm_insert 10 \<lparr>vc_vlan_id = 10, vc_name = Some ''a'', vc_description = Some []\<rparr> bm_empty,
          ds_delete_vlan_ids := bs_insert 20 bm_empty\<rparr>"
  let ?c = "(blank_shadow ''sw1'' 1)
         \<lparr>ss_vlans := bm_insert 20 \<lparr>vc_vlan_id = 20, vc_name = None, vc_description = None\<rparr> bm_empty\<rparr>"
  have empty: "bs_of_list [] = bm_empty" by (simp add: bs_of_list_def bm_of_list_def)
  have keys: "bs_elems (bm_empty :: string bset) = []" by code_simp
  have vl: "rekey normalize_vlan vc_vlan_id (ds_vlans ?d) =
      bm_insert 10 \<lparr>vc_vlan_id = 10, vc_name = Some ''a'', vc_description = None\<rparr> bm_empty"
    by code_simp
  have "conflict_free (normalize_desired_state ?d)"
    using vl by (simp add: normalize_desired_state_def conflict_free_def empty_desired_def keys empty
        bm_get_insert vlans.rekey_empty interfaces.rekey_empty acls.rekey_empty bindings.rekey_empty
        processes.rekey_empty neighbors.rekey_empty bm_contains_def bs_insert_def)
  from compute_diff_converges[OF this, of ?c 2]
  have "cs_is_empty (compute_diff ?d (apply_to_shadow (compute_diff ?d ?c) (Some (normalize_shadow_state ?c)) ?d 2))" .
  moreover have "\<not> cs_is_empty (compute_diff ?d ?c)" by code_simp
  ultimately show ?thesis unfolding Let_def by blast
qed

text \<open>a change set is empty exactly when the normalised current state already has every
  desired object, unchanged, and none of the objects to delete.\<close>

theorem compute_diff_empty_iff:
  "cs_is_empty (compute_diff d c) \<longleftrightarrow>
     satisfied (normalize_desired_state d) (normalize_shadow_state c)"
  by (simp add: compute_diff_def cs_is_empty_def Let_def diff_ops_empty)



end
