(* ===== verification/Convergence.thy ===== *)
theory Convergence
  imports Diff
begin

text \<open>
  Intent to change set: the planner's states through normalisation and diff.  A validated
  intent whose deletes do not alias its upserts converges; the validator compares raw
  interface names and members, so it does not exclude the aliases.
\<close>

section \<open>Aliases\<close>

text \<open>On one endpoint no upsert and delete have the same canonical key.\<close>

definition alias_free :: "UnderlayDomainIntent \<Rightarrow> bool" where
  "alias_free i \<longleftrightarrow> list_all (\<lambda>ep. let e = me_endpoint_id ep in
     list_all (\<lambda>f. list_all (\<lambda>g.
         canonical_interface_name (ii_name f) \<noteq> canonical_interface_name (ixd_name g))
       (owned i e ixd_device_id (di_delete_interfaces i))) (owned i e ii_device_id (di_interfaces i)) \<and>
     list_all (\<lambda>b. list_all (\<lambda>x.
         (canonical_interface_name (abi_interface_name b), abi_direction b) \<noteq>
         (canonical_interface_name (abi_interface_name x), abi_direction x))
       (owned i e abi_device_id (di_delete_acl_bindings i))) (owned i e abi_device_id (di_acl_bindings i)) \<and>
     list_all (\<lambda>p. list_all (\<lambda>x. trim (bpi_vrf p) \<noteq> trim (bpd_vrf x))
       (owned i e bpd_device_id (di_delete_bgp_processes i))) (owned i e bpi_device_id (di_bgp_processes i)) \<and>
     list_all (\<lambda>n. list_all (\<lambda>x. trim (bni_vrf n) \<noteq> trim (bpd_vrf x))
       (owned i e bpd_device_id (di_delete_bgp_processes i))) (owned i e bni_device_id (di_bgp_neighbors i)) \<and>
     list_all (\<lambda>n. list_all (\<lambda>x. bgp_neighbor_key (trim (bni_vrf n)) (trim (bni_address n)) \<noteq>
         bgp_neighbor_key (trim (bnd_vrf x)) (trim (bnd_address x)))
       (owned i e bnd_device_id (di_delete_bgp_neighbors i))) (owned i e bni_device_id (di_bgp_neighbors i)))
     (di_endpoints i)"

section \<open>Where the objects of a normalised plan come from\<close>

context keyed_normal
begin

lemma rekey_origin:
  assumes "bm_get (rekey norm key m) k = Some v"
  shows "\<exists>v0 k0. bm_get m k0 = Some v0 \<and> v = norm v0 \<and> k = key (norm v0)"
proof -
  obtain v0 where v0: "find (\<lambda>v. key (norm v) = k) (rev (bm_values m)) = Some v0" "v = norm v0"
    using assms by (auto simp: rekey_get)
  from v0(1) obtain n where n: "n < length (rev (bm_values m))"
    "key (norm (rev (bm_values m) ! n)) = k" "v0 = rev (bm_values m) ! n"
    unfolding find_Some_iff by blast
  have "key (norm v0) = k" "v0 \<in> set (rev (bm_values m))"
    using n nth_mem[OF n(1)] by simp_all
  moreover from this(2) obtain k0 where "bm_get m k0 = Some v0"
    by (auto simp: set_bm_values ran_def)
  ultimately show ?thesis using v0(2) by blast
qed

lemma rekey_of_list_origin:
  assumes "bm_get (rekey norm key (bm_of_list (map (\<lambda>x. (f x, g x)) xs))) k = Some v"
  shows "\<exists>x \<in> set xs. v = norm (g x) \<and> k = key (norm (g x))"
proof -
  obtain v0 k0 where v0: "bm_get (bm_of_list (map (\<lambda>x. (f x, g x)) xs)) k0 = Some v0"
    "v = norm v0" "k = key (norm v0)"
    using rekey_origin[OF assms] by blast
  from v0(1) have "(k0, v0) \<in> set (rev (map (\<lambda>x. (f x, g x)) xs))"
    unfolding bm_get_of_list by (rule map_of_SomeD)
  then obtain x where "x \<in> set xs" "v0 = g x" by auto
  with v0 show ?thesis by blast
qed

end

abbreviation normal_plan :: "UnderlayDomainIntent \<Rightarrow> DeviceId \<Rightarrow> DeviceDesiredState" where
  "normal_plan i e \<equiv> normalize_desired_state (planned_state i e)"

lemma normal_plan_upserts:
  "bm_get (ds_vlans (normal_plan i e)) k1 = Some v1 \<Longrightarrow> \<exists>x \<in> set (di_vlans i). k1 = vi_vlan_id x"
  "bm_get (ds_interfaces (normal_plan i e)) k2 = Some v2 \<Longrightarrow>
     \<exists>x \<in> set (owned i e ii_device_id (di_interfaces i)). k2 = canonical_interface_name (ii_name x)"
  "bm_get (ds_acls (normal_plan i e)) k3 = Some v3 \<Longrightarrow> \<exists>x \<in> set (di_acls i). k3 = ai_acl_id x"
  "bm_get (ds_acl_bindings (normal_plan i e)) k4 = Some v4 \<Longrightarrow>
     \<exists>x \<in> set (owned i e abi_device_id (di_acl_bindings i)). ab_acl_id v4 = abi_acl_id x \<and>
       k4 = acl_binding_key (canonical_interface_name (abi_interface_name x)) (abi_direction x)"
  "bm_get (ds_bgp_processes (normal_plan i e)) k5 = Some v5 \<Longrightarrow>
     \<exists>x \<in> set (owned i e bpi_device_id (di_bgp_processes i)). k5 = trim (bpi_vrf x)"
  "bm_get (ds_bgp_neighbors (normal_plan i e)) k6 = Some v6 \<Longrightarrow>
     \<exists>x \<in> set (owned i e bni_device_id (di_bgp_neighbors i)). bn_vrf v6 = trim (bni_vrf x) \<and>
       k6 = bgp_neighbor_key (trim (bni_vrf x)) (trim (bni_address x))"
  unfolding normalize_desired_state_def planned_state_def vlan_map_def acl_map_def
  subgoal by (simp, drule vlans.rekey_of_list_origin, auto simp: vlan_intent_config_def normalize_vlan_def)
  subgoal by (simp, drule interfaces.rekey_of_list_origin,
      auto simp: interface_intent_config_def normalize_interface_def)
  subgoal by (simp, drule acls.rekey_of_list_origin, auto simp: acl_intent_config_def normalize_acl_def)
  subgoal by (simp, drule bindings.rekey_of_list_origin,
      auto simp: binding_intent_config_def normalize_acl_binding_def ab_key_def)
  subgoal by (simp, drule processes.rekey_of_list_origin,
      auto simp: bgp_process_intent_config_def normalize_bgp_process_def)
  subgoal by (simp, drule neighbors.rekey_of_list_origin,
      auto simp: bgp_neighbor_intent_config_def normalize_bgp_neighbor_def bn_key_def)
  done

lemma normal_plan_deletes:
  "bs_member (ds_delete_vlan_ids (normal_plan i e)) d1 \<Longrightarrow> d1 \<in> set (di_delete_vlan_ids i)"
  "bs_member (ds_delete_interface_names (normal_plan i e)) d2 \<Longrightarrow>
     \<exists>x \<in> set (owned i e ixd_device_id (di_delete_interfaces i)). d2 = canonical_interface_name (ixd_name x)"
  "bs_member (ds_delete_acl_ids (normal_plan i e)) d3 \<Longrightarrow> d3 \<in> set (di_delete_acl_ids i)"
  "bm_get (ds_delete_acl_bindings (normal_plan i e)) d4 = Some w4 \<Longrightarrow>
     \<exists>x \<in> set (owned i e abi_device_id (di_delete_acl_bindings i)).
       d4 = acl_binding_key (canonical_interface_name (abi_interface_name x)) (abi_direction x)"
  "bs_member (ds_delete_bgp_process_vrfs (normal_plan i e)) d5 \<Longrightarrow>
     \<exists>x \<in> set (owned i e bpd_device_id (di_delete_bgp_processes i)). d5 = trim (bpd_vrf x)"
  "bm_get (ds_delete_bgp_neighbors (normal_plan i e)) d6 = Some w6 \<Longrightarrow>
     \<exists>x \<in> set (owned i e bnd_device_id (di_delete_bgp_neighbors i)).
       d6 = bgp_neighbor_key (trim (bnd_vrf x)) (trim (bnd_address x))"
  unfolding normalize_desired_state_def planned_state_def
  subgoal by simp
  subgoal by auto
  subgoal by simp
  subgoal by (simp, drule bindings.rekey_of_list_origin,
      auto simp: binding_intent_config_def normalize_acl_binding_def ab_key_def)
  subgoal by auto
  subgoal by (simp, drule neighbors.rekey_of_list_origin,
      auto simp: bgp_neighbor_delete_config_def normalize_bgp_neighbor_def bn_key_def)
  done

lemma get_none: "(\<And>v. bm_get m k = Some v \<Longrightarrow> False) \<Longrightarrow> bm_get m k = None"
  by (cases "bm_get m k") auto

lemma normal_plan_conflict_free:
  assumes ok: "domain_intent_ok i" and af: "alias_free i"
    and e: "e \<in> me_endpoint_id ` set (di_endpoints i)"
  shows "conflict_free (normal_plan i e)"
proof -
  note al = af[unfolded alias_free_def list_all_iff Let_def]
  from e al have
    f: "\<forall>f \<in> set (owned i e ii_device_id (di_interfaces i)).
      \<forall>g \<in> set (owned i e ixd_device_id (di_delete_interfaces i)).
        canonical_interface_name (ii_name f) \<noteq> canonical_interface_name (ixd_name g)"
    and b: "\<forall>b \<in> set (owned i e abi_device_id (di_acl_bindings i)).
      \<forall>x \<in> set (owned i e abi_device_id (di_delete_acl_bindings i)).
        (canonical_interface_name (abi_interface_name b), abi_direction b) \<noteq>
        (canonical_interface_name (abi_interface_name x), abi_direction x)"
    and p: "\<forall>p \<in> set (owned i e bpi_device_id (di_bgp_processes i)).
      \<forall>x \<in> set (owned i e bpd_device_id (di_delete_bgp_processes i)). trim (bpi_vrf p) \<noteq> trim (bpd_vrf x)"
    and np: "\<forall>n \<in> set (owned i e bni_device_id (di_bgp_neighbors i)).
      \<forall>x \<in> set (owned i e bpd_device_id (di_delete_bgp_processes i)). trim (bni_vrf n) \<noteq> trim (bpd_vrf x)"
    and n: "\<forall>n \<in> set (owned i e bni_device_id (di_bgp_neighbors i)).
      \<forall>x \<in> set (owned i e bnd_device_id (di_delete_bgp_neighbors i)).
        bgp_neighbor_key (trim (bni_vrf n)) (trim (bni_address n)) \<noteq>
        bgp_neighbor_key (trim (bnd_vrf x)) (trim (bnd_address x))"
    by (auto simp del: acl_binding_key_inject)
  have vl: "\<forall>v \<in> set (di_vlans i). vi_vlan_id v \<notin> set (di_delete_vlan_ids i)"
    and ac: "\<forall>a \<in> set (di_acls i). ai_acl_id a \<notin> set (di_delete_acl_ids i)"
    and bi: "\<forall>b \<in> set (di_acl_bindings i). abi_acl_id b \<notin> set (di_delete_acl_ids i)"
    using ok by (auto simp: domain_intent_ok_def vlans_ok_def acls_ok_def bindings_ok_def)
  have sub: "set (owned i e abi_device_id (di_acl_bindings i)) \<subseteq> set (di_acl_bindings i)"
    by (auto simp: owned_def)
  show ?thesis
    unfolding conflict_free_def
  proof (intro conjI allI impI)
    fix k assume "bs_member (ds_delete_vlan_ids (normal_plan i e)) k"
    from normal_plan_deletes(1)[OF this] vl show "bm_get (ds_vlans (normal_plan i e)) k = None"
      by (intro get_none) (drule normal_plan_upserts(1), metis)
  next
    fix k assume "bs_member (ds_delete_interface_names (normal_plan i e)) k"
    from normal_plan_deletes(2)[OF this] f show "bm_get (ds_interfaces (normal_plan i e)) k = None"
      by (intro get_none) (drule normal_plan_upserts(2), metis)
  next
    fix k assume "bs_member (ds_delete_acl_ids (normal_plan i e)) k"
    from normal_plan_deletes(3)[OF this] ac show "bm_get (ds_acls (normal_plan i e)) k = None"
      by (intro get_none) (drule normal_plan_upserts(3), metis)
  next
    fix k assume "bm_contains (ds_delete_acl_bindings (normal_plan i e)) k"
    then obtain w where "bm_get (ds_delete_acl_bindings (normal_plan i e)) k = Some w"
      by (auto simp: bm_contains_def)
    from normal_plan_deletes(4)[OF this] b show "bm_get (ds_acl_bindings (normal_plan i e)) k = None"
      by (intro get_none) (drule normal_plan_upserts(4), metis acl_binding_key_inject)
  next
    fix k assume "bs_member (ds_delete_bgp_process_vrfs (normal_plan i e)) k"
    from normal_plan_deletes(5)[OF this] p show "bm_get (ds_bgp_processes (normal_plan i e)) k = None"
      by (intro get_none) (drule normal_plan_upserts(5), metis)
  next
    fix k assume "bm_contains (ds_delete_bgp_neighbors (normal_plan i e)) k"
    then obtain w where "bm_get (ds_delete_bgp_neighbors (normal_plan i e)) k = Some w"
      by (auto simp: bm_contains_def)
    from normal_plan_deletes(6)[OF this] n show "bm_get (ds_bgp_neighbors (normal_plan i e)) k = None"
      by (intro get_none) (drule normal_plan_upserts(6), metis)
  next
    fix k b assume "bm_get (ds_acl_bindings (normal_plan i e)) k = Some b"
    from normal_plan_upserts(4)[OF this] bi sub
    show "\<not> bs_member (ds_delete_acl_ids (normal_plan i e)) (ab_acl_id b)"
      using normal_plan_deletes(3)[of i e "ab_acl_id b"] by auto
  next
    fix k n assume "bm_get (ds_bgp_neighbors (normal_plan i e)) k = Some n"
    from normal_plan_upserts(6)[OF this] np
    show "\<not> bs_member (ds_delete_bgp_process_vrfs (normal_plan i e)) (bn_vrf n)"
      using normal_plan_deletes(5)[of i e "bn_vrf n"] by metis
  qed
qed

section \<open>Properties\<close>

text \<open>The plan of a validated intent, as the planner lists it.\<close>

lemma plan_member:
  assumes "plan_underlay_domain i = Inr ds" "d \<in> set ds"
  obtains e where "domain_intent_ok i" "e \<in> me_endpoint_id ` set (di_endpoints i)" "d = planned_state i e"
proof -
  have v: "validate_underlay_domain_intent i = Inr ()"
    using assms(1) by (cases "validate_underlay_domain_intent i") (auto simp: plan_underlay_domain_def)
  then have ok: "domain_intent_ok i" by (simp flip: domain_intent_ok_validated)
  have "d \<in> planned_state i ` (me_endpoint_id ` set (di_endpoints i))"
    using assms v by (auto simp: plan_underlay_domain_planned)
  with ok that show thesis by blast
qed


definition sample_member :: "string \<Rightarrow> SwitchMemberIntent" where
  "sample_member m = \<lparr>sm_member_id = m, sm_role = None, sm_management_endpoint_id = ''ep1''\<rparr>"

text \<open>A stack of one endpoint with one member, one VLAN and the given interface changes.\<close>

definition sample_intent :: "InterfaceIntent list \<Rightarrow> InterfaceDeleteIntent list \<Rightarrow> UnderlayDomainIntent" where
  "sample_intent is ds =
     \<lparr>di_domain_id = ''dom1'', di_topology = StackSingleManagementIp,
      di_endpoints = [\<lparr>me_endpoint_id = ''ep1'', me_host = ''10.0.0.1'', me_port = 830,
        me_secret_ref = ''vault'', me_vendor_hint = None, me_model_hint = None\<rparr>],
      di_members = [sample_member ''sw1'', sample_member ''sw2''],
      di_vlans = [\<lparr>vi_vlan_id = 10, vi_name = None, vi_description = None\<rparr>],
      di_interfaces = is, di_acls = [], di_acl_bindings = [], di_delete_vlan_ids = [20],
      di_delete_interfaces = ds, di_delete_acl_ids = [], di_delete_acl_bindings = [],
      di_bgp_processes = [], di_bgp_neighbors = [], di_delete_bgp_processes = [],
      di_delete_bgp_neighbors = []\<rparr>"

definition sample_interface :: "string \<Rightarrow> string \<Rightarrow> string \<Rightarrow> InterfaceIntent" where
  "sample_interface m n descr =
     \<lparr>ii_device_id = m, ii_name = n, ii_admin_state = Up, ii_description = Some descr, ii_mode = Access 10\<rparr>"




end
