(* ===== verification/Change_Plan.thy ===== *)
theory Change_Plan
  imports Diff "HOL-Library.Multiset"
begin

text \<open>
  The staged plan of a change set and the decision whether it may be written:
  \<open>src/engine/change_plan.rs\<close>, \<open>src/engine/dry_run.rs\<close> and the model profile of
  \<open>src/device/model_profile.rs\<close> it consults.  Variants that share a name with another enum
  carry a prefix.
\<close>

section \<open>Model profiles (device/model_profile.rs)\<close>

datatype ModelProtocol = OpenConfigGnmi | OpenConfigNetconf | VendorNativeYang | VendorCli

datatype WriteReadiness = ReadOnly | WriteSafe | WriteRejected

datatype WriteDecision =
    FeatureStandardModel | FeatureVendorNative | FeatureReadOnlyOnly
  | FeatureUnsafeTransaction | FeatureMissingPath

record ModelPathSupport =
  mp_protocol :: ModelProtocol
  mp_model :: string
  mp_revision :: "string option"
  mp_path :: string
  mp_readable :: bool
  mp_writable :: bool
  mp_verified_on_device :: bool
  mp_deviations :: "string list"
  mp_notes :: "string list"

record DeviceModelProfile =
  pf_profile_id :: string
  pf_vendor :: Vendor
  pf_model :: string
  pf_os_version :: string
  pf_paths :: "ModelPathSupport list"
  pf_pbr_write_readiness :: WriteReadiness
  pf_bgp_write_readiness :: WriteReadiness
  pf_rejection_reasons :: "string list"
  pf_yang_module_count :: u32

record FeatureSupport =
  fs_feature :: string
  fs_required_paths :: "ModelPathSupport list"
  fs_requires_candidate :: bool
  fs_requires_validate :: bool
  fs_supports_candidate :: bool
  fs_supports_validate :: bool

definition write_decision :: "FeatureSupport \<Rightarrow> WriteDecision" where
  "write_decision f =
     (if (fs_requires_candidate f \<and> \<not> fs_supports_candidate f) \<or>
         (fs_requires_validate f \<and> \<not> fs_supports_validate f)
      then FeatureUnsafeTransaction
      else case find (\<lambda>p. mp_readable p \<and> mp_writable p \<and> mp_verified_on_device p) (fs_required_paths f) of
        None \<Rightarrow> FeatureMissingPath
      | Some best_path \<Rightarrow>
         (case mp_protocol best_path of
            OpenConfigGnmi \<Rightarrow> FeatureStandardModel
          | OpenConfigNetconf \<Rightarrow> FeatureStandardModel
          | VendorNativeYang \<Rightarrow> FeatureVendorNative
          | VendorCli \<Rightarrow> FeatureReadOnlyOnly))"

section \<open>Plans\<close>

datatype DryRunWriteDecision =
  AllowedStandardModel | AllowedVendorNative | AllowedVendorPrivate | DryRunReadOnly | DryRunRejected

datatype HighRiskFeature = Pbr | Bgp | Qos | Nqa

datatype ChangePlanStageKind =
  UnbindReferences | DeleteBaseObjects | CreateBaseObjects | UpdateBaseObjects | BindReferences

record ChangePlanStage =
  sg_kind :: ChangePlanStageKind
  sg_ops :: "ChangeOp list"

record ChangeDependencyEdge =
  de_from :: string
  de_to :: string

datatype RoutePolicyDirection = Import | Export

record RoutePolicyDependency =
  rp_neighbor :: string
  rp_policy :: string
  rp_direction :: RoutePolicyDirection

datatype BlastRadius = NoChange | LocalInterfaceOrVlan | PolicyReference | RoutingControlPlane

record ChangePlan =
  cp_device_id :: string
  cp_high_risk_features :: "HighRiskFeature list"
  cp_stages :: "ChangePlanStage list"
  cp_dependency_edges :: "ChangeDependencyEdge list"
  cp_route_policy_dependencies :: "RoutePolicyDependency list"
  cp_missing_route_policy_refs :: "string list"
  cp_rollback_order :: "string list"
  cp_blast_radius :: BlastRadius
  cp_unsupported_paths :: "string list"
  cp_write_decision :: DryRunWriteDecision

subsection \<open>Names of nodes\<close>

definition acl_node :: "u16 \<Rightarrow> string \<Rightarrow> string" where
  "acl_node acl_id sfx =
     (if sfx = [] then ''acl '' @ show_word acl_id else ''acl '' @ show_word acl_id @ '' '' @ sfx)"

definition acl_binding_node :: "string \<Rightarrow> AclDirection \<Rightarrow> u16 \<Rightarrow> string \<Rightarrow> string" where
  "acl_binding_node interface_name direction acl_id sfx =
     (let node = ''acl-binding '' @ interface_name @ '' '' @ direction_text direction @ '' acl '' @ show_word acl_id in
      if sfx = [] then node else node @ '' '' @ sfx)"

definition bgp_process_node :: "string \<Rightarrow> string" where
  "bgp_process_node vrf = ''bgp-process '' @ vrf"

definition bgp_neighbor_node :: "string \<Rightarrow> string \<Rightarrow> string" where
  "bgp_neighbor_node vrf address = ''bgp-neighbor '' @ vrf @ '' '' @ address"

definition route_policy_node :: "string \<Rightarrow> string" where
  "route_policy_node policy = ''route-policy '' @ policy"

definition normalized_policy_ref :: "string option \<Rightarrow> string option" where
  "normalized_policy_ref policy =
     (case policy of None \<Rightarrow> None | Some p \<Rightarrow> if trim p = [] then None else Some (trim p))"

subsection \<open>What a change set touches\<close>

fun acl_op :: "ChangeOp \<Rightarrow> bool" where
  "acl_op (CreateAcl _) = True"
| "acl_op (UpdateAcl _ _) = True"
| "acl_op (DeleteAcl _) = True"
| "acl_op (CreateAclBinding _) = True"
| "acl_op (UpdateAclBinding _ _) = True"
| "acl_op (DeleteAclBinding _ _ _) = True"
| "acl_op _ = False"

fun bgp_op :: "ChangeOp \<Rightarrow> bool" where
  "bgp_op (CreateBgpProcess _) = True"
| "bgp_op (UpdateBgpProcess _ _) = True"
| "bgp_op (DeleteBgpProcess _) = True"
| "bgp_op (CreateBgpNeighbor _) = True"
| "bgp_op (UpdateBgpNeighbor _ _) = True"
| "bgp_op (DeleteBgpNeighbor _ _) = True"
| "bgp_op _ = False"

definition touches_acl :: "ChangeSet \<Rightarrow> bool" where
  "touches_acl cs = list_ex acl_op (cs_ops cs)"

definition touches_pbr :: "ChangeSet \<Rightarrow> bool" where
  "touches_pbr cs = False"

definition touches_bgp :: "ChangeSet \<Rightarrow> bool" where
  "touches_bgp cs = list_ex bgp_op (cs_ops cs)"

definition push_unique_feature :: "HighRiskFeature list \<Rightarrow> HighRiskFeature \<Rightarrow> HighRiskFeature list" where
  "push_unique_feature features f = (if f \<in> set features then features else features @ [f])"

definition effective_high_risk_features :: "ChangeSet \<Rightarrow> HighRiskFeature list \<Rightarrow> HighRiskFeature list" where
  "effective_high_risk_features cs declared =
     (let features = [];
          features = (if touches_pbr cs then push_unique_feature features Pbr else features);
          features = (if touches_bgp cs then push_unique_feature features Bgp else features) in
      foldl push_unique_feature features declared)"

definition classify_blast_radius :: "ChangeSet \<Rightarrow> HighRiskFeature list \<Rightarrow> BlastRadius" where
  "classify_blast_radius cs high_risk_features =
     (if Bgp \<in> set high_risk_features then RoutingControlPlane
      else if high_risk_features \<noteq> [] then PolicyReference
      else if cs_ops cs = [] then NoChange
      else if touches_bgp cs then RoutingControlPlane
      else if touches_acl cs then PolicyReference
      else LocalInterfaceOrVlan)"

subsection \<open>Dependencies\<close>

definition edge :: "string \<Rightarrow> string \<Rightarrow> ChangeDependencyEdge" where
  "edge a b = \<lparr>de_from = a, de_to = b\<rparr>"

fun delete_acl_binding_edge :: "u16 \<Rightarrow> ChangeOp \<Rightarrow> ChangeDependencyEdge option" where
  "delete_acl_binding_edge acl_id (DeleteAclBinding n d i) =
     (if i = acl_id then Some (edge (acl_node acl_id ''delete'') (acl_binding_node n d acl_id ''unbind'')) else None)"
| "delete_acl_binding_edge acl_id _ = None"

definition delete_acl_binding_edges :: "ChangeSet \<Rightarrow> u16 \<Rightarrow> ChangeDependencyEdge list" where
  "delete_acl_binding_edges cs acl_id = List.map_filter (delete_acl_binding_edge acl_id) (cs_ops cs)"

fun delete_bgp_neighbor_edge :: "string \<Rightarrow> ChangeOp \<Rightarrow> ChangeDependencyEdge option" where
  "delete_bgp_neighbor_edge vrf (DeleteBgpNeighbor v a) =
     (if v = vrf then Some (edge (bgp_process_node vrf @ '' delete'') (bgp_neighbor_node vrf a @ '' delete'')) else None)"
| "delete_bgp_neighbor_edge vrf _ = None"

definition delete_bgp_neighbor_edges :: "ChangeSet \<Rightarrow> string \<Rightarrow> ChangeDependencyEdge list" where
  "delete_bgp_neighbor_edges cs vrf = List.map_filter (delete_bgp_neighbor_edge vrf) (cs_ops cs)"

definition binding_edges :: "AclBinding \<Rightarrow> ChangeDependencyEdge list" where
  "binding_edges b = [edge (acl_binding_node (ab_interface_name b) (ab_direction b) (ab_acl_id b) [])
     (acl_node (ab_acl_id b) [])]"

definition policy_edges :: "string \<Rightarrow> string option \<Rightarrow> ChangeDependencyEdge list" where
  "policy_edges node policy =
     (case normalized_policy_ref policy of None \<Rightarrow> [] | Some p \<Rightarrow> [edge node (route_policy_node p)])"

definition neighbor_edges :: "BgpNeighbor \<Rightarrow> ChangeDependencyEdge list" where
  "neighbor_edges n =
     (let node = bgp_neighbor_node (bn_vrf n) (bn_address n) in
      [edge node (bgp_process_node (bn_vrf n))] @
      policy_edges node (bn_import_policy n) @ policy_edges node (bn_export_policy n))"

fun dependency_edges_for_op :: "ChangeSet \<Rightarrow> ChangeOp \<Rightarrow> ChangeDependencyEdge list" where
  "dependency_edges_for_op cs (CreateAclBinding b) = binding_edges b"
| "dependency_edges_for_op cs (UpdateAclBinding _ b) = binding_edges b"
| "dependency_edges_for_op cs (DeleteAcl i) =
     (let edges = delete_acl_binding_edges cs i in
      if edges = [] then [edge (acl_node i ''delete'') (''all acl '' @ show_word i @ '' bindings unbound'')]
      else edges)"
| "dependency_edges_for_op cs (CreateBgpNeighbor n) = neighbor_edges n"
| "dependency_edges_for_op cs (UpdateBgpNeighbor _ n) = neighbor_edges n"
| "dependency_edges_for_op cs (DeleteBgpProcess v) =
     (let edges = delete_bgp_neighbor_edges cs v in
      if edges = [] then [edge (bgp_process_node v @ '' delete'') (''all bgp process '' @ v @ '' neighbors removed'')]
      else edges)"
| "dependency_edges_for_op cs _ = []"

definition dependency_edges_for_change_set :: "ChangeSet \<Rightarrow> ChangeDependencyEdge list" where
  "dependency_edges_for_change_set cs = concat (map (dependency_edges_for_op cs) (cs_ops cs))"

definition policy_dependency ::
  "string \<Rightarrow> string option \<Rightarrow> RoutePolicyDirection \<Rightarrow> RoutePolicyDependency list" where
  "policy_dependency node policy direction =
     (case normalized_policy_ref policy of
        None \<Rightarrow> []
      | Some p \<Rightarrow> [\<lparr>rp_neighbor = node, rp_policy = p, rp_direction = direction\<rparr>])"

definition neighbor_dependencies :: "BgpNeighbor \<Rightarrow> RoutePolicyDependency list" where
  "neighbor_dependencies n =
     (let node = bgp_neighbor_node (bn_vrf n) (bn_address n) in
      policy_dependency node (bn_import_policy n) Import @ policy_dependency node (bn_export_policy n) Export)"

fun route_policy_dependencies_for_op :: "ChangeOp \<Rightarrow> RoutePolicyDependency list" where
  "route_policy_dependencies_for_op (CreateBgpNeighbor n) = neighbor_dependencies n"
| "route_policy_dependencies_for_op (UpdateBgpNeighbor _ n) = neighbor_dependencies n"
| "route_policy_dependencies_for_op _ = []"

definition route_policy_dependencies_for_change_set :: "ChangeSet \<Rightarrow> RoutePolicyDependency list" where
  "route_policy_dependencies_for_change_set cs = concat (map route_policy_dependencies_for_op (cs_ops cs))"

definition missing_route_policy_refs :: "RoutePolicyDependency list \<Rightarrow> string bset \<Rightarrow> string list" where
  "missing_route_policy_refs dependencies evidence =
     bs_elems (bs_of_list (filter (\<lambda>p. \<not> bs_member evidence p)
       (filter (\<lambda>p. p \<noteq> []) (map (\<lambda>d. trim (rp_policy d)) dependencies))))"

subsection \<open>Stages and rollback\<close>

fun stage_of :: "ChangeOp \<Rightarrow> ChangePlanStageKind" where
  "stage_of (DeleteAclBinding _ _ _) = UnbindReferences"
| "stage_of (DeleteBgpNeighbor _ _) = UnbindReferences"
| "stage_of (DeleteAcl _) = DeleteBaseObjects"
| "stage_of (DeleteVlan _) = DeleteBaseObjects"
| "stage_of (DeleteInterfaceConfig _) = DeleteBaseObjects"
| "stage_of (DeleteBgpProcess _) = DeleteBaseObjects"
| "stage_of (CreateAcl _) = CreateBaseObjects"
| "stage_of (CreateVlan _) = CreateBaseObjects"
| "stage_of (CreateBgpProcess _) = CreateBaseObjects"
| "stage_of (UpdateAcl _ _) = UpdateBaseObjects"
| "stage_of (UpdateVlan _ _) = UpdateBaseObjects"
| "stage_of (UpdateInterface _ _) = UpdateBaseObjects"
| "stage_of (UpdateBgpProcess _ _) = UpdateBaseObjects"
| "stage_of (CreateAclBinding _) = BindReferences"
| "stage_of (UpdateAclBinding _ _) = BindReferences"
| "stage_of (CreateBgpNeighbor _) = BindReferences"
| "stage_of (UpdateBgpNeighbor _ _) = BindReferences"

definition push_stage ::
  "ChangePlanStage list \<Rightarrow> ChangePlanStageKind \<Rightarrow> ChangeOp list \<Rightarrow> ChangePlanStage list" where
  "push_stage stages kind ops = (if ops \<noteq> [] then stages @ [\<lparr>sg_kind = kind, sg_ops = ops\<rparr>] else stages)"

definition stages_of :: "ChangeOp list \<Rightarrow> ChangePlanStage list" where
  "stages_of ops =
     (let picked = (\<lambda>kind. filter (\<lambda>op. stage_of op = kind) ops);
          stages = push_stage [] UnbindReferences (picked UnbindReferences);
          stages = push_stage stages DeleteBaseObjects (picked DeleteBaseObjects);
          stages = push_stage stages CreateBaseObjects (picked CreateBaseObjects);
          stages = push_stage stages UpdateBaseObjects (picked UpdateBaseObjects) in
      push_stage stages BindReferences (picked BindReferences))"

fun rollback_action_for_op :: "ChangeOp \<Rightarrow> string" where
  "rollback_action_for_op (CreateVlan v) = ''delete vlan '' @ show_word (vc_vlan_id v)"
| "rollback_action_for_op (UpdateVlan b _) = ''restore vlan '' @ show_word (vc_vlan_id b)"
| "rollback_action_for_op (DeleteVlan i) = ''restore vlan '' @ show_word i"
| "rollback_action_for_op (UpdateInterface _ a) = ''restore interface '' @ ic_name a"
| "rollback_action_for_op (DeleteInterfaceConfig n) = ''restore interface '' @ n"
| "rollback_action_for_op (CreateAcl a) = ''delete acl '' @ show_word (ac_acl_id a)"
| "rollback_action_for_op (UpdateAcl b _) = ''restore acl '' @ show_word (ac_acl_id b)"
| "rollback_action_for_op (DeleteAcl i) = ''restore acl '' @ show_word i"
| "rollback_action_for_op (CreateAclBinding b) =
     ''remove acl binding '' @ show_word (ab_acl_id b) @ '' on '' @ ab_interface_name b @ '' '' @
     direction_text (ab_direction b)"
| "rollback_action_for_op (UpdateAclBinding b _) =
     ''restore acl binding '' @ show_word (ab_acl_id b) @ '' on '' @ ab_interface_name b @ '' '' @
     direction_text (ab_direction b)"
| "rollback_action_for_op (DeleteAclBinding n d i) =
     ''restore acl binding '' @ show_word i @ '' on '' @ n @ '' '' @ direction_text d"
| "rollback_action_for_op (CreateBgpProcess p) = ''delete bgp process '' @ bp_vrf p"
| "rollback_action_for_op (UpdateBgpProcess b _) = ''restore bgp process '' @ bp_vrf b"
| "rollback_action_for_op (DeleteBgpProcess v) = ''restore bgp process '' @ v"
| "rollback_action_for_op (CreateBgpNeighbor n) = ''delete bgp neighbor '' @ bn_vrf n @ '' '' @ bn_address n"
| "rollback_action_for_op (UpdateBgpNeighbor b _) = ''restore bgp neighbor '' @ bn_vrf b @ '' '' @ bn_address b"
| "rollback_action_for_op (DeleteBgpNeighbor v a) = ''restore bgp neighbor '' @ v @ '' '' @ a"

definition rollback_order_for_stages :: "ChangePlanStage list \<Rightarrow> string list" where
  "rollback_order_for_stages stages =
     concat (map (\<lambda>stage. map rollback_action_for_op (rev (sg_ops stage))) (rev stages))"

subsection \<open>Write decision\<close>

fun feature_name :: "HighRiskFeature \<Rightarrow> string" where
  "feature_name Pbr = ''pbr''"
| "feature_name Bgp = ''bgp''"
| "feature_name Qos = ''qos''"
| "feature_name Nqa = ''nqa''"

definition matches_path :: "HighRiskFeature \<Rightarrow> ModelPathSupport \<Rightarrow> bool" where
  "matches_path f p =
     (let model = to_ascii_lowercase (mp_model p);
          path_text = to_ascii_lowercase (mp_path p) in
      case f of
        Pbr \<Rightarrow> str_contains model ''pbr'' \<or> str_contains model ''policy-forwarding'' \<or>
          str_contains path_text ''pbr'' \<or> str_contains path_text ''policy-forwarding''
      | Bgp \<Rightarrow> str_contains model ''bgp'' \<or> str_contains path_text ''bgp''
      | Qos \<Rightarrow> str_contains model ''qos'' \<or> str_contains model ''quality-of-service'' \<or>
          str_contains path_text ''qos'' \<or> str_contains path_text ''quality-of-service'' \<or>
          str_contains path_text ''traffic''
      | Nqa \<Rightarrow> str_contains model ''nqa'' \<or> str_contains path_text ''nqa'')"

definition is_bgp_path :: "ModelPathSupport \<Rightarrow> bool" where
  "is_bgp_path p =
     (let model = to_ascii_lowercase (mp_model p);
          path_text = to_ascii_lowercase (mp_path p) in
      str_contains model ''bgp'' \<or> str_contains path_text ''bgp'')"

definition has_writable_bgp_path :: "DeviceModelProfile \<Rightarrow> bool" where
  "has_writable_bgp_path profile =
     list_ex (\<lambda>p. is_bgp_path p \<and> mp_verified_on_device p \<and> mp_writable p \<and> mp_readable p) (pf_paths profile)"

definition feature_readiness :: "DeviceModelProfile \<Rightarrow> HighRiskFeature \<Rightarrow> WriteReadiness option" where
  "feature_readiness profile f =
     (case f of Pbr \<Rightarrow> Some (pf_pbr_write_readiness profile)
      | Bgp \<Rightarrow> Some (pf_bgp_write_readiness profile) | Qos \<Rightarrow> None | Nqa \<Rightarrow> None)"

definition has_verified_writable_path_for_feature :: "DeviceModelProfile \<Rightarrow> HighRiskFeature \<Rightarrow> bool" where
  "has_verified_writable_path_for_feature profile f =
     list_ex (\<lambda>p. mp_readable p \<and> mp_writable p \<and> mp_verified_on_device p \<and> matches_path f p) (pf_paths profile)"

text \<open>The code lowers the reason with the Unicode \<open>to_lowercase\<close>.  No character outside ASCII
  lowers to a letter of a feature name, so lowering ASCII gives the same answer here.\<close>

definition first_rejection_reason :: "DeviceModelProfile \<Rightarrow> string \<Rightarrow> string" where
  "first_rejection_reason profile feature =
     (case find (\<lambda>reason. str_contains (to_ascii_lowercase reason) feature) (pf_rejection_reasons profile) of
        Some reason \<Rightarrow> reason
      | None \<Rightarrow> ''write rejected for '' @ feature)"

definition feature_rejection_reason :: "DeviceModelProfile \<Rightarrow> string \<Rightarrow> string" where
  "feature_rejection_reason profile feature =
     (let reason = first_rejection_reason profile feature in
      if prefix (feature @ '':'') (to_ascii_lowercase (trim_start reason)) then reason
      else feature @ '': '' @ reason)"

definition unsupported_feature :: "DeviceModelProfile \<Rightarrow> HighRiskFeature \<Rightarrow> string list" where
  "unsupported_feature profile f =
     (case feature_readiness profile f of
        Some WriteSafe \<Rightarrow>
          (if f = Bgp \<and> \<not> has_writable_bgp_path profile then [''bgp: missing writable BGP path evidence'']
           else if f \<noteq> Bgp \<and> \<not> has_verified_writable_path_for_feature profile f
           then [feature_name f @ '': missing verified writable path-level evidence''] else [])
      | Some ReadOnly \<Rightarrow> [feature_name f @ '': write readiness is read-only'']
      | Some WriteRejected \<Rightarrow> [feature_rejection_reason profile (feature_name f)]
      | None \<Rightarrow> [feature_name f @ '': DeviceModelProfile write readiness is not implemented''])"

definition collect_unsupported_paths ::
  "ChangeSet \<Rightarrow> DeviceModelProfile option \<Rightarrow> string list \<Rightarrow> HighRiskFeature list \<Rightarrow> string list" where
  "collect_unsupported_paths cs profile missing high_risk_features =
     (let unsupported = map (\<lambda>p. ''bgp: missing route-policy evidence '' @ p) missing in
      case profile of
        None \<Rightarrow> unsupported @ map (\<lambda>f. feature_name f @ '': missing device model profile'') high_risk_features
      | Some profile \<Rightarrow> unsupported @ concat (map (unsupported_feature profile) high_risk_features))"

definition classify_write_decision ::
  "DeviceModelProfile option \<Rightarrow> BlastRadius \<Rightarrow> string list \<Rightarrow> ChangeSet \<Rightarrow> HighRiskFeature list \<Rightarrow>
   DryRunWriteDecision" where
  "classify_write_decision profile blast_radius unsupported_paths cs high_risk_features =
     (case profile of
        None \<Rightarrow>
          (if high_risk_features \<noteq> [] \<or> blast_radius = RoutingControlPlane then DryRunRejected
           else AllowedVendorPrivate)
      | Some profile \<Rightarrow>
          (if list_ex (\<lambda>f. feature_readiness profile f = Some ReadOnly) high_risk_features
           then DryRunReadOnly
           else if (blast_radius = RoutingControlPlane \<or> blast_radius = PolicyReference) \<and> unsupported_paths \<noteq> []
           then DryRunRejected
           else if pf_pbr_write_readiness profile = WriteRejected \<and> pf_bgp_write_readiness profile = WriteRejected \<and>
              blast_radius = RoutingControlPlane
           then DryRunRejected
           else if (touches_pbr cs \<and> pf_pbr_write_readiness profile = ReadOnly \<or>
                touches_bgp cs \<and> pf_bgp_write_readiness profile = ReadOnly) \<and>
              (blast_radius = RoutingControlPlane \<or> blast_radius = PolicyReference)
           then DryRunReadOnly
           else (let writable_paths = filter (\<lambda>p. mp_verified_on_device p \<and> mp_writable p \<and> mp_readable p)
                       (filter (\<lambda>p. \<not> touches_bgp cs \<or> is_bgp_path p) (pf_paths profile)) in
                 if writable_paths \<noteq> [] then
                   (if list_ex (\<lambda>p. mp_verified_on_device p \<and> mp_writable p \<and>
                          (mp_protocol p = OpenConfigGnmi \<or> mp_protocol p = OpenConfigNetconf)) writable_paths
                    then AllowedStandardModel else AllowedVendorNative)
                 else AllowedVendorPrivate)))"

section \<open>The builder\<close>

definition build_change_plan_full ::
  "ChangeSet \<Rightarrow> DeviceModelProfile option \<Rightarrow> string bset \<Rightarrow> HighRiskFeature list \<Rightarrow> ChangePlan" where
  "build_change_plan_full cs profile evidence declared =
     (let stages = stages_of (cs_ops cs);
          dependencies = route_policy_dependencies_for_change_set cs;
          missing = missing_route_policy_refs dependencies evidence;
          features = effective_high_risk_features cs declared;
          blast_radius = classify_blast_radius cs features;
          unsupported = collect_unsupported_paths cs profile missing features in
      \<lparr>cp_device_id = cs_device_id cs, cp_high_risk_features = features, cp_stages = stages,
       cp_dependency_edges = dependency_edges_for_change_set cs,
       cp_route_policy_dependencies = dependencies, cp_missing_route_policy_refs = missing,
       cp_rollback_order = rollback_order_for_stages stages, cp_blast_radius = blast_radius,
       cp_unsupported_paths = unsupported,
       cp_write_decision = classify_write_decision profile blast_radius unsupported cs features\<rparr>)"

definition build_change_plan_with_evidence ::
  "ChangeSet \<Rightarrow> DeviceModelProfile option \<Rightarrow> string bset \<Rightarrow> ChangePlan" where
  "build_change_plan_with_evidence cs profile evidence = build_change_plan_full cs profile evidence []"

definition build_change_plan_with_features ::
  "ChangeSet \<Rightarrow> DeviceModelProfile option \<Rightarrow> HighRiskFeature list \<Rightarrow> ChangePlan" where
  "build_change_plan_with_features cs profile features = build_change_plan_full cs profile bm_empty features"

definition build_change_plan_with_profile :: "ChangeSet \<Rightarrow> DeviceModelProfile option \<Rightarrow> ChangePlan" where
  "build_change_plan_with_profile cs profile = build_change_plan_with_features cs profile []"

definition build_change_plan :: "ChangeSet \<Rightarrow> ChangePlan" where
  "build_change_plan cs = build_change_plan_with_profile cs None"

section \<open>Dry runs (engine/dry_run.rs)\<close>

record DryRunPlan =
  dn_change_sets :: "ChangeSet list"
  dn_change_plans :: "ChangePlan list"

definition is_noop :: "DryRunPlan \<Rightarrow> bool" where
  "is_noop plan = list_all cs_is_empty (dn_change_sets plan)"

text \<open>One round of the loop over the desired states.\<close>

definition dry_run_device ::
  "(DeviceId, DeviceShadowState) bmap \<Rightarrow> (DeviceId, DeviceModelProfile) bmap \<Rightarrow> DryRunPlan \<Rightarrow>
   DeviceDesiredState \<Rightarrow> DryRunPlan result" where
  "dry_run_device current_by_device profiles plan desired =
     and_then (ok_or (bm_get current_by_device (ds_device_id desired))
       (InvalidDeviceState (''missing current state for device '' @ ds_device_id desired))) (\<lambda>current.
     let change_set = compute_diff desired current;
         change_plan = build_change_plan_with_evidence change_set
           (bm_get profiles (ds_device_id desired)) (ds_route_policy_refs desired) in
     Inr (plan\<lparr>dn_change_sets := dn_change_sets plan @ [change_set],
       dn_change_plans := dn_change_plans plan @ [change_plan]\<rparr>))"

definition build_dry_run_plan_with_profiles ::
  "DeviceDesiredState list \<Rightarrow> DeviceShadowState list \<Rightarrow> (DeviceId, DeviceModelProfile) bmap \<Rightarrow> DryRunPlan result" where
  "build_dry_run_plan_with_profiles desired_states current_states profiles =
     (let current_by_device = bm_of_list (map (\<lambda>st. (ss_device_id st, st)) current_states) in
      try_fold (dry_run_device current_by_device profiles) \<lparr>dn_change_sets = [], dn_change_plans = []\<rparr> desired_states)"

definition build_dry_run_plan :: "DeviceDesiredState list \<Rightarrow> DeviceShadowState list \<Rightarrow> DryRunPlan result" where
  "build_dry_run_plan desired_states current_states =
     build_dry_run_plan_with_profiles desired_states current_states bm_empty"

section \<open>Stages\<close>

fun stage_rank :: "ChangePlanStageKind \<Rightarrow> nat" where
  "stage_rank UnbindReferences = 0"
| "stage_rank DeleteBaseObjects = 1"
| "stage_rank CreateBaseObjects = 2"
| "stage_rank UpdateBaseObjects = 3"
| "stage_rank BindReferences = 4"

text \<open>The operations in the order in which the stages run them.\<close>

definition staged_ops :: "ChangePlanStage list \<Rightarrow> ChangeOp list" where
  "staged_ops stages = concat (map sg_ops stages)"

abbreviation pick :: "ChangePlanStageKind \<Rightarrow> ChangeOp list \<Rightarrow> ChangeOp list" where
  "pick kind \<equiv> filter (\<lambda>op. stage_of op = kind)"

lemma staged_ops_push [simp]: "staged_ops (push_stage stages kind ops) = staged_ops stages @ ops"
  by (simp add: staged_ops_def push_stage_def)

lemma staged_ops_stages:
  "staged_ops (stages_of ops) = pick UnbindReferences ops @ pick DeleteBaseObjects ops @
     pick CreateBaseObjects ops @ pick UpdateBaseObjects ops @ pick BindReferences ops"
  by (simp add: stages_of_def Let_def) (simp add: staged_ops_def)

lemma staged_ops_mset: "mset (staged_ops (stages_of ops)) = mset ops"
  unfolding staged_ops_stages
proof (induction ops)
  case (Cons op ops)
  then show ?case by (cases "stage_of op") (simp_all add: union_ac)
qed simp

lemma sorted_map_const: "(\<And>x. x \<in> set xs \<Longrightarrow> f x = c) \<Longrightarrow> sorted (map f xs)"
  by (induction xs) auto

lemma staged_ops_sorted: "sorted (map (stage_rank \<circ> stage_of) (staged_ops (stages_of ops)))"
  unfolding staged_ops_stages by (auto simp: sorted_append intro: sorted_map_const)

lemma staged_ops_stable: "pick kind (staged_ops (stages_of ops)) = pick kind ops"
proof -
  have "pick kind (pick kind' ops) = (if kind = kind' then pick kind ops else [])" for kind'
    by (auto simp: filter_empty_conv)
  then show ?thesis
    unfolding staged_ops_stages by (cases kind) simp_all
qed

lemma stages_of_homogeneous:
  "list_all (\<lambda>st. sg_ops st \<noteq> [] \<and> list_all (\<lambda>op. stage_of op = sg_kind st) (sg_ops st)) (stages_of ops)"
  by (simp add: stages_of_def push_stage_def Let_def list_all_iff)

lemma rollback_reverses: "rollback_order_for_stages stages = rev (map rollback_action_for_op (staged_ops stages))"
  by (simp add: rollback_order_for_stages_def staged_ops_def rev_concat map_concat rev_map comp_def)

text \<open>the staged plan runs exactly the operations of the change set, each once.  Unbinding
  comes first, then deletions, creations, updates and last the bindings; within a stage the
  order of the change set is kept; no stage is empty and every stage holds operations of its
  kind only; the rollback undoes the operations in exactly the reverse order.\<close>

theorem change_plan_stages_correct:
  "let plan = build_change_plan_full cs profile evidence declared;
       ops = staged_ops (cp_stages plan) in
   mset ops = mset (cs_ops cs) \<and>
   sorted (map (stage_rank \<circ> stage_of) ops) \<and>
   (\<forall>kind. filter (\<lambda>op. stage_of op = kind) ops = filter (\<lambda>op. stage_of op = kind) (cs_ops cs)) \<and>
   list_all (\<lambda>st. sg_ops st \<noteq> [] \<and> list_all (\<lambda>op. stage_of op = sg_kind st) (sg_ops st)) (cp_stages plan) \<and>
   cp_rollback_order plan = rev (map rollback_action_for_op ops)"
  by (simp add: build_change_plan_full_def Let_def staged_ops_mset staged_ops_sorted staged_ops_stable
      stages_of_homogeneous rollback_reverses)

section \<open>Write decisions\<close>

definition write_allowed :: "DryRunWriteDecision \<Rightarrow> bool" where
  "write_allowed d \<longleftrightarrow> d = AllowedStandardModel \<or> d = AllowedVendorNative \<or> d = AllowedVendorPrivate"

lemma push_unique_features: "set (foldl push_unique_feature acc fs) = set acc \<union> set fs"
  by (induction fs arbitrary: acc) (auto simp: push_unique_feature_def)

lemma effective_features: "set (effective_high_risk_features cs declared) = (if touches_bgp cs then {Bgp} else {}) \<union> set declared"
  by (simp add: effective_high_risk_features_def Let_def push_unique_features touches_pbr_def push_unique_feature_def)

lemma high_risk_radius:
  "fs \<noteq> [] \<Longrightarrow> classify_blast_radius cs fs = RoutingControlPlane \<or> classify_blast_radius cs fs = PolicyReference"
  by (simp add: classify_blast_radius_def)

lemma bgp_path_evidence: "has_verified_writable_path_for_feature profile Bgp = has_writable_bgp_path profile"
  by (auto simp: has_verified_writable_path_for_feature_def has_writable_bgp_path_def matches_path_def
      is_bgp_path_def list_ex_iff)

lemma unsupported_feature_Nil:
  "unsupported_feature profile f = [] \<longleftrightarrow>
     feature_readiness profile f = Some WriteSafe \<and> has_verified_writable_path_for_feature profile f"
  by (auto simp: unsupported_feature_def bgp_path_evidence split: option.split WriteReadiness.split)

lemma write_allowed_evidence:
  assumes "write_allowed (cp_write_decision (build_change_plan_full cs profile evidence declared))"
    and "f \<in> set (cp_high_risk_features (build_change_plan_full cs profile evidence declared))"
  shows "\<exists>p. profile = Some p \<and> cp_unsupported_paths (build_change_plan_full cs profile evidence declared) = [] \<and>
    feature_readiness p f = Some WriteSafe \<and> has_verified_writable_path_for_feature p f"
proof -
  let ?fs = "effective_high_risk_features cs declared"
  have fs: "f \<in> set ?fs" "?fs \<noteq> []" using assms(2) by (auto simp: build_change_plan_full_def Let_def)
  note radius = high_risk_radius[OF fs(2), of cs]
  show ?thesis
  proof (cases profile)
    case None
    with assms(1) fs show ?thesis
      by (simp add: build_change_plan_full_def Let_def classify_write_decision_def write_allowed_def)
  next
    case (Some p)
    let ?un = "cp_unsupported_paths (build_change_plan_full cs profile evidence declared)"
    have "?un = []"
      using assms(1) radius Some
      by (auto simp: build_change_plan_full_def Let_def classify_write_decision_def write_allowed_def
          split: if_splits)
    moreover from this have "unsupported_feature p f = []"
      using fs(1) Some by (simp add: build_change_plan_full_def Let_def collect_unsupported_paths_def)
    ultimately show ?thesis using Some by (simp add: unsupported_feature_Nil)
  qed
qed

lemma bgp_write_is_modelled:
  assumes "touches_bgp cs" "has_writable_bgp_path p"
    and "write_allowed (classify_write_decision (Some p) radius un cs fs)"
  shows "classify_write_decision (Some p) radius un cs fs \<noteq> AllowedVendorPrivate"
proof -
  have "filter (\<lambda>p. mp_verified_on_device p \<and> mp_writable p \<and> mp_readable p)
      (filter (\<lambda>p. \<not> touches_bgp cs \<or> is_bgp_path p) (pf_paths p)) \<noteq> []"
    using assms(1,2) by (auto simp: has_writable_bgp_path_def list_ex_iff filter_empty_conv)
  with assms(3) show ?thesis
    by (auto simp: classify_write_decision_def Let_def split: if_splits)
qed

text \<open>C15: nothing high-risk is written without evidence.  If the plan of a change set allows the
  write and the change set touches BGP, or BGP, PBR, QoS or NQA is declared, then there is a
  model profile, that feature is write-safe in it with a readable, writable and verified path
  of its own, nothing is reported as unsupported and no referenced route policy is missing;
  and a BGP change is never left to a private renderer.\<close>

theorem write_decision_safe:
  assumes "write_allowed (cp_write_decision (build_change_plan_full cs profile evidence declared))"
    and "f = Bgp \<and> touches_bgp cs \<or> f \<in> set declared"
  shows "let plan = build_change_plan_full cs profile evidence declared in
    (\<exists>p. profile = Some p \<and> feature_readiness p f = Some WriteSafe \<and>
       has_verified_writable_path_for_feature p f) \<and>
    cp_unsupported_paths plan = [] \<and> cp_missing_route_policy_refs plan = [] \<and>
    \<not> (touches_bgp cs \<and> cp_write_decision plan = AllowedVendorPrivate)"
proof -
  let ?plan = "build_change_plan_full cs profile evidence declared"
  have "f \<in> set (cp_high_risk_features ?plan)"
    using assms(2) by (auto simp: build_change_plan_full_def Let_def effective_features)
  from write_allowed_evidence[OF assms(1) this] obtain p where p: "profile = Some p"
    "cp_unsupported_paths ?plan = []" "feature_readiness p f = Some WriteSafe"
    "has_verified_writable_path_for_feature p f" by blast
  moreover have "cp_missing_route_policy_refs ?plan = []"
    using p(1,2) by (simp add: build_change_plan_full_def Let_def collect_unsupported_paths_def)
  moreover have "\<not> (touches_bgp cs \<and> cp_write_decision ?plan = AllowedVendorPrivate)"
  proof
    assume t: "touches_bgp cs \<and> cp_write_decision ?plan = AllowedVendorPrivate"
    then have "Bgp \<in> set (cp_high_risk_features ?plan)"
      by (simp add: build_change_plan_full_def Let_def effective_features)
    from write_allowed_evidence[OF assms(1) this] p(1) have "has_writable_bgp_path p"
      by (simp add: bgp_path_evidence)
    note modelled = bgp_write_is_modelled[OF conjunct1[OF t] this]
    obtain radius un fs where "cp_write_decision ?plan = classify_write_decision (Some p) radius un cs fs"
      by (simp add: build_change_plan_full_def Let_def p(1))
    with modelled[of radius un fs] t assms(1) show False by simp
  qed
  ultimately show ?thesis by (simp add: Let_def)
qed

definition sample_path :: "ModelProtocol \<Rightarrow> string \<Rightarrow> ModelPathSupport" where
  "sample_path protocol model =
     \<lparr>mp_protocol = protocol, mp_model = model, mp_revision = None, mp_path = ''/top'', mp_readable = True,
      mp_writable = True, mp_verified_on_device = True, mp_deviations = [], mp_notes = []\<rparr>"

definition sample_profile :: "ModelPathSupport list \<Rightarrow> DeviceModelProfile" where
  "sample_profile paths =
     \<lparr>pf_profile_id = ''p'', pf_vendor = H3c, pf_model = ''m'', pf_os_version = ''7'', pf_paths = paths,
      pf_pbr_write_readiness = WriteRejected, pf_bgp_write_readiness = WriteSafe,
      pf_rejection_reasons = [], pf_yang_module_count = 1\<rparr>"

definition sample_bgp_change :: ChangeSet where
  "sample_bgp_change = \<lparr>cs_device_id = ''sw1'', cs_ops = [DeleteBgpNeighbor ''red'' ''10.0.0.2'']\<rparr>"

theorem write_decision_safe_witness:
  "let profile = sample_profile [sample_path OpenConfigNetconf ''openconfig-bgp''];
       plan = build_change_plan_full sample_bgp_change (Some profile) bm_empty [] in
   write_allowed (cp_write_decision plan) \<and> has_verified_writable_path_for_feature profile Bgp \<and>
   cp_missing_route_policy_refs plan = []"
proof -
  let ?profile = "sample_profile [sample_path OpenConfigNetconf ''openconfig-bgp'']"
  have w: "write_allowed (cp_write_decision (build_change_plan_full sample_bgp_change (Some ?profile) bm_empty []))"
    by code_simp
  have t: "Bgp = Bgp \<and> touches_bgp sample_bgp_change \<or> Bgp \<in> set []" by code_simp
  from write_decision_safe[OF w t] w show ?thesis by (simp add: Let_def)
qed

text \<open>A profile whose only verified BGP path is a command line one is enough for a BGP write,
  and the decision claims vendor native YANG, whereas the feature check of the model profile
  answers read-only for the same path.\<close>

theorem vendor_cli_path_counts_as_native:
  "let path = sample_path VendorCli ''cli-bgp'' in
   cp_write_decision (build_change_plan_full sample_bgp_change (Some (sample_profile [path])) bm_empty []) =
     AllowedVendorNative \<and>
   write_decision \<lparr>fs_feature = ''bgp'', fs_required_paths = [path], fs_requires_candidate = True,
     fs_requires_validate = True, fs_supports_candidate = True, fs_supports_validate = True\<rparr> =
     FeatureReadOnlyOnly"
  by code_simp


section \<open>Dry runs\<close>

definition current_state :: "DeviceShadowState list \<Rightarrow> DeviceId \<Rightarrow> DeviceShadowState option" where
  "current_state current_states d = find (\<lambda>st. ss_device_id st = d) (rev current_states)"

lemma current_by_device:
  "bm_get (bm_of_list (map (\<lambda>st. (ss_device_id st, st)) sts)) d = current_state sts d"
proof -
  have "map_of (map (\<lambda>st. (ss_device_id st, st)) xs) d = find (\<lambda>st. ss_device_id st = d) xs" for xs
    by (induction xs) auto
  then show ?thesis by (simp add: bm_get_of_list current_state_def rev_map)
qed

definition planned_change :: "DeviceShadowState list \<Rightarrow> DeviceDesiredState \<Rightarrow> ChangeSet" where
  "planned_change current_states d = compute_diff d (the (current_state current_states (ds_device_id d)))"

lemma dry_run_fold:
  "try_fold (dry_run_device (bm_of_list (map (\<lambda>st. (ss_device_id st, st)) sts)) profiles) plan ds =
     (case find (\<lambda>d. current_state sts (ds_device_id d) = None) ds of
        Some d \<Rightarrow> Inl (InvalidDeviceState (''missing current state for device '' @ ds_device_id d))
      | None \<Rightarrow> Inr \<lparr>dn_change_sets = dn_change_sets plan @ map (planned_change sts) ds,
          dn_change_plans = dn_change_plans plan @ map (\<lambda>d. build_change_plan_with_evidence (planned_change sts d)
            (bm_get profiles (ds_device_id d)) (ds_route_policy_refs d)) ds\<rparr>)"
proof (induction ds arbitrary: plan)
  case (Cons d ds)
  then show ?case
    by (cases "current_state sts (ds_device_id d)")
      (simp_all add: dry_run_device_def current_by_device planned_change_def Let_def split: option.split)
qed simp

text \<open>a dry run over any desired and current states fails exactly when some desired device
  has no current state, naming the first such device, and otherwise returns for every desired
  state, in order, its change set against the last current state given for its device, and
  the plan of that change set with the device's profile and route-policy evidence.  It is a
  no-op exactly when every current state already satisfies the request.\<close>

theorem dry_run_plan_correct:
  "build_dry_run_plan_with_profiles ds sts profiles =
     (case find (\<lambda>d. current_state sts (ds_device_id d) = None) ds of
        Some d \<Rightarrow> Inl (InvalidDeviceState (''missing current state for device '' @ ds_device_id d))
      | None \<Rightarrow> Inr \<lparr>dn_change_sets = map (planned_change sts) ds,
          dn_change_plans = map (\<lambda>d. build_change_plan_with_evidence (planned_change sts d)
            (bm_get profiles (ds_device_id d)) (ds_route_policy_refs d)) ds\<rparr>) \<and>
   (is_noop \<lparr>dn_change_sets = map (planned_change sts) ds, dn_change_plans = plans\<rparr> \<longleftrightarrow>
      list_all (\<lambda>d. satisfied (normalize_desired_state d)
        (normalize_shadow_state (the (current_state sts (ds_device_id d))))) ds)"
  by (simp add: build_dry_run_plan_with_profiles_def Let_def dry_run_fold is_noop_def list.pred_map
      planned_change_def comp_def diff_ops_empty compute_diff_def cs_is_empty_def split: option.split)

end
