(* ===== verification/Phase.thy ===== *)
theory Phase
  imports Model
begin

text \<open>
  The transaction phase machine (\<open>src/tx/phase_transition.rs\<close>, the \<open>TxPhase\<close> type of
  \<open>src/tx/journal.rs\<close>), the choice of a transaction strategy (\<open>src/tx/strategy.rs\<close>) and the
  recovery action of a phase (\<open>src/tx/recovery.rs\<close>).
\<close>

section \<open>Phases\<close>

datatype TxPhase =
    Started | Preparing | Prepared | Committing | Verifying | FinalConfirming | Recovering
  | Committed | RollingBack | RolledBack | Failed | InDoubt | ForceResolved

definition requires_recovery :: "TxPhase \<Rightarrow> bool" where
  "requires_recovery p \<longleftrightarrow> \<not> (p = Committed \<or> p = RolledBack \<or> p = Failed \<or> p = ForceResolved)"

fun debug_phase :: "TxPhase \<Rightarrow> string" where
  "debug_phase Started = ''Started''"
| "debug_phase Preparing = ''Preparing''"
| "debug_phase Prepared = ''Prepared''"
| "debug_phase Committing = ''Committing''"
| "debug_phase Verifying = ''Verifying''"
| "debug_phase FinalConfirming = ''FinalConfirming''"
| "debug_phase Recovering = ''Recovering''"
| "debug_phase Committed = ''Committed''"
| "debug_phase RollingBack = ''RollingBack''"
| "debug_phase RolledBack = ''RolledBack''"
| "debug_phase Failed = ''Failed''"
| "debug_phase InDoubt = ''InDoubt''"
| "debug_phase ForceResolved = ''ForceResolved''"

definition is_allowed :: "TxPhase \<Rightarrow> TxPhase \<Rightarrow> bool" where
  "is_allowed from to =
     (if from = to then True
      else case (from, to) of
        (Started, Preparing) \<Rightarrow> True
      | (Preparing, Prepared) \<Rightarrow> True
      | (Prepared, Committing) \<Rightarrow> True
      | (Committing, Verifying) \<Rightarrow> True
      | (Verifying, FinalConfirming) \<Rightarrow> True
      | (FinalConfirming, Committed) \<Rightarrow> True
      | (_, Failed) \<Rightarrow> from \<in> {Preparing, Prepared, Committing, Verifying, FinalConfirming}
      | (_, RollingBack) \<Rightarrow> from \<in> {Preparing, Prepared, Committing, Verifying, FinalConfirming}
      | (_, Recovering) \<Rightarrow>
          from \<in> {Started, Preparing, Prepared, Committing, Verifying, FinalConfirming,
                   RollingBack, Recovering}
      | (Recovering, _) \<Rightarrow> to \<in> {Committed, RolledBack, InDoubt}
      | (RollingBack, _) \<Rightarrow> to \<in> {RolledBack, InDoubt}
      | (Committed, InDoubt) \<Rightarrow> True
      | (InDoubt, ForceResolved) \<Rightarrow> True
      | _ \<Rightarrow> False)"

definition validate_transition :: "TxPhase \<Rightarrow> TxPhase \<Rightarrow> unit result" where
  "validate_transition from to =
     (if is_allowed from to then Inr ()
      else Inl (InvalidPhaseTransition (debug_phase from) (debug_phase to)))"

section \<open>Recovery action of a phase (tx/recovery.rs)\<close>

datatype RecoveryAction = Noop | DiscardPreparedChanges | AdapterRecover | ManualIntervention

fun recovery_action_for_phase :: "TxPhase \<Rightarrow> RecoveryAction" where
  "recovery_action_for_phase Started = DiscardPreparedChanges"
| "recovery_action_for_phase Preparing = DiscardPreparedChanges"
| "recovery_action_for_phase Prepared = DiscardPreparedChanges"
| "recovery_action_for_phase Committing = AdapterRecover"
| "recovery_action_for_phase Verifying = AdapterRecover"
| "recovery_action_for_phase FinalConfirming = AdapterRecover"
| "recovery_action_for_phase RollingBack = AdapterRecover"
| "recovery_action_for_phase Recovering = AdapterRecover"
| "recovery_action_for_phase InDoubt = ManualIntervention"
| "recovery_action_for_phase Committed = Noop"
| "recovery_action_for_phase RolledBack = Noop"
| "recovery_action_for_phase Failed = Noop"
| "recovery_action_for_phase ForceResolved = Noop"

section \<open>Transaction strategies (tx/strategy.rs)\<close>

datatype TransactionStrategy =
  ConfirmedCommit | CandidateCommit | RunningRollbackOnError | BestEffortCli | Unsupported

definition is_supported :: "TransactionStrategy \<Rightarrow> bool" where
  "is_supported s \<longleftrightarrow> s \<noteq> Unsupported"

definition is_degraded :: "TransactionStrategy \<Rightarrow> bool" where
  "is_degraded s \<longleftrightarrow> s = RunningRollbackOnError \<or> s = BestEffortCli"

datatype TransactionMode =
  StrictConfirmedCommit | AllowCandidateCommit | AllowRunningFallback | AllowBestEffortCli

record CapabilityFlags =
  cf_supports_candidate :: bool
  cf_supports_validate :: bool
  cf_supports_confirmed_commit :: bool
  cf_supports_persist_id :: bool
  cf_supports_rollback_on_error :: bool
  cf_supports_writable_running :: bool
  cf_supports_cli_fallback :: bool

definition choose_strategy :: "CapabilityFlags \<Rightarrow> TransactionMode \<Rightarrow> TransactionStrategy" where
  "choose_strategy flags mode =
     (if cf_supports_candidate flags \<and> cf_supports_validate flags \<and>
         cf_supports_confirmed_commit flags \<and> cf_supports_persist_id flags
      then ConfirmedCommit
      else if cf_supports_candidate flags \<and> cf_supports_validate flags \<and>
         mode \<in> {AllowCandidateCommit, AllowRunningFallback, AllowBestEffortCli}
      then CandidateCommit
      else if cf_supports_writable_running flags \<and> cf_supports_rollback_on_error flags \<and>
         mode \<in> {AllowRunningFallback, AllowBestEffortCli}
      then RunningRollbackOnError
      else if cf_supports_cli_fallback flags \<and> mode = AllowBestEffortCli
      then BestEffortCli
      else Unsupported)"

section \<open>Runs of the phase machine\<close>

text \<open>A run is the sequence of phases of one record, newest first: it begins in
  \<open>Started\<close> and every step passes \<open>validate_transition\<close>.\<close>

inductive phase_run :: "TxPhase list \<Rightarrow> bool" where
  start: "phase_run [Started]"
| step: "phase_run (p # ps) \<Longrightarrow> validate_transition p q = Inr () \<Longrightarrow> phase_run (q # p # ps)"

code_pred phase_run .

inductive_cases phase_run_NilE [elim!]: "phase_run []"
inductive_simps phase_run_single: "phase_run [p]"
inductive_simps phase_run_Cons2: "phase_run (q # p # ps)"

text \<open>The phases of a run that needed neither recovery nor rollback, oldest first.\<close>

definition happy_path :: "TxPhase list" where
  "happy_path = [Started, Preparing, Prepared, Committing, Verifying, FinalConfirming, Committed]"

text \<open>How far a phase is along the happy path; 7 for a phase outside it.\<close>

fun progress :: "TxPhase \<Rightarrow> nat" where
  "progress Started = 0"
| "progress Preparing = 1"
| "progress Prepared = 2"
| "progress Committing = 3"
| "progress Verifying = 4"
| "progress FinalConfirming = 5"
| "progress Committed = 6"
| "progress _ = 7"

lemma validate_ok_iff [simp]: "validate_transition p q = Inr u \<longleftrightarrow> is_allowed p q"
  by (simp add: validate_transition_def)

lemma validate_err_iff [simp]: "is_err (validate_transition p q) \<longleftrightarrow> \<not> is_allowed p q"
  by (simp add: validate_transition_def)

lemma is_allowed_refl [simp]: "is_allowed p p"
  by (simp add: is_allowed_def)

text \<open>The successors of each phase, as a rewrite system for the client proofs.\<close>

lemma is_allowed_from [simp]:
  "is_allowed Started q \<longleftrightarrow> q \<in> {Started, Preparing, Recovering}"
  "is_allowed Preparing q \<longleftrightarrow> q \<in> {Preparing, Prepared, Failed, RollingBack, Recovering}"
  "is_allowed Prepared q \<longleftrightarrow> q \<in> {Prepared, Committing, Failed, RollingBack, Recovering}"
  "is_allowed Committing q \<longleftrightarrow> q \<in> {Committing, Verifying, Failed, RollingBack, Recovering}"
  "is_allowed Verifying q \<longleftrightarrow> q \<in> {Verifying, FinalConfirming, Failed, RollingBack, Recovering}"
  "is_allowed FinalConfirming q \<longleftrightarrow> q \<in> {FinalConfirming, Committed, Failed, RollingBack, Recovering}"
  "is_allowed Recovering q \<longleftrightarrow> q \<in> {Recovering, Committed, RolledBack, InDoubt}"
  "is_allowed RollingBack q \<longleftrightarrow> q \<in> {RollingBack, RolledBack, InDoubt, Recovering}"
  "is_allowed Committed q \<longleftrightarrow> q \<in> {Committed, InDoubt}"
  "is_allowed InDoubt q \<longleftrightarrow> q \<in> {InDoubt, ForceResolved}"
  "is_allowed RolledBack q \<longleftrightarrow> q = RolledBack"
  "is_allowed Failed q \<longleftrightarrow> q = Failed"
  "is_allowed ForceResolved q \<longleftrightarrow> q = ForceResolved"
  by (cases q; simp add: is_allowed_def)+

lemma recovery_action_noop:
  "recovery_action_for_phase p = Noop \<longleftrightarrow> \<not> requires_recovery p"
  by (cases p) (simp_all add: requires_recovery_def)

text \<open>On a run without recovery the distinct steps up to a phase of the happy path are
  exactly the happy path up to that phase.\<close>

lemma run_progress:
  assumes "phase_run ps" "Recovering \<notin> set ps" "progress (hd ps) \<le> 6"
  shows "remdups_adj (rev ps) = take (Suc (progress (hd ps))) happy_path"
  using assms
proof (induction rule: phase_run.induct)
  case start
  show ?case by (simp add: happy_path_def)
next
  case (step p ps q)
  have two: "remdups_adj (rev (q # p # ps)) = remdups_adj (rev (p # ps)) @ (if p = q then [] else [q])"
    using remdups_adj_append_two[of "rev ps" p q] by simp
  have allowed: "is_allowed p q" using step.hyps by simp
  show ?case
  proof (cases "q = p")
    case True
    with step two show ?thesis by simp
  next
    case False
    have q: "progress p \<le> 6 \<and> progress q = Suc (progress p) \<and> happy_path ! progress q = q"
      using allowed False step.prems by (cases p; auto simp: happy_path_def)
    have "progress q < length happy_path"
      using step.prems(2) by (simp add: happy_path_def)
    from take_Suc_conv_app_nth[OF this] q
    have "take (Suc (progress q)) happy_path = take (Suc (progress p)) happy_path @ [q]"
      by metis
    with q False step two show ?thesis by simp
  qed
qed

section \<open>Properties\<close>

text \<open>C3: a transaction that reaches \<open>Committed\<close> without going through recovery has
  passed through every phase of the happy path, in order, and through nothing else:
  no sequence of validated transitions skips the prepare, commit, verify or
  final-confirm phase.\<close>

theorem committed_run_is_happy_path:
  assumes "phase_run ps" "hd ps = Committed" "Recovering \<notin> set ps"
  shows "remdups_adj (rev ps) = happy_path"
  using run_progress[OF assms(1,3)] assms(2) by (simp add: happy_path_def)

theorem committed_run_is_happy_path_witness:
  "remdups_adj [Started, Preparing, Preparing, Prepared, Committing, Verifying, FinalConfirming, Committed]
     = happy_path"
proof -
  have "phase_run [Committed, FinalConfirming, Verifying, Committing, Prepared, Preparing, Preparing, Started]"
    by (intro phase_run.intros) simp_all
  from committed_run_is_happy_path[OF this] show ?thesis by simp
qed

text \<open>C4: a record that does not require recovery is settled.  The only step it can
  still take, self steps aside, is from \<open>Committed\<close> to \<open>InDoubt\<close>; and from every phase that
  does require recovery a settled phase can be reached, so no record is stuck.\<close>

theorem phase_machine_settles:
  "(\<not> requires_recovery p \<longrightarrow> is_allowed p q \<longrightarrow> q = p \<or> (p = Committed \<and> q = InDoubt)) \<and>
   (\<exists>r. is_allowed\<^sup>*\<^sup>* p r \<and> \<not> requires_recovery r)"
proof
  show "\<not> requires_recovery p \<longrightarrow> is_allowed p q \<longrightarrow> q = p \<or> (p = Committed \<and> q = InDoubt)"
    by (cases p) (auto simp: requires_recovery_def)
  have "is_allowed p RolledBack \<or> is_allowed p Recovering \<or> is_allowed p ForceResolved \<or> \<not> requires_recovery p"
    by (cases p) (auto simp: requires_recovery_def)
  moreover have "is_allowed Recovering RolledBack" by simp
  moreover have "\<not> requires_recovery RolledBack" "\<not> requires_recovery ForceResolved"
    by (simp_all add: requires_recovery_def)
  ultimately show "\<exists>r. is_allowed\<^sup>*\<^sup>* p r \<and> \<not> requires_recovery r"
    by (meson converse_rtranclp_into_rtranclp rtranclp.rtrancl_refl)
qed

theorem phase_machine_settles_witness:
  "\<not> requires_recovery Committed \<and> is_allowed Committed InDoubt \<and>
   (InDoubt = Committed \<or> (Committed = Committed \<and> InDoubt = InDoubt)) \<and>
   (\<exists>r. is_allowed\<^sup>*\<^sup>* Committed r \<and> \<not> requires_recovery r)"
proof -
  have "\<not> requires_recovery Committed" "is_allowed Committed InDoubt"
    by (simp_all add: requires_recovery_def)
  with phase_machine_settles[of Committed InDoubt] show ?thesis by blast
qed

text \<open>The preference order of the strategies and the order on capabilities and modes.\<close>

fun strategy_rank :: "TransactionStrategy \<Rightarrow> nat" where
  "strategy_rank Unsupported = 0"
| "strategy_rank BestEffortCli = 1"
| "strategy_rank RunningRollbackOnError = 2"
| "strategy_rank CandidateCommit = 3"
| "strategy_rank ConfirmedCommit = 4"

fun mode_rank :: "TransactionMode \<Rightarrow> nat" where
  "mode_rank StrictConfirmedCommit = 0"
| "mode_rank AllowCandidateCommit = 1"
| "mode_rank AllowRunningFallback = 2"
| "mode_rank AllowBestEffortCli = 3"

definition flags_le :: "CapabilityFlags \<Rightarrow> CapabilityFlags \<Rightarrow> bool" where
  "flags_le f g \<longleftrightarrow>
     cf_supports_candidate f \<le> cf_supports_candidate g \<and>
     cf_supports_validate f \<le> cf_supports_validate g \<and>
     cf_supports_confirmed_commit f \<le> cf_supports_confirmed_commit g \<and>
     cf_supports_persist_id f \<le> cf_supports_persist_id g \<and>
     cf_supports_rollback_on_error f \<le> cf_supports_rollback_on_error g \<and>
     cf_supports_writable_running f \<le> cf_supports_writable_running g \<and>
     cf_supports_cli_fallback f \<le> cf_supports_cli_fallback g"

text \<open>The strategy choice is monotone: a device that offers more, or an operator
  mode that allows more, never gets a weaker strategy.  A strategy is never weaker
  than the mode allows: strict mode yields confirmed commit or a refusal, and a
  degraded strategy needs a mode that asks for the running or command-line fallback.\<close>

theorem choose_strategy_monotone:
  assumes "flags_le f g" "mode_rank m \<le> mode_rank n"
  shows "strategy_rank (choose_strategy f m) \<le> strategy_rank (choose_strategy g n) \<and>
    (choose_strategy f m = Unsupported \<or>
     4 - strategy_rank (choose_strategy f m) \<le> mode_rank m)"
  using assms
  by (cases m; cases n) (auto simp: choose_strategy_def flags_le_def)

theorem choose_strategy_monotone_witness:
  "let f = \<lparr>cf_supports_candidate = True, cf_supports_validate = True,
            cf_supports_confirmed_commit = False, cf_supports_persist_id = False,
            cf_supports_rollback_on_error = True, cf_supports_writable_running = True,
            cf_supports_cli_fallback = False\<rparr>;
       g = f\<lparr>cf_supports_confirmed_commit := True, cf_supports_persist_id := True\<rparr>
   in flags_le f g \<and> choose_strategy f AllowCandidateCommit = CandidateCommit \<and>
      strategy_rank (choose_strategy f AllowCandidateCommit)
        \<le> strategy_rank (choose_strategy g AllowRunningFallback)"
proof -
  let ?f = "\<lparr>cf_supports_candidate = True, cf_supports_validate = True,
            cf_supports_confirmed_commit = False, cf_supports_persist_id = False,
            cf_supports_rollback_on_error = True, cf_supports_writable_running = True,
            cf_supports_cli_fallback = False\<rparr>"
  let ?g = "?f\<lparr>cf_supports_confirmed_commit := True, cf_supports_persist_id := True\<rparr>"
  have "flags_le ?f ?g" "mode_rank AllowCandidateCommit \<le> mode_rank AllowRunningFallback"
    by (simp_all add: flags_le_def)
  from choose_strategy_monotone[OF this] show ?thesis
    by (simp add: flags_le_def choose_strategy_def)
qed

end
