(* ===== verification/Device.thy ===== *)
theory Device
  imports Change_Plan Phase
begin

text \<open>
  Managed devices: \<open>src/device/info.rs\<close>, \<open>src/device/capability.rs\<close> and the inventory of
  \<open>src/device/inventory.rs\<close>.  Lifecycle states that share a name with another enum carry the
  prefix \<open>Device\<close>.
\<close>

datatype HostKeyPolicy = TrustOnFirstUse | KnownHostsFile string | PinnedKey string

datatype DeviceLifecycleState =
    Pending | Probing | Ready | Degraded | DeviceUnsupported | Unreachable | AuthFailed | Drifted | Maintenance

record DeviceInfo =
  dv_tenant_id :: string
  dv_site_id :: string
  dv_id :: DeviceId
  dv_management_ip :: string
  dv_management_port :: u16
  dv_vendor_hint :: "Vendor option"
  dv_model_hint :: "string option"
  dv_role :: DeviceRole
  dv_secret_ref :: string
  dv_host_key_policy :: HostKeyPolicy
  dv_adapter_endpoint :: string
  dv_lifecycle_state :: DeviceLifecycleState

datatype BackendKind = Netconf | Napalm | Netmiko | Cli

record YangModuleSummary =
  ym_name :: string
  ym_revision :: string
  ym_namespace :: string
  ym_schema_size_bytes :: u64
  ym_schema_downloaded :: bool
  ym_format :: string

record DeviceCapabilityProfile =
  ca_vendor :: Vendor
  ca_model :: "string option"
  ca_os_version :: "string option"
  ca_raw_capabilities :: "string list"
  ca_supports_netconf :: bool
  ca_supports_candidate :: bool
  ca_supports_validate :: bool
  ca_supports_confirmed_commit :: bool
  ca_supports_persist_id :: bool
  ca_supports_rollback_on_error :: bool
  ca_supports_writable_running :: bool
  ca_supported_backends :: "BackendKind list"
  ca_model_profile :: "DeviceModelProfile option"
  ca_recommended_strategy :: TransactionStrategy
  ca_warnings :: "string list"
  ca_yang_modules :: "YangModuleSummary list"

record ManagedDevice =
  md_info :: DeviceInfo
  md_capability :: "DeviceCapabilityProfile option"

section \<open>The inventory\<close>

type_synonym inventory = "(DeviceId, ManagedDevice) bmap"

definition inventory_insert :: "DeviceInfo \<Rightarrow> inventory \<Rightarrow> unit result \<times> inventory" where
  "inventory_insert info iv =
     (if bm_contains iv (dv_id info) then (Inl (DeviceAlreadyExists (dv_id info)), iv)
      else (Inr (), bm_insert (dv_id info) \<lparr>md_info = info, md_capability = None\<rparr> iv))"

definition inventory_get :: "DeviceId \<Rightarrow> inventory \<Rightarrow> ManagedDevice result" where
  "inventory_get d iv = ok_or (bm_get iv d) (DeviceNotFound d)"

definition inventory_set_state :: "DeviceId \<Rightarrow> DeviceLifecycleState \<Rightarrow> inventory \<Rightarrow> unit result \<times> inventory" where
  "inventory_set_state d st iv =
     (case bm_get iv d of
        None \<Rightarrow> (Inl (DeviceNotFound d), iv)
      | Some m \<Rightarrow> (Inr (), bm_insert d (m\<lparr>md_info := (md_info m)\<lparr>dv_lifecycle_state := st\<rparr>\<rparr>) iv))"

definition inventory_set_capability ::
  "DeviceId \<Rightarrow> DeviceCapabilityProfile \<Rightarrow> inventory \<Rightarrow> unit result \<times> inventory" where
  "inventory_set_capability d capability iv =
     (case bm_get iv d of
        None \<Rightarrow> (Inl (DeviceNotFound d), iv)
      | Some m \<Rightarrow> (Inr (), bm_insert d (m\<lparr>md_capability := Some capability\<rparr>) iv))"

text \<open>Every entry is stored under its own id, and no operation changes the identity of a device.\<close>

definition inventory_inv :: "inventory \<Rightarrow> bool" where
  "inventory_inv iv \<longleftrightarrow> (\<forall>d m. bm_get iv d = Some m \<longrightarrow> dv_id (md_info m) = d)"

lemma inventory_invariant:
  assumes "inventory_inv iv"
  shows "inventory_inv (snd (inventory_insert info iv))"
    and "inventory_inv (snd (inventory_set_state d st iv))"
    and "inventory_inv (snd (inventory_set_capability d capability iv))"
  using assms
  by (auto simp: inventory_inv_def inventory_insert_def inventory_set_state_def
      inventory_set_capability_def bm_get_insert split: option.splits if_splits)

lemma inventory_get_insert:
  "inventory_get d (snd (inventory_insert info iv)) =
     (if d = dv_id info \<and> \<not> bm_contains iv d then Inr \<lparr>md_info = info, md_capability = None\<rparr>
      else inventory_get d iv)"
  by (auto simp: inventory_get_def inventory_insert_def bm_get_insert)

lemma inventory_insert_rejects: "is_err (fst (inventory_insert info iv)) \<longleftrightarrow> bm_contains iv (dv_id info)"
  by (simp add: inventory_insert_def)

end
