(* ===== verification/Journal.thy ===== *)
theory Journal
  imports Phase Diff
begin

text \<open>
  The transaction journal (\<open>src/tx/journal.rs\<close>, \<open>src/tx/context.rs\<close>) and the questions the
  recovery code asks about it (\<open>src/tx/recovery.rs\<close>).  The clock is the argument \<open>now\<close>; the
  operations of a record take the time at which they run.  Both stores implement the locale
  \<open>journal_store\<close>.
\<close>

section \<open>Records\<close>

record TxContext =
  cx_tx_id :: string
  cx_request_id :: string
  cx_trace_id :: string

text \<open>\<open>TxContext::new\<close> with the UUID it draws.\<close>

definition new_context :: "string \<Rightarrow> string \<Rightarrow> string \<Rightarrow> TxContext" where
  "new_context uuid request_id trace_id =
     \<lparr>cx_tx_id = uuid, cx_request_id = request_id, cx_trace_id = trace_id\<rparr>"

record TxJournalErrorEvent =
  ee_phase :: TxPhase
  ee_code :: string
  ee_message :: string
  ee_created_at :: u64

record TxManualResolution =
  mr_operator :: string
  mr_reason :: string
  mr_request_id :: string
  mr_trace_id :: string
  mr_resolved_at :: u64

record TxJournalRecord =
  jr_tx_id :: string
  jr_request_id :: string
  jr_trace_id :: string
  jr_phase :: TxPhase
  jr_devices :: "DeviceId list"
  jr_desired_states :: "DeviceDesiredState list"
  jr_change_sets :: "ChangeSet list"
  jr_strategy :: "TransactionStrategy option"
  jr_error_code :: "string option"
  jr_error_message :: "string option"
  jr_error_history :: "TxJournalErrorEvent list"
  jr_manual_resolution :: "TxManualResolution option"
  jr_created_at :: u64
  jr_updated_at :: u64

definition started :: "u64 \<Rightarrow> TxContext \<Rightarrow> DeviceId list \<Rightarrow> TxJournalRecord" where
  "started now cx devices =
     \<lparr>jr_tx_id = cx_tx_id cx, jr_request_id = cx_request_id cx,
      jr_trace_id = cx_trace_id cx, jr_phase = Started, jr_devices = devices,
      jr_desired_states = [], jr_change_sets = [], jr_strategy = None, jr_error_code = None,
      jr_error_message = None, jr_error_history = [], jr_manual_resolution = None,
      jr_created_at = now, jr_updated_at = now\<rparr>"

definition with_phase :: "u64 \<Rightarrow> TxPhase \<Rightarrow> TxJournalRecord \<Rightarrow> TxJournalRecord" where
  "with_phase now phase r = r\<lparr>jr_phase := phase, jr_updated_at := now\<rparr>"

text \<open>On an error the record is left as it was.\<close>

definition transition_phase :: "u64 \<Rightarrow> TxPhase \<Rightarrow> TxJournalRecord \<Rightarrow> TxJournalRecord result" where
  "transition_phase now phase r =
     and_then (validate_transition (jr_phase r) phase) (\<lambda>_.
     Inr (r\<lparr>jr_phase := phase, jr_updated_at := now\<rparr>))"

definition with_strategy :: "u64 \<Rightarrow> TransactionStrategy \<Rightarrow> TxJournalRecord \<Rightarrow> TxJournalRecord" where
  "with_strategy now strategy r = r\<lparr>jr_strategy := Some strategy, jr_updated_at := now\<rparr>"

definition with_desired_states :: "u64 \<Rightarrow> DeviceDesiredState list \<Rightarrow> TxJournalRecord \<Rightarrow> TxJournalRecord" where
  "with_desired_states now desired_states r =
     r\<lparr>jr_desired_states := desired_states, jr_updated_at := now\<rparr>"

definition with_change_sets :: "u64 \<Rightarrow> ChangeSet list \<Rightarrow> TxJournalRecord \<Rightarrow> TxJournalRecord" where
  "with_change_sets now change_sets r = r\<lparr>jr_change_sets := change_sets, jr_updated_at := now\<rparr>"

definition with_error :: "u64 \<Rightarrow> string \<Rightarrow> string \<Rightarrow> TxJournalRecord \<Rightarrow> TxJournalRecord" where
  "with_error now code message r =
     r\<lparr>jr_error_code := Some code, jr_error_message := Some message,
       jr_error_history := jr_error_history r @
         [\<lparr>ee_phase = jr_phase r, ee_code = code, ee_message = message, ee_created_at = now\<rparr>],
       jr_updated_at := now\<rparr>"

definition with_manual_resolution ::
  "u64 \<Rightarrow> string \<Rightarrow> string \<Rightarrow> string \<Rightarrow> string \<Rightarrow> TxJournalRecord \<Rightarrow> TxJournalRecord" where
  "with_manual_resolution now operator reason request_id trace_id r =
     r\<lparr>jr_manual_resolution := Some \<lparr>mr_operator = operator, mr_reason = reason,
         mr_request_id = request_id, mr_trace_id = trace_id, mr_resolved_at = now\<rparr>,
       jr_updated_at := now\<rparr>"

section \<open>Recovery questions (tx/recovery.rs)\<close>

record RecoveryDecision =
  rd_tx_id :: string
  rd_phase :: TxPhase
  rd_action :: RecoveryAction

record RecoveryReport =
  rr_recovered :: nat
  rr_in_doubt :: nat
  rr_pending :: nat
  rr_tx_ids :: "string list"
  rr_decisions :: "RecoveryDecision list"

definition classify_recovery :: "TxJournalRecord \<Rightarrow> RecoveryDecision" where
  "classify_recovery r =
     \<lparr>rd_tx_id = jr_tx_id r, rd_phase = jr_phase r, rd_action = recovery_action_for_phase (jr_phase r)\<rparr>"

definition in_doubt_records_for_devices :: "TxJournalRecord list \<Rightarrow> DeviceId list \<Rightarrow> TxJournalRecord list" where
  "in_doubt_records_for_devices records device_ids =
     (let requested = set device_ids in
      filter (\<lambda>r. list_ex (\<lambda>d. d \<in> requested) (jr_devices r))
        (filter (\<lambda>r. requires_recovery (jr_phase r)) records))"

section \<open>The store trait\<close>

text \<open>A put that returns an error may or may not have written the record.\<close>

locale journal_store =
  fixes inv :: "'s \<Rightarrow> bool"
    and lookup :: "string \<Rightarrow> 's \<Rightarrow> TxJournalRecord option result"
    and store :: "TxJournalRecord \<Rightarrow> 's \<Rightarrow> unit result \<times> 's"
    and recoverable :: "'s \<Rightarrow> TxJournalRecord list result"
  assumes store_inv: "inv s \<Longrightarrow> inv (snd (store r s))"
    and store_ok: "inv s \<Longrightarrow> store r s = (Inr u, s') \<Longrightarrow> lookup (jr_tx_id r) s' = Inr (Some r)"
    and store_err: "inv s \<Longrightarrow> store r s = (Inl e, s') \<Longrightarrow>
        lookup (jr_tx_id r) s' = lookup (jr_tx_id r) s \<or> lookup (jr_tx_id r) s' = Inr (Some r)"
    and store_frame: "inv s \<Longrightarrow> t \<noteq> jr_tx_id r \<Longrightarrow> lookup t (snd (store r s)) = lookup t s"
    and recoverable_mem: "inv s \<Longrightarrow> recoverable s = Inr rs \<Longrightarrow>
        r \<in> set rs \<longleftrightarrow> lookup (jr_tx_id r) s = Inr (Some r) \<and> requires_recovery (jr_phase r)"
begin

text \<open>A transaction that was stored in a phase that requires recovery is found by the gate
  that protects its devices, until something else is stored for it.\<close>

lemma stored_is_gated:
  assumes "inv s" "store r s = (Inr u, s')" "requires_recovery (jr_phase r)"
    and "recoverable s' = Inr rs" "d \<in> set (jr_devices r)" "d \<in> set ds"
  shows "r \<in> set (in_doubt_records_for_devices rs ds)"
proof -
  have "inv s'" using store_inv[OF assms(1), of r] assms(2) by simp
  from recoverable_mem[OF this assms(4), of r] store_ok[OF assms(1,2)] assms(3)
  have "r \<in> set rs" by simp
  then show ?thesis
    using assms(3,5,6) by (auto simp: in_doubt_records_for_devices_def list_ex_iff)
qed

lemma settled_is_not_gated:
  assumes "inv s" "store r s = (Inr u, s')" "\<not> requires_recovery (jr_phase r)"
    and "recoverable s' = Inr rs"
  shows "jr_tx_id r \<notin> jr_tx_id ` set rs"
proof
  assume "jr_tx_id r \<in> jr_tx_id ` set rs"
  then obtain q where q: "q \<in> set rs" "jr_tx_id q = jr_tx_id r" by auto
  have "inv s'" using store_inv[OF assms(1), of r] assms(2) by simp
  from recoverable_mem[OF this assms(4), of q] q store_ok[OF assms(1,2)] assms(3)
  show False by simp
qed

end

section \<open>The in-memory store\<close>

text \<open>The mutex is never poisoned: no operation panics while it holds it.\<close>

type_synonym memory_journal = "(string, TxJournalRecord) bmap"

definition journal_put :: "TxJournalRecord \<Rightarrow> memory_journal \<Rightarrow> unit result \<times> memory_journal" where
  "journal_put r s = (Inr (), bm_insert (jr_tx_id r) r s)"

definition journal_get :: "string \<Rightarrow> memory_journal \<Rightarrow> TxJournalRecord option result" where
  "journal_get tx_id s = Inr (bm_get s tx_id)"

definition journal_list_recoverable :: "memory_journal \<Rightarrow> TxJournalRecord list result" where
  "journal_list_recoverable s = Inr (filter (\<lambda>r. requires_recovery (jr_phase r)) (bm_values s))"

definition journal_inv :: "memory_journal \<Rightarrow> bool" where
  "journal_inv s \<longleftrightarrow> (\<forall>t r. bm_get s t = Some r \<longrightarrow> jr_tx_id r = t)"

lemma journal_inv_values:
  "journal_inv s \<Longrightarrow> r \<in> set (bm_values s) \<longleftrightarrow> bm_get s (jr_tx_id r) = Some r"
  by (fastforce simp: set_bm_values ran_def journal_inv_def)

interpretation mem_journal: journal_store journal_inv journal_get journal_put journal_list_recoverable
  by unfold_locales
    (auto simp: journal_put_def journal_get_def journal_list_recoverable_def journal_inv_values
      bm_get_insert, auto simp: journal_inv_def bm_get_insert split: if_splits)

section \<open>The file store\<close>

definition validate_journal_tx_id :: "string \<Rightarrow> unit result" where
  "validate_journal_tx_id tx_id =
     (if tx_id = [] \<or> \<not> list_all (\<lambda>ch. is_ascii_alphanumeric ch \<or> ch = CHR ''-'' \<or> ch = CHR ''_'') tx_id
      then Inl (InvalidIntent (''tx_id '' @ debug_str tx_id @ '' is invalid for file journal store''))
      else Inr ())"

definition journal_path_for :: "string \<Rightarrow> string result" where
  "journal_path_for tx_id = and_then (validate_journal_tx_id tx_id) (\<lambda>_. Inr (tx_id @ ''.json''))"

definition journal_io_error :: "string \<Rightarrow> UnderlayError" where
  "journal_io_error err = Internal (''tx journal io error: '' @ err)"

definition read_journal_record ::
  "('b list \<Rightarrow> string + TxJournalRecord) \<Rightarrow> string \<Rightarrow> 'b list \<Rightarrow> TxJournalRecord result" where
  "read_journal_record dec path payload =
     map_err (\<lambda>err. Internal (''parse tx journal '' @ debug_str path @ '': '' @ err)) (dec payload)"

definition file_journal_put ::
  "(TxJournalRecord \<Rightarrow> 'b list) \<Rightarrow> io_fault \<Rightarrow> string \<Rightarrow> TxJournalRecord \<Rightarrow> 'b dir \<Rightarrow> unit result \<times> 'b dir" where
  "file_journal_put enc fault uuid r files =
     (case journal_path_for (jr_tx_id r) of
        Inl e \<Rightarrow> (Inl e, files)
      | Inr path \<Rightarrow> atomic_write fault uuid path (enc r) journal_io_error files)"

definition file_journal_get ::
  "('b list \<Rightarrow> string + TxJournalRecord) \<Rightarrow> string \<Rightarrow> 'b dir \<Rightarrow> TxJournalRecord option result" where
  "file_journal_get dec tx_id files =
     and_then (journal_path_for tx_id) (\<lambda>path.
     case bm_get files path of
       None \<Rightarrow> Inr None
     | Some payload \<Rightarrow> and_then (read_journal_record dec path payload) (\<lambda>r. Inr (Some r)))"

fun scan_entry ::
  "('b list \<Rightarrow> string + TxJournalRecord) \<Rightarrow> TxJournalRecord list \<Rightarrow> string \<times> 'b list \<Rightarrow> TxJournalRecord list result" where
  "scan_entry dec records (path, payload) =
     (if file_extension path \<noteq> Some ''json'' then Inr records
      else and_then (read_journal_record dec path payload) (\<lambda>r.
        if requires_recovery (jr_phase r) then Inr (records @ [r]) else Inr records))"

definition file_journal_list_recoverable ::
  "('b list \<Rightarrow> string + TxJournalRecord) \<Rightarrow> 'b dir \<Rightarrow> TxJournalRecord list result" where
  "file_journal_list_recoverable dec files =
     and_then (try_fold (scan_entry dec) [] (entries files)) (\<lambda>records.
     Inr (sort_key jr_tx_id records))"

text \<open>Every journal file is named after the record it holds.\<close>

definition journal_dir_inv :: "('b list \<Rightarrow> string + TxJournalRecord) \<Rightarrow> 'b dir \<Rightarrow> bool" where
  "journal_dir_inv dec files \<longleftrightarrow>
     (\<forall>path payload r. bm_get files path = Some payload \<longrightarrow> file_extension path = Some ''json'' \<longrightarrow>
        dec payload = Inr r \<longrightarrow> journal_path_for (jr_tx_id r) = Inr path)"

lemma journal_path_for_Inr:
  "journal_path_for t = Inr p \<longleftrightarrow> is_canonical_identifier t \<and> p = t @ ''.json''"
  by (auto simp: journal_path_for_def validate_journal_tx_id_def is_canonical_identifier_def)

lemma file_extension_json: "t \<noteq> [] \<Longrightarrow> file_extension (t @ ''.json'') = Some ''json''"
  by (simp add: file_extension_def Let_def)

lemma file_extension_tmp: "file_extension (unique_tmp_path uuid path) = Some ''tmp''"
  by (simp add: file_extension_def unique_tmp_path_def Let_def)

lemma json_not_tmp: "file_extension p = Some ''json'' \<Longrightarrow> p \<noteq> unique_tmp_path uuid path"
  using file_extension_tmp[of uuid path] by auto

lemma journal_path_json: "journal_path_for t = Inr p \<Longrightarrow> file_extension p = Some ''json''"
  by (auto simp: journal_path_for_Inr is_canonical_identifier_def file_extension_json)

lemma journal_path_inject: "journal_path_for t = Inr p \<Longrightarrow> journal_path_for t' = Inr p \<Longrightarrow> t = t'"
  by (simp add: journal_path_for_Inr)

text \<open>What a put leaves in a journal file.\<close>

lemma file_journal_put_get:
  assumes "file_extension p = Some ''json''"
  shows "bm_get (snd (file_journal_put enc fault uuid r files)) p =
    (if journal_path_for (jr_tx_id r) = Inr p \<and> replaced fault then Some (enc r) else bm_get files p)"
  by (auto simp: file_journal_put_def atomic_write_get[OF json_not_tmp[OF assms]] split: sum.split)

lemma file_journal_put_result:
  "fst (file_journal_put enc fault uuid r files) =
    (case journal_path_for (jr_tx_id r) of
       Inl e \<Rightarrow> Inl e
     | Inr _ \<Rightarrow> if fault = None then Inr () else Inl (journal_io_error (fault_text fault)))"
  by (simp add: file_journal_put_def atomic_write_result split: sum.split)

lemma read_journal_record_Inr: "read_journal_record dec path payload = Inr r \<longleftrightarrow> dec payload = Inr r"
  by (cases "dec payload") (simp_all add: read_journal_record_def)

lemma file_journal_get_Inr:
  "file_journal_get dec t files = Inr (Some r) \<longleftrightarrow>
     (\<exists>p payload. journal_path_for t = Inr p \<and> bm_get files p = Some payload \<and> dec payload = Inr r)"
  by (auto simp: file_journal_get_def and_then_Inr_iff read_journal_record_Inr split: option.split)

lemma file_journal_get_cong:
  assumes "\<And>p. journal_path_for t = Inr p \<Longrightarrow> bm_get files p = bm_get files' p"
  shows "file_journal_get dec t files = file_journal_get dec t files'"
  using assms by (cases "journal_path_for t") (simp_all add: file_journal_get_def)

lemma collect_recoverable:
  assumes "try_fold (scan_entry dec) acc es = Inr rs"
  shows "set rs = set acc \<union> {r. requires_recovery (jr_phase r) \<and>
    (\<exists>p payload. (p, payload) \<in> set es \<and> file_extension p = Some ''json'' \<and> dec payload = Inr r)}"
  using assms
proof (induction es arbitrary: acc)
  case (Cons e es)
  obtain p payload where e: "e = (p, payload)" by (cases e)
  show ?case
  proof (cases "file_extension p = Some ''json''")
    case False
    with Cons.IH[of acc] Cons.prems e show ?thesis by auto
  next
    case True
    with Cons.prems e obtain r where r: "dec payload = Inr r"
      by (auto simp: and_then_Inr_iff read_journal_record_Inr)
    with Cons.prems e True Cons.IH[of "acc @ [r]"] Cons.IH[of acc] show ?thesis
      by (cases "requires_recovery (jr_phase r)") (auto simp: read_journal_record_def)
  qed
qed simp

lemma file_journal_recoverable_mem:
  assumes "journal_dir_inv dec files" "file_journal_list_recoverable dec files = Inr rs"
  shows "r \<in> set rs \<longleftrightarrow> file_journal_get dec (jr_tx_id r) files = Inr (Some r) \<and> requires_recovery (jr_phase r)"
proof -
  have collect: "set rs = {r. requires_recovery (jr_phase r) \<and>
      (\<exists>p payload. bm_get files p = Some payload \<and> file_extension p = Some ''json'' \<and> dec payload = Inr r)}"
  proof -
    obtain x where x: "rs = sort_key jr_tx_id x" and t: "try_fold (scan_entry dec) [] (entries files) = Inr x"
      using assms(2) unfolding file_journal_list_recoverable_def and_then_Inr_iff by auto
    from collect_recoverable[OF t] x show ?thesis by (simp flip: bm.in_elements)
  qed
  have mem: "r \<in> set rs \<longleftrightarrow> requires_recovery (jr_phase r) \<and>
      (\<exists>p payload. bm_get files p = Some payload \<and> file_extension p = Some ''json'' \<and> dec payload = Inr r)"
    using collect by blast
  show ?thesis
    unfolding mem file_journal_get_Inr
    using assms(1)[unfolded journal_dir_inv_def] journal_path_json by blast
qed

text \<open>The codec the store relies on: what was written reads back.\<close>

locale journal_codec =
  fixes enc :: "TxJournalRecord \<Rightarrow> 'b list"
    and dec :: "'b list \<Rightarrow> string + TxJournalRecord"
  assumes dec_enc: "dec (enc r) = Inr r"
begin

lemma put_keeps_inv: "journal_dir_inv dec files \<Longrightarrow> journal_dir_inv dec (snd (file_journal_put enc fault uuid r files))"
  unfolding journal_dir_inv_def
  by (auto simp: file_journal_put_get dec_enc split: if_splits)

lemma put_then_get:
  assumes "journal_path_for (jr_tx_id r) = Inr p"
  shows "file_journal_get dec (jr_tx_id r) (snd (file_journal_put enc fault uuid r files)) =
    (if replaced fault then Inr (Some r) else file_journal_get dec (jr_tx_id r) files)"
  using assms
  by (simp add: file_journal_get_def file_journal_put_get[OF journal_path_json[OF assms]]
      read_journal_record_def dec_enc)

lemma put_frame:
  "t \<noteq> jr_tx_id r \<Longrightarrow>
     file_journal_get dec t (snd (file_journal_put enc fault uuid r files)) = file_journal_get dec t files"
  by (rule file_journal_get_cong)
    (auto simp: file_journal_put_get[OF journal_path_json] dest: journal_path_inject)

end

sublocale journal_codec \<subseteq> on_disk: journal_store "journal_dir_inv dec" "file_journal_get dec"
  "file_journal_put enc fault uuid" "file_journal_list_recoverable dec"
  for fault uuid
proof
  fix files :: "'b dir" and r u files'
  assume put: "file_journal_put enc fault uuid r files = (Inr u, files')"
  then have "fst (file_journal_put enc fault uuid r files) = Inr u" by simp
  then obtain p where "journal_path_for (jr_tx_id r) = Inr p" "fault = None"
    by (auto simp: file_journal_put_result split: sum.splits if_splits)
  with put put_then_get[of r p fault uuid files]
  show "file_journal_get dec (jr_tx_id r) files' = Inr (Some r)"
    by (simp add: replaced_def)
next
  fix files :: "'b dir" and r e files'
  assume put: "file_journal_put enc fault uuid r files = (Inl e, files')"
  show "file_journal_get dec (jr_tx_id r) files' = file_journal_get dec (jr_tx_id r) files \<or>
      file_journal_get dec (jr_tx_id r) files' = Inr (Some r)"
  proof (cases "journal_path_for (jr_tx_id r)")
    case (Inl a)
    with put show ?thesis by (simp add: file_journal_put_def)
  next
    case (Inr p)
    from put_then_get[OF this, of fault uuid files] put show ?thesis
      by (simp split: if_splits)
  qed
qed (simp_all add: put_keeps_inv put_frame file_journal_recoverable_mem)

context journal_codec
begin

lemma recoverable_after_put:
  assumes inv: "journal_dir_inv dec files"
    and put: "file_journal_put enc fault uuid r files = (Inr (), files')"
    and before: "file_journal_list_recoverable dec files = Inr rs"
    and after: "file_journal_list_recoverable dec files' = Inr rs'"
  shows "journal_dir_inv dec files' \<and>
    (q \<in> set rs' \<longleftrightarrow> (if jr_tx_id q = jr_tx_id r then q = r \<and> requires_recovery (jr_phase r) else q \<in> set rs))"
proof -
  have inv': "journal_dir_inv dec files'"
    using on_disk.store_inv[OF inv, of fault uuid r] put by simp
  have "file_journal_get dec (jr_tx_id r) files' = Inr (Some r)"
    using on_disk.store_ok[OF inv put] .
  moreover have "jr_tx_id q \<noteq> jr_tx_id r \<Longrightarrow> file_journal_get dec (jr_tx_id q) files' = file_journal_get dec (jr_tx_id q) files"
    using on_disk.store_frame[OF inv, of "jr_tx_id q" r fault uuid] put by simp
  ultimately show ?thesis
    using file_journal_recoverable_mem[OF inv before, of q] file_journal_recoverable_mem[OF inv' after, of q] inv'
    by auto
qed

end

interpretation verbatim_journal: journal_codec verbatim_enc verbatim_dec
  by unfold_locales (simp add: verbatim_enc_def verbatim_dec_def)

section \<open>Properties\<close>

lemma in_doubt_records_mem:
  "r \<in> set (in_doubt_records_for_devices rs ds) \<longleftrightarrow>
     r \<in> set rs \<and> requires_recovery (jr_phase r) \<and> set (jr_devices r) \<inter> set ds \<noteq> {}"
  by (auto simp: in_doubt_records_for_devices_def list_ex_iff)

text \<open>C12: the journal is the gate of its devices.  For a codec that reads back what it wrote and
  a directory whose files are named after their records, once a put of a record has returned
  without error, a request on some devices is blocked by exactly the stored record, if its
  phase requires recovery and it shares a device with the request, and by the records of
  other transactions that blocked it before; an earlier version of the stored record no
  longer blocks.  The directory stays well formed.\<close>

theorem journal_put_gates_devices:
  assumes codec: "\<And>r. dec (enc r) = Inr r"
    and inv: "journal_dir_inv dec files"
    and put: "file_journal_put enc fault uuid r files = (Inr (), files')"
    and before: "file_journal_list_recoverable dec files = Inr rs"
    and after: "file_journal_list_recoverable dec files' = Inr rs'"
  shows "journal_dir_inv dec files' \<and>
    (\<forall>q. q \<in> set (in_doubt_records_for_devices rs' ds) \<longleftrightarrow>
       (if jr_tx_id q = jr_tx_id r
        then q = r \<and> requires_recovery (jr_phase r) \<and> set (jr_devices r) \<inter> set ds \<noteq> {}
        else q \<in> set (in_doubt_records_for_devices rs ds)))"
proof -
  have codec': "journal_codec enc dec" using codec by unfold_locales
  show ?thesis
    using journal_codec.recoverable_after_put[OF codec' inv put before after]
    unfolding in_doubt_records_mem by auto
qed

theorem journal_put_gates_devices_witness:
  "let r = (started 5 \<lparr>cx_tx_id = ''t1'', cx_request_id = ''q'', cx_trace_id = ''c''\<rparr> [''sw1''])
       \<lparr>jr_phase := InDoubt\<rparr>;
       files' = snd (file_journal_put verbatim_enc None ''u'' r bm_empty) in
   file_journal_list_recoverable verbatim_dec files' = Inr [r] \<and>
   r \<in> set (in_doubt_records_for_devices [r] [''sw1'', ''sw2''])"
proof -
  let ?r = "(started 5 \<lparr>cx_tx_id = ''t1'', cx_request_id = ''q'', cx_trace_id = ''c''\<rparr> [''sw1''])
       \<lparr>jr_phase := InDoubt\<rparr>"
  let ?files = "snd (file_journal_put verbatim_enc None ''u'' ?r bm_empty)"
  have id: "jr_tx_id ?r = ''t1''" "jr_phase ?r = InDoubt" "jr_devices ?r = [''sw1'']"
    by (simp_all add: started_def)
  have path: "journal_path_for ''t1'' = Inr ''t1.json''" by code_simp
  have "fst (file_journal_put verbatim_enc None ''u'' ?r bm_empty) = Inr ()"
    by (simp add: file_journal_put_result id path)
  then have put: "file_journal_put verbatim_enc None ''u'' ?r bm_empty = (Inr (), ?files)"
    by (metis prod.collapse)
  have before: "file_journal_list_recoverable verbatim_dec (bm_empty :: TxJournalRecord dir) = Inr []"
    by code_simp
  have files: "?files = bm_insert ''t1.json'' [?r] bm_empty"
    by (rule bmap_eqI) (simp add: file_journal_put_def id path atomic_write_def write_then_rename_def
        fails_at_def Let_def verbatim_enc_def bm_get_insert bm_get_remove unique_tmp_path_def)
  have e: "entries (bm_insert ''t1.json'' x bm_empty) = [(''t1.json'', x)]" for x :: "TxJournalRecord list"
    by code_simp
  have ext: "file_extension ''t1.json'' = Some ''json''" by code_simp
  have after: "file_journal_list_recoverable verbatim_dec ?files = Inr [?r]"
    unfolding files
    by (simp add: file_journal_list_recoverable_def e ext read_journal_record_def verbatim_dec_def
        id requires_recovery_def)
  have "journal_dir_inv verbatim_dec (bm_empty :: TxJournalRecord dir)" by (simp add: journal_dir_inv_def)
  from journal_put_gates_devices[OF verbatim_journal.dec_enc this put before after, of "[''sw1'', ''sw2'']"]
  show ?thesis unfolding Let_def using after by (simp add: id requires_recovery_def)
qed

end
