(* ===== verification/Response.thy ===== *)
theory Response
  imports Journal "HOL-Library.Multiset"
begin

text \<open>
  What an apply reports: \<open>src/api/response.rs\<close> and the pure helpers of \<open>src/api/apply.rs\<close>.
  Variants of the three status enums that share a name with another enum carry the prefix
  \<open>Apply\<close>, \<open>Verify\<close> or \<open>Report\<close>.
\<close>

section \<open>Statuses and results\<close>

datatype ApplyStatus =
    NoOpSuccess | Success | SuccessWithWarning | PartialSuccess
  | ApplyFailed | ApplyRolledBack | ApplyInDoubt

datatype DeviceVerifyStatus = VerifyPassed | VerifyFailed | VerifySkipped | VerifyInDoubt

datatype ApplyVerifyStatus = ReportPassed | ReportFailed | ReportPartial | ReportSkipped | ReportInDoubt

record VerifyScopeSummary =
  vs_vlan_count :: nat
  vs_interface_count :: nat
  vs_acl_count :: nat
  vs_acl_binding_count :: nat
  vs_delete_vlan_count :: nat
  vs_delete_interface_count :: nat
  vs_delete_acl_count :: nat
  vs_delete_acl_binding_count :: nat

record DeviceVerifyReport =
  vr_device_id :: DeviceId
  vr_status :: DeviceVerifyStatus
  vr_source :: string
  vr_scope :: VerifyScopeSummary
  vr_warnings :: "string list"
  vr_error_code :: "string option"
  vr_error_message :: "string option"

record DeviceApplyResult =
  dr_device_id :: DeviceId
  dr_changed :: bool
  dr_status :: ApplyStatus
  dr_tx_id :: "string option"
  dr_strategy :: "TransactionStrategy option"
  dr_error_code :: "string option"
  dr_error_message :: "string option"
  dr_warnings :: "string list"
  dr_verify_report :: "DeviceVerifyReport option"

record ApplyVerifyReport =
  av_status :: ApplyVerifyStatus
  av_passed :: "DeviceId list"
  av_failed :: "DeviceId list"
  av_skipped :: "DeviceId list"
  av_in_doubt :: "DeviceId list"
  av_attention_required :: bool
  av_warning_count :: nat

record ApplyIntentResponse =
  ar_request_id :: string
  ar_trace_id :: string
  ar_idempotency_key :: "string option"
  ar_reused :: bool
  ar_tx_id :: "string option"
  ar_status :: ApplyStatus
  ar_strategy :: "TransactionStrategy option"
  ar_device_results :: "DeviceApplyResult list"
  ar_warnings :: "string list"
  ar_verify_report :: "ApplyVerifyReport option"

section \<open>The scope a verification covers\<close>

text \<open>The eight sets that \<open>VerifyScopeSummary::from_change_set\<close> collects.\<close>

record verify_sets =
  st_vlans :: "u16 bset"
  st_interfaces :: "string bset"
  st_acls :: "u16 bset"
  st_acl_bindings :: "string bset"
  st_delete_vlans :: "u16 bset"
  st_delete_interfaces :: "string bset"
  st_delete_acls :: "u16 bset"
  st_delete_acl_bindings :: "string bset"

definition no_verify_sets :: verify_sets where
  "no_verify_sets =
     \<lparr>st_vlans = bm_empty, st_interfaces = bm_empty, st_acls = bm_empty, st_acl_bindings = bm_empty,
      st_delete_vlans = bm_empty, st_delete_interfaces = bm_empty, st_delete_acls = bm_empty,
      st_delete_acl_bindings = bm_empty\<rparr>"

fun note_op :: "verify_sets \<Rightarrow> ChangeOp \<Rightarrow> verify_sets" where
  "note_op s (CreateVlan v) = st_vlans_update (bs_insert (vc_vlan_id v)) s"
| "note_op s (UpdateVlan _ v) = st_vlans_update (bs_insert (vc_vlan_id v)) s"
| "note_op s (DeleteVlan i) = st_delete_vlans_update (bs_insert i) s"
| "note_op s (UpdateInterface _ f) = st_interfaces_update (bs_insert (ic_name f)) s"
| "note_op s (DeleteInterfaceConfig n) = st_delete_interfaces_update (bs_insert n) s"
| "note_op s (CreateAcl a) = st_acls_update (bs_insert (ac_acl_id a)) s"
| "note_op s (UpdateAcl _ a) = st_acls_update (bs_insert (ac_acl_id a)) s"
| "note_op s (DeleteAcl i) = st_delete_acls_update (bs_insert i) s"
| "note_op s (CreateAclBinding b) = st_acl_bindings_update (bs_insert (ab_key b)) s"
| "note_op s (UpdateAclBinding _ b) = st_acl_bindings_update (bs_insert (ab_key b)) s"
| "note_op s (DeleteAclBinding n d i) =
     st_delete_acl_bindings_update (bs_insert (acl_binding_key n d @ ''|'' @ show_word i)) s"
| "note_op s (CreateBgpProcess _) = s"
| "note_op s (UpdateBgpProcess _ _) = s"
| "note_op s (DeleteBgpProcess _) = s"
| "note_op s (CreateBgpNeighbor _) = s"
| "note_op s (UpdateBgpNeighbor _ _) = s"
| "note_op s (DeleteBgpNeighbor _ _) = s"

definition bs_len :: "'k::linorder bset \<Rightarrow> nat" where
  "bs_len s = length (bs_elems s)"

definition scope_from_change_set :: "ChangeSet \<Rightarrow> VerifyScopeSummary" where
  "scope_from_change_set cs =
     (let s = foldl note_op no_verify_sets (cs_ops cs) in
      \<lparr>vs_vlan_count = bs_len (st_vlans s), vs_interface_count = bs_len (st_interfaces s),
       vs_acl_count = bs_len (st_acls s), vs_acl_binding_count = bs_len (st_acl_bindings s),
       vs_delete_vlan_count = bs_len (st_delete_vlans s),
       vs_delete_interface_count = bs_len (st_delete_interfaces s),
       vs_delete_acl_count = bs_len (st_delete_acls s),
       vs_delete_acl_binding_count = bs_len (st_delete_acl_bindings s)\<rparr>)"

definition default_scope :: VerifyScopeSummary where
  "default_scope =
     \<lparr>vs_vlan_count = 0, vs_interface_count = 0, vs_acl_count = 0, vs_acl_binding_count = 0,
      vs_delete_vlan_count = 0, vs_delete_interface_count = 0, vs_delete_acl_count = 0,
      vs_delete_acl_binding_count = 0\<rparr>"

section \<open>Verify reports\<close>

definition report_passed :: "DeviceId \<Rightarrow> VerifyScopeSummary \<Rightarrow> string list \<Rightarrow> DeviceVerifyReport" where
  "report_passed d scope warnings =
     \<lparr>vr_device_id = d, vr_status = VerifyPassed, vr_source = ''adapter_scoped_verify'',
      vr_scope = scope, vr_warnings = warnings, vr_error_code = None, vr_error_message = None\<rparr>"

definition report_failed ::
  "DeviceId \<Rightarrow> VerifyScopeSummary \<Rightarrow> string \<Rightarrow> string \<Rightarrow> string list \<Rightarrow> DeviceVerifyReport" where
  "report_failed d scope error_code error_message warnings =
     \<lparr>vr_device_id = d, vr_status = VerifyFailed, vr_source = ''adapter_scoped_verify'',
      vr_scope = scope, vr_warnings = warnings, vr_error_code = Some error_code,
      vr_error_message = Some error_message\<rparr>"

definition report_skipped :: "DeviceId \<Rightarrow> DeviceVerifyReport" where
  "report_skipped d =
     \<lparr>vr_device_id = d, vr_status = VerifySkipped, vr_source = ''adapter_scoped_verify'',
      vr_scope = default_scope, vr_warnings = [], vr_error_code = None, vr_error_message = None\<rparr>"

definition report_in_doubt :: "DeviceId \<Rightarrow> string \<Rightarrow> string \<Rightarrow> DeviceVerifyReport" where
  "report_in_doubt d error_code error_message =
     \<lparr>vr_device_id = d, vr_status = VerifyInDoubt, vr_source = ''adapter_scoped_verify'',
      vr_scope = default_scope, vr_warnings = [], vr_error_code = Some error_code,
      vr_error_message = Some error_message\<rparr>"

definition report_devices :: "DeviceVerifyStatus \<Rightarrow> DeviceVerifyReport list \<Rightarrow> DeviceId list" where
  "report_devices st reports = map vr_device_id (filter (\<lambda>r. vr_status r = st) reports)"

definition from_device_results :: "DeviceApplyResult list \<Rightarrow> ApplyVerifyReport" where
  "from_device_results device_results =
     (let reports = List.map_filter dr_verify_report device_results;
          passed = report_devices VerifyPassed reports;
          failed = report_devices VerifyFailed reports;
          skipped = report_devices VerifySkipped reports;
          in_doubt = report_devices VerifyInDoubt reports;
          status = (if in_doubt \<noteq> [] then ReportInDoubt
                    else if failed \<noteq> [] \<and> passed \<noteq> [] then ReportPartial
                    else if failed \<noteq> [] then ReportFailed
                    else if passed \<noteq> [] then ReportPassed
                    else ReportSkipped) in
      \<lparr>av_status = status, av_passed = passed, av_failed = failed, av_skipped = skipped,
       av_in_doubt = in_doubt, av_attention_required = (failed \<noteq> [] \<or> in_doubt \<noteq> []),
       av_warning_count = sum_list (map (\<lambda>r. length (vr_warnings r)) reports)\<rparr>)"

section \<open>The adapter's operation status (adapter_client/mapper.rs)\<close>

datatype AdapterOperationStatus =
    AdUnspecified | AdNoChange | AdPrepared | AdCommitted | AdRolledBack | AdFailed | AdInDoubt
  | AdConfirmedCommitPending

record AdapterOutcome =
  ao_status :: AdapterOperationStatus
  ao_changed :: bool
  ao_warnings :: "string list"
  ao_prepared_candidate_checksum :: "string option"
  ao_normalized_state :: "DeviceShadowState option"

section \<open>Helpers of an apply (api/apply.rs)\<close>

definition succeeded :: "ApplyStatus \<Rightarrow> bool" where
  "succeeded st \<longleftrightarrow> st = Success \<or> st = SuccessWithWarning \<or> st = NoOpSuccess"

definition aggregate_apply_status :: "DeviceApplyResult list \<Rightarrow> ApplyStatus" where
  "aggregate_apply_status device_results =
     (if device_results = [] then ApplyFailed
      else if list_all (\<lambda>r. dr_status r = NoOpSuccess) device_results then NoOpSuccess
      else if list_ex (\<lambda>r. dr_status r = ApplyInDoubt) device_results then ApplyInDoubt
      else if list_all (\<lambda>r. succeeded (dr_status r)) device_results then
        (if list_ex (\<lambda>r. dr_status r = SuccessWithWarning) device_results then SuccessWithWarning
         else Success)
      else if list_all (\<lambda>r. dr_status r = ApplyRolledBack) device_results then ApplyRolledBack
      else if length device_results = 1 then dr_status (hd device_results)
      else if list_ex (\<lambda>r. succeeded (dr_status r)) device_results then PartialSuccess
      else ApplyFailed)"

definition adapter_error_message :: "string \<Rightarrow> AdapterErrorDetail list \<Rightarrow> string" where
  "adapter_error_message message errors =
     (if errors = [] then message
      else (let additional = join_with ''; '' (map (\<lambda>e. ad_code e @ '': '' @ ad_message e) (take 8 errors));
                truncated = length errors - 8 in
            if truncated = 0 then message @ ''; additional adapter errors: '' @ additional
            else message @ ''; additional adapter errors: '' @ additional @ ''; '' @ show_nat truncated @ '' more''))"

fun journal_error_fields :: "UnderlayError \<Rightarrow> string \<times> string" where
  "journal_error_fields (AdapterOperation code message _ errors) = (code, adapter_error_message message errors)"
| "journal_error_fields (AdapterTransport message) = (''ADAPTER_TRANSPORT'', message)"
| "journal_error_fields (InvalidIntent message) = (''INVALID_INTENT'', message)"
| "journal_error_fields (AuthorizationDenied message) = (''AUTHORIZATION_DENIED'', message)"
| "journal_error_fields (AuthenticationFailed message) = (''AUTHENTICATION_FAILED'', message)"
| "journal_error_fields (ProductAuditWriteFailed message) = (''PRODUCT_AUDIT_WRITE_FAILED'', message)"
| "journal_error_fields (InvalidDeviceState message) = (''INVALID_DEVICE_STATE'', message)"
| "journal_error_fields (InvalidPhaseTransition a b) =
     (''INVALID_PHASE_TRANSITION'', ''invalid phase transition: '' @ a @ '' -> '' @ b)"
| "journal_error_fields UnsupportedTransactionStrategy =
     (''UNSUPPORTED_TRANSACTION_STRATEGY'', ''unsupported transaction strategy'')"
| "journal_error_fields (DeviceAlreadyExists d) = (''DEVICE_ALREADY_EXISTS'', d)"
| "journal_error_fields (DeviceNotFound d) = (''DEVICE_NOT_FOUND'', d)"
| "journal_error_fields (Internal message) = (''INTERNAL'', message)"

definition in_doubt_code :: "string \<Rightarrow> bool" where
  "in_doubt_code code \<longleftrightarrow> code = ''TX_IN_DOUBT'' \<or> code = ''TX_REQUIRES_RECOVERY''"

definition device_error_result ::
  "DeviceId \<Rightarrow> bool \<Rightarrow> string option \<Rightarrow> TransactionStrategy option \<Rightarrow> UnderlayError \<Rightarrow> DeviceApplyResult" where
  "device_error_result d chg tx_id strategy err =
     (let (code, message) = journal_error_fields err in
      \<lparr>dr_device_id = d, dr_changed = chg,
       dr_status = (if in_doubt_code code then ApplyInDoubt else ApplyFailed),
       dr_tx_id = tx_id, dr_strategy = strategy, dr_error_code = Some code,
       dr_error_message = Some message, dr_warnings = [],
       dr_verify_report = Some (if in_doubt_code code then report_in_doubt d code message
                                else report_skipped d)\<rparr>)"

definition commit_status_matches_strategy :: "AdapterOperationStatus \<Rightarrow> TransactionStrategy \<Rightarrow> bool" where
  "commit_status_matches_strategy st strategy =
     (case strategy of ConfirmedCommit \<Rightarrow> st = AdConfirmedCommitPending | _ \<Rightarrow> st = AdCommitted)"

definition failed_apply_phase :: "TxPhase \<Rightarrow> TxPhase" where
  "failed_apply_phase current = (if current = RolledBack \<or> current = InDoubt then current else Failed)"

definition apply_status_for_failed_phase :: "TxPhase \<Rightarrow> ApplyStatus" where
  "apply_status_for_failed_phase phase =
     (case phase of RolledBack \<Rightarrow> ApplyRolledBack | InDoubt \<Rightarrow> ApplyInDoubt | _ \<Rightarrow> ApplyFailed)"

fun debug_strategy :: "TransactionStrategy \<Rightarrow> string" where
  "debug_strategy ConfirmedCommit = ''ConfirmedCommit''"
| "debug_strategy CandidateCommit = ''CandidateCommit''"
| "debug_strategy RunningRollbackOnError = ''RunningRollbackOnError''"
| "debug_strategy BestEffortCli = ''BestEffortCli''"
| "debug_strategy Unsupported = ''Unsupported''"

definition degraded_strategy_warnings :: "TransactionStrategy \<Rightarrow> string list" where
  "degraded_strategy_warnings strategy =
     (if is_degraded strategy
      then [''degraded transaction strategy '' @ debug_strategy strategy @
            ''; atomicity is weaker than confirmed commit'']
      else [])"

section \<open>Reports count every device once\<close>

lemma verify_report_partition:
  "mset (av_passed (from_device_results rs)) + mset (av_failed (from_device_results rs)) +
     mset (av_skipped (from_device_results rs)) + mset (av_in_doubt (from_device_results rs)) =
   mset (map vr_device_id (List.map_filter dr_verify_report rs))"
proof -
  have "mset (report_devices VerifyPassed vs) + mset (report_devices VerifyFailed vs) +
      mset (report_devices VerifySkipped vs) + mset (report_devices VerifyInDoubt vs) =
      mset (map vr_device_id vs)" for vs
  proof (induction vs)
    case (Cons v vs)
    then show ?case by (cases "vr_status v") (auto simp: report_devices_def)
  qed (simp add: report_devices_def)
  then show ?thesis by (simp add: from_device_results_def Let_def)
qed

section \<open>Properties\<close>

lemma list_all_mset: "list_all P xs \<longleftrightarrow> (\<forall>x \<in># mset xs. P x)"
  by (simp add: list_all_iff)

lemma list_ex_mset: "list_ex P xs \<longleftrightarrow> (\<exists>x \<in># mset xs. P x)"
  by (simp add: list_ex_iff)

lemma list_ex_map: "list_ex P (map f xs) = list_ex (P \<circ> f) xs"
  by (induction xs) simp_all

text \<open>The aggregate over the statuses alone.\<close>

definition aggregate_statuses :: "ApplyStatus list \<Rightarrow> ApplyStatus" where
  "aggregate_statuses sts =
     (if sts = [] then ApplyFailed
      else if list_all (\<lambda>st. st = NoOpSuccess) sts then NoOpSuccess
      else if list_ex (\<lambda>st. st = ApplyInDoubt) sts then ApplyInDoubt
      else if list_all succeeded sts then
        (if list_ex (\<lambda>st. st = SuccessWithWarning) sts then SuccessWithWarning else Success)
      else if list_all (\<lambda>st. st = ApplyRolledBack) sts then ApplyRolledBack
      else if length sts = 1 then hd sts
      else if list_ex succeeded sts then PartialSuccess
      else ApplyFailed)"

lemma aggregate_by_statuses: "aggregate_apply_status rs = aggregate_statuses (map dr_status rs)"
  by (simp add: aggregate_apply_status_def aggregate_statuses_def list.pred_map list_ex_map comp_def hd_map)

lemma aggregate_statuses_mset:
  assumes "mset xs = mset ys"
  shows "aggregate_statuses xs = aggregate_statuses ys"
proof -
  have all: "list_all P xs = list_all P ys" and ex: "list_ex P xs = list_ex P ys" for P
    using assms by (simp_all add: list_all_mset list_ex_mset)
  have l: "length xs = length ys" using assms by (rule mset_eq_length)
  have h: "length ys = Suc 0 \<Longrightarrow> hd xs = hd ys"
    using assms l by (cases xs; cases ys) auto
  have n: "xs = [] \<longleftrightarrow> ys = []" using l by (cases xs; cases ys) auto
  show ?thesis
    unfolding aggregate_statuses_def all ex n l by (simp add: h)
qed

lemma aggregate_single: "aggregate_statuses [x] = x"
  by (cases x) (simp_all add: aggregate_statuses_def succeeded_def)

lemma aggregate_statuses_in_doubt:
  "aggregate_statuses sts = ApplyInDoubt \<longleftrightarrow> ApplyInDoubt \<in> set sts"
proof (cases "length sts = 1")
  case True
  then obtain x where "sts = [x]" by (cases sts) auto
  then show ?thesis by (auto simp: aggregate_single)
next
  case False
  then show ?thesis
    by (auto simp: aggregate_statuses_def list_ex_iff list_all_iff)
qed

lemma aggregate_statuses_succeeded:
  "succeeded (aggregate_statuses sts) \<longleftrightarrow> sts \<noteq> [] \<and> list_all succeeded sts"
proof (cases "length sts = 1")
  case True
  then obtain x where "sts = [x]" by (cases sts) auto
  then show ?thesis by (simp add: aggregate_single)
next
  case False
  have "list_all (\<lambda>st. st = NoOpSuccess) sts \<Longrightarrow> list_all succeeded sts"
    "list_ex (\<lambda>st. st = ApplyInDoubt) sts \<Longrightarrow> \<not> list_all succeeded sts"
    by (auto simp: list_all_iff list_ex_iff succeeded_def)
  moreover have "succeeded NoOpSuccess" "succeeded Success" "succeeded SuccessWithWarning"
    "\<not> succeeded ApplyFailed" "\<not> succeeded ApplyInDoubt" "\<not> succeeded ApplyRolledBack"
    "\<not> succeeded PartialSuccess"
    by (simp_all add: succeeded_def)
  ultimately show ?thesis using False by (simp add: aggregate_statuses_def)
qed

lemma aggregate_statuses_noop:
  "aggregate_statuses sts = NoOpSuccess \<longleftrightarrow> set sts = {NoOpSuccess}"
proof (cases "length sts = 1")
  case True
  then obtain x where "sts = [x]" by (cases sts) auto
  then show ?thesis by (auto simp: aggregate_single)
next
  case False
  have "sts \<noteq> [] \<Longrightarrow> list_all (\<lambda>st. st = NoOpSuccess) sts \<longleftrightarrow> set sts = {NoOpSuccess}"
    by (cases sts) (auto simp: list_all_iff)
  with False show ?thesis by (simp add: aggregate_statuses_def)
qed

lemma aggregate_statuses_partial:
  assumes "2 \<le> length sts"
  shows "aggregate_statuses sts = PartialSuccess \<longleftrightarrow>
     list_ex succeeded sts \<and> \<not> list_all succeeded sts \<and> ApplyInDoubt \<notin> set sts"
proof -
  have "sts \<noteq> []" "length sts \<noteq> 1" using assms by auto
  moreover have "list_all (\<lambda>st. st = NoOpSuccess) sts \<Longrightarrow> list_all succeeded sts"
    "list_all (\<lambda>st. st = ApplyRolledBack) sts \<Longrightarrow> \<not> list_ex succeeded sts"
    by (auto simp: list_all_iff list_ex_iff succeeded_def)
  moreover have "list_ex (\<lambda>st. st = ApplyInDoubt) sts \<longleftrightarrow> ApplyInDoubt \<in> set sts"
    by (auto simp: list_ex_iff)
  ultimately show ?thesis by (simp add: aggregate_statuses_def)
qed

lemmas aggregate_statuses_cases =
  aggregate_statuses_in_doubt aggregate_statuses_succeeded aggregate_statuses_noop aggregate_statuses_partial

text \<open>the status of an apply as a whole does not depend on the order of the devices.  It
  is in doubt iff some device is; it is one of the three success statuses iff there is a
  device and every device succeeded, plain no-op only if no device changed; and with at least
  two devices it is a partial success iff some but not all devices succeeded and none is in
  doubt.\<close>

theorem aggregate_apply_status_correct:
  assumes "mset (map dr_status rs) = mset (map dr_status rs')"
  shows "aggregate_apply_status rs = aggregate_apply_status rs' \<and>
    (aggregate_apply_status rs = ApplyInDoubt \<longleftrightarrow> ApplyInDoubt \<in> dr_status ` set rs) \<and>
    (succeeded (aggregate_apply_status rs) \<longleftrightarrow> rs \<noteq> [] \<and> list_all (succeeded \<circ> dr_status) rs) \<and>
    (aggregate_apply_status rs = NoOpSuccess \<longleftrightarrow> dr_status ` set rs = {NoOpSuccess}) \<and>
    (2 \<le> length rs \<longrightarrow>
      (aggregate_apply_status rs = PartialSuccess \<longleftrightarrow>
        list_ex (succeeded \<circ> dr_status) rs \<and> \<not> list_all (succeeded \<circ> dr_status) rs \<and>
        ApplyInDoubt \<notin> dr_status ` set rs))"
  using aggregate_statuses_cases[of "map dr_status rs"] aggregate_statuses_mset[OF assms]
  by (simp add: aggregate_by_statuses list.pred_map list_ex_map comp_def)

definition sample_result :: "string \<Rightarrow> ApplyStatus \<Rightarrow> DeviceApplyResult" where
  "sample_result d st = (device_error_result d True None None UnsupportedTransactionStrategy)\<lparr>dr_status := st\<rparr>"

theorem aggregate_apply_status_correct_witness:
  "let rs = [sample_result ''a'' Success, sample_result ''b'' ApplyRolledBack];
       rs' = [sample_result ''b'' ApplyRolledBack, sample_result ''a'' Success] in
   mset (map dr_status rs) = mset (map dr_status rs') \<and>
   aggregate_apply_status rs = aggregate_apply_status rs' \<and> aggregate_apply_status rs = PartialSuccess"
proof -
  let ?rs = "[sample_result ''a'' Success, sample_result ''b'' ApplyRolledBack]"
  let ?rs' = "[sample_result ''b'' ApplyRolledBack, sample_result ''a'' Success]"
  have m: "mset (map dr_status ?rs) = mset (map dr_status ?rs')" by simp
  from aggregate_apply_status_correct[OF m] m show ?thesis
    unfolding Let_def by (auto simp: sample_result_def succeeded_def)
qed

end
