(* ===== verification/Drift.thy ===== *)
theory Drift
  imports Normalize
begin

text \<open>
  Drift between the expected and the observed state of a device (\<open>src/state/drift.rs\<close>) and
  the auditor that compares every device of the shadow store with its observation
  (\<open>src/worker/drift_auditor.rs\<close>).
\<close>

section \<open>Reports\<close>

datatype DriftPolicy = ReportOnly | BlockNewTransaction | AutoReconcile

datatype DriftType =
    MissingVlan | ExtraVlan | VlanAttributeMismatch
  | MissingInterface | ExtraInterface | InterfaceAttributeMismatch
  | MissingAcl | ExtraAcl | AclAttributeMismatch
  | MissingAclBinding | ExtraAclBinding | AclBindingAttributeMismatch
  | AdapterWarning

record DriftFinding =
  df_drift_type :: DriftType
  df_path :: string
  df_expected :: "string option"
  df_actual :: "string option"

record DriftReport =
  dp_device_id :: DeviceId
  dp_drift_detected :: bool
  dp_findings :: "DriftFinding list"
  dp_warnings :: "string list"

definition drift_clean :: "DeviceId \<Rightarrow> DriftReport" where
  "drift_clean d = \<lparr>dp_device_id = d, dp_drift_detected = False, dp_findings = [], dp_warnings = []\<rparr>"

definition finding :: "DriftType \<Rightarrow> string \<Rightarrow> string option \<Rightarrow> string option \<Rightarrow> DriftFinding" where
  "finding t path e a = \<lparr>df_drift_type = t, df_path = path, df_expected = e, df_actual = a\<rparr>"

definition warning_findings :: "string list \<Rightarrow> DriftFinding list" where
  "warning_findings warnings = map (\<lambda>w. finding AdapterWarning ''adapter.warning'' None (Some w)) warnings"

definition from_adapter_warnings :: "DeviceId \<Rightarrow> string list \<Rightarrow> DriftReport" where
  "from_adapter_warnings d warnings =
     (let findings = warning_findings warnings in
      \<lparr>dp_device_id = d, dp_drift_detected = (findings \<noteq> []), dp_findings = findings, dp_warnings = warnings\<rparr>)"

section \<open>Summaries\<close>

definition or_empty :: "string option \<Rightarrow> string" where
  "or_empty s = (case s of Some t \<Rightarrow> t | None \<Rightarrow> [])"

definition vlan_summary :: "VlanConfig \<Rightarrow> string" where
  "vlan_summary v = ''id='' @ show_word (vc_vlan_id v) @ '',name='' @ or_empty (vc_name v) @
     '',description='' @ or_empty (vc_description v)"

fun debug_admin_state :: "AdminState \<Rightarrow> string" where
  "debug_admin_state Up = ''Up''"
| "debug_admin_state Down = ''Down''"

fun debug_vlan_option :: "u16 option \<Rightarrow> string" where
  "debug_vlan_option None = ''None''"
| "debug_vlan_option (Some v) = ''Some('' @ show_word v @ '')''"

fun debug_port_mode :: "PortMode \<Rightarrow> string" where
  "debug_port_mode (Access v) = ''Access { vlan_id: '' @ show_word v @ '' }''"
| "debug_port_mode (Trunk n vs) =
     ''Trunk { native_vlan: '' @ debug_vlan_option n @ '', allowed_vlans: ['' @
     join_with '', '' (map show_word vs) @ ''] }''"

definition interface_summary :: "InterfaceConfig \<Rightarrow> string" where
  "interface_summary i = ''name='' @ ic_name i @ '',admin='' @ debug_admin_state (ic_admin_state i) @
     '',description='' @ or_empty (ic_description i) @ '',mode='' @ debug_port_mode (ic_mode i)"

definition acl_summary :: "AclConfig \<Rightarrow> string" where
  "acl_summary a = ''id='' @ show_word (ac_acl_id a) @ '',name='' @ or_empty (ac_name a) @
     '',description='' @ or_empty (ac_description a) @ '',rules='' @ show_nat (length (ac_rules a))"

fun debug_acl_direction :: "AclDirection \<Rightarrow> string" where
  "debug_acl_direction Inbound = ''Inbound''"
| "debug_acl_direction Outbound = ''Outbound''"

definition acl_binding_summary :: "AclBinding \<Rightarrow> string" where
  "acl_binding_summary b = ''interface='' @ ab_interface_name b @ '',direction='' @
     debug_acl_direction (ab_direction b) @ '',acl_id='' @ show_word (ab_acl_id b)"

section \<open>Comparison\<close>

definition compare_vlan :: "u16 \<Rightarrow> VlanConfig \<Rightarrow> VlanConfig \<Rightarrow> DriftFinding list" where
  "compare_vlan i e o' = (if e \<noteq> o' then [finding VlanAttributeMismatch (''vlans.'' @ show_word i)
     (Some (vlan_summary e)) (Some (vlan_summary o'))] else [])"

definition compare_interface :: "string \<Rightarrow> InterfaceConfig \<Rightarrow> InterfaceConfig \<Rightarrow> DriftFinding list" where
  "compare_interface n e o' = (if e \<noteq> o' then [finding InterfaceAttributeMismatch (''interfaces.'' @ n)
     (Some (interface_summary e)) (Some (interface_summary o'))] else [])"

definition compare_acl :: "u16 \<Rightarrow> AclConfig \<Rightarrow> AclConfig \<Rightarrow> DriftFinding list" where
  "compare_acl i e o' = (if e \<noteq> o' then [finding AclAttributeMismatch (''acls.'' @ show_word i)
     (Some (acl_summary e)) (Some (acl_summary o'))] else [])"

definition compare_acl_binding :: "string \<Rightarrow> AclBinding \<Rightarrow> AclBinding \<Rightarrow> DriftFinding list" where
  "compare_acl_binding k e o' = (if e \<noteq> o' then [finding AclBindingAttributeMismatch (''acl_bindings.'' @ k)
     (Some (acl_binding_summary e)) (Some (acl_binding_summary o'))] else [])"

text \<open>The pair of loops over one kind of object: the expected ones, then the extra ones.\<close>

definition compare_objects ::
  "('k::linorder \<Rightarrow> 'v \<Rightarrow> 'v \<Rightarrow> DriftFinding list) \<Rightarrow> DriftType \<Rightarrow> DriftType \<Rightarrow> ('k \<Rightarrow> string) \<Rightarrow>
   ('v \<Rightarrow> string) \<Rightarrow> ('k, 'v) bmap \<Rightarrow> ('k, 'v) bmap \<Rightarrow> DriftFinding list" where
  "compare_objects cmp missing extra path summary expected observed =
     concat (map (\<lambda>(k, e). case bm_get observed k of
         Some o' \<Rightarrow> cmp k e o'
       | None \<Rightarrow> [finding missing (path k) (Some (summary e)) None]) (entries expected)) @
     concat (map (\<lambda>(k, o'). if bm_contains expected k then []
       else [finding extra (path k) None (Some (summary o'))]) (entries observed))"

definition detect_drift :: "DeviceShadowState \<Rightarrow> DeviceShadowState \<Rightarrow> DriftReport" where
  "detect_drift expected observed =
     (let expected = normalize_shadow_state expected;
          observed = normalize_shadow_state observed;
          findings =
            compare_objects compare_vlan MissingVlan ExtraVlan (\<lambda>i. ''vlans.'' @ show_word i)
              vlan_summary (ss_vlans expected) (ss_vlans observed) @
            compare_objects compare_interface MissingInterface ExtraInterface (\<lambda>n. ''interfaces.'' @ n)
              interface_summary (ss_interfaces expected) (ss_interfaces observed) @
            compare_objects compare_acl MissingAcl ExtraAcl (\<lambda>i. ''acls.'' @ show_word i)
              acl_summary (ss_acls expected) (ss_acls observed) @
            compare_objects compare_acl_binding MissingAclBinding ExtraAclBinding
              (\<lambda>k. ''acl_bindings.'' @ k) acl_binding_summary
              (ss_acl_bindings expected) (ss_acl_bindings observed) @
            warning_findings (ss_warnings observed) in
      \<lparr>dp_device_id = ss_device_id expected, dp_drift_detected = (findings \<noteq> []),
       dp_findings = findings, dp_warnings = ss_warnings observed\<rparr>)"

section \<open>The auditor\<close>

record DriftAuditRunSummary =
  da_audited_devices :: nat
  da_failed_devices :: "DeviceId list"
  da_drifted_devices :: "DeviceId list"
  da_listing_error :: "string option"
  da_reports :: "DriftReport list"

definition from_reports_and_failures :: "nat \<Rightarrow> DriftReport list \<Rightarrow> DeviceId list \<Rightarrow> DriftAuditRunSummary" where
  "from_reports_and_failures audited reports failed =
     \<lparr>da_audited_devices = audited, da_failed_devices = failed,
      da_drifted_devices = map dp_device_id reports, da_listing_error = None, da_reports = reports\<rparr>"

definition from_expected_store_listing_error :: "UnderlayError \<Rightarrow> DriftAuditRunSummary" where
  "from_expected_store_listing_error err =
     \<lparr>da_audited_devices = 0, da_failed_devices = [], da_drifted_devices = [],
      da_listing_error = Some (error_display err), da_reports = []\<rparr>"

text \<open>The body of the loop over the expected states; \<open>observe\<close> is the observation source.\<close>

definition audit_device ::
  "(DeviceId \<Rightarrow> DeviceShadowState result) \<Rightarrow> DriftReport list \<times> DeviceId list \<Rightarrow> DeviceShadowState \<Rightarrow>
   DriftReport list \<times> DeviceId list" where
  "audit_device observe acc expected =
     (let (reports, failed) = acc in
      case observe (ss_device_id expected) of
        Inl _ \<Rightarrow> (reports, failed @ [ss_device_id expected])
      | Inr observed \<Rightarrow>
         (let report = detect_drift expected observed in
          if dp_drift_detected report then (reports @ [report], failed) else (reports, failed)))"

text \<open>An auditor with a source, and one with fixed snapshots.\<close>

datatype drift_auditor =
    FromSource "DeviceShadowState list result" "DeviceId \<Rightarrow> DeviceShadowState result"
  | FromSnapshots "(DeviceShadowState \<times> DeviceShadowState) list"

definition run_snapshot_audit :: "(DeviceShadowState \<times> DeviceShadowState) list \<Rightarrow> DriftReport list" where
  "run_snapshot_audit snapshots =
     filter dp_drift_detected (map (\<lambda>(expected, observed). detect_drift expected observed) snapshots)"

fun run_once_with_summary :: "drift_auditor \<Rightarrow> DriftAuditRunSummary" where
  "run_once_with_summary (FromSource (Inl err) observe) = from_expected_store_listing_error err"
| "run_once_with_summary (FromSource (Inr states) observe) =
     (let (reports, failed) = foldl (audit_device observe) ([], []) states in
      from_reports_and_failures (length states) reports failed)"
| "run_once_with_summary (FromSnapshots snapshots) =
     from_reports_and_failures (length snapshots) (run_snapshot_audit snapshots) []"

section \<open>Properties\<close>

lemma compare_objects_Nil:
  assumes "\<And>k e o'. cmp k e o' = [] \<longleftrightarrow> e = o'"
  shows "compare_objects cmp m x path summary expected observed = [] \<longleftrightarrow> expected = observed"
proof
  assume "compare_objects cmp m x path summary expected observed = []"
  then have a: "\<And>k e. bm_get expected k = Some e \<Longrightarrow> bm_get observed k = Some e"
    and b: "\<And>k o'. bm_get observed k = Some o' \<Longrightarrow> bm_contains expected k"
    using assms by (fastforce simp: compare_objects_def simp flip: bm.in_elements split: option.splits if_splits)+
  show "expected = observed"
  proof (rule bmap_eqI)
    fix k
    show "bm_get expected k = bm_get observed k"
      using a[of k] b[of k] by (cases "bm_get expected k"; cases "bm_get observed k") (auto simp: bm_contains_def)
  qed
next
  assume "expected = observed"
  then show "compare_objects cmp m x path summary expected observed = []"
    using assms by (auto simp: compare_objects_def bm.in_elements bm_contains_def)
qed

lemmas compare_defs = compare_vlan_def compare_interface_def compare_acl_def compare_acl_binding_def

lemma detect_drift_clean:
  "\<not> dp_drift_detected (detect_drift e o') \<longleftrightarrow>
     ss_vlans (normalize_shadow_state e) = ss_vlans (normalize_shadow_state o') \<and>
     ss_interfaces (normalize_shadow_state e) = ss_interfaces (normalize_shadow_state o') \<and>
     ss_acls (normalize_shadow_state e) = ss_acls (normalize_shadow_state o') \<and>
     ss_acl_bindings (normalize_shadow_state e) = ss_acl_bindings (normalize_shadow_state o') \<and>
     ss_warnings o' = []"
proof -
  have w: "ss_warnings (normalize_shadow_state o') = ss_warnings o'"
    by (simp add: normalize_shadow_state_def)
  show ?thesis
    by (simp add: detect_drift_def Let_def compare_objects_Nil compare_defs warning_findings_def w) blast
qed

text \<open>C16: drift is reported exactly when the normalised VLANs, interfaces, ACLs or ACL bindings
  of the two states differ or the observation carries adapter warnings.  BGP processes and
  neighbours do not take part: whatever they are in either state, the report is the same.\<close>

theorem detect_drift_correct:
  "(dp_drift_detected (detect_drift e o') \<longleftrightarrow>
      \<not> (ss_vlans (normalize_shadow_state e) = ss_vlans (normalize_shadow_state o') \<and>
         ss_interfaces (normalize_shadow_state e) = ss_interfaces (normalize_shadow_state o') \<and>
         ss_acls (normalize_shadow_state e) = ss_acls (normalize_shadow_state o') \<and>
         ss_acl_bindings (normalize_shadow_state e) = ss_acl_bindings (normalize_shadow_state o') \<and>
         ss_warnings o' = [])) \<and>
   detect_drift (e\<lparr>ss_bgp_processes := p, ss_bgp_neighbors := n\<rparr>)
     (o'\<lparr>ss_bgp_processes := p', ss_bgp_neighbors := n'\<rparr>) = detect_drift e o'"
proof
  show "dp_drift_detected (detect_drift e o') \<longleftrightarrow>
      \<not> (ss_vlans (normalize_shadow_state e) = ss_vlans (normalize_shadow_state o') \<and>
         ss_interfaces (normalize_shadow_state e) = ss_interfaces (normalize_shadow_state o') \<and>
         ss_acls (normalize_shadow_state e) = ss_acls (normalize_shadow_state o') \<and>
         ss_acl_bindings (normalize_shadow_state e) = ss_acl_bindings (normalize_shadow_state o') \<and>
         ss_warnings o' = [])"
    using detect_drift_clean[of e o'] by blast
  show "detect_drift (e\<lparr>ss_bgp_processes := p, ss_bgp_neighbors := n\<rparr>)
     (o'\<lparr>ss_bgp_processes := p', ss_bgp_neighbors := n'\<rparr>) = detect_drift e o'"
    by (simp add: detect_drift_def Let_def normalize_shadow_state_def)
qed

lemma detect_drift_device [simp]: "dp_device_id (detect_drift e o') = ss_device_id e"
  by (simp add: detect_drift_def Let_def normalize_shadow_state_def)

definition drifts :: "(DeviceId \<Rightarrow> DeviceShadowState result) \<Rightarrow> DeviceShadowState \<Rightarrow> bool" where
  "drifts observe st = (case observe (ss_device_id st) of
     Inl _ \<Rightarrow> False | Inr observed \<Rightarrow> dp_drift_detected (detect_drift st observed))"

lemma audit_devices:
  "map dp_device_id (fst (foldl (audit_device observe) acc states)) =
     map dp_device_id (fst acc) @ map ss_device_id (filter (drifts observe) states) \<and>
   snd (foldl (audit_device observe) acc states) =
     snd acc @ map ss_device_id (filter (\<lambda>st. is_err (observe (ss_device_id st))) states)"
proof (induction states arbitrary: acc)
  case (Cons st states)
  obtain reports failed where acc: "acc = (reports, failed)" by (cases acc)
  show ?case
  proof (cases "observe (ss_device_id st)")
    case (Inl e)
    then show ?thesis using Cons.IH[of "audit_device observe acc st"] acc
      by (simp add: audit_device_def drifts_def)
  next
    case (Inr o')
    then show ?thesis using Cons.IH[of "audit_device observe acc st"] acc
      by (simp add: audit_device_def drifts_def Let_def)
  qed
qed simp

text \<open>an audit run over the shadow store visits every stored device exactly once and goes on
  after a failed observation.  The failed devices are those whose observation failed, the
  drifted ones those whose observation succeeded and drifts, both in store order, so every
  other device was observed and is clean; a store that cannot be listed is reported as such
  and not as an empty audit.\<close>

theorem drift_audit_correct:
  "(let s = run_once_with_summary (FromSource (Inr states) observe) in
     da_audited_devices s = length states \<and> da_listing_error s = None \<and>
     da_failed_devices s = map ss_device_id (filter (\<lambda>st. is_err (observe (ss_device_id st))) states) \<and>
     da_drifted_devices s = map ss_device_id (filter (drifts observe) states)) \<and>
   da_listing_error (run_once_with_summary (FromSource (Inl err) observe)) = Some (error_display err)"
  using audit_devices[of observe "([], [])" states]
  by (auto simp: Let_def from_reports_and_failures_def from_expected_store_listing_error_def
      split: prod.splits)

end
