(* ===== verification/Events.thy ===== *)
theory Events
  imports Response Drift
begin

text \<open>
  The operational events the service emits (\<open>src/telemetry/events.rs\<close>).  The two events of the
  garbage collector take its reports and are defined with it.
\<close>

datatype UnderlayEventKind =
    UnderlayDeviceRegistered | UnderlayDeviceCapabilityDetected | UnderlayDriftDetected
  | UnderlayDeviceLockTimeout | UnderlayForceUnlockRequested | UnderlayDriftAuditCompleted
  | UnderlayJournalGcCompleted | UnderlayApplyIdempotencyGcCompleted | UnderlayRecoveryCompleted
  | UnderlayAuditWriteFailed | UnderlayTransactionStarted | UnderlayTransactionPhaseChanged
  | UnderlayTransactionCompleted | UnderlayTransactionFailed | UnderlayTransactionInDoubt
  | UnderlayTransactionForceResolved

record UnderlayEvent =
  ue_kind :: UnderlayEventKind
  ue_request_id :: string
  ue_trace_id :: string
  ue_tx_id :: "string option"
  ue_device_id :: "DeviceId option"
  ue_phase :: "TxPhase option"
  ue_strategy :: "TransactionStrategy option"
  ue_result :: "string option"
  ue_error_code :: "string option"
  ue_error_message :: "string option"
  ue_fields :: "(string, string) bmap"

text \<open>An event with everything optional left out.\<close>

definition bare_event :: "UnderlayEventKind \<Rightarrow> string \<Rightarrow> string \<Rightarrow> UnderlayEvent" where
  "bare_event kind request_id trace_id =
     \<lparr>ue_kind = kind, ue_request_id = request_id, ue_trace_id = trace_id, ue_tx_id = None,
      ue_device_id = None, ue_phase = None, ue_strategy = None, ue_result = None,
      ue_error_code = None, ue_error_message = None, ue_fields = bm_empty\<rparr>"

definition event_with_error :: "string \<Rightarrow> string \<Rightarrow> UnderlayEvent \<Rightarrow> UnderlayEvent" where
  "event_with_error code message e = e\<lparr>ue_error_code := Some code, ue_error_message := Some message\<rparr>"

text \<open>\<open>fields.insert(name, value)\<close> and its conditional form.\<close>

definition put_field :: "string \<Rightarrow> string \<Rightarrow> UnderlayEvent \<Rightarrow> UnderlayEvent" where
  "put_field k v = ue_fields_update (bm_insert k v)"

definition put_field_if :: "bool \<Rightarrow> string \<Rightarrow> string \<Rightarrow> UnderlayEvent \<Rightarrow> UnderlayEvent" where
  "put_field_if b k v e = (if b then put_field k v e else e)"

section \<open>Transactions\<close>

definition transaction_phase ::
  "string \<Rightarrow> string \<Rightarrow> string \<Rightarrow> DeviceId option \<Rightarrow> TxPhase \<Rightarrow> TransactionStrategy option \<Rightarrow> UnderlayEvent" where
  "transaction_phase request_id trace_id tx_id device_id phase strategy =
     (bare_event UnderlayTransactionPhaseChanged request_id trace_id)
       \<lparr>ue_tx_id := Some tx_id, ue_device_id := device_id, ue_phase := Some phase, ue_strategy := strategy\<rparr>"

definition transaction_result ::
  "string \<Rightarrow> string \<Rightarrow> string \<Rightarrow> DeviceId option \<Rightarrow> TxPhase \<Rightarrow> TransactionStrategy option \<Rightarrow> string \<Rightarrow> UnderlayEvent" where
  "transaction_result request_id trace_id tx_id device_id phase strategy result =
     (let kind = (if phase = InDoubt then UnderlayTransactionInDoubt
                  else if phase = Committed \<or> phase = RolledBack then UnderlayTransactionCompleted
                  else UnderlayTransactionFailed) in
      (bare_event kind request_id trace_id)
        \<lparr>ue_tx_id := Some tx_id, ue_device_id := device_id, ue_phase := Some phase,
         ue_strategy := strategy, ue_result := Some result\<rparr>)"

fun tx_phase_for_apply_status :: "ApplyStatus \<Rightarrow> TxPhase option" where
  "tx_phase_for_apply_status Success = Some Committed"
| "tx_phase_for_apply_status SuccessWithWarning = Some Committed"
| "tx_phase_for_apply_status ApplyRolledBack = Some RolledBack"
| "tx_phase_for_apply_status ApplyInDoubt = Some InDoubt"
| "tx_phase_for_apply_status PartialSuccess = Some Failed"
| "tx_phase_for_apply_status ApplyFailed = Some Failed"
| "tx_phase_for_apply_status NoOpSuccess = None"

fun apply_result_name :: "ApplyStatus \<Rightarrow> string" where
  "apply_result_name NoOpSuccess = ''no_op_success''"
| "apply_result_name Success = ''success''"
| "apply_result_name SuccessWithWarning = ''success_with_warning''"
| "apply_result_name PartialSuccess = ''partial_success''"
| "apply_result_name ApplyFailed = ''failed''"
| "apply_result_name ApplyRolledBack = ''rolled_back''"
| "apply_result_name ApplyInDoubt = ''in_doubt''"

definition from_device_apply_result :: "string \<Rightarrow> string \<Rightarrow> DeviceApplyResult \<Rightarrow> UnderlayEvent option" where
  "from_device_apply_result request_id trace_id result =
     (case dr_tx_id result of
        None \<Rightarrow> None
      | Some tx_id \<Rightarrow>
         (case tx_phase_for_apply_status (dr_status result) of
            None \<Rightarrow> None
          | Some phase \<Rightarrow>
             (let event = transaction_result request_id trace_id tx_id (Some (dr_device_id result)) phase
                    (dr_strategy result) (apply_result_name (dr_status result));
                  event = (case (dr_error_code result, dr_error_message result) of
                     (Some code, Some message) \<Rightarrow> event_with_error code message event
                   | _ \<Rightarrow> event) in
              Some (put_field_if (dr_warnings result \<noteq> []) ''warning_count''
                (show_nat (length (dr_warnings result))) event))))"

definition transaction_force_resolved ::
  "string \<Rightarrow> string \<Rightarrow> string \<Rightarrow> TxPhase \<Rightarrow> DeviceId list \<Rightarrow> string \<Rightarrow> string \<Rightarrow> UnderlayEvent" where
  "transaction_force_resolved request_id trace_id tx_id previous_phase devices operator reason =
     put_field ''reason'' reason (put_field ''operator'' operator
     (put_field ''device_count'' (show_nat (length devices))
     (put_field ''previous_phase'' (debug_phase previous_phase)
     ((bare_event UnderlayTransactionForceResolved request_id trace_id)
        \<lparr>ue_tx_id := Some tx_id, ue_phase := Some ForceResolved, ue_result := Some ''force_resolved''\<rparr>))))"

section \<open>Drift and recovery\<close>

fun debug_drift_type :: "DriftType \<Rightarrow> string" where
  "debug_drift_type MissingVlan = ''MissingVlan''"
| "debug_drift_type ExtraVlan = ''ExtraVlan''"
| "debug_drift_type VlanAttributeMismatch = ''VlanAttributeMismatch''"
| "debug_drift_type MissingInterface = ''MissingInterface''"
| "debug_drift_type ExtraInterface = ''ExtraInterface''"
| "debug_drift_type InterfaceAttributeMismatch = ''InterfaceAttributeMismatch''"
| "debug_drift_type MissingAcl = ''MissingAcl''"
| "debug_drift_type ExtraAcl = ''ExtraAcl''"
| "debug_drift_type AclAttributeMismatch = ''AclAttributeMismatch''"
| "debug_drift_type MissingAclBinding = ''MissingAclBinding''"
| "debug_drift_type ExtraAclBinding = ''ExtraAclBinding''"
| "debug_drift_type AclBindingAttributeMismatch = ''AclBindingAttributeMismatch''"
| "debug_drift_type AdapterWarning = ''AdapterWarning''"

definition drift_detected :: "string \<Rightarrow> string \<Rightarrow> DriftReport \<Rightarrow> UnderlayEvent" where
  "drift_detected request_id trace_id report =
     (let event = put_field ''warning_count'' (show_nat (length (dp_warnings report)))
            (put_field ''finding_count'' (show_nat (length (dp_findings report)))
            ((bare_event UnderlayDriftDetected request_id trace_id)
               \<lparr>ue_device_id := Some (dp_device_id report),
                ue_result := Some (if dp_drift_detected report then ''drift_detected'' else ''clean'')\<rparr>)) in
      case dp_findings report of
        [] \<Rightarrow> event
      | f # _ \<Rightarrow> put_field ''first_path'' (df_path f)
          (put_field ''first_drift_type'' (debug_drift_type (df_drift_type f)) event))"

definition drift_audit_completed_with_failures ::
  "string \<Rightarrow> string \<Rightarrow> nat \<Rightarrow> DeviceId list \<Rightarrow> DeviceId list \<Rightarrow> string option \<Rightarrow> UnderlayEvent" where
  "drift_audit_completed_with_failures request_id trace_id audited drifted failed listing_error =
     (let has_failures = (failed \<noteq> [] \<or> listing_error \<noteq> None);
          event = (bare_event UnderlayDriftAuditCompleted request_id trace_id)
            \<lparr>ue_result := Some (if has_failures then ''partial_failure''
               else if drifted = [] then ''clean'' else ''drift_detected''),
             ue_error_code := map_option (\<lambda>_. ''DRIFT_EXPECTED_STORE_LIST_FAILED'') listing_error,
             ue_error_message := listing_error\<rparr>;
          event = put_field ''failed_device_count'' (show_nat (length failed))
            (put_field ''drifted_device_count'' (show_nat (length drifted))
            (put_field ''audited_device_count'' (show_nat audited) event));
          event = put_field_if (drifted \<noteq> []) ''drifted_devices'' (join_with '','' drifted) event;
          event = put_field_if (failed \<noteq> []) ''failed_devices'' (join_with '','' failed) event in
      case listing_error of
        None \<Rightarrow> event
      | Some err \<Rightarrow> put_field ''expected_store_listing_error'' err
          (put_field ''expected_store_listing_failed'' ''true'' event))"

definition drift_audit_completed :: "string \<Rightarrow> string \<Rightarrow> nat \<Rightarrow> DeviceId list \<Rightarrow> UnderlayEvent" where
  "drift_audit_completed request_id trace_id audited drifted =
     drift_audit_completed_with_failures request_id trace_id audited drifted [] None"

definition recovery_completed :: "string \<Rightarrow> string \<Rightarrow> RecoveryReport \<Rightarrow> UnderlayEvent" where
  "recovery_completed request_id trace_id report =
     put_field_if (rr_tx_ids report \<noteq> []) ''tx_ids'' (join_with '','' (rr_tx_ids report))
     (put_field ''tx_count'' (show_nat (length (rr_tx_ids report)))
     (put_field ''pending'' (show_nat (rr_pending report))
     (put_field ''in_doubt'' (show_nat (rr_in_doubt report))
     (put_field ''recovered'' (show_nat (rr_recovered report))
     ((bare_event UnderlayRecoveryCompleted request_id trace_id)
        \<lparr>ue_result := Some (if rr_in_doubt report > 0 then ''in_doubt''
           else if rr_pending report > 0 then ''pending'' else ''completed'')\<rparr>)))))"

section \<open>Audit failures\<close>

definition audit_write_failed_with_code ::
  "string \<Rightarrow> string \<Rightarrow> string \<Rightarrow> string \<Rightarrow> string \<Rightarrow> UnderlayEvent" where
  "audit_write_failed_with_code request_id trace_id failed_action error_code error_message =
     put_field ''failed_action'' failed_action
     ((bare_event UnderlayAuditWriteFailed request_id trace_id)
        \<lparr>ue_result := Some ''failed'', ue_error_code := Some error_code, ue_error_message := Some error_message\<rparr>)"

definition audit_write_failed :: "string \<Rightarrow> string \<Rightarrow> string \<Rightarrow> string \<Rightarrow> UnderlayEvent" where
  "audit_write_failed request_id trace_id failed_action error_message =
     audit_write_failed_with_code request_id trace_id failed_action ''OPERATION_SUMMARY_WRITE_FAILED'' error_message"

definition operation_audit_write_failed :: "string \<Rightarrow> string \<Rightarrow> string \<Rightarrow> string \<Rightarrow> UnderlayEvent" where
  "operation_audit_write_failed request_id trace_id failed_action error_message =
     audit_write_failed_with_code request_id trace_id failed_action ''OPERATION_AUDIT_WRITE_FAILED'' error_message"

end
