(* ===== verification/Locks.thy ===== *)
theory Locks
  imports Model
begin

text \<open>
  The two lock tables of an apply: domain scope keys (\<open>src/tx/domain_lock.rs\<close>) and endpoints
  (\<open>src/tx/endpoint_lock.rs\<close> with \<open>src/tx/lock_strategy.rs\<close>), and the delays of
  \<open>src/utils/retry.rs\<close>.  A \<open>Duration\<close> is its number of nanoseconds, saturating at
  \<open>Duration::MAX\<close>.  Tasks that acquire locks concurrently are a step relation.
\<close>

section \<open>Durations\<close>

definition duration_max :: nat where
  "duration_max = (2 ^ 64 - 1) * 10 ^ 9 + 999999999"

definition saturating_mul :: "nat \<Rightarrow> nat \<Rightarrow> nat" where
  "saturating_mul d k = min (d * k) duration_max"

definition saturating_add :: "nat \<Rightarrow> nat \<Rightarrow> nat" where
  "saturating_add d e = min (d + e) duration_max"

definition from_secs :: "u64 \<Rightarrow> nat" where
  "from_secs s = unat s * 10 ^ 9"

definition from_millis :: "u64 \<Rightarrow> nat" where
  "from_millis m = unat m * 10 ^ 6"

definition exponential_delay :: "nat \<Rightarrow> u32 \<Rightarrow> nat \<Rightarrow> nat" where
  "exponential_delay initial attempt max_delay =
     (let multiplier = min (2 ^ unat attempt) (2 ^ 32 - 1);
          delay = saturating_mul initial multiplier in
      min delay max_delay)"

section \<open>Policy\<close>

record LockAcquisitionPolicy =
  lp_max_wait_secs :: u64
  lp_initial_delay_ms :: u64
  lp_max_delay_secs :: u64
  lp_jitter :: bool
  lp_force_unlock_enabled :: bool

definition default_policy :: LockAcquisitionPolicy where
  "default_policy = \<lparr>lp_max_wait_secs = 30, lp_initial_delay_ms = 500, lp_max_delay_secs = 5,
     lp_jitter = True, lp_force_unlock_enabled = False\<rparr>"

definition initial_delay :: "LockAcquisitionPolicy \<Rightarrow> nat" where
  "initial_delay p = from_millis (lp_initial_delay_ms p)"

text \<open>\<open>gen_range\<close> stands for the random sample of \<open>0..=bound\<close>.\<close>

definition add_jitter :: "nat \<Rightarrow> (nat \<Rightarrow> nat) \<Rightarrow> nat" where
  "add_jitter delay gen_range =
     (let jitter_ns = min (delay div 4) (2 ^ 64 - 1) in
      if jitter_ns = 0 then delay else saturating_add delay (gen_range jitter_ns))"

section \<open>Endpoint locks\<close>

definition ordered_device_ids :: "DeviceId list \<Rightarrow> DeviceId list" where
  "ordered_device_ids device_ids = remdups_adj (sort device_ids)"

text \<open>All locks or none: a guard that was obtained is dropped when a later lock is taken.
  \<open>busy\<close> is the set of locks other tasks hold.\<close>

primrec try_acquire_ordered :: "DeviceId set \<Rightarrow> DeviceId list \<Rightarrow> DeviceId list option" where
  "try_acquire_ordered busy [] = Some []"
| "try_acquire_ordered busy (d # ds) =
     (if d \<in> busy then None else map_option ((#) d) (try_acquire_ordered busy ds))"

definition lock_timeout :: "DeviceId list \<Rightarrow> UnderlayError" where
  "lock_timeout ordered =
     AdapterOperation ''ENDPOINT_LOCK_TIMEOUT''
       (''timed out acquiring local endpoint lock for ['' @ join_with '', '' (map debug_str ordered) @ '']'')
       True []"

text \<open>The retry loop.  Time is counted in nanoseconds from the call; \<open>busy t\<close> is what other
  tasks hold at time \<open>t\<close>; the sleep of round \<open>i\<close> ends \<open>lag i\<close> nanoseconds late, and a round
  takes at least one nanosecond.  The result comes with the time of the return.\<close>

function lock_loop ::
  "(nat \<Rightarrow> DeviceId set) \<Rightarrow> (nat \<Rightarrow> nat) \<Rightarrow> (nat \<Rightarrow> nat \<Rightarrow> nat) \<Rightarrow> LockAcquisitionPolicy \<Rightarrow> DeviceId list \<Rightarrow> nat \<Rightarrow>
   nat \<Rightarrow> nat \<Rightarrow> nat \<Rightarrow> DeviceId list result \<times> nat" where
  "lock_loop busy lag gen_range policy ordered deadline i now delay =
     (case try_acquire_ordered (busy now) ordered of
        Some guards \<Rightarrow> (Inr guards, now)
      | None \<Rightarrow>
         if now \<ge> deadline then (Inl (lock_timeout ordered), now)
         else (let next = min (saturating_mul delay 2) (from_secs (lp_max_delay_secs policy)) in
               lock_loop busy lag gen_range policy ordered deadline (Suc i) (now + delay + Suc (lag i))
                 (if lp_jitter policy then add_jitter next (gen_range i) else next)))"
  by pat_completeness auto
termination
  by (relation "measure (\<lambda>(_, _, _, _, _, deadline, _, now, _). deadline - now)") auto

declare lock_loop.simps [simp del]

definition acquire_many_with_policy ::
  "(nat \<Rightarrow> DeviceId set) \<Rightarrow> (nat \<Rightarrow> nat) \<Rightarrow> (nat \<Rightarrow> nat \<Rightarrow> nat) \<Rightarrow> DeviceId list \<Rightarrow> LockAcquisitionPolicy \<Rightarrow>
   DeviceId list result \<times> nat" where
  "acquire_many_with_policy busy lag gen_range device_ids policy =
     lock_loop busy lag gen_range policy (ordered_device_ids device_ids)
       (from_secs (lp_max_wait_secs policy)) 0 0 (initial_delay policy)"

section \<open>Domain scope keys\<close>

definition normalize_scope_key :: "string \<Rightarrow> string result" where
  "normalize_scope_key raw =
     (let v = trim raw in
      if v = [] then Inl (InvalidIntent ''apply lock scope key must not be empty'') else Inr v)"

definition normalize_scope_keys :: "string list \<Rightarrow> string list result" where
  "normalize_scope_keys keys =
     and_then (try_map normalize_scope_key keys) (\<lambda>ks.
     let keys = bs_of_list ks in
     if bm_is_empty keys then Inl (InvalidIntent ''apply lock scope must include at least one key'')
     else Inr (bs_elems keys))"

definition normalize_lock_component :: "string \<Rightarrow> string \<Rightarrow> string result" where
  "normalize_lock_component field raw =
     (let v = trim raw in
      if v = [] then Inl (InvalidIntent (field @ '' must not be empty''))
      else if CHR '':'' \<in> set v
      then Inl (InvalidIntent (field @ '' must not contain '' @ [CHR 0x27, CHR '':'', CHR 0x27]))
      else Inr v)"

definition domain_lock_keys :: "string \<Rightarrow> string list result" where
  "domain_lock_keys domain_id =
     and_then (normalize_lock_component ''domain_id'' domain_id) (\<lambda>c.
     normalize_scope_keys [''domain:'' @ c])"

section \<open>Tasks that acquire locks one after the other\<close>

text \<open>\<open>acquire_many\<close> of either table: a task holds the locks it has and waits for the next one;
  its guards are dropped together.\<close>

datatype 'k lock_task = Acquiring (held: "'k list") "'k list" | Released

inductive lock_step :: "'k lock_task list \<Rightarrow> 'k lock_task list \<Rightarrow> bool" where
  lock: "i < length ts \<Longrightarrow> ts ! i = Acquiring h (k # ks) \<Longrightarrow>
    \<forall>j < length ts. ts ! j \<noteq> Released \<longrightarrow> k \<notin> set (held (ts ! j)) \<Longrightarrow>
    lock_step ts (ts[i := Acquiring (h @ [k]) ks])"
| drop_guards: "i < length ts \<Longrightarrow> ts ! i = Acquiring h [] \<Longrightarrow> lock_step ts (ts[i := Released])"

inductive_cases lock_stepE: "lock_step ts ts'"

definition holds :: "'k lock_task \<Rightarrow> 'k set" where
  "holds t = (case t of Acquiring h _ \<Rightarrow> set h | Released \<Rightarrow> {})"

text \<open>What the locking discipline keeps: every task goes through its keys in ascending order,
  and no key is held twice.\<close>

definition in_order :: "'k::linorder lock_task \<Rightarrow> bool" where
  "in_order t = (case t of Acquiring h ks \<Rightarrow> sorted_wrt (<) (h @ ks) | Released \<Rightarrow> True)"

definition lock_inv :: "'k::linorder lock_task list \<Rightarrow> bool" where
  "lock_inv ts \<longleftrightarrow> list_all in_order ts \<and>
     (\<forall>i < length ts. \<forall>j < length ts. i \<noteq> j \<longrightarrow> holds (ts ! i) \<inter> holds (ts ! j) = {})"

definition lock_work :: "'k lock_task \<Rightarrow> nat" where
  "lock_work t = (case t of Acquiring _ ks \<Rightarrow> Suc (length ks) | Released \<Rightarrow> 0)"

lemma holds_simps [simp]: "holds (Acquiring h ks) = set h" "holds Released = {}"
  by (simp_all add: holds_def)

lemma in_order_simps [simp]:
  "in_order (Acquiring h ks) = sorted_wrt (<) (h @ ks)" "in_order Released"
  by (simp_all add: in_order_def)

lemma lock_work_simps [simp]: "lock_work (Acquiring h ks) = Suc (length ks)" "lock_work Released = 0"
  by (simp_all add: lock_work_def)

lemma lock_free: "(t \<noteq> Released \<longrightarrow> k \<notin> set (held t)) \<longleftrightarrow> k \<notin> holds t"
  by (cases t) simp_all

lemma lock_inv_update:
  assumes "lock_inv ts" "i < length ts" "in_order t"
    and "\<And>j. j < length ts \<Longrightarrow> j \<noteq> i \<Longrightarrow> holds t \<inter> holds (ts ! j) = {}"
  shows "lock_inv (ts[i := t])"
proof -
  have "holds (ts[i := t] ! a) \<inter> holds (ts[i := t] ! b) = {}"
    if "a < length ts" "b < length ts" "a \<noteq> b" for a b
    using that assms(1,2) assms(4)[of a] assms(4)[of b]
    by (cases "a = i"; cases "b = i") (auto simp: lock_inv_def)
  moreover have "in_order (ts[i := t] ! a)" if "a < length ts" for a
    using that assms(1-3) by (cases "a = i") (simp_all add: lock_inv_def list_all_length)
  ultimately show ?thesis by (simp add: lock_inv_def list_all_length)
qed

lemma lock_step_inv:
  assumes "lock_step ts ts'" "lock_inv ts"
  shows "lock_inv ts'"
  using assms(1)
proof (cases rule: lock_step.cases)
  case (lock i h k ks)
  have "in_order (Acquiring (h @ [k]) ks)"
    using assms(2) lock(2,3) by (auto simp: lock_inv_def list_all_length)
  moreover have "holds (Acquiring (h @ [k]) ks) \<inter> holds (ts ! j) = {}" if "j < length ts" "j \<noteq> i" for j
  proof -
    have "holds (Acquiring h (k # ks)) \<inter> holds (ts ! j) = {}"
      using assms(2) lock(2,3) that unfolding lock_inv_def by metis
    moreover have "k \<notin> holds (ts ! j)" using lock(4) that by (simp add: lock_free)
    ultimately show ?thesis by auto
  qed
  ultimately show ?thesis
    unfolding lock(1) by (rule lock_inv_update[OF assms(2) lock(2)])
next
  case (drop_guards i h)
  show ?thesis
    unfolding drop_guards(1) by (rule lock_inv_update[OF assms(2) drop_guards(2)]) simp_all
qed

lemma lock_step_work:
  "lock_step ts ts' \<Longrightarrow> sum_list (map lock_work ts) = Suc (sum_list (map lock_work ts'))"
proof (induction rule: lock_step.induct)
  case (lock i ts h k ks)
  then have "sum_list (map lock_work ts) = sum_list (map lock_work (ts[i := Acquiring (h @ [k]) ks])) + 1"
    using sum_list_update[of i "map lock_work ts" "lock_work (Acquiring (h @ [k]) ks)"]
      elem_le_sum_list[of i "map lock_work ts"]
    by (simp add: map_update)
  then show ?case by simp
next
  case (drop_guards i ts h)
  then show ?case
    using sum_list_update[of i "map lock_work ts" "lock_work Released"]
      elem_le_sum_list[of i "map lock_work ts"]
    by (simp add: map_update)
qed

text \<open>Deadlock freedom: if every task waited for a key of another one, the task that waits for
  the largest key would wait for a task that has already passed that key.\<close>

lemma lock_progress:
  assumes inv: "lock_inv ts" and t: "t \<in> set ts" "t \<noteq> Released"
  shows "\<exists>ts'. lock_step ts ts'"
proof (rule ccontr)
  assume stuck: "\<nexists>ts'. lock_step ts ts'"
  let ?W = "{k. \<exists>h ks. Acquiring h (k # ks) \<in> set ts}"
  have "?W \<subseteq> (\<Union>t \<in> set ts. case t of Acquiring _ (k # _) \<Rightarrow> {k} | _ \<Rightarrow> {})"
    by (force split: lock_task.splits list.splits)
  then have fin: "finite ?W"
    by (rule finite_subset) (auto split: lock_task.splits list.splits)
  have wait: "\<exists>k ks. u = Acquiring h (k # ks)" if "u \<in> set ts" "u = Acquiring h ks'" for u h ks'
  proof (cases ks')
    case Nil
    from that(1) obtain i where "i < length ts" "ts ! i = u" by (auto simp: in_set_conv_nth)
    with that Nil stuck lock_step.drop_guards[of i ts h] show ?thesis by auto
  qed (use that in simp)
  obtain h0 ks0 where "t = Acquiring h0 ks0" using t(2) by (cases t) auto
  with wait[OF t(1)] t(1) have "?W \<noteq> {}" by blast
  define m where "m = Max ?W"
  have "m \<in> ?W" unfolding m_def by (rule Max_in[OF fin \<open>?W \<noteq> {}\<close>])
  then obtain h ks where m: "Acquiring h (m # ks) \<in> set ts" by blast
  then obtain i where i: "i < length ts" "ts ! i = Acquiring h (m # ks)"
    by (auto simp: in_set_conv_nth)
  have "\<not> (\<forall>j < length ts. ts ! j \<noteq> Released \<longrightarrow> m \<notin> set (held (ts ! j)))"
    using lock_step.lock[OF i] stuck by fast
  then obtain j where j: "j < length ts" "m \<in> holds (ts ! j)" unfolding lock_free by fast
  then obtain hj kj where tj: "ts ! j = Acquiring hj kj" by (cases "ts ! j") auto
  from wait[OF nth_mem[OF j(1)] tj] obtain k ks' where k: "ts ! j = Acquiring hj (k # ks')" by blast
  have "in_order (ts ! j)" using inv j(1) by (simp add: lock_inv_def list_all_length)
  with j(2) have "m < k" by (auto simp: k sorted_wrt_append)
  moreover have "k \<in> ?W" using k j(1) by (metis (mono_tags, lifting) mem_Collect_eq nth_mem)
  then have "k \<le> m" unfolding m_def by (rule Max_ge[OF fin])
  ultimately show False by simp
qed

lemma lock_run:
  assumes "(lock_step ^^ n) ts ts'" "lock_inv ts"
  shows "lock_inv ts' \<and> n + sum_list (map lock_work ts') = sum_list (map lock_work ts)"
  using assms
proof (induction n arbitrary: ts')
  case (Suc n)
  then obtain u where u: "(lock_step ^^ n) ts u" "lock_step u ts'" by auto
  from Suc.IH[OF u(1) Suc.prems(2)] lock_step_inv[OF u(2)] lock_step_work[OF u(2)]
  show ?case by simp
qed simp

lemma lock_completes:
  assumes "lock_inv ts"
  shows "\<exists>n ts'. (lock_step ^^ n) ts ts' \<and> list_all (\<lambda>t. t = Released) ts'"
  using assms
proof (induction "sum_list (map lock_work ts)" arbitrary: ts)
  case 0
  have z: "lock_work t = 0 \<longleftrightarrow> t = Released" for t :: "'a lock_task" by (cases t) simp_all
  have "list_all (\<lambda>t. t = Released) ts" using 0(1)[symmetric] by (simp add: z list_all_iff)
  then show ?case by (intro exI[of _ 0] exI[of _ ts]) simp
next
  case (Suc m)
  have "sum_list (map lock_work ts) \<noteq> 0" using Suc.hyps(2) by linarith
  then obtain t where t: "t \<in> set ts" "lock_work t \<noteq> 0" unfolding sum_list_eq_0_iff by auto
  then have "t \<noteq> Released" by auto
  from lock_progress[OF Suc.prems t(1) this] obtain u where u: "lock_step ts u" by blast
  with Suc.hyps(2) lock_step_work[OF u] have "m = sum_list (map lock_work u)" by simp
  from Suc.hyps(1)[OF this lock_step_inv[OF u Suc.prems]]
  obtain n ts' where "(lock_step ^^ n) u ts'" "list_all (\<lambda>t. t = Released) ts'" by blast
  with relpowp_Suc_I2[of lock_step ts u n ts'] u show ?case by blast
qed

text \<open>A table whose requests are brought into ascending order.\<close>

locale ordered_requests =
  fixes request :: "'r \<Rightarrow> 'k::linorder list result"
  assumes request_sorted: "request r = Inr ks \<Longrightarrow> sorted_wrt (<) ks"
begin

lemma requests_inv:
  assumes "try_map request rs = Inr kss"
  shows "lock_inv (map (Acquiring []) kss)"
proof -
  have "sorted_wrt (<) ks" if "ks \<in> set kss" for ks
  proof -
    from that obtain i where "i < length kss" "kss ! i = ks" by (auto simp: in_set_conv_nth)
    then have "request (rs ! i) = Inr ks"
      using assms by (auto simp: try_map_Inr_iff list_all2_conv_all_nth)
    then show ?thesis by (rule request_sorted)
  qed
  then show ?thesis by (auto simp: lock_inv_def list_all_iff)
qed

lemma requests_run:
  assumes "try_map request rs = Inr kss" "(lock_step ^^ n) (map (Acquiring []) kss) ts"
  shows "(\<forall>i < length ts. \<forall>j < length ts. i \<noteq> j \<longrightarrow> holds (ts ! i) \<inter> holds (ts ! j) = {}) \<and>
    (list_all (\<lambda>t. t = Released) ts \<or> (\<exists>ts'. lock_step ts ts')) \<and>
    n \<le> sum_list (map (\<lambda>ks. Suc (length ks)) kss) \<and>
    (\<exists>m ts'. (lock_step ^^ m) ts ts' \<and> list_all (\<lambda>t. t = Released) ts')"
proof -
  have inv: "lock_inv ts" and work: "n + sum_list (map lock_work ts) = sum_list (map (\<lambda>ks. Suc (length ks)) kss)"
    using lock_run[OF assms(2) requests_inv[OF assms(1)]] by (simp_all add: comp_def)
  have "list_all (\<lambda>t. t = Released) ts \<or> (\<exists>ts'. lock_step ts ts')"
    using lock_progress[OF inv] by (auto simp: list_all_iff)
  with inv work lock_completes[OF inv] show ?thesis by (simp add: lock_inv_def)
qed

end

lemma strict_remdups_adj: "sorted xs \<Longrightarrow> sorted_wrt (<) (remdups_adj xs)"
  by (induction xs rule: remdups_adj.induct) (auto simp: order.strict_iff_order)

lemma ordered_device_ids_sorted: "sorted_wrt (<) (ordered_device_ids ds)"
  by (simp add: ordered_device_ids_def strict_remdups_adj)

lemma bs_elems_sorted: "sorted_wrt (<) (bs_elems s)"
  by (simp add: bm_keys_def entries_sorted)

interpretation domain_locks: ordered_requests normalize_scope_keys
  by unfold_locales (auto simp: normalize_scope_keys_def and_then_Inr_iff Let_def bs_elems_sorted
      split: if_splits)

interpretation endpoint_locks: ordered_requests "\<lambda>ds. Inr (ordered_device_ids ds)"
  by unfold_locales (auto simp: ordered_device_ids_sorted)

section \<open>Delays stay within the policy\<close>

definition max_lock_delay :: "LockAcquisitionPolicy \<Rightarrow> nat" where
  "max_lock_delay p = max (initial_delay p) (from_secs (lp_max_delay_secs p) + from_secs (lp_max_delay_secs p) div 4)"

lemma add_jitter_bounds:
  assumes "\<And>b. gen_range b \<le> b"
  shows "min delay duration_max \<le> add_jitter delay gen_range \<and> add_jitter delay gen_range \<le> delay + delay div 4"
  using assms[of "min (delay div 4) (2 ^ 64 - 1)"]
  by (auto simp: add_jitter_def saturating_add_def Let_def min_def split: if_splits)

lemma try_acquire_ordered_iff:
  "try_acquire_ordered busy ds = (if set ds \<inter> busy = {} then Some ds else None)"
  by (induction ds) auto

lemma lock_loop_correct:
  assumes gen: "\<And>i b. gen_range i b \<le> b" and lag: "\<And>i. lag i \<le> l"
    and now: "now \<le> deadline + max_lock_delay policy + Suc l" and delay: "delay \<le> max_lock_delay policy"
    and res: "lock_loop busy lag gen_range policy ordered deadline i now delay = (r, t)"
  shows "now \<le> t \<and> t \<le> deadline + max_lock_delay policy + Suc l \<and>
    (case r of
       Inr guards \<Rightarrow> guards = ordered \<and> set ordered \<inter> busy t = {}
     | Inl e \<Rightarrow> e = lock_timeout ordered \<and> deadline \<le> t \<and> set ordered \<inter> busy t \<noteq> {})"
  using now delay res
proof (induction "deadline - now" arbitrary: i now delay rule: less_induct)
  case less
  note simps = lock_loop.simps[of busy lag gen_range policy ordered deadline i now delay] try_acquire_ordered_iff
  consider (free) "set ordered \<inter> busy now = {}" | (late) "set ordered \<inter> busy now \<noteq> {}" "deadline \<le> now"
    | (retry) "set ordered \<inter> busy now \<noteq> {}" "now < deadline"
    by fastforce
  then show ?case
  proof cases
    case free
    with less.prems show ?thesis by (auto simp: simps)
  next
    case late
    with less.prems show ?thesis by (auto simp: simps)
  next
    case retry
    let ?next = "min (saturating_mul delay 2) (from_secs (lp_max_delay_secs policy))"
    let ?delay = "if lp_jitter policy then add_jitter ?next (gen_range i) else ?next"
    have "?next \<le> from_secs (lp_max_delay_secs policy)" by simp
    then have "?next + ?next div 4 \<le> max_lock_delay policy"
      unfolding max_lock_delay_def by (meson add_mono div_le_mono le_max_iff_disj)
    then have d: "?delay \<le> max_lock_delay policy"
      using add_jitter_bounds[of "gen_range i" ?next] gen by (auto split: if_split)
    have n: "now + delay + Suc (lag i) \<le> deadline + max_lock_delay policy + Suc l"
      using retry(2) less.prems(2) lag[of i] by linarith
    have e: "lock_loop busy lag gen_range policy ordered deadline (Suc i) (now + delay + Suc (lag i)) ?delay = (r, t)"
      using less.prems(3) retry by (simp add: simps Let_def)
    have "deadline - (now + delay + Suc (lag i)) < deadline - now" using retry(2) by linarith
    from less.hyps[OF this n d e] show ?thesis by linarith
  qed
qed

section \<open>Properties\<close>

text \<open>C13: tasks that take domain scope locks never deadlock.  For any requests that
  \<open>normalize_scope_keys\<close> accepts, in every interleaving of their acquisitions no key is held
  by two tasks; as long as a task has not released its guards some task can take a step; no
  interleaving has more steps than there are keys and tasks, and every interleaving can be
  continued until all tasks have released their guards.\<close>

theorem domain_locking_deadlock_free:
  assumes "try_map normalize_scope_keys requests = Inr kss"
    and "(lock_step ^^ n) (map (Acquiring []) kss) ts"
  shows "(\<forall>i < length ts. \<forall>j < length ts. i \<noteq> j \<longrightarrow> holds (ts ! i) \<inter> holds (ts ! j) = {}) \<and>
    (list_all (\<lambda>t. t = Released) ts \<or> (\<exists>ts'. lock_step ts ts')) \<and>
    n \<le> sum_list (map (\<lambda>ks. Suc (length ks)) kss) \<and>
    (\<exists>m ts'. (lock_step ^^ m) ts ts' \<and> list_all (\<lambda>t. t = Released) ts')"
  by (rule domain_locks.requests_run[OF assms])

theorem domain_locking_deadlock_free_witness:
  "try_map normalize_scope_keys [['' b'', ''a''], [''a'', ''b '']] = Inr [[''a'', ''b''], [''a'', ''b'']] \<and>
   (\<exists>ts'. lock_step [Acquiring [''a''] [''b''], Acquiring [] [''a'', ''b'']] ts')"
proof -
  have r: "try_map normalize_scope_keys [['' b'', ''a''], [''a'', ''b '']] = Inr [[''a'', ''b''], [''a'', ''b'']]"
    by code_simp
  have "lock_step (map (Acquiring []) [[''a'', ''b''], [''a'', ''b'']])
      ((map (Acquiring []) [[''a'', ''b''], [''a'', ''b'']])[0 := Acquiring ([] @ [''a'']) [''b'']])"
    by (rule lock_step.lock) (auto simp: less_Suc_eq nth_Cons split: nat.split)
  then have "(lock_step ^^ 1) (map (Acquiring []) [[''a'', ''b''], [''a'', ''b'']])
      [Acquiring [''a''] [''b''], Acquiring [] [''a'', ''b'']]"
    by (simp add: eq_OO)
  from domain_locking_deadlock_free[OF r this] r show ?thesis by simp
qed

text \<open>C14: acquiring endpoint locks always returns, within the bounds of the policy.  For a random
  source that stays in its range and sleeps that end at most \<open>l\<close> nanoseconds late, the call
  returns at the latest one maximal delay (the configured maximum plus a quarter of jitter, or
  the initial delay) after the deadline; it succeeds only with all requested locks, each free
  at that time, in ascending order without repetition, and fails only with the timeout error,
  not before the deadline and while some requested lock is taken.\<close>

theorem endpoint_lock_bounded:
  assumes "\<And>i b. gen_range i b \<le> b" and "\<And>i. lag i \<le> l"
    and "acquire_many_with_policy busy lag gen_range ds policy = (r, t)"
  shows "t \<le> from_secs (lp_max_wait_secs policy) + max_lock_delay policy + Suc l \<and>
    (case r of
       Inr guards \<Rightarrow> sorted_wrt (<) guards \<and> set guards = set ds \<and> set ds \<inter> busy t = {}
     | Inl e \<Rightarrow> e = lock_timeout (ordered_device_ids ds) \<and> from_secs (lp_max_wait_secs policy) \<le> t \<and>
         set ds \<inter> busy t \<noteq> {})"
proof -
  have s: "set (ordered_device_ids ds) = set ds" by (simp add: ordered_device_ids_def)
  have "initial_delay policy \<le> max_lock_delay policy" by (simp add: max_lock_delay_def)
  from lock_loop_correct[OF assms(1,2) _ this assms(3)[unfolded acquire_many_with_policy_def]]
  show ?thesis by (cases r) (auto simp: s ordered_device_ids_sorted)
qed

theorem endpoint_lock_bounded_witness:
  "let busy = (\<lambda>t. if t < 1000000000 then {''sw1''} else {});
       (r, t) = acquire_many_with_policy busy (\<lambda>_. 0) (\<lambda>_ b. b) [''sw2'', ''sw1'', ''sw2''] default_policy in
   t \<le> 36250000001 \<and> is_ok r"
proof -
  let ?busy = "\<lambda>t::nat. if t < 1000000000 then {''sw1''} else {}"
  obtain r t where res:
    "acquire_many_with_policy ?busy (\<lambda>_. 0) (\<lambda>_ b. b) [''sw2'', ''sw1'', ''sw2''] default_policy = (r, t)"
    by fastforce
  have "max_lock_delay default_policy = 6250000000" "from_secs (lp_max_wait_secs default_policy) = 30000000000"
    by (simp_all add: max_lock_delay_def initial_delay_def default_policy_def from_secs_def from_millis_def)
  with endpoint_lock_bounded[OF _ _ res, of 0]
  have "t \<le> 36250000001 \<and> is_ok r" by (cases r) (auto split: if_splits)
  then show ?thesis by (simp add: res)
qed

end
