(* ===== verification/Effects.thy ===== *)
theory Effects
  imports Device Events Locks "HOL-Library.State_Monad"
begin

text \<open>
  The effects of the coordinators.  The service's shared state is the record \<open>world\<close>; what lies
  outside it (the clock, UUIDs, the adapters' answers, failures of the stores and locks) is
  the record \<open>env\<close> of oracles.  Every effect asks its oracle at the current tick and advances
  the tick, so an oracle may answer differently at every call, in any pattern.  A fallible
  step is a state transformer that returns a result; \<open>try_then\<close> is the \<open>?\<close> operator.

  A store call that returns an error may or may not have stored its argument, which is what
  the locales \<open>journal_store\<close> and \<open>shadow_store\<close> allow.
\<close>

section \<open>Worlds and environments\<close>

datatype put_outcome = Stored | Lost UnderlayError | StoredButFailed UnderlayError

text \<open>The calls of \<open>src/adapter_client/client.rs\<close> that may change a device, with the arguments that
  the coordinators choose.\<close>

datatype rpc =
    RpcPrepare DeviceDesiredState
  | RpcCommit TransactionStrategy u32 "string option"
  | RpcVerify DeviceDesiredState ChangeSet
  | RpcFinalConfirm
  | RpcRollback "TransactionStrategy option"
  | RpcRecover "TransactionStrategy option" RecoveryAction
  | RpcForceUnlock string string bool

text \<open>The log records every call that may change a device, with the phase that the journal holds
  durably for the transaction at that moment.\<close>

record rpc_entry =
  re_rpc :: rpc
  re_device :: DeviceId
  re_tx_id :: string
  re_durable_phase :: "TxPhase option"

record world =
  w_tick :: nat
  w_inventory :: inventory
  w_journal :: memory_journal
  w_shadow :: memory_shadow
  w_observed :: memory_shadow
  w_events :: "UnderlayEvent list"
  w_log :: "rpc_entry list"
  w_record :: TxJournalRecord

record env =
  ev_confirmed_commit_timeout_secs :: u32
  ev_now :: "nat \<Rightarrow> u64"
  ev_uuid :: "nat \<Rightarrow> string"
  ev_lock :: "nat \<Rightarrow> bool"
  ev_journal_put :: "nat \<Rightarrow> put_outcome"
  ev_journal_read :: "nat \<Rightarrow> UnderlayError option"
  ev_shadow_put :: "nat \<Rightarrow> put_outcome"
  ev_shadow_read :: "nat \<Rightarrow> UnderlayError option"
  ev_observed_put :: "nat \<Rightarrow> put_outcome"
  ev_client :: "nat \<Rightarrow> UnderlayError option"
  ev_capabilities :: "nat \<Rightarrow> DeviceCapabilityProfile result"
  ev_current_state :: "nat \<Rightarrow> DeviceShadowState result"
  ev_rpc :: "DeviceId \<Rightarrow> rpc \<Rightarrow> nat \<Rightarrow> AdapterOutcome result"

type_synonym 'a eff = "(world, 'a) state"
type_synonym 'a tx = "(world, 'a result) state"

section \<open>Combinators\<close>

definition ok :: "'a \<Rightarrow> ('s, 'a result) state" where
  "ok x = State_Monad.return (Inr x)"

definition throw :: "UnderlayError \<Rightarrow> ('s, 'a result) state" where
  "throw e = State_Monad.return (Inl e)"

definition of_result :: "'a result \<Rightarrow> ('s, 'a result) state" where
  "of_result r = State_Monad.return r"

definition try_then ::
  "('s, 'a result) state \<Rightarrow> ('a \<Rightarrow> ('s, 'b result) state) \<Rightarrow> ('s, 'b result) state" where
  "try_then m k = State_Monad.bind m (\<lambda>r. case r of Inl e \<Rightarrow> throw e | Inr x \<Rightarrow> k x)"

text \<open>A \<open>match\<close> on a result that handles the error.\<close>

definition on_error ::
  "('s, 'a result) state \<Rightarrow> (UnderlayError \<Rightarrow> ('s, 'b) state) \<Rightarrow> ('a \<Rightarrow> ('s, 'b) state) \<Rightarrow> ('s, 'b) state" where
  "on_error m h k = State_Monad.bind m (\<lambda>r. case r of Inl e \<Rightarrow> h e | Inr x \<Rightarrow> k x)"

definition reads :: "('s \<Rightarrow> 'a) \<Rightarrow> ('s, 'a) state" where
  "reads f = State (\<lambda>w. (f w, w))"

definition modify :: "('s \<Rightarrow> 's) \<Rightarrow> ('s, unit) state" where
  "modify f = State (\<lambda>w. ((), f w))"

text \<open>Ask an oracle.\<close>

definition ask :: "(nat \<Rightarrow> 'a) \<Rightarrow> 'a eff" where
  "ask oracle = State (\<lambda>w. (oracle (w_tick w), w\<lparr>w_tick := Suc (w_tick w)\<rparr>))"

section \<open>Stores\<close>

definition journal_read :: "env \<Rightarrow> (memory_journal \<Rightarrow> 'a) \<Rightarrow> 'a tx" where
  "journal_read env f = State_Monad.bind (ask (ev_journal_read env)) (\<lambda>failure.
     case failure of Some e \<Rightarrow> throw e | None \<Rightarrow> State_Monad.bind (reads (\<lambda>w. f (w_journal w))) ok)"

definition put_journal :: "env \<Rightarrow> TxJournalRecord \<Rightarrow> unit tx" where
  "put_journal env r = State_Monad.bind (ask (ev_journal_put env)) (\<lambda>outcome.
     let store = modify (w_journal_update (bm_insert (jr_tx_id r) r)) in
     case outcome of
       Stored \<Rightarrow> State_Monad.bind store (\<lambda>_. ok ())
     | Lost e \<Rightarrow> throw e
     | StoredButFailed e \<Rightarrow> State_Monad.bind store (\<lambda>_. throw e))"

definition get_shadow :: "env \<Rightarrow> DeviceId \<Rightarrow> DeviceShadowState option tx" where
  "get_shadow env d = State_Monad.bind (ask (ev_shadow_read env)) (\<lambda>failure.
     case failure of Some e \<Rightarrow> throw e | None \<Rightarrow> State_Monad.bind (reads (\<lambda>w. bm_get (w_shadow w) d)) ok)"

definition put_shadow :: "env \<Rightarrow> DeviceShadowState \<Rightarrow> unit tx" where
  "put_shadow env st = State_Monad.bind (ask (ev_shadow_put env)) (\<lambda>outcome.
     let store = modify (w_shadow_update (\<lambda>s. snd (shadow_put st s))) in
     case outcome of
       Stored \<Rightarrow> State_Monad.bind store (\<lambda>_. ok ())
     | Lost e \<Rightarrow> throw e
     | StoredButFailed e \<Rightarrow> State_Monad.bind store (\<lambda>_. throw e))"

definition put_observed :: "env \<Rightarrow> DeviceShadowState \<Rightarrow> unit tx" where
  "put_observed env st = State_Monad.bind (ask (ev_observed_put env)) (\<lambda>outcome.
     let store = modify (w_observed_update (\<lambda>s. snd (shadow_put st s))) in
     case outcome of
       Stored \<Rightarrow> State_Monad.bind store (\<lambda>_. ok ())
     | Lost e \<Rightarrow> throw e
     | StoredButFailed e \<Rightarrow> State_Monad.bind store (\<lambda>_. throw e))"

section \<open>Adapter calls\<close>

definition get_managed :: "DeviceId \<Rightarrow> ManagedDevice tx" where
  "get_managed d = reads (\<lambda>w. inventory_get d (w_inventory w))"

definition open_client :: "env \<Rightarrow> unit tx" where
  "open_client env = State_Monad.bind (ask (ev_client env)) (\<lambda>failure.
     case failure of Some e \<Rightarrow> throw e | None \<Rightarrow> ok ())"

definition call_as :: "env \<Rightarrow> string \<Rightarrow> rpc \<Rightarrow> DeviceId \<Rightarrow> AdapterOutcome tx" where
  "call_as env tx_id op d =
     State_Monad.bind (modify (\<lambda>w. w\<lparr>w_log := w_log w @
       [\<lparr>re_rpc = op, re_device = d, re_tx_id = tx_id,
         re_durable_phase = map_option jr_phase (bm_get (w_journal w) tx_id)\<rparr>]\<rparr>)) (\<lambda>_.
     ask (ev_rpc env d op))"

section \<open>The record a coordinator works on\<close>

text \<open>The local variable \<open>journal_record\<close> of the coordinators, which the steps take by mutable
  reference, is the component \<open>w_record\<close>.\<close>

definition set_record :: "TxJournalRecord \<Rightarrow> unit eff" where
  "set_record r = modify (\<lambda>w. w\<lparr>w_record := r\<rparr>)"

text \<open>A builder call such as \<open>with_error\<close>, at the time it runs.\<close>

definition update_record :: "env \<Rightarrow> (u64 \<Rightarrow> TxJournalRecord \<Rightarrow> TxJournalRecord) \<Rightarrow> unit eff" where
  "update_record env f = State_Monad.bind (ask (ev_now env)) (\<lambda>now.
     modify (w_record_update (f now)))"

definition transition :: "env \<Rightarrow> TxPhase \<Rightarrow> unit tx" where
  "transition env phase = State_Monad.bind (ask (ev_now env)) (\<lambda>now.
     State_Monad.bind (reads w_record) (\<lambda>r.
     case transition_phase now phase r of
       Inl e \<Rightarrow> throw e
     | Inr r' \<Rightarrow> State_Monad.bind (set_record r') ok))"

definition put_record :: "env \<Rightarrow> unit tx" where
  "put_record env = State_Monad.bind (reads w_record) (put_journal env)"

text \<open>A call in the context of the coordinator's transaction (\<open>tx_request_context\<close>).\<close>

definition call :: "env \<Rightarrow> rpc \<Rightarrow> DeviceId \<Rightarrow> AdapterOutcome tx" where
  "call env op d = State_Monad.bind (reads (\<lambda>w. jr_tx_id (w_record w))) (\<lambda>tx_id. call_as env tx_id op d)"

end
