(* ===== verification/Apply.thy ===== *)
theory Apply
  imports Effects
begin

text \<open>
  The apply coordinator (\<open>src/api/apply_coordinator.rs\<close>, with \<open>src/api/drift_ops.rs\<close> and
  \<open>device_results_from_plan\<close> of \<open>src/api/apply.rs\<close>): one transaction per endpoint, from the
  gates through prepare, commit, verify and confirm to the journal and the shadow store.
\<close>

section \<open>Reports\<close>

definition device_results_from_plan :: "DryRunPlan \<Rightarrow> DeviceApplyResult list" where
  "device_results_from_plan plan =
     map (\<lambda>cs. \<lparr>dr_device_id = cs_device_id cs, dr_changed = (\<not> cs_is_empty cs),
       dr_status = (if cs_is_empty cs then NoOpSuccess else Success), dr_tx_id = None,
       dr_strategy = None, dr_error_code = None, dr_error_message = None, dr_warnings = [],
       dr_verify_report = None\<rparr>) (dn_change_sets plan)"

fun debug_adapter_status :: "AdapterOperationStatus \<Rightarrow> string" where
  "debug_adapter_status AdUnspecified = ''Unspecified''"
| "debug_adapter_status AdNoChange = ''NoChange''"
| "debug_adapter_status AdPrepared = ''Prepared''"
| "debug_adapter_status AdCommitted = ''Committed''"
| "debug_adapter_status AdRolledBack = ''RolledBack''"
| "debug_adapter_status AdFailed = ''Failed''"
| "debug_adapter_status AdInDoubt = ''InDoubt''"
| "debug_adapter_status AdConfirmedCommitPending = ''ConfirmedCommitPending''"

definition unexpected_status :: "string \<Rightarrow> string \<Rightarrow> AdapterOutcome \<Rightarrow> UnderlayError" where
  "unexpected_status code operation outcome =
     AdapterOperation code (''adapter returned '' @ operation @ '' status '' @
       debug_adapter_status (ao_status outcome)) False []"

definition passed_verify_report :: "DeviceId \<Rightarrow> ChangeSet \<Rightarrow> AdapterOutcome \<Rightarrow> DeviceVerifyReport" where
  "passed_verify_report d cs outcome = report_passed d (scope_from_change_set cs) (ao_warnings outcome)"

definition is_verify_error_code :: "string \<Rightarrow> bool" where
  "is_verify_error_code code \<longleftrightarrow> code = ''VERIFY_FAILED'' \<or> code = ''UNEXPECTED_VERIFY_STATUS''"

definition verify_scope_from_journal :: "DeviceId \<Rightarrow> TxJournalRecord \<Rightarrow> VerifyScopeSummary" where
  "verify_scope_from_journal d r =
     (case find (\<lambda>cs. cs_device_id cs = d) (jr_change_sets r) of
        Some cs \<Rightarrow> scope_from_change_set cs
      | None \<Rightarrow> default_scope)"

definition failed_apply_verify_report ::
  "DeviceId \<Rightarrow> TxJournalRecord \<Rightarrow> ApplyStatus \<Rightarrow> string \<Rightarrow> string \<Rightarrow> DeviceVerifyReport" where
  "failed_apply_verify_report d r st code message =
     (if is_verify_error_code code then
        (let report = report_failed d (verify_scope_from_journal d r) code message [] in
         if st = ApplyInDoubt then report\<lparr>vr_status := VerifyInDoubt\<rparr> else report)
      else if st = ApplyInDoubt then report_in_doubt d code message
      else report_skipped d)"

definition mark_verify_report_in_doubt ::
  "DeviceId \<Rightarrow> DeviceVerifyReport option \<Rightarrow> string \<Rightarrow> string \<Rightarrow> DeviceVerifyReport" where
  "mark_verify_report_in_doubt d report code message =
     (case report of
        Some report \<Rightarrow> report\<lparr>vr_status := VerifyInDoubt, vr_error_code := Some code,
          vr_error_message := Some message\<rparr>
      | None \<Rightarrow> report_in_doubt d code message)"

definition with_rollback_failure_context :: "UnderlayError \<Rightarrow> UnderlayError \<Rightarrow> UnderlayError" where
  "with_rollback_failure_context primary rollback_err =
     (let (rollback_code, rollback_message) = journal_error_fields rollback_err;
          secondary = \<lparr>ad_code = rollback_code,
            ad_message = ''rollback after endpoint failure also failed: '' @ rollback_message\<rparr>;
          trailer = ''; rollback after endpoint failure also failed: '' @ rollback_code @ '': '' @ rollback_message in
      case primary of
        AdapterOperation code message retryable errors \<Rightarrow>
          AdapterOperation code (message @ trailer) retryable (errors @ [secondary])
      | other \<Rightarrow>
         (let (code, message) = journal_error_fields other in
          AdapterOperation code (message @ trailer) False [secondary]))"

section \<open>Gates\<close>

definition drift_policy_error :: "DriftPolicy \<Rightarrow> string \<Rightarrow> unit result" where
  "drift_policy_error policy device_list =
     (case policy of
        BlockNewTransaction \<Rightarrow> Inl (AdapterOperation ''DRIFT_BLOCKED''
          (''device has unresolved out-of-band drift: '' @ device_list) False [])
      | AutoReconcile \<Rightarrow> Inl (AdapterOperation ''DRIFT_AUTORECONCILE_UNIMPLEMENTED''
          (''auto reconcile is not implemented for drifted device(s): '' @ device_list) False [])
      | ReportOnly \<Rightarrow> Inr ())"

primrec drifted_devices :: "inventory \<Rightarrow> DeviceId list \<Rightarrow> string list result" where
  "drifted_devices iv [] = Inr []"
| "drifted_devices iv (d # ds) =
     and_then (inventory_get d iv) (\<lambda>managed.
     and_then (drifted_devices iv ds) (\<lambda>rest.
     Inr (if dv_lifecycle_state (md_info managed) = Drifted then d # rest else rest)))"

definition ensure_drift_policy_allows_apply :: "DeviceId list \<Rightarrow> DriftPolicy \<Rightarrow> unit tx" where
  "ensure_drift_policy_allows_apply device_ids policy =
     (if policy = ReportOnly then ok ()
      else try_then (reads (\<lambda>w. drifted_devices (w_inventory w) device_ids)) (\<lambda>drifted.
        if drifted = [] then ok () else of_result (drift_policy_error policy (join_with '','' drifted))))"

definition blocking_error :: "TxJournalRecord list \<Rightarrow> UnderlayError" where
  "blocking_error blocking =
     AdapterOperation
       (if list_all (\<lambda>r. jr_phase r = InDoubt) blocking then ''TX_IN_DOUBT'' else ''TX_REQUIRES_RECOVERY'')
       (''endpoint has unresolved recoverable transaction(s): '' @ join_with '','' (map jr_tx_id blocking))
       False []"

definition ensure_no_in_doubt_for_devices :: "env \<Rightarrow> DeviceId list \<Rightarrow> unit tx" where
  "ensure_no_in_doubt_for_devices env device_ids =
     try_then (journal_read env journal_list_recoverable) (\<lambda>recoverable.
     try_then (of_result recoverable) (\<lambda>recoverable.
     let blocking = in_doubt_records_for_devices recoverable device_ids in
     if blocking = [] then ok () else throw (blocking_error blocking)))"

section \<open>Reading the devices\<close>

primrec fetch_current_states :: "env \<Rightarrow> DeviceDesiredState list \<Rightarrow> DeviceShadowState list tx" where
  "fetch_current_states env [] = ok []"
| "fetch_current_states env (desired # rest) =
     try_then (get_managed (ds_device_id desired)) (\<lambda>managed.
     try_then (open_client env) (\<lambda>_.
     try_then (ask (ev_current_state env)) (\<lambda>current.
     try_then (put_observed env current) (\<lambda>_.
     try_then (fetch_current_states env rest) (\<lambda>states.
     ok (current # states))))))"

definition dry_run_desired_states :: "env \<Rightarrow> DeviceDesiredState list \<Rightarrow> DryRunPlan tx" where
  "dry_run_desired_states env desired_states =
     try_then (fetch_current_states env desired_states) (\<lambda>current_states.
     of_result (build_dry_run_plan desired_states current_states))"

section \<open>Rolling back\<close>

definition rollback_after_endpoint_failure :: "env \<Rightarrow> DeviceId \<Rightarrow> unit tx" where
  "rollback_after_endpoint_failure env d =
     State_Monad.bind (reads w_record) (\<lambda>original.
     try_then (transition env RollingBack) (\<lambda>_.
     on_error (put_record env)
       (\<lambda>err. State_Monad.bind (set_record original) (\<lambda>_. throw err))
       (\<lambda>_. on_error (State_Monad.bind (reads (\<lambda>w. jr_strategy (w_record w))) (\<lambda>strategy. call env (RpcRollback strategy) d))
         (\<lambda>err.
           let (code, message) = journal_error_fields err in
           try_then (transition env InDoubt) (\<lambda>_.
           State_Monad.bind (update_record env (\<lambda>now. with_error now code message)) (\<lambda>_.
           try_then (put_record env) (\<lambda>_. throw err))))
         (\<lambda>outcome.
           if ao_status outcome = AdRolledBack \<or> ao_status outcome = AdNoChange then
             try_then (transition env RolledBack) (\<lambda>_. put_record env)
           else
             let message = ''adapter returned rollback status '' @ debug_adapter_status (ao_status outcome);
                 err = AdapterOperation ''UNEXPECTED_ROLLBACK_STATUS'' message True [] in
             try_then (transition env InDoubt) (\<lambda>_.
             State_Monad.bind (update_record env (\<lambda>now. with_error now ''UNEXPECTED_ROLLBACK_STATUS'' message)) (\<lambda>_.
             try_then (put_record env) (\<lambda>_. throw err)))))))"

definition rollback_preserving_primary :: "env \<Rightarrow> DeviceId \<Rightarrow> UnderlayError \<Rightarrow> unit tx" where
  "rollback_preserving_primary env d primary =
     on_error (rollback_after_endpoint_failure env d)
       (\<lambda>rollback_err. throw (with_rollback_failure_context primary rollback_err))
       (\<lambda>_. throw primary)"

section \<open>The steps on one endpoint\<close>

definition internal_after_rollback :: UnderlayError where
  "internal_after_rollback =
     Internal ''verify rollback unexpectedly completed without returning the primary error''"

definition prepare_endpoint :: "env \<Rightarrow> DeviceId \<Rightarrow> DeviceDesiredState \<Rightarrow> string option tx" where
  "prepare_endpoint env d desired =
     on_error (call env (RpcPrepare desired) d)
       (\<lambda>err. try_then (rollback_preserving_primary env d err) (\<lambda>_. ok None))
       (\<lambda>prepare.
         if ao_status prepare \<noteq> AdPrepared then
           try_then (rollback_preserving_primary env d
             (unexpected_status ''UNEXPECTED_PREPARE_STATUS'' ''prepare'' prepare)) (\<lambda>_. ok None)
         else
           try_then (transition env Prepared) (\<lambda>_.
           try_then (put_record env) (\<lambda>_.
           ok (ao_prepared_candidate_checksum prepare))))"

definition commit_endpoint :: "env \<Rightarrow> DeviceId \<Rightarrow> TransactionStrategy \<Rightarrow> string option \<Rightarrow> unit tx" where
  "commit_endpoint env d strategy checksum =
     try_then (transition env Committing) (\<lambda>_.
     try_then (put_record env) (\<lambda>_.
     on_error (call env (RpcCommit strategy (max 1 (ev_confirmed_commit_timeout_secs env)) checksum) d)
       (\<lambda>err. try_then (rollback_preserving_primary env d err) (\<lambda>_. throw internal_after_rollback))
       (\<lambda>commit.
         if commit_status_matches_strategy (ao_status commit) strategy then ok ()
         else try_then (rollback_preserving_primary env d
           (unexpected_status ''UNEXPECTED_COMMIT_STATUS'' ''commit'' commit)) (\<lambda>_. throw internal_after_rollback))))"

definition verify_endpoint :: "env \<Rightarrow> DeviceId \<Rightarrow> DeviceDesiredState \<Rightarrow> ChangeSet \<Rightarrow> DeviceVerifyReport tx" where
  "verify_endpoint env d desired cs =
     try_then (transition env Verifying) (\<lambda>_.
     try_then (put_record env) (\<lambda>_.
     on_error (call env (RpcVerify desired cs) d)
       (\<lambda>err. try_then (rollback_preserving_primary env d err) (\<lambda>_. throw internal_after_rollback))
       (\<lambda>verify.
         if ao_status verify = AdNoChange \<or> ao_status verify = AdCommitted
         then ok (passed_verify_report (ds_device_id desired) cs verify)
         else try_then (rollback_preserving_primary env d
           (unexpected_status ''UNEXPECTED_VERIFY_STATUS'' ''verify'' verify)) (\<lambda>_. throw internal_after_rollback))))"

definition final_confirm_endpoint :: "env \<Rightarrow> DeviceId \<Rightarrow> unit tx" where
  "final_confirm_endpoint env d =
     try_then (transition env FinalConfirming) (\<lambda>_.
     try_then (put_record env) (\<lambda>_.
     on_error (call env RpcFinalConfirm d)
       (\<lambda>err. rollback_preserving_primary env d err)
       (\<lambda>confirm.
         if ao_status confirm = AdCommitted then ok ()
         else rollback_preserving_primary env d
           (unexpected_status ''UNEXPECTED_FINAL_CONFIRM_STATUS'' ''final confirm'' confirm))))"

definition finalize_non_confirmed_commit :: "env \<Rightarrow> unit tx" where
  "finalize_non_confirmed_commit env =
     try_then (transition env FinalConfirming) (\<lambda>_. put_record env)"

section \<open>One transaction\<close>

definition degraded_not_allowed :: "DeviceId \<Rightarrow> TransactionStrategy \<Rightarrow> UnderlayError" where
  "degraded_not_allowed d strategy =
     AdapterOperation ''DEGRADED_ATOMICITY_NOT_ALLOWED''
       (''device '' @ d @ '' requires degraded transaction strategy '' @ debug_strategy strategy @
        '', but request disallows degraded atomicity'') False []"

text \<open>The body of the loop over the desired states, for a non-empty change set.\<close>

definition apply_changed_endpoint ::
  "env \<Rightarrow> bool \<Rightarrow> DeviceDesiredState \<Rightarrow> ChangeSet \<Rightarrow> (TransactionStrategy \<times> DeviceVerifyReport) tx" where
  "apply_changed_endpoint env allow_degraded_atomicity desired cs =
     (let d = ds_device_id desired in
      try_then (get_managed d) (\<lambda>managed.
      try_then (open_client env) (\<lambda>_.
      try_then (case md_capability managed of Some c \<Rightarrow> ok c | None \<Rightarrow> ask (ev_capabilities env)) (\<lambda>capability.
      let strategy = ca_recommended_strategy capability in
      if \<not> is_supported strategy then throw UnsupportedTransactionStrategy
      else if is_degraded strategy \<and> \<not> allow_degraded_atomicity then throw (degraded_not_allowed d strategy)
      else
        State_Monad.bind (update_record env (\<lambda>now. with_strategy now strategy)) (\<lambda>_.
        try_then (put_record env) (\<lambda>_.
        try_then (prepare_endpoint env d desired) (\<lambda>checksum.
        try_then (commit_endpoint env d strategy checksum) (\<lambda>_.
        try_then (verify_endpoint env d desired cs) (\<lambda>report.
        try_then (if strategy = ConfirmedCommit then final_confirm_endpoint env d
                  else finalize_non_confirmed_commit env) (\<lambda>_.
        ok (strategy, report)))))))))))"

fun apply_changed_endpoint_states ::
  "env \<Rightarrow> DryRunPlan \<Rightarrow> bool \<Rightarrow> DeviceDesiredState list \<Rightarrow> TransactionStrategy option \<Rightarrow>
   DeviceVerifyReport option \<Rightarrow> (TransactionStrategy \<times> DeviceVerifyReport option) tx" where
  "apply_changed_endpoint_states env plan allow [] selected report =
     (case selected of Some strategy \<Rightarrow> ok (strategy, report) | None \<Rightarrow> throw UnsupportedTransactionStrategy)"
| "apply_changed_endpoint_states env plan allow (desired # rest) selected report =
     (case find (\<lambda>cs. cs_device_id cs = ds_device_id desired) (dn_change_sets plan) of
        None \<Rightarrow> throw (InvalidDeviceState (''missing change set for endpoint '' @ ds_device_id desired))
      | Some cs \<Rightarrow>
         if cs_is_empty cs then apply_changed_endpoint_states env plan allow rest selected report
         else try_then (apply_changed_endpoint env allow desired cs) (\<lambda>(strategy, report').
           apply_changed_endpoint_states env plan allow rest
             (Some (case selected of None \<Rightarrow> strategy | Some s \<Rightarrow> s)) (Some report')))"

section \<open>Finishing\<close>

definition in_doubt_result ::
  "DeviceId \<Rightarrow> string \<Rightarrow> TransactionStrategy option \<Rightarrow> string \<Rightarrow> string \<Rightarrow> string list \<Rightarrow> DeviceVerifyReport \<Rightarrow>
   DeviceApplyResult" where
  "in_doubt_result d tx_id strategy code message warnings report =
     \<lparr>dr_device_id = d, dr_changed = True, dr_status = ApplyInDoubt, dr_tx_id = Some tx_id,
      dr_strategy = strategy, dr_error_code = Some code, dr_error_message = Some message,
      dr_warnings = warnings, dr_verify_report = Some report\<rparr>"

text \<open>The two blocks for a shadow store that fails after the commit; they differ in texts only.\<close>

definition finish_stale ::
  "env \<Rightarrow> DeviceId \<Rightarrow> string \<Rightarrow> TransactionStrategy \<Rightarrow> string list \<Rightarrow> DeviceVerifyReport option \<Rightarrow> string \<Rightarrow>
   string \<Rightarrow> string \<Rightarrow> UnderlayError \<Rightarrow> DeviceApplyResult eff" where
  "finish_stale env d tx_id strategy warnings report report_code short warning err =
     (let (code, message) = journal_error_fields err;
          error_message = short @ '': '' @ message;
          marked = (\<lambda>m. mark_verify_report_in_doubt d report report_code m) in
      on_error (transition env InDoubt)
        (\<lambda>transition_err. State_Monad.return (in_doubt_result d tx_id (Some strategy) code
          (error_message @ ''; phase transition also failed: '' @ snd (journal_error_fields transition_err))
          warnings (marked error_message)))
        (\<lambda>_. State_Monad.bind (update_record env (\<lambda>now. with_error now code error_message)) (\<lambda>_.
          on_error (put_record env)
            (\<lambda>journal_err. State_Monad.return (in_doubt_result d tx_id (Some strategy) code
              (error_message @ ''; journal write also failed: '' @ snd (journal_error_fields journal_err))
              warnings (marked error_message)))
            (\<lambda>_. State_Monad.return (in_doubt_result d tx_id (Some strategy) code error_message
              (warnings @ [warning @ '': '' @ message]) (marked short))))))"

definition finish_missing_change_set ::
  "env \<Rightarrow> DeviceId \<Rightarrow> string \<Rightarrow> TransactionStrategy \<Rightarrow> string list \<Rightarrow> DeviceVerifyReport option \<Rightarrow>
   DeviceApplyResult eff" where
  "finish_missing_change_set env d tx_id strategy warnings report =
     (let code = ''MISSING_CHANGE_SET'';
          error_message = ''missing change set after successful apply for device '' @ d in
      on_error (transition env InDoubt)
        (\<lambda>transition_err. State_Monad.return (in_doubt_result d tx_id (Some strategy) code
          (error_message @ ''; phase transition also failed: '' @ snd (journal_error_fields transition_err))
          warnings (mark_verify_report_in_doubt d report code error_message)))
        (\<lambda>_. State_Monad.bind (update_record env (\<lambda>now. with_error now code error_message)) (\<lambda>_.
          State_Monad.bind (put_record env) (\<lambda>_.
          State_Monad.return (in_doubt_result d tx_id (Some strategy) code error_message warnings
            (mark_verify_report_in_doubt d report code ''missing change set after successful apply''))))))"

text \<open>From the update of the shadow state to the successful result.\<close>

definition finish_shadow_write ::
  "env \<Rightarrow> DeviceDesiredState \<Rightarrow> ChangeSet \<Rightarrow> string \<Rightarrow> TransactionStrategy \<Rightarrow> string list \<Rightarrow>
   DeviceVerifyReport option \<Rightarrow> DeviceShadowState option \<Rightarrow> DeviceApplyResult eff" where
  "finish_shadow_write env desired cs tx_id strategy warnings report existing =
     (let d = ds_device_id desired in
      on_error (put_shadow env (apply_to_shadow cs existing desired 0))
        (finish_stale env d tx_id strategy warnings report ''SHADOW_WRITE_FAILED''
          ''shadow state stale after successful apply'' ''shadow state update failed'')
        (\<lambda>_. State_Monad.return
          \<lparr>dr_device_id = d, dr_changed = True,
           dr_status = (if is_degraded strategy then SuccessWithWarning else Success),
           dr_tx_id = Some tx_id, dr_strategy = Some strategy, dr_error_code = None,
           dr_error_message = None, dr_warnings = warnings, dr_verify_report = report\<rparr>))"

definition finish_successful_apply ::
  "env \<Rightarrow> DeviceDesiredState \<Rightarrow> DryRunPlan \<Rightarrow> string \<Rightarrow> TransactionStrategy \<Rightarrow> DeviceVerifyReport option \<Rightarrow>
   DeviceApplyResult eff" where
  "finish_successful_apply env desired plan tx_id strategy report =
     (let d = ds_device_id desired;
          warnings = degraded_strategy_warnings strategy in
      State_Monad.bind (update_record env (\<lambda>now. with_strategy now strategy)) (\<lambda>_.
      on_error (transition env Committed)
        (\<lambda>err. let (code, message) = journal_error_fields err in
          State_Monad.return (in_doubt_result d tx_id (Some strategy) code message warnings
            (mark_verify_report_in_doubt d report ''INVALID_PHASE_TRANSITION''
              ''failed to transition verified transaction to committed'')))
        (\<lambda>_. on_error (put_record env)
          (\<lambda>err. let (code, message) = journal_error_fields err;
              error_message = ''adapter committed, but terminal journal write failed: '' @ message in
            State_Monad.return (in_doubt_result d tx_id (Some strategy) code error_message warnings
              (mark_verify_report_in_doubt d report ''JOURNAL_WRITE_FAILED'' error_message)))
          (\<lambda>_. case find (\<lambda>cs. cs_device_id cs = d) (dn_change_sets plan) of
             None \<Rightarrow> finish_missing_change_set env d tx_id strategy warnings report
           | Some cs \<Rightarrow>
              on_error (get_shadow env d)
                (finish_stale env d tx_id strategy warnings report ''SHADOW_READ_FAILED''
                  ''shadow state unavailable after successful apply'' ''shadow state read failed'')
                (finish_shadow_write env desired cs tx_id strategy warnings report)))))"

definition finish_failed_apply ::
  "env \<Rightarrow> DeviceDesiredState \<Rightarrow> string \<Rightarrow> UnderlayError \<Rightarrow> DeviceApplyResult eff" where
  "finish_failed_apply env desired tx_id err =
     (let d = ds_device_id desired;
          (code, message) = journal_error_fields err in
      State_Monad.bind (reads w_record) (\<lambda>record.
      let phase = failed_apply_phase (jr_phase record);
          status = apply_status_for_failed_phase phase;
          report = failed_apply_verify_report d record status code message;
          result = (\<lambda>status strategy message report.
            \<lparr>dr_device_id = d, dr_changed = True, dr_status = status, dr_tx_id = Some tx_id,
             dr_strategy = strategy, dr_error_code = Some code, dr_error_message = Some message,
             dr_warnings = [], dr_verify_report = Some report\<rparr>) in
      on_error (transition env phase)
        (\<lambda>transition_err. State_Monad.return (result ApplyInDoubt (jr_strategy record)
          (message @ ''; phase transition also failed: '' @ snd (journal_error_fields transition_err))
          (mark_verify_report_in_doubt d (Some report) code message)))
        (\<lambda>_. State_Monad.bind (update_record env (\<lambda>now. with_error now code message)) (\<lambda>_.
          on_error (put_record env)
            (\<lambda>journal_err. State_Monad.return (result status (jr_strategy record)
              (message @ ''; journal write also failed: '' @ snd (journal_error_fields journal_err)) report))
            (\<lambda>_. State_Monad.return (result status (jr_strategy record) message report))))))"

section \<open>Applying\<close>

definition no_op_result :: "DeviceId \<Rightarrow> DeviceApplyResult" where
  "no_op_result d =
     \<lparr>dr_device_id = d, dr_changed = False, dr_status = NoOpSuccess, dr_tx_id = None,
      dr_strategy = None, dr_error_code = None, dr_error_message = None, dr_warnings = [],
      dr_verify_report = Some (report_skipped d)\<rparr>"

text \<open>Everything before the transaction: the endpoint lock, the gates and the dry run.\<close>

definition admit :: "env \<Rightarrow> DeviceDesiredState \<Rightarrow> DriftPolicy \<Rightarrow> DryRunPlan tx" where
  "admit env desired drift_policy =
     (let d = ds_device_id desired in
      try_then (State_Monad.bind (ask (ev_lock env)) (\<lambda>acquired.
        if acquired then ok () else throw (lock_timeout [d]))) (\<lambda>_.
      try_then (ensure_no_in_doubt_for_devices env [d]) (\<lambda>_.
      try_then (ensure_drift_policy_allows_apply [d] drift_policy) (\<lambda>_.
      dry_run_desired_states env [desired]))))"

text \<open>Opening the transaction: its record, in phase \<open>Started\<close> and then \<open>Preparing\<close>.  The error
  carries the transaction id that the result reports.\<close>

definition begin_transaction ::
  "env \<Rightarrow> string \<Rightarrow> string \<Rightarrow> DeviceDesiredState \<Rightarrow> DryRunPlan \<Rightarrow>
   (UnderlayError \<times> string option + string) eff" where
  "begin_transaction env request_id trace_id desired plan =
     State_Monad.bind (ask (ev_uuid env)) (\<lambda>uuid.
     let cx = new_context uuid request_id trace_id in
     State_Monad.bind (ask (ev_now env)) (\<lambda>now.
     State_Monad.bind (set_record (started now cx [ds_device_id desired])) (\<lambda>_.
     State_Monad.bind (update_record env (\<lambda>now. with_desired_states now [desired])) (\<lambda>_.
     State_Monad.bind (update_record env (\<lambda>now. with_change_sets now (dn_change_sets plan))) (\<lambda>_.
     on_error (put_record env)
       (\<lambda>err. State_Monad.return (Inl (err, None)))
       (\<lambda>_. on_error (transition env Preparing)
         (\<lambda>err. State_Monad.return (Inl (err, Some (cx_tx_id cx))))
         (\<lambda>_. on_error (put_record env)
           (\<lambda>err. State_Monad.return (Inl (err, Some (cx_tx_id cx))))
           (\<lambda>_. State_Monad.return (Inr (cx_tx_id cx))))))))))"

definition apply_single_endpoint_state ::
  "env \<Rightarrow> string \<Rightarrow> string \<Rightarrow> DeviceDesiredState \<Rightarrow> bool \<Rightarrow> DriftPolicy \<Rightarrow> DeviceApplyResult eff" where
  "apply_single_endpoint_state env request_id trace_id desired allow_degraded_atomicity drift_policy =
     (let d = ds_device_id desired in
      on_error (admit env desired drift_policy)
        (\<lambda>err. State_Monad.return (device_error_result d False None None err))
        (\<lambda>plan.
          if is_noop plan then State_Monad.return (no_op_result d)
          else State_Monad.bind (begin_transaction env request_id trace_id desired plan) (\<lambda>opened.
            case opened of
              Inl (err, tx_id) \<Rightarrow> State_Monad.return (device_error_result d True tx_id None err)
            | Inr tx_id \<Rightarrow>
                on_error (apply_changed_endpoint_states env plan allow_degraded_atomicity [desired] None None)
                  (finish_failed_apply env desired tx_id)
                  (\<lambda>(strategy, report). finish_successful_apply env desired plan tx_id strategy report))))"

primrec apply_each ::
  "env \<Rightarrow> string \<Rightarrow> string \<Rightarrow> bool \<Rightarrow> DriftPolicy \<Rightarrow> DeviceDesiredState list \<Rightarrow> DeviceApplyResult list eff" where
  "apply_each env request_id trace_id allow drift_policy [] = State_Monad.return []"
| "apply_each env request_id trace_id allow drift_policy (desired # rest) =
     State_Monad.bind (apply_single_endpoint_state env request_id trace_id desired allow drift_policy) (\<lambda>result.
     State_Monad.bind (apply_each env request_id trace_id allow drift_policy rest) (\<lambda>results.
     State_Monad.return (result # results)))"

definition emit_apply_events :: "string \<Rightarrow> string \<Rightarrow> DeviceApplyResult list \<Rightarrow> unit eff" where
  "emit_apply_events request_id trace_id results =
     modify (w_events_update (\<lambda>events. events @
       List.map_filter (from_device_apply_result request_id trace_id) results))"

definition apply_desired_states ::
  "env \<Rightarrow> string \<Rightarrow> string \<Rightarrow> DeviceDesiredState list \<Rightarrow> bool \<Rightarrow> DriftPolicy \<Rightarrow> ApplyIntentResponse eff" where
  "apply_desired_states env request_id trace_id desired_states allow_degraded_atomicity drift_policy =
     State_Monad.bind
       (apply_each env request_id trace_id allow_degraded_atomicity drift_policy desired_states) (\<lambda>results.
     State_Monad.bind (emit_apply_events request_id trace_id results) (\<lambda>_.
     State_Monad.return
       \<lparr>ar_request_id = request_id, ar_trace_id = trace_id, ar_idempotency_key = None, ar_reused = False,
        ar_tx_id = (case results of [r] \<Rightarrow> dr_tx_id r | _ \<Rightarrow> None),
        ar_status = aggregate_apply_status results,
        ar_strategy = (case results of [r] \<Rightarrow> dr_strategy r | _ \<Rightarrow> None),
        ar_device_results = results, ar_warnings = concat (map dr_warnings results),
        ar_verify_report = Some (from_device_results results)\<rparr>))"

end
