(* ===== verification/Wp.thy ===== *)
theory Wp
  imports Effects
begin

text \<open>
  A weakest-precondition calculus for the effects.  \<open>wp m Q w\<close> says that running \<open>m\<close> in world \<open>w\<close>
  ends with a value and a world in \<open>Q\<close>; the runs are total functions, so this is total
  correctness for every environment.  The equations in \<open>wp_simps\<close> push it through the combinators
  (\<open>wp_stores\<close>: through the stores and calls); the lemmas of the coordinators are used through \<open>wp_mono\<close>.
\<close>

named_theorems wp_simps
named_theorems wp_stores

definition wp :: "('s, 'a) state \<Rightarrow> ('a \<Rightarrow> 's \<Rightarrow> bool) \<Rightarrow> 's \<Rightarrow> bool" where
  "wp m Q w \<longleftrightarrow> (case run_state m w of (x, w') \<Rightarrow> Q x w')"

lemma wp_mono: "wp m Q w \<Longrightarrow> (\<And>x w'. Q x w' \<Longrightarrow> R x w') \<Longrightarrow> wp m R w"
  by (auto simp: wp_def)

lemma wpD: "wp m Q w \<Longrightarrow> run_state m w = (x, w') \<Longrightarrow> Q x w'"
  by (simp add: wp_def)

lemma wpI: "(\<And>x w'. run_state m w = (x, w') \<Longrightarrow> Q x w') \<Longrightarrow> wp m Q w"
  by (auto simp: wp_def)

lemma wp_conj: "wp m Q w \<Longrightarrow> wp m R w \<Longrightarrow> wp m (\<lambda>x w'. Q x w' \<and> R x w') w"
  by (auto simp: wp_def)

section \<open>Combinators\<close>

lemma wp_return [wp_simps]: "wp (State_Monad.return x) Q = Q x"
  by (rule ext) (simp add: wp_def State_Monad.return_def)

lemma wp_bind [wp_simps]: "wp (State_Monad.bind m k) Q = wp m (\<lambda>x. wp (k x) Q)"
  by (rule ext) (simp add: wp_def State_Monad.bind_def split: prod.split)

lemma wp_ok [wp_simps]: "wp (ok x) Q = Q (Inr x)"
  by (simp add: ok_def wp_return)

lemma wp_throw [wp_simps]: "wp (throw e) Q = Q (Inl e)"
  by (simp add: throw_def wp_return)

lemma wp_of_result [wp_simps]: "wp (of_result r) Q = Q r"
  by (simp add: of_result_def wp_return)

definition on_result ::
  "(UnderlayError \<Rightarrow> 's \<Rightarrow> bool) \<Rightarrow> ('a \<Rightarrow> 's \<Rightarrow> bool) \<Rightarrow> 'a result \<Rightarrow> 's \<Rightarrow> bool" where
  "on_result E Q r = (case r of Inl e \<Rightarrow> E e | Inr x \<Rightarrow> Q x)"

lemma on_result_simps [simp]:
  "on_result E Q (Inl e) = E e"
  "on_result E Q (Inr x) = Q x"
  by (simp_all add: on_result_def)

lemma on_result_iff:
  "on_result E Q r w \<longleftrightarrow> (\<forall>e. r = Inl e \<longrightarrow> E e w) \<and> (\<forall>x. r = Inr x \<longrightarrow> Q x w)"
  by (cases r) simp_all

lemma on_result_mono:
  "on_result E Q r w \<Longrightarrow> (\<And>e. E e w \<Longrightarrow> E' e w) \<Longrightarrow> (\<And>x. Q x w \<Longrightarrow> Q' x w) \<Longrightarrow> on_result E' Q' r w"
  by (cases r) simp_all

lemma on_result_same: "on_result (\<lambda>e. Q (Inl e)) (\<lambda>x. Q (Inr x)) = Q"
  by (intro ext) (simp add: on_result_def split: sum.split)

lemma wp_try_then [wp_simps]:
  "wp (try_then m k) Q = wp m (on_result (\<lambda>e. Q (Inl e)) (\<lambda>x. wp (k x) Q))"
  by (rule ext) (simp add: try_then_def wp_def on_result_def State_Monad.bind_def throw_def State_Monad.return_def
      split: prod.split sum.split)

text \<open>Sequencing: the first step reaches \<open>Q\<close> or fails in \<open>E\<close>, the rest goes on from \<open>Q\<close>.\<close>

lemma wp_then:
  assumes "wp m (on_result (\<lambda>_. E) Q) w"
    and "\<And>x w'. Q x w' \<Longrightarrow> wp (k x) (on_result (\<lambda>_. E) R) w'"
  shows "wp (try_then m k) (on_result (\<lambda>_. E) R) w"
  unfolding wp_try_then by (rule wp_mono[OF assms(1)]) (auto simp: on_result_iff intro: assms(2))

lemma wp_on_error [wp_simps]:
  "wp (on_error m h k) Q = wp m (on_result (\<lambda>e. wp (h e) Q) (\<lambda>x. wp (k x) Q))"
  by (rule ext) (simp add: on_error_def wp_def on_result_def State_Monad.bind_def split: prod.split sum.split)

lemma wp_reads [wp_simps]: "wp (reads f) Q w \<longleftrightarrow> Q (f w) w"
  by (simp add: wp_def reads_def)

lemma wp_modify [wp_simps]: "wp (modify f) Q w \<longleftrightarrow> Q () (f w)"
  by (simp add: wp_def modify_def)

lemma wp_ask [wp_simps]: "wp (ask f) Q w \<longleftrightarrow> Q (f (w_tick w)) (w\<lparr>w_tick := Suc (w_tick w)\<rparr>)"
  by (simp add: wp_def ask_def)

lemma wp_if [wp_simps]: "wp (if b then m else n) Q w \<longleftrightarrow> (if b then wp m Q w else wp n Q w)"
  by simp

lemma wp_option:
  "wp (case v of None \<Rightarrow> m | Some x \<Rightarrow> k x) Q w \<longleftrightarrow>
     (v = None \<longrightarrow> wp m Q w) \<and> (\<forall>x. v = Some x \<longrightarrow> wp (k x) Q w)"
  by (cases v) simp_all

section \<open>What no step touches\<close>

text \<open>A step keeps a property of the world when every run does; the rules follow the shape of the
  program.\<close>

definition keeps :: "('s \<Rightarrow> bool) \<Rightarrow> ('s, 'a) state \<Rightarrow> bool" where
  "keeps I m \<longleftrightarrow> (\<forall>w. I w \<longrightarrow> wp m (\<lambda>_. I) w)"

named_theorems keeps_intros

lemma keepsI: "(\<And>w. I w \<Longrightarrow> wp m (\<lambda>_. I) w) \<Longrightarrow> keeps I m"
  by (simp add: keeps_def)

lemma keepsD: "keeps I m \<Longrightarrow> I w \<Longrightarrow> run_state m w = (x, w') \<Longrightarrow> I w'"
  by (auto simp: keeps_def wp_def)

lemma keeps_wp: "keeps I m \<Longrightarrow> I w \<Longrightarrow> wp m (\<lambda>_. I) w"
  by (simp add: keeps_def)

lemma keeps_return [keeps_intros]: "keeps I (State_Monad.return x)"
  by (simp add: keeps_def wp_simps)

lemma keeps_ok [keeps_intros]: "keeps I (ok x)"
  by (simp add: keeps_def wp_simps)

lemma keeps_throw [keeps_intros]: "keeps I (throw e)"
  by (simp add: keeps_def wp_simps)

lemma keeps_of_result [keeps_intros]: "keeps I (of_result r)"
  by (simp add: keeps_def wp_simps)

lemma keeps_reads [keeps_intros]: "keeps I (reads f)"
  by (simp add: keeps_def wp_simps)

lemma keeps_bind [keeps_intros]: "keeps I m \<Longrightarrow> (\<And>x. keeps I (k x)) \<Longrightarrow> keeps I (State_Monad.bind m k)"
  by (auto simp: keeps_def wp_bind intro: wp_mono)

lemma keeps_try_then [keeps_intros]: "keeps I m \<Longrightarrow> (\<And>x. keeps I (k x)) \<Longrightarrow> keeps I (try_then m k)"
  by (auto simp: keeps_def wp_try_then on_result_iff intro: wp_mono)

lemma keeps_on_error [keeps_intros]:
  "keeps I m \<Longrightarrow> (\<And>e. keeps I (h e)) \<Longrightarrow> (\<And>x. keeps I (k x)) \<Longrightarrow> keeps I (on_error m h k)"
  by (auto simp: keeps_def wp_on_error on_result_iff intro: wp_mono)

lemma keeps_if [keeps_intros]: "(b \<Longrightarrow> keeps I m) \<Longrightarrow> (\<not> b \<Longrightarrow> keeps I n) \<Longrightarrow> keeps I (if b then m else n)"
  by simp

lemma keeps_option [keeps_intros]:
  "(v = None \<Longrightarrow> keeps I m) \<Longrightarrow> (\<And>x. v = Some x \<Longrightarrow> keeps I (k x)) \<Longrightarrow>
   keeps I (case v of None \<Rightarrow> m | Some x \<Rightarrow> k x)"
  by (cases v) simp_all

lemma keeps_sum [keeps_intros]:
  "(\<And>x. v = Inl x \<Longrightarrow> keeps I (h x)) \<Longrightarrow> (\<And>x. v = Inr x \<Longrightarrow> keeps I (k x)) \<Longrightarrow>
   keeps I (case v of Inl x \<Rightarrow> h x | Inr x \<Rightarrow> k x)"
  by (cases v) simp_all

lemma keeps_prod [keeps_intros]:
  "(\<And>x y. v = (x, y) \<Longrightarrow> keeps I (k x y)) \<Longrightarrow> keeps I (case v of (x, y) \<Rightarrow> k x y)"
  by (cases v) simp_all

lemma keeps_Let [keeps_intros]: "(\<And>x. x = v \<Longrightarrow> keeps I (k x)) \<Longrightarrow> keeps I (let x = v in k x)"
  by simp

section \<open>Stores and the record\<close>

lemma wp_journal_read [wp_simps]:
  "wp (journal_read env f) Q w \<longleftrightarrow>
     (let w' = w\<lparr>w_tick := Suc (w_tick w)\<rparr> in
      case ev_journal_read env (w_tick w) of Some e \<Rightarrow> Q (Inl e) w' | None \<Rightarrow> Q (Inr (f (w_journal w))) w')"
  by (simp add: journal_read_def wp_simps split: option.split)

lemma wp_get_shadow [wp_simps]:
  "wp (get_shadow env d) Q w \<longleftrightarrow>
     (let w' = w\<lparr>w_tick := Suc (w_tick w)\<rparr> in
      case ev_shadow_read env (w_tick w) of
        Some e \<Rightarrow> Q (Inl e) w' | None \<Rightarrow> Q (Inr (bm_get (w_shadow w) d)) w')"
  by (simp add: get_shadow_def wp_simps split: option.split)

lemma wp_get_managed [wp_simps]: "wp (get_managed d) Q w \<longleftrightarrow> Q (inventory_get d (w_inventory w)) w"
  by (simp add: get_managed_def wp_simps)

lemma wp_open_client [wp_simps]:
  "wp (open_client env) Q w \<longleftrightarrow>
     (let w' = w\<lparr>w_tick := Suc (w_tick w)\<rparr> in
      case ev_client env (w_tick w) of Some e \<Rightarrow> Q (Inl e) w' | None \<Rightarrow> Q (Inr ()) w')"
  by (simp add: open_client_def wp_simps split: option.split)

text \<open>What a put may do: store or not, and report success only when it stored.\<close>

definition put_with :: "put_outcome \<Rightarrow> (world \<Rightarrow> world) \<Rightarrow> (unit result \<Rightarrow> world \<Rightarrow> bool) \<Rightarrow> world \<Rightarrow> bool" where
  "put_with outcome store Q w =
     (case outcome of
        Stored \<Rightarrow> Q (Inr ()) (store w)
      | Lost e \<Rightarrow> Q (Inl e) w
      | StoredButFailed e \<Rightarrow> Q (Inl e) (store w))"

lemma put_withI:
  "(outcome = Stored \<Longrightarrow> Q (Inr ()) (store w)) \<Longrightarrow>
   (\<And>e. outcome \<noteq> Stored \<Longrightarrow> Q (Inl e) w) \<Longrightarrow> (\<And>e. outcome \<noteq> Stored \<Longrightarrow> Q (Inl e) (store w)) \<Longrightarrow>
   put_with outcome store Q w"
  by (cases outcome) (simp_all add: put_with_def)

lemma wp_put_journal [wp_stores]:
  "wp (put_journal env r) Q w \<longleftrightarrow>
     put_with (ev_journal_put env (w_tick w)) (w_journal_update (bm_insert (jr_tx_id r) r)) Q
       (w\<lparr>w_tick := Suc (w_tick w)\<rparr>)"
  by (simp add: put_journal_def wp_stores put_with_def wp_simps Let_def split: put_outcome.split)

lemma wp_put_shadow [wp_stores]:
  "wp (put_shadow env st) Q w \<longleftrightarrow>
     put_with (ev_shadow_put env (w_tick w)) (w_shadow_update (\<lambda>s. snd (shadow_put st s))) Q
       (w\<lparr>w_tick := Suc (w_tick w)\<rparr>)"
  by (simp add: put_shadow_def wp_stores put_with_def wp_simps Let_def split: put_outcome.split)

lemma wp_put_observed [wp_stores]:
  "wp (put_observed env st) Q w \<longleftrightarrow>
     put_with (ev_observed_put env (w_tick w)) (w_observed_update (\<lambda>s. snd (shadow_put st s))) Q
       (w\<lparr>w_tick := Suc (w_tick w)\<rparr>)"
  by (simp add: put_observed_def wp_stores put_with_def wp_simps Let_def split: put_outcome.split)

lemma wp_set_record [wp_simps]: "wp (set_record r) Q w \<longleftrightarrow> Q () (w\<lparr>w_record := r\<rparr>)"
  by (simp add: set_record_def wp_simps)

lemma wp_update_record [wp_simps]:
  "wp (update_record env f) Q w \<longleftrightarrow>
     Q () (w\<lparr>w_tick := Suc (w_tick w), w_record := f (ev_now env (w_tick w)) (w_record w)\<rparr>)"
  by (cases w) (simp add: update_record_def wp_simps)

lemma wp_transition [wp_stores]:
  "wp (transition env ph) Q w \<longleftrightarrow>
     (if is_allowed (jr_phase (w_record w)) ph
      then Q (Inr ()) (w\<lparr>w_tick := Suc (w_tick w), w_record := (w_record w)\<lparr>jr_phase := ph,
             jr_updated_at := ev_now env (w_tick w)\<rparr>\<rparr>)
      else Q (Inl (InvalidPhaseTransition (debug_phase (jr_phase (w_record w))) (debug_phase ph)))
             (w\<lparr>w_tick := Suc (w_tick w)\<rparr>))"
  by (simp add: transition_def wp_stores transition_phase_def validate_transition_def wp_simps)

lemma wp_put_record [wp_stores]:
  "wp (put_record env) Q w \<longleftrightarrow>
     put_with (ev_journal_put env (w_tick w))
       (w_journal_update (bm_insert (jr_tx_id (w_record w)) (w_record w))) Q
       (w\<lparr>w_tick := Suc (w_tick w)\<rparr>)"
  by (simp add: put_record_def wp_stores wp_simps)

definition log_call :: "string \<Rightarrow> rpc \<Rightarrow> DeviceId \<Rightarrow> world \<Rightarrow> rpc_entry" where
  "log_call t op d w = \<lparr>re_rpc = op, re_device = d, re_tx_id = t,
     re_durable_phase = map_option jr_phase (bm_get (w_journal w) t)\<rparr>"

lemma wp_call_as [wp_stores]:
  "wp (call_as env t op d) Q w \<longleftrightarrow>
     Q (ev_rpc env d op (w_tick w))
       (w\<lparr>w_tick := Suc (w_tick w), w_log := w_log w @ [log_call t op d w]\<rparr>)"
  by (cases w) (simp add: call_as_def wp_stores wp_simps log_call_def)

lemma wp_call [wp_stores]:
  "wp (call env op d) Q w \<longleftrightarrow>
     Q (ev_rpc env d op (w_tick w))
       (w\<lparr>w_tick := Suc (w_tick w), w_log := w_log w @ [log_call (jr_tx_id (w_record w)) op d w]\<rparr>)"
  by (simp add: call_def wp_stores wp_simps)

section \<open>Evaluation\<close>

text \<open>Congruences that keep the simplifier out of the continuations, so that a concrete run is
  evaluated in the order in which it happens.\<close>

lemma eval_wp_cong: "m = m' \<Longrightarrow> w = w' \<Longrightarrow> wp m Q w = wp m' Q w'"
  by simp

lemma eval_on_result_cong: "r = r' \<Longrightarrow> w = w' \<Longrightarrow> on_result E K r w = on_result E K r' w'"
  by simp

lemma eval_put_cong: "o1 = o2 \<Longrightarrow> w = w' \<Longrightarrow> put_with o1 s Q w = put_with o2 s Q w'"
  by simp

lemma eval_step_congs:
  "m = m' \<Longrightarrow> try_then m k = try_then m' k"
  "n = n' \<Longrightarrow> on_error n h j = on_error n' h j"
  "p = p' \<Longrightarrow> State_Monad.bind p l = State_Monad.bind p' l"
  by simp_all

lemmas wp_eval_congs = eval_wp_cong eval_on_result_cong eval_put_cong eval_step_congs

end
