(* ===== verification/Apply_Safety.thy ===== *)
theory Apply_Safety
  imports Apply Wp
begin

text \<open>
  What a transaction of the apply coordinator does to the journal, the devices and the shadow store,
  in every environment: whatever the adapters answer and whichever store calls fail.

  \<open>tx_frame r0 d w0 ops w\<close> is the invariant of a transaction that was opened in world \<open>w0\<close> with
  record \<open>r0\<close> for device \<open>d\<close>: it has issued the calls \<open>ops\<close>, each while the journal durably held the
  phase of that call, and has touched nothing but its own journal entry.
\<close>

section \<open>The invariant of a transaction\<close>

fun phase_for :: "rpc \<Rightarrow> TxPhase option" where
  "phase_for (RpcPrepare _) = Some Preparing"
| "phase_for (RpcCommit _ _ _) = Some Committing"
| "phase_for (RpcVerify _ _) = Some Verifying"
| "phase_for RpcFinalConfirm = Some FinalConfirming"
| "phase_for (RpcRollback _) = Some RollingBack"
| "phase_for (RpcRecover _ _) = Some Recovering"
| "phase_for (RpcForceUnlock _ _ _) = None"

definition entry :: "string \<Rightarrow> DeviceId \<Rightarrow> rpc \<Rightarrow> rpc_entry" where
  "entry t d op = \<lparr>re_rpc = op, re_device = d, re_tx_id = t, re_durable_phase = phase_for op\<rparr>"

definition same_tx :: "TxJournalRecord \<Rightarrow> TxJournalRecord \<Rightarrow> bool" where
  "same_tx r0 r \<longleftrightarrow> jr_tx_id r = jr_tx_id r0 \<and> jr_request_id r = jr_request_id r0 \<and>
     jr_trace_id r = jr_trace_id r0 \<and> jr_devices r = jr_devices r0 \<and>
     jr_desired_states r = jr_desired_states r0 \<and> jr_change_sets r = jr_change_sets r0"

lemma same_tx_updates [simp]:
  "same_tx r0 (r\<lparr>jr_phase := ph\<rparr>) = same_tx r0 r"
  "same_tx r0 (r\<lparr>jr_updated_at := now\<rparr>) = same_tx r0 r"
  "same_tx r0 (with_strategy now s r) = same_tx r0 r"
  "same_tx r0 (with_error now c m r) = same_tx r0 r"
  by (simp_all add: same_tx_def with_strategy_def with_error_def)

lemma record_phase [simp]:
  "jr_phase (with_strategy now s r) = jr_phase r"
  "jr_phase (with_error now c m r) = jr_phase r"
  "jr_strategy (with_strategy now s r) = Some s"
  by (simp_all add: with_strategy_def with_error_def)

lemma same_tx_id: "same_tx r0 r \<Longrightarrow> jr_tx_id r = jr_tx_id r0"
  by (simp add: same_tx_def)

definition reliable_journal :: "env \<Rightarrow> bool" where
  "reliable_journal env \<longleftrightarrow> (\<forall>n. ev_journal_put env n = Stored)"

definition durable :: "world \<Rightarrow> string \<Rightarrow> TxJournalRecord option" where
  "durable w t = bm_get (w_journal w) t"

definition tx_frame :: "TxJournalRecord \<Rightarrow> DeviceId \<Rightarrow> world \<Rightarrow> rpc list \<Rightarrow> world \<Rightarrow> bool" where
  "tx_frame r0 d w0 ops w \<longleftrightarrow>
     same_tx r0 (w_record w) \<and> w_inventory w = w_inventory w0 \<and> w_shadow w = w_shadow w0 \<and>
     w_events w = w_events w0 \<and> w_log w = w_log w0 @ map (entry (jr_tx_id r0) d) ops \<and>
     (\<forall>t. t \<noteq> jr_tx_id r0 \<longrightarrow> durable w t = durable w0 t) \<and>
     (\<exists>r. durable w (jr_tx_id r0) = Some r \<and> same_tx r0 r)"

definition in_tx :: "TxJournalRecord \<Rightarrow> DeviceId \<Rightarrow> world \<Rightarrow> TxPhase \<Rightarrow> rpc list \<Rightarrow> world \<Rightarrow> bool" where
  "in_tx r0 d w0 ph ops w \<longleftrightarrow>
     tx_frame r0 d w0 ops w \<and> jr_phase (w_record w) = ph \<and> durable w (jr_tx_id r0) = Some (w_record w)"

lemma durable_updates [simp]:
  "durable (w\<lparr>w_tick := n\<rparr>) t = durable w t"
  "durable (w\<lparr>w_record := r\<rparr>) t = durable w t"
  "durable (w\<lparr>w_log := l\<rparr>) t = durable w t"
  "durable (w\<lparr>w_shadow := s\<rparr>) t = durable w t"
  "durable (w_shadow_update f w) t = durable w t"
  "durable (w_events_update g w) t = durable w t"
  "durable (w_journal_update (bm_insert u r) w) t = (if t = u then Some r else durable w t)"
  by (simp_all add: durable_def bm_get_insert)

lemma tx_frame_tick [simp]: "tx_frame r0 d w0 ops (w\<lparr>w_tick := n\<rparr>) = tx_frame r0 d w0 ops w"
  by (simp add: tx_frame_def)

lemma in_tx_tick [simp]: "in_tx r0 d w0 ph ops (w\<lparr>w_tick := n\<rparr>) = in_tx r0 d w0 ph ops w"
  by (simp add: in_tx_def)

lemma tx_frame_record:
  "tx_frame r0 d w0 ops w \<Longrightarrow> same_tx r0 r \<Longrightarrow> tx_frame r0 d w0 ops (w\<lparr>w_record := r\<rparr>)"
  by (simp add: tx_frame_def)

lemma tx_frame_store:
  "tx_frame r0 d w0 ops w \<Longrightarrow> same_tx r0 r \<Longrightarrow>
   tx_frame r0 d w0 ops (w_journal_update (bm_insert (jr_tx_id r) r) w)"
  by (simp add: tx_frame_def same_tx_id)

lemma in_tx_frame: "in_tx r0 d w0 ph ops w \<Longrightarrow> tx_frame r0 d w0 ops w"
  by (simp add: in_tx_def)

lemma in_tx_same: "in_tx r0 d w0 ph ops w \<Longrightarrow> same_tx r0 (w_record w)"
  by (simp add: in_tx_def tx_frame_def)

section \<open>Steps of a transaction\<close>

text \<open>Storing the record.  An error is possible only when the journal may fail.\<close>

lemma wp_put_record_tx:
  assumes "tx_frame r0 d w0 ops w"
    and "\<And>w'. in_tx r0 d w0 (jr_phase (w_record w)) ops w' \<Longrightarrow> w_record w' = w_record w \<Longrightarrow> K () w'"
    and "\<And>e w'. tx_frame r0 d w0 ops w' \<Longrightarrow> w_record w' = w_record w \<Longrightarrow> \<not> reliable_journal env \<Longrightarrow> E e w'"
  shows "wp (put_record env) (on_result E K) w"
proof -
  let ?w = "w\<lparr>w_tick := Suc (w_tick w)\<rparr>"
  let ?s = "w_journal_update (bm_insert (jr_tx_id (w_record w)) (w_record w)) ?w"
  have same: "same_tx r0 (w_record w)" using assms(1) by (simp add: tx_frame_def)
  have frame: "tx_frame r0 d w0 ops ?w" "tx_frame r0 d w0 ops ?s"
    using assms(1) same tx_frame_store[of r0 d w0 ops ?w "w_record w"] by simp_all
  moreover have "in_tx r0 d w0 (jr_phase (w_record w)) ops ?s"
    using frame same by (simp add: in_tx_def same_tx_id)
  ultimately show ?thesis
    unfolding wp_put_record
    by (intro put_withI) (auto intro!: assms(2,3) simp: reliable_journal_def)
qed

lemma wp_advance_frame:
  assumes "tx_frame r0 d w0 ops w" and "jr_phase (w_record w) = ph" and "is_allowed ph ph'"
    and "\<And>w'. in_tx r0 d w0 ph' ops w' \<Longrightarrow> jr_strategy (w_record w') = jr_strategy (w_record w) \<Longrightarrow> K () w'"
    and "\<And>e w'. tx_frame r0 d w0 ops w' \<Longrightarrow> jr_phase (w_record w') = ph' \<Longrightarrow>
      jr_strategy (w_record w') = jr_strategy (w_record w) \<Longrightarrow> \<not> reliable_journal env \<Longrightarrow> E' e w'"
  shows "wp (transition env ph') (on_result E (\<lambda>_. wp (put_record env) (on_result E' K))) w"
proof -
  let ?w = "w\<lparr>w_tick := Suc (w_tick w), w_record := (w_record w)\<lparr>jr_phase := ph',
             jr_updated_at := ev_now env (w_tick w)\<rparr>\<rparr>"
  have "tx_frame r0 d w0 ops ?w"
    using assms(1) by (intro tx_frame_record) (simp_all add: tx_frame_def)
  then have "wp (put_record env) (on_result E' K) ?w"
    by (rule wp_put_record_tx) (use assms(4,5) in auto)
  then show ?thesis using assms(2,3) by (simp add: wp_transition)
qed

lemma wp_advance:
  assumes "in_tx r0 d w0 ph ops w" and "is_allowed ph ph'"
    and "\<And>w'. in_tx r0 d w0 ph' ops w' \<Longrightarrow> jr_strategy (w_record w') = jr_strategy (w_record w) \<Longrightarrow> K () w'"
    and "\<And>e w'. tx_frame r0 d w0 ops w' \<Longrightarrow> jr_phase (w_record w') = ph' \<Longrightarrow>
      jr_strategy (w_record w') = jr_strategy (w_record w) \<Longrightarrow> \<not> reliable_journal env \<Longrightarrow> E' e w'"
  shows "wp (transition env ph') (on_result E (\<lambda>_. wp (put_record env) (on_result E' K))) w"
  by (rule wp_advance_frame[OF in_tx_frame[OF assms(1)] _ assms(2)])
    (use assms in \<open>auto simp: in_tx_def\<close>)

lemma wp_call_tx:
  assumes "in_tx r0 d w0 ph ops w" and "phase_for op = Some ph"
    and "\<And>r w'. in_tx r0 d w0 ph (ops @ [op]) w' \<Longrightarrow> w_record w' = w_record w \<Longrightarrow> Q r w'"
  shows "wp (call env op d) Q w"
  unfolding wp_call
proof (rule assms(3))
  have "log_call (jr_tx_id (w_record w)) op d w = entry (jr_tx_id r0) d op"
    using assms(1,2) by (simp add: log_call_def entry_def in_tx_def durable_def same_tx_id[OF in_tx_same[OF assms(1)]])
  then show "in_tx r0 d w0 ph (ops @ [op])
    (w\<lparr>w_tick := Suc (w_tick w), w_log := w_log w @ [log_call (jr_tx_id (w_record w)) op d w]\<rparr>)"
    using assms(1) by (simp add: in_tx_def tx_frame_def)
qed simp

section \<open>Failures\<close>

text \<open>How a failed transaction leaves things: its record is in doubt or rolled back only after a
  rollback call; with a reliable journal it failed before the first call or ended with a rollback
  call, and the journal holds its record.\<close>

definition tx_failed :: "env \<Rightarrow> TxJournalRecord \<Rightarrow> DeviceId \<Rightarrow> world \<Rightarrow> world \<Rightarrow> bool" where
  "tx_failed env r0 d w0 w \<longleftrightarrow> (\<exists>ops. tx_frame r0 d w0 ops w \<and>
     jr_phase (w_record w) \<notin> {Started, RollingBack, Recovering, Committed, Failed, ForceResolved} \<and>
     (jr_phase (w_record w) \<in> {RolledBack, InDoubt} \<longrightarrow> ops \<noteq> [] \<and> (\<exists>s. last ops = RpcRollback s)) \<and>
     (reliable_journal env \<longrightarrow> durable w (jr_tx_id r0) = Some (w_record w) \<and>
       (jr_phase (w_record w) \<in> {RolledBack, InDoubt} \<or> jr_phase (w_record w) = Preparing \<and> ops = [])))"

definition forward :: "TxPhase \<Rightarrow> bool" where
  "forward ph \<longleftrightarrow> ph \<in> {Preparing, Prepared, Committing, Verifying, FinalConfirming}"

lemma tx_failed_broken:
  "tx_frame r0 d w0 ops w \<Longrightarrow> forward (jr_phase (w_record w)) \<Longrightarrow> \<not> reliable_journal env \<Longrightarrow>
   tx_failed env r0 d w0 w"
  by (auto simp: tx_failed_def forward_def)

lemma tx_failed_early:
  "in_tx r0 d w0 Preparing [] w \<Longrightarrow> tx_failed env r0 d w0 w"
  by (auto simp: tx_failed_def in_tx_def)

lemma tx_failed_late:
  "tx_frame r0 d w0 (ops @ [RpcRollback s]) w \<Longrightarrow> jr_phase (w_record w) \<in> {RolledBack, InDoubt} \<Longrightarrow>
   (reliable_journal env \<Longrightarrow> durable w (jr_tx_id r0) = Some (w_record w)) \<Longrightarrow>
   tx_failed env r0 d w0 w"
  unfolding tx_failed_def by (rule exI[of _ "ops @ [RpcRollback s]"]) auto

lemma tx_failed_tick [simp]: "tx_failed env r0 d w0 (w\<lparr>w_tick := n\<rparr>) = tx_failed env r0 d w0 w"
  by (simp add: tx_failed_def)

text \<open>The end of a rollback that did not succeed: the record goes in doubt with an error.\<close>

lemma wp_rollback_in_doubt:
  assumes "in_tx r0 d w0 RollingBack (ops @ [RpcRollback s]) w"
  shows "wp (try_then (transition env InDoubt) (\<lambda>_.
      State_Monad.bind (update_record env (\<lambda>now. with_error now code message)) (\<lambda>_.
      try_then (put_record env) (\<lambda>_. throw err)))) (on_result (\<lambda>_. tx_failed env r0 d w0) (\<lambda>_ _. False)) w"
proof -
  let ?w = "w\<lparr>w_tick := Suc (w_tick w), w_record := (w_record w)\<lparr>jr_phase := InDoubt,
             jr_updated_at := ev_now env (w_tick w)\<rparr>\<rparr>"
  let ?v = "?w\<lparr>w_tick := Suc (w_tick ?w),
             w_record := with_error (ev_now env (w_tick ?w)) code message (w_record ?w)\<rparr>"
  have frame: "tx_frame r0 d w0 (ops @ [RpcRollback s]) ?v"
    using assms by (intro tx_frame_record) (simp_all add: in_tx_def tx_frame_def)
  have phase: "jr_phase (w_record ?v) = InDoubt" by simp
  have "wp (put_record env)
      (on_result (\<lambda>_. tx_failed env r0 d w0) (\<lambda>_. tx_failed env r0 d w0)) ?v"
    by (rule wp_put_record_tx[OF frame]) (auto intro!: tx_failed_late simp: in_tx_def)
  then show ?thesis using assms by (simp add: wp_simps wp_transition in_tx_def)
qed

lemma wp_rollback:
  assumes "in_tx r0 d w0 ph ops w" and "forward ph"
  shows "wp (rollback_after_endpoint_failure env d)
      (on_result (\<lambda>_. tx_failed env r0 d w0) (\<lambda>_. tx_failed env r0 d w0)) w"
proof -
  let ?T = "tx_failed env r0 d w0"
  let ?post = "on_result (\<lambda>_. ?T) (\<lambda>_. ?T) :: unit result \<Rightarrow> world \<Rightarrow> bool"
  have doubt: "wp (try_then (transition env InDoubt) (\<lambda>_.
      State_Monad.bind (update_record env (\<lambda>now. with_error now code message)) (\<lambda>_.
      try_then (put_record env) (\<lambda>_. throw err)))) ?post w1"
    if "in_tx r0 d w0 RollingBack (ops @ [RpcRollback s]) w1" for w1 code message err s
    by (rule wp_mono[OF wp_rollback_in_doubt[OF that]]) (auto simp: on_result_iff)
  have undone: "wp (try_then (transition env RolledBack) (\<lambda>_. put_record env)) ?post w1"
    if "in_tx r0 d w0 RollingBack (ops @ [RpcRollback s]) w1" for w1 s
  proof -
    have "wp (transition env RolledBack) (on_result (\<lambda>_. ?T) (\<lambda>_. wp (put_record env) ?post)) w1"
      by (rule wp_advance[OF that]) (auto simp: in_tx_def intro!: tx_failed_late)
    then show ?thesis by (simp add: wp_simps)
  qed
  show ?thesis
    unfolding rollback_after_endpoint_failure_def wp_bind wp_reads wp_try_then wp_on_error
  proof (rule wp_advance[OF assms(1)], goal_cases)
    case 1
    then show ?case using assms(2) by (auto simp: forward_def)
  next
    case (2 w')
    show ?case
      unfolding wp_bind wp_reads wp_try_then[symmetric]
      by (rule wp_call_tx[OF 2(1)])
        (auto simp only: phase_for.simps on_result_iff Let_def split: prod.split if_split intro!: doubt undone)
  next
    case (3 e w')
    have "tx_frame r0 d w0 ops (w'\<lparr>w_record := w_record w\<rparr>)"
      using 3 assms(1) by (intro tx_frame_record) (simp_all add: in_tx_same)
    then have "tx_failed env r0 d w0 (w'\<lparr>w_record := w_record w\<rparr>)"
      using 3 assms by (intro tx_failed_broken) (simp_all add: in_tx_def)
    then show ?case by (simp add: wp_simps)
  qed
qed

lemma wp_rollback_preserving:
  assumes "in_tx r0 d w0 ph ops w" and "forward ph"
  shows "wp (rollback_preserving_primary env d err) (on_result (\<lambda>_. tx_failed env r0 d w0) (\<lambda>_ _. False)) w"
  unfolding rollback_preserving_primary_def wp_on_error
  by (rule wp_mono[OF wp_rollback[OF assms]]) (auto simp: on_result_iff wp_simps)

section \<open>The steps on one endpoint\<close>

text \<open>A step that is announced in the journal before its call: if the handlers of the call are safe
  after it, so is the step.\<close>

lemma wp_announced_call:
  assumes "in_tx r0 d w0 ph ops w" and "is_allowed ph ph'" and "phase_for op = Some ph'" and "forward ph'"
    and "\<And>e w'. in_tx r0 d w0 ph' (ops @ [op]) w' \<Longrightarrow> wp (h e) (on_result (\<lambda>_. tx_failed env r0 d w0) Q) w'"
    and "\<And>x w'. in_tx r0 d w0 ph' (ops @ [op]) w' \<Longrightarrow> wp (k x) (on_result (\<lambda>_. tx_failed env r0 d w0) Q) w'"
  shows "wp (try_then (transition env ph') (\<lambda>_. try_then (put_record env) (\<lambda>_. on_error (call env op d) h k)))
    (on_result (\<lambda>_. tx_failed env r0 d w0) Q) w"
  unfolding wp_try_then wp_on_error on_result_simps
proof (rule wp_advance[OF assms(1,2)])
  fix w' assume "in_tx r0 d w0 ph' ops w'"
  then show "wp (call env op d) (on_result
      (\<lambda>e. wp (h e) (on_result (\<lambda>_. tx_failed env r0 d w0) Q))
      (\<lambda>x. wp (k x) (on_result (\<lambda>_. tx_failed env r0 d w0) Q))) w'"
    by (rule wp_call_tx) (use assms(3,5,6) in \<open>auto simp: on_result_iff\<close>)
next
  fix w' assume "tx_frame r0 d w0 ops w'" "jr_phase (w_record w') = ph'" "\<not> reliable_journal env"
  then show "tx_failed env r0 d w0 w'" using assms(4) by (intro tx_failed_broken) simp_all
qed

lemma wp_rollback_then:
  assumes "in_tx r0 d w0 ph ops w" and "forward ph"
  shows "wp (try_then (rollback_preserving_primary env d err) k) (on_result (\<lambda>_. tx_failed env r0 d w0) Q) w"
  unfolding wp_try_then
  by (rule wp_mono[OF wp_rollback_preserving[OF assms]]) (auto simp: on_result_iff)

lemma wp_rollback_instead:
  assumes "in_tx r0 d w0 ph ops w" and "forward ph"
  shows "wp (rollback_preserving_primary env d err) (on_result (\<lambda>_. tx_failed env r0 d w0) Q) w"
  by (rule wp_mono[OF wp_rollback_preserving[OF assms]]) (auto simp: on_result_iff)

lemma forward_phases [simp]:
  "forward Preparing" "forward Prepared" "forward Committing" "forward Verifying" "forward FinalConfirming"
  by (simp_all add: forward_def)

lemma wp_prepare_endpoint:
  assumes "in_tx r0 d w0 Preparing ops w"
  shows "wp (prepare_endpoint env d desired)
    (on_result (\<lambda>_. tx_failed env r0 d w0) (\<lambda>_. in_tx r0 d w0 Prepared (ops @ [RpcPrepare desired]))) w"
  unfolding prepare_endpoint_def wp_on_error
proof (rule wp_call_tx[OF assms], simp, simp only: on_result_iff, intro conjI allI impI, goal_cases)
  case (1 r w' e)
  show ?case by (rule wp_rollback_then[OF 1(1)]) simp
next
  case (2 r w' prepare)
  let ?post = "on_result (\<lambda>_. tx_failed env r0 d w0)
    (\<lambda>_. in_tx r0 d w0 Prepared (ops @ [RpcPrepare desired])) :: string option result \<Rightarrow> world \<Rightarrow> bool"
  have "wp (try_then (transition env Prepared) (\<lambda>_. try_then (put_record env) (\<lambda>_. ok (ao_prepared_candidate_checksum prepare)))) ?post w'"
    unfolding wp_try_then wp_ok on_result_simps
    by (rule wp_advance[OF 2(1)]) (auto intro: tx_failed_broken)
  moreover have "wp (try_then (rollback_preserving_primary env d
      (unexpected_status ''UNEXPECTED_PREPARE_STATUS'' ''prepare'' prepare)) (\<lambda>_. ok None)) ?post w'"
    by (rule wp_rollback_then[OF 2(1)]) simp
  ultimately show ?case by simp
qed

lemma wp_commit_endpoint:
  assumes "in_tx r0 d w0 Prepared ops w"
  shows "wp (commit_endpoint env d strategy checksum)
    (on_result (\<lambda>_. tx_failed env r0 d w0) (\<lambda>_. in_tx r0 d w0 Committing
      (ops @ [RpcCommit strategy (max 1 (ev_confirmed_commit_timeout_secs env)) checksum]))) w"
  unfolding commit_endpoint_def
  by (rule wp_announced_call[OF assms]) (auto simp: wp_ok intro!: wp_rollback_then)

lemma wp_verify_endpoint:
  assumes "in_tx r0 d w0 Committing ops w"
  shows "wp (verify_endpoint env d desired cs)
    (on_result (\<lambda>_. tx_failed env r0 d w0) (\<lambda>_. in_tx r0 d w0 Verifying (ops @ [RpcVerify desired cs]))) w"
  unfolding verify_endpoint_def
  by (rule wp_announced_call[OF assms]) (auto simp: wp_ok intro!: wp_rollback_then)

lemma wp_final_confirm_endpoint:
  assumes "in_tx r0 d w0 Verifying ops w"
  shows "wp (final_confirm_endpoint env d)
    (on_result (\<lambda>_. tx_failed env r0 d w0) (\<lambda>_. in_tx r0 d w0 FinalConfirming (ops @ [RpcFinalConfirm]))) w"
  unfolding final_confirm_endpoint_def
  by (rule wp_announced_call[OF assms]) (auto simp: wp_ok intro!: wp_rollback_instead)

lemma wp_finalize_non_confirmed_commit:
  assumes "in_tx r0 d w0 Verifying ops w"
  shows "wp (finalize_non_confirmed_commit env)
    (on_result (\<lambda>_. tx_failed env r0 d w0) (\<lambda>_. in_tx r0 d w0 FinalConfirming ops)) w"
  unfolding finalize_non_confirmed_commit_def wp_try_then on_result_simps
  by (rule wp_advance[OF assms]) (auto intro: tx_failed_broken)

section \<open>One transaction\<close>

text \<open>The calls of a transaction that succeeds.\<close>

definition committed_ops ::
  "env \<Rightarrow> DeviceDesiredState \<Rightarrow> ChangeSet \<Rightarrow> TransactionStrategy \<Rightarrow> string option \<Rightarrow> rpc list" where
  "committed_ops env desired cs strategy checksum =
     [RpcPrepare desired, RpcCommit strategy (max 1 (ev_confirmed_commit_timeout_secs env)) checksum,
      RpcVerify desired cs] @ (if strategy = ConfirmedCommit then [RpcFinalConfirm] else [])"

definition tx_applied ::
  "env \<Rightarrow> TxJournalRecord \<Rightarrow> world \<Rightarrow> DeviceDesiredState \<Rightarrow> bool \<Rightarrow> ChangeSet \<Rightarrow> TransactionStrategy \<Rightarrow> world \<Rightarrow> bool" where
  "tx_applied env r0 w0 desired allow cs strategy w \<longleftrightarrow>
     is_supported strategy \<and> (is_degraded strategy \<longrightarrow> allow) \<and>
     (\<exists>c. in_tx r0 (ds_device_id desired) w0 FinalConfirming (committed_ops env desired cs strategy c) w)"

lemma wp_transaction_steps:
  assumes "in_tx r0 d w0 Preparing [] w" and "d = ds_device_id desired"
    and "is_supported strategy" and "is_degraded strategy \<Longrightarrow> allow"
  shows "wp (try_then (prepare_endpoint env d desired) (\<lambda>checksum.
        try_then (commit_endpoint env d strategy checksum) (\<lambda>_.
        try_then (verify_endpoint env d desired cs) (\<lambda>report.
        try_then (if strategy = ConfirmedCommit then final_confirm_endpoint env d
                  else finalize_non_confirmed_commit env) (\<lambda>_.
        ok (strategy, report))))))
      (on_result (\<lambda>_. tx_failed env r0 d w0)
        (\<lambda>(strategy, report). tx_applied env r0 w0 desired allow cs strategy)) w"
proof (rule wp_then[OF wp_prepare_endpoint[OF assms(1)]], rule wp_then[OF wp_commit_endpoint], assumption,
    rule wp_then[OF wp_verify_endpoint], assumption)
  fix c w2 report
  let ?ops = "(([] @ [RpcPrepare desired]) @ [RpcCommit strategy (max 1 (ev_confirmed_commit_timeout_secs env)) c])
    @ [RpcVerify desired cs]"
  let ?confirm = "if strategy = ConfirmedCommit then [RpcFinalConfirm] else []"
  assume v: "in_tx r0 d w0 Verifying ?ops w2"
  have confirmed: "wp (if strategy = ConfirmedCommit then final_confirm_endpoint env d else finalize_non_confirmed_commit env)
    (on_result (\<lambda>_. tx_failed env r0 d w0) (\<lambda>_. in_tx r0 d w0 FinalConfirming (?ops @ ?confirm))) w2"
    using wp_final_confirm_endpoint[OF v, of env] wp_finalize_non_confirmed_commit[OF v, of env]
    by (cases "strategy = ConfirmedCommit") simp_all
  have "?ops @ ?confirm = committed_ops env desired cs strategy c"
    by (simp add: committed_ops_def)
  then show "wp (try_then (if strategy = ConfirmedCommit then final_confirm_endpoint env d
        else finalize_non_confirmed_commit env) (\<lambda>_. ok (strategy, report)))
    (on_result (\<lambda>_. tx_failed env r0 d w0) (\<lambda>(strategy, report). tx_applied env r0 w0 desired allow cs strategy)) w2"
    using assms(2-4) by (intro wp_then[OF confirmed]) (auto simp: wp_ok tx_applied_def)
qed

lemma in_tx_strategy:
  assumes "in_tx r0 d w0 ph ops w"
  shows "tx_frame r0 d w0 ops (w\<lparr>w_tick := n, w_record := with_strategy now s (w_record w)\<rparr>)"
  using assms by (intro tx_frame_record) (simp_all add: in_tx_frame in_tx_same)

lemma wp_apply_changed_endpoint:
  assumes "in_tx r0 (ds_device_id desired) w0 Preparing [] w"
  shows "wp (apply_changed_endpoint env allow desired cs)
    (on_result (\<lambda>_. tx_failed env r0 (ds_device_id desired) w0)
      (\<lambda>(strategy, report). tx_applied env r0 w0 desired allow cs strategy)) w"
proof -
  let ?d = "ds_device_id desired"
  let ?F = "tx_failed env r0 ?d w0"
  let ?post = "on_result (\<lambda>_. ?F) (\<lambda>(strategy, report). tx_applied env r0 w0 desired allow cs strategy)
    :: (TransactionStrategy \<times> DeviceVerifyReport) result \<Rightarrow> world \<Rightarrow> bool"
  let ?steps = "\<lambda>strategy. try_then (prepare_endpoint env ?d desired) (\<lambda>checksum.
        try_then (commit_endpoint env ?d strategy checksum) (\<lambda>_.
        try_then (verify_endpoint env ?d desired cs) (\<lambda>report.
        try_then (if strategy = ConfirmedCommit then final_confirm_endpoint env ?d
                  else finalize_non_confirmed_commit env) (\<lambda>_.
        ok (strategy, report)))))"
  note early = tx_failed_early[where env = env]
  have steps: "wp (try_then (put_record env) (\<lambda>_. ?steps strategy)) ?post
      (w1\<lparr>w_tick := Suc (w_tick w1), w_record := with_strategy now strategy (w_record w1)\<rparr>)"
    if "in_tx r0 ?d w0 Preparing [] w1" "is_supported strategy" "is_degraded strategy \<Longrightarrow> allow" for w1 strategy now
  proof (rule wp_then[OF wp_put_record_tx[OF in_tx_strategy[OF that(1)]]])
    fix w2 assume "in_tx r0 ?d w0 (jr_phase (w_record
      (w1\<lparr>w_tick := Suc (w_tick w1), w_record := with_strategy now strategy (w_record w1)\<rparr>))) [] w2"
    then show "in_tx r0 ?d w0 Preparing [] w2" using that(1) by (simp add: in_tx_def)
  next
    fix w2 assume "tx_frame r0 ?d w0 [] w2" "\<not> reliable_journal env"
      "w_record w2 = w_record (w1\<lparr>w_tick := Suc (w_tick w1), w_record := with_strategy now strategy (w_record w1)\<rparr>)"
    then show "?F w2" using that(1) by (intro tx_failed_broken) (simp_all add: in_tx_def)
  next
    fix w2 assume "in_tx r0 ?d w0 Preparing [] w2"
    then show "wp (?steps strategy) ?post w2" by (rule wp_transaction_steps) (use that in auto)
  qed
  show ?thesis
    unfolding apply_changed_endpoint_def Let_def
  proof (rule wp_then[where Q = "\<lambda>_. in_tx r0 ?d w0 Preparing []"], goal_cases)
    case 1
    show ?case using assms by (auto simp: wp_simps on_result_iff intro: early)
  next
    case (2 managed w1)
    show ?case
    proof (rule wp_then[where Q = "\<lambda>_. in_tx r0 ?d w0 Preparing []"], goal_cases)
      case 1
      show ?case using 2 by (auto simp: wp_simps on_result_iff split: option.split intro: early)
    next
      case (2 u w2)
      show ?case
      proof (rule wp_then[where Q = "\<lambda>_. in_tx r0 ?d w0 Preparing []"], goal_cases)
        case 1
        show ?case using 2 by (auto simp: wp_simps on_result_iff split: option.split intro: early)
      next
        case (2 capability w3)
        then show ?case
          using steps[OF 2] by (auto simp: wp_simps intro: early)
      qed
    qed
  qed
qed

lemma wp_apply_changed_endpoint_states:
  assumes "in_tx r0 (ds_device_id desired) w0 Preparing [] w"
  shows "wp (apply_changed_endpoint_states env plan allow [desired] None None)
    (on_result (\<lambda>_. tx_failed env r0 (ds_device_id desired) w0)
      (\<lambda>(strategy, report) w. \<exists>cs. find (\<lambda>cs. cs_device_id cs = ds_device_id desired) (dn_change_sets plan) = Some cs \<and>
        tx_applied env r0 w0 desired allow cs strategy w)) w"
proof (cases "find (\<lambda>cs. cs_device_id cs = ds_device_id desired) (dn_change_sets plan)")
  case None
  then show ?thesis using assms by (simp add: wp_simps tx_failed_early)
next
  case (Some cs)
  show ?thesis
  proof (cases "cs_is_empty cs")
    case True
    then show ?thesis using Some assms by (simp add: wp_simps tx_failed_early)
  next
    case False
    then have "apply_changed_endpoint_states env plan allow [desired] None None =
        try_then (apply_changed_endpoint env allow desired cs) (\<lambda>(strategy, report). ok (strategy, Some report))"
      using Some by simp
    then show ?thesis
      by (simp only:, intro wp_then[OF wp_apply_changed_endpoint[OF assms]]) (auto simp: wp_simps Some)
  qed
qed

section \<open>Finishing\<close>

definition durable_phase :: "world \<Rightarrow> string \<Rightarrow> TxPhase option" where
  "durable_phase w t = map_option jr_phase (durable w t)"

text \<open>What a finished transaction may have done, whatever its result.\<close>

definition tx_closed :: "TxJournalRecord \<Rightarrow> DeviceId \<Rightarrow> world \<Rightarrow> rpc list \<Rightarrow> world \<Rightarrow> bool" where
  "tx_closed r0 d w0 ops w \<longleftrightarrow>
     w_inventory w = w_inventory w0 \<and> w_events w = w_events w0 \<and>
     w_log w = w_log w0 @ map (entry (jr_tx_id r0) d) ops \<and>
     (\<forall>t. t \<noteq> jr_tx_id r0 \<longrightarrow> durable w t = durable w0 t) \<and>
     (\<exists>r. durable w (jr_tx_id r0) = Some r \<and> same_tx r0 r) \<and>
     (\<forall>d'. d' \<noteq> d \<longrightarrow> bm_get (w_shadow w) d' = bm_get (w_shadow w0) d')"

lemma tx_frame_closed: "tx_frame r0 d w0 ops w \<Longrightarrow> tx_closed r0 d w0 ops w"
  by (simp add: tx_frame_def tx_closed_def)

lemma tx_frame_shadow:
  "tx_frame r0 d w0 ops w \<Longrightarrow> tx_frame r0 d (w_shadow_update f w0) ops (w_shadow_update f w)"
  by (simp add: tx_frame_def)

lemma in_tx_shadow:
  "in_tx r0 d w0 ph ops w \<Longrightarrow> in_tx r0 d (w_shadow_update f w0) ph ops (w_shadow_update f w)"
  by (simp add: in_tx_def tx_frame_shadow)

lemma apply_op_device [simp]: "ss_device_id (foldl apply_op st ops) = ss_device_id st"
proof (induction ops arbitrary: st)
  case (Cons op ops)
  have "ss_device_id (apply_op st op) = ss_device_id st" by (cases op) simp_all
  then show ?case using Cons.IH by simp
qed simp

lemma apply_to_shadow_device [simp]: "ss_device_id (apply_to_shadow cs base desired n) = ds_device_id desired"
  by (simp add: apply_to_shadow_def Let_def)

lemma tx_closed_shadow:
  assumes "tx_frame r0 d (w_shadow_update (\<lambda>s. snd (shadow_put st s)) w0) ops w" and "ss_device_id st = d"
  shows "tx_closed r0 d w0 ops w"
  using assms by (auto simp: tx_frame_def tx_closed_def shadow_put_eq Let_def bm_get_insert)

definition in_doubt_outcome ::
  "env \<Rightarrow> TxJournalRecord \<Rightarrow> DeviceId \<Rightarrow> world \<Rightarrow> rpc list \<Rightarrow> DeviceApplyResult \<Rightarrow> world \<Rightarrow> bool" where
  "in_doubt_outcome env r0 d w0 ops r w \<longleftrightarrow>
     dr_device_id r = d \<and> dr_tx_id r = Some (jr_tx_id r0) \<and> dr_status r = ApplyInDoubt \<and>
     tx_frame r0 d w0 ops w \<and> (reliable_journal env \<longrightarrow> durable_phase w (jr_tx_id r0) = Some InDoubt)"

lemma in_doubt_result_outcome:
  assumes "tx_frame r0 d w0 ops w" and "reliable_journal env \<Longrightarrow> durable_phase w (jr_tx_id r0) = Some InDoubt"
  shows "in_doubt_outcome env r0 d w0 ops (in_doubt_result d (jr_tx_id r0) s c m ws vr) w"
  using assms by (simp add: in_doubt_outcome_def in_doubt_result_def)

text \<open>Recording an error on a committed transaction and going in doubt.\<close>

lemma wp_error_in_doubt:
  assumes "in_tx r0 d w0 Committed ops w"
    and "\<And>w'. tx_frame r0 d w0 ops w' \<Longrightarrow> durable_phase w' (jr_tx_id r0) = Some InDoubt \<Longrightarrow> K () w'"
    and "\<And>e w'. tx_frame r0 d w0 ops w' \<Longrightarrow> \<not> reliable_journal env \<Longrightarrow> E e w'"
  shows "wp (transition env InDoubt) (on_result E' (\<lambda>_. wp (update_record env (\<lambda>now. with_error now c m))
    (\<lambda>_. wp (put_record env) (on_result E K)))) w"
proof -
  let ?w = "w\<lparr>w_tick := Suc (w_tick w), w_record := (w_record w)\<lparr>jr_phase := InDoubt,
             jr_updated_at := ev_now env (w_tick w)\<rparr>\<rparr>"
  let ?v = "?w\<lparr>w_tick := Suc (w_tick ?w), w_record := with_error (ev_now env (w_tick ?w)) c m (w_record ?w)\<rparr>"
  have frame: "tx_frame r0 d w0 ops ?v"
    using assms(1) by (intro tx_frame_record) (simp_all add: in_tx_def tx_frame_def)
  have "wp (put_record env) (on_result E K) ?v"
    by (rule wp_put_record_tx[OF frame]) (auto intro!: assms(2,3) simp: in_tx_def durable_phase_def)
  then show ?thesis using assms(1) by (simp add: wp_simps wp_transition in_tx_def)
qed

lemma wp_finish_stale:
  assumes "in_tx r0 d w0 Committed ops w"
  shows "wp (finish_stale env d (jr_tx_id r0) strategy warnings report rc short warning err)
    (in_doubt_outcome env r0 d w0 ops) w"
  unfolding finish_stale_def Let_def case_prod_beta wp_on_error wp_bind wp_return
  by (rule wp_error_in_doubt[OF assms]) (auto intro!: in_doubt_result_outcome)

definition success_outcome ::
  "TxJournalRecord \<Rightarrow> world \<Rightarrow> DeviceDesiredState \<Rightarrow> ChangeSet \<Rightarrow> TransactionStrategy \<Rightarrow> rpc list \<Rightarrow>
   DeviceApplyResult \<Rightarrow> world \<Rightarrow> bool" where
  "success_outcome r0 w0 desired cs strategy ops r w \<longleftrightarrow>
     dr_status r = (if is_degraded strategy then SuccessWithWarning else Success) \<and>
     dr_strategy r = Some strategy \<and> durable_phase w (jr_tx_id r0) = Some Committed \<and>
     w_shadow w = snd (shadow_put
       (apply_to_shadow cs (bm_get (w_shadow w0) (ds_device_id desired)) desired 0) (w_shadow w0))"

definition finished ::
  "env \<Rightarrow> TxJournalRecord \<Rightarrow> world \<Rightarrow> DeviceDesiredState \<Rightarrow> ChangeSet \<Rightarrow> TransactionStrategy \<Rightarrow> rpc list \<Rightarrow>
   DeviceApplyResult \<Rightarrow> world \<Rightarrow> bool" where
  "finished env r0 w0 desired cs strategy ops r w \<longleftrightarrow>
     dr_device_id r = ds_device_id desired \<and> dr_tx_id r = Some (jr_tx_id r0) \<and>
     tx_closed r0 (ds_device_id desired) w0 ops w \<and>
     (success_outcome r0 w0 desired cs strategy ops r w \<or>
      dr_status r = ApplyInDoubt \<and> (reliable_journal env \<longrightarrow> durable_phase w (jr_tx_id r0) = Some InDoubt))"

lemma in_doubt_finished:
  "in_doubt_outcome env r0 (ds_device_id desired) w0 ops r w \<Longrightarrow> finished env r0 w0 desired cs strategy ops r w"
  by (simp add: in_doubt_outcome_def finished_def tx_frame_closed)

lemma wp_finish_shadow_write:
  assumes "in_tx r0 (ds_device_id desired) w0 Committed ops w"
    and "existing = bm_get (w_shadow w0) (ds_device_id desired)"
  shows "wp (finish_shadow_write env desired cs (jr_tx_id r0) strategy warnings report existing)
    (finished env r0 w0 desired cs strategy ops) w"
proof -
  let ?d = "ds_device_id desired"
  let ?st = "apply_to_shadow cs existing desired 0"
  let ?f = "\<lambda>s. snd (shadow_put ?st s)"
  let ?w = "w\<lparr>w_tick := Suc (w_tick w)\<rparr>"
  note stored = in_tx_shadow[OF assms(1), of ?f]
  have in_tx: "in_tx r0 ?d (w_shadow_update ?f w0) Committed ops (w_shadow_update ?f ?w)"
    using stored by (simp add: in_tx_def tx_frame_def)
  have closed: "finished env r0 w0 desired cs strategy ops r w'"
    if "in_doubt_outcome env r0 ?d (w_shadow_update ?f w0) ops r w'" for r w'
    using that by (auto simp: in_doubt_outcome_def finished_def intro!: tx_closed_shadow)
  have "tx_closed r0 ?d w0 ops (w_shadow_update ?f ?w)"
    by (rule tx_closed_shadow[OF in_tx_frame[OF in_tx]]) simp
  then have success: "finished env r0 w0 desired cs strategy ops
     \<lparr>dr_device_id = ?d, dr_changed = True,
      dr_status = (if is_degraded strategy then SuccessWithWarning else Success),
      dr_tx_id = Some (jr_tx_id r0), dr_strategy = Some strategy, dr_error_code = None,
      dr_error_message = None, dr_warnings = warnings, dr_verify_report = report\<rparr> (w_shadow_update ?f ?w)"
    using assms in_tx by (simp add: finished_def success_outcome_def in_tx_def durable_phase_def tx_frame_def)
  show ?thesis
    unfolding finish_shadow_write_def Let_def wp_on_error wp_put_shadow wp_return
  proof (rule put_withI, goal_cases)
    case 1
    then show ?case using success by simp
  next
    case (2 e)
    then show ?case using assms(1)
      by (auto intro!: wp_mono[OF wp_finish_stale] intro: in_doubt_finished)
  next
    case (3 e)
    then show ?case by (auto intro!: wp_mono[OF wp_finish_stale[OF in_tx]] intro: closed)
  qed
qed

lemma wp_finish_successful_apply:
  assumes "in_tx r0 (ds_device_id desired) w0 FinalConfirming ops w"
    and "find (\<lambda>cs. cs_device_id cs = ds_device_id desired) (dn_change_sets plan) = Some cs"
  shows "wp (finish_successful_apply env desired plan (jr_tx_id r0) strategy report)
    (finished env r0 w0 desired cs strategy ops) w"
proof -
  let ?d = "ds_device_id desired"
  let ?P = "finished env r0 w0 desired cs strategy ops"
  have frame: "tx_frame r0 ?d w0 ops
      (w\<lparr>w_tick := Suc (w_tick w), w_record := with_strategy (ev_now env (w_tick w)) strategy (w_record w)\<rparr>)"
    by (rule in_tx_strategy[OF assms(1)])
  have doubt: "?P (in_doubt_result ?d (jr_tx_id r0) s c m ws vr) w'"
    if "tx_frame r0 ?d w0 ops w'" "\<not> reliable_journal env" for s c m ws vr w'
    using that by (intro in_doubt_finished in_doubt_result_outcome) simp_all
  have committed: "wp (case find (\<lambda>cs. cs_device_id cs = ?d) (dn_change_sets plan) of
             None \<Rightarrow> finish_missing_change_set env ?d (jr_tx_id r0) strategy ws report
           | Some cs \<Rightarrow> on_error (get_shadow env ?d)
                (finish_stale env ?d (jr_tx_id r0) strategy ws report c s n)
                (finish_shadow_write env desired cs (jr_tx_id r0) strategy ws report)) ?P w'"
    if "in_tx r0 ?d w0 Committed ops w'" for w' ws c s n
    using that wp_finish_shadow_write[of r0 desired w0 ops "w'\<lparr>w_tick := Suc (w_tick w')\<rparr>"]
    by (auto simp: assms(2) wp_simps Let_def split: option.split
        intro!: wp_mono[OF wp_finish_stale] intro: in_doubt_finished simp: in_tx_def tx_frame_def)
  show ?thesis
    unfolding finish_successful_apply_def Let_def case_prod_beta wp_bind wp_on_error wp_return wp_update_record
    by (rule wp_advance_frame[OF frame]) (use assms(1) in \<open>auto intro!: committed doubt simp: in_tx_def\<close>)
qed

text \<open>The status of a failed transaction and the phase it stands for.\<close>

fun phase_of_status :: "ApplyStatus \<Rightarrow> TxPhase option" where
  "phase_of_status Success = Some Committed"
| "phase_of_status SuccessWithWarning = Some Committed"
| "phase_of_status ApplyRolledBack = Some RolledBack"
| "phase_of_status ApplyInDoubt = Some InDoubt"
| "phase_of_status ApplyFailed = Some Failed"
| "phase_of_status _ = None"

definition failed_outcome ::
  "env \<Rightarrow> TxJournalRecord \<Rightarrow> world \<Rightarrow> DeviceDesiredState \<Rightarrow> rpc list \<Rightarrow> DeviceApplyResult \<Rightarrow> world \<Rightarrow> bool" where
  "failed_outcome env r0 w0 desired ops r w \<longleftrightarrow>
     dr_device_id r = ds_device_id desired \<and> dr_tx_id r = Some (jr_tx_id r0) \<and>
     tx_closed r0 (ds_device_id desired) w0 ops w \<and> w_shadow w = w_shadow w0 \<and>
     dr_status r \<in> {ApplyFailed, ApplyRolledBack, ApplyInDoubt} \<and>
     (dr_status r \<noteq> ApplyFailed \<longrightarrow> ops \<noteq> [] \<and> (\<exists>s. last ops = RpcRollback s)) \<and>
     (reliable_journal env \<longrightarrow> durable_phase w (jr_tx_id r0) = phase_of_status (dr_status r) \<and>
        (dr_status r = ApplyFailed \<longrightarrow> ops = []))"

lemma wp_finish_failed_apply:
  assumes "tx_failed env r0 (ds_device_id desired) w0 w"
  shows "wp (finish_failed_apply env desired (jr_tx_id r0) err)
    (\<lambda>r w. \<exists>ops. failed_outcome env r0 w0 desired ops r w) w"
proof -
  let ?d = "ds_device_id desired"
  let ?ph = "failed_apply_phase (jr_phase (w_record w))"
  obtain ops where frame: "tx_frame r0 ?d w0 ops w"
    and phase: "jr_phase (w_record w) \<notin> {Started, RollingBack, Recovering, Committed, Failed, ForceResolved}"
    and undone: "jr_phase (w_record w) \<in> {RolledBack, InDoubt} \<Longrightarrow> ops \<noteq> [] \<and> (\<exists>s. last ops = RpcRollback s)"
    and early: "reliable_journal env \<Longrightarrow> jr_phase (w_record w) \<notin> {RolledBack, InDoubt} \<Longrightarrow> ops = []"
    using assms unfolding tx_failed_def by blast
  let ?now = "ev_now env (w_tick w)"
  let ?now' = "ev_now env (Suc (w_tick w))"
  let ?r = "\<lambda>c m. with_error ?now' c m ((w_record w)\<lparr>jr_phase := ?ph, jr_updated_at := ?now\<rparr>)"
  have allowed: "is_allowed (jr_phase (w_record w)) ?ph"
    using phase by (cases "jr_phase (w_record w)") (simp_all add: failed_apply_phase_def)
  have status: "phase_of_status (apply_status_for_failed_phase ?ph) = Some ?ph"
    "apply_status_for_failed_phase ?ph \<in> {ApplyFailed, ApplyRolledBack, ApplyInDoubt}"
    "apply_status_for_failed_phase ?ph = ApplyFailed \<longleftrightarrow> jr_phase (w_record w) \<notin> {RolledBack, InDoubt}"
    by (auto simp: failed_apply_phase_def apply_status_for_failed_phase_def)
  have store: "wp (put_record env) (on_result
      (\<lambda>e w'. tx_frame r0 ?d w0 ops w' \<and> \<not> reliable_journal env)
      (\<lambda>_ w'. tx_frame r0 ?d w0 ops w' \<and> durable_phase w' (jr_tx_id r0) = Some ?ph))
      (w\<lparr>w_tick := n, w_record := ?r c m\<rparr>)" for n c m
  proof -
    have "tx_frame r0 ?d w0 ops (w\<lparr>w_tick := n, w_record := ?r c m\<rparr>)"
      using frame by (intro tx_frame_record) (simp_all add: tx_frame_def)
    then show ?thesis
      by (rule wp_put_record_tx) (auto simp: in_tx_def durable_phase_def)
  qed
  have outcome: "failed_outcome env r0 w0 desired ops r w'"
    if "tx_frame r0 ?d w0 ops w'" "reliable_journal env \<Longrightarrow> durable_phase w' (jr_tx_id r0) = Some ?ph"
      "dr_device_id r = ?d" "dr_tx_id r = Some (jr_tx_id r0)" "dr_status r = apply_status_for_failed_phase ?ph"
    for r w'
    using that status undone early unfolding failed_outcome_def
    by (simp add: tx_frame_closed) (auto simp: tx_frame_def)
  show ?thesis
    unfolding finish_failed_apply_def Let_def case_prod_beta
    using allowed
    by (simp add: wp_simps wp_transition)
      (rule wp_mono[OF store], auto simp: on_result_iff intro!: exI[of _ ops] outcome)
qed

section \<open>Before the transaction\<close>

text \<open>Worlds that agree on everything but the tick and the observed states.\<close>

definition quiet :: "world \<Rightarrow> world \<Rightarrow> bool" where
  "quiet w w' \<longleftrightarrow> w_inventory w' = w_inventory w \<and> w_journal w' = w_journal w \<and> w_shadow w' = w_shadow w \<and>
     w_events w' = w_events w \<and> w_log w' = w_log w"

lemma quiet_refl [simp]: "quiet w w"
  by (simp add: quiet_def)

lemma quiet_tick [simp]: "quiet w (w'\<lparr>w_tick := n\<rparr>) = quiet w w'"
  by (simp add: quiet_def)

lemma quiet_observed [simp]: "quiet w (w_observed_update f w') = quiet w w'"
  by (simp add: quiet_def)

lemma quiet_durable: "quiet w w' \<Longrightarrow> durable w' t = durable w t"
  by (simp add: quiet_def durable_def)

text \<open>No transaction of the device waits for recovery.\<close>

definition settled :: "world \<Rightarrow> DeviceId \<Rightarrow> bool" where
  "settled w d \<longleftrightarrow> (\<forall>t r. durable w t = Some r \<longrightarrow> d \<in> set (jr_devices r) \<longrightarrow> \<not> requires_recovery (jr_phase r))"

definition drift_allows :: "world \<Rightarrow> DeviceId \<Rightarrow> DriftPolicy \<Rightarrow> bool" where
  "drift_allows w d policy \<longleftrightarrow> policy = ReportOnly \<or>
     (\<exists>m. inventory_get d (w_inventory w) = Inr m \<and> dv_lifecycle_state (md_info m) \<noteq> Drifted)"

lemma journal_list_recoverable_settled:
  assumes "journal_list_recoverable (w_journal w) = Inr rs" and "in_doubt_records_for_devices rs [d] = []"
  shows "settled w d"
proof -
  have "set rs = {r. \<exists>t. durable w t = Some r \<and> requires_recovery (jr_phase r)}"
    using assms(1) by (auto simp: journal_list_recoverable_def set_bm_values durable_def ran_def)
  then show ?thesis
    using assms(2) by (auto simp: settled_def in_doubt_records_for_devices_def filter_empty_conv list_ex_iff)
qed

lemma wp_gate:
  "wp (ensure_no_in_doubt_for_devices env [d])
     (on_result (\<lambda>_. quiet w) (\<lambda>_ w'. quiet w w' \<and> settled w d)) w"
  unfolding ensure_no_in_doubt_for_devices_def
  by (auto simp: wp_simps Let_def on_result_iff journal_list_recoverable_settled split: option.split sum.split)

lemma wp_drift_gate:
  assumes "quiet w w1"
  shows "wp (ensure_drift_policy_allows_apply [d] policy)
     (on_result (\<lambda>_. quiet w) (\<lambda>_ w'. quiet w w' \<and> drift_allows w d policy)) w1"
proof -
  have same: "w_inventory w1 = w_inventory w" using assms by (simp add: quiet_def)
  show ?thesis
    unfolding ensure_drift_policy_allows_apply_def drift_policy_error_def
    using assms
    by (cases "inventory_get d (w_inventory w)"; cases policy)
      (simp_all add: wp_simps on_result_def drift_allows_def same)
qed

lemma wp_dry_run:
  assumes "quiet w w1"
  shows "wp (dry_run_desired_states env [desired])
     (on_result (\<lambda>_. quiet w) (\<lambda>plan w'. quiet w w' \<and>
        (\<exists>current. build_dry_run_plan [desired] [current] = Inr plan))) w1"
proof -
  have put: "put_with o1 (w_observed_update f) (on_result (\<lambda>_. quiet w) (\<lambda>_. quiet w)) v"
    if "quiet w v" for o1 f v
    by (rule put_withI) (use that in simp_all)
  have "wp (fetch_current_states env [desired])
      (on_result (\<lambda>_. quiet w) (\<lambda>cs w'. quiet w w' \<and> (\<exists>current. cs = [current]))) w1"
    unfolding fetch_current_states.simps
    by (rule wp_then[where Q = "\<lambda>_. quiet w"], simp add: wp_simps on_result_iff assms,
        rule wp_then[where Q = "\<lambda>_. quiet w"], simp add: wp_simps split: option.split,
        rule wp_then[where Q = "\<lambda>_. quiet w"], simp add: wp_simps on_result_iff,
        rule wp_then[where Q = "\<lambda>_. quiet w"], simp add: wp_put_observed put, simp add: wp_simps)
  then show ?thesis
    unfolding dry_run_desired_states_def
    by (rule wp_then) (auto simp: wp_simps on_result_iff)
qed

definition admitted :: "world \<Rightarrow> DeviceDesiredState \<Rightarrow> DriftPolicy \<Rightarrow> DryRunPlan \<Rightarrow> bool" where
  "admitted w desired policy plan \<longleftrightarrow>
     settled w (ds_device_id desired) \<and> drift_allows w (ds_device_id desired) policy \<and>
     (\<exists>current. build_dry_run_plan [desired] [current] = Inr plan)"

lemma wp_admit:
  "wp (admit env desired policy)
     (on_result (\<lambda>_. quiet w) (\<lambda>plan w'. quiet w w' \<and> admitted w desired policy plan)) w"
  unfolding admit_def Let_def
proof (rule wp_then[where Q = "\<lambda>_. quiet w"], goal_cases)
  case 1
  show ?case by (simp add: wp_simps)
next
  case (2 u w1)
  let ?d = "ds_device_id desired"
  have gate: "wp (ensure_no_in_doubt_for_devices env [?d])
     (on_result (\<lambda>_. quiet w) (\<lambda>_ w'. quiet w w' \<and> settled w ?d)) w1"
    by (rule wp_mono[OF wp_gate[of env ?d w1]], erule on_result_mono)
      (use 2 in \<open>auto simp: quiet_def settled_def durable_def\<close>)
  show ?case
  proof (rule wp_then[OF gate], rule wp_then[where Q = "\<lambda>_ w'. quiet w w' \<and> settled w ?d \<and> drift_allows w ?d policy"], goal_cases)
    case (1 u w2)
    then show ?case by (intro wp_mono[OF wp_drift_gate[of w w2]]) (auto simp: on_result_iff)
  next
    case (2 u w2 v w3)
    then show ?case
      by (intro wp_mono[OF wp_dry_run[of w w3]]) (auto simp: on_result_iff admitted_def)
  qed
qed

section \<open>Opening the transaction\<close>

definition opens :: "env \<Rightarrow> string \<Rightarrow> string \<Rightarrow> DeviceDesiredState \<Rightarrow> DryRunPlan \<Rightarrow> TxJournalRecord \<Rightarrow> bool" where
  "opens env request_id trace_id desired plan r0 \<longleftrightarrow>
     jr_tx_id r0 \<in> range (ev_uuid env) \<and> jr_request_id r0 = request_id \<and> jr_trace_id r0 = trace_id \<and> jr_devices r0 = [ds_device_id desired] \<and>
     jr_desired_states r0 = [desired] \<and> jr_change_sets r0 = dn_change_sets plan"

text \<open>A world in which nothing but one journal entry may differ.\<close>

definition only_entry :: "string \<Rightarrow> world \<Rightarrow> world \<Rightarrow> bool" where
  "only_entry t w w' \<longleftrightarrow> w_inventory w' = w_inventory w \<and> w_shadow w' = w_shadow w \<and>
     w_events w' = w_events w \<and> w_log w' = w_log w \<and> (\<forall>t'. t' \<noteq> t \<longrightarrow> durable w' t' = durable w t')"

definition not_opened :: "env \<Rightarrow> world \<Rightarrow> string option \<Rightarrow> world \<Rightarrow> bool" where
  "not_opened env w t' w' \<longleftrightarrow> \<not> reliable_journal env \<and> (\<exists>t \<in> range (ev_uuid env). only_entry t w w' \<and> (t' = None \<or> t' = Some t))"

lemma wp_put_first:
  assumes "only_entry t w w1" and "jr_tx_id (w_record w1) = t" and "same_tx r0 (w_record w1)"
    and "\<And>w'. tx_frame r0 d w [] w' \<Longrightarrow> w_record w' = w_record w1 \<Longrightarrow> K () w'"
    and "\<And>e w'. only_entry t w w' \<Longrightarrow> \<not> reliable_journal env \<Longrightarrow> E e w'"
  shows "wp (put_record env) (on_result E K) w1"
proof -
  let ?w = "w1\<lparr>w_tick := Suc (w_tick w1)\<rparr>"
  let ?s = "w_journal_update (bm_insert (jr_tx_id (w_record w1)) (w_record w1)) ?w"
  have "only_entry t w ?w" "only_entry t w ?s" "tx_frame r0 d w [] ?s"
    using assms(1-3) by (auto simp: only_entry_def tx_frame_def same_tx_id)
  then show ?thesis
    unfolding wp_put_record
    by (intro put_withI) (auto intro!: assms(4,5) simp: reliable_journal_def)
qed

lemma wp_begin_transaction:
  assumes "quiet w w1"
  shows "wp (begin_transaction env request_id trace_id desired plan)
    (\<lambda>opened w'. case opened of
        Inl (err, t') \<Rightarrow> not_opened env w t' w'
      | Inr t \<Rightarrow> \<exists>r0. jr_tx_id r0 = t \<and> opens env request_id trace_id desired plan r0 \<and>
          in_tx r0 (ds_device_id desired) w Preparing [] w') w1"
proof -
  let ?d = "ds_device_id desired"
  let ?t = "ev_uuid env (w_tick w1)"
  let ?r = "with_change_sets (ev_now env (Suc (Suc (Suc (w_tick w1))))) (dn_change_sets plan)
      (with_desired_states (ev_now env (Suc (Suc (w_tick w1)))) [desired]
        (started (ev_now env (Suc (w_tick w1))) (new_context ?t request_id trace_id) [?d]))"
  let ?post = "\<lambda>opened w'. case opened of
        Inl (err, t') \<Rightarrow> not_opened env w t' w'
      | Inr t \<Rightarrow> \<exists>r0. jr_tx_id r0 = t \<and> opens env request_id trace_id desired plan r0 \<and>
          in_tx r0 ?d w Preparing [] w'"
  have r: "jr_tx_id ?r = ?t" "opens env request_id trace_id desired plan ?r" "jr_phase ?r = Started"
    by (simp_all add: with_change_sets_def with_desired_states_def started_def new_context_def opens_def)
  have same: "same_tx ?r ?r" by (simp add: same_tx_def)
  have ctx: "cx_tx_id (new_context ?t request_id trace_id) = ?t" by (simp add: new_context_def)
  have fail: "not_opened env w t' w'" if "only_entry ?t w w'" "\<not> reliable_journal env" "t' = None \<or> t' = Some ?t" for t' w'
    using that by (auto simp: not_opened_def)
  have frame_only: "only_entry ?t w w'" if "tx_frame ?r ?d w [] w'" for w'
    using that r(1) by (simp add: only_entry_def tx_frame_def)
  have start: "only_entry ?t w (w1\<lparr>w_tick := n, w_record := x\<rparr>)" for n x
    using assms by (simp add: only_entry_def quiet_def durable_def)
  have put: "wp (put_record env) (on_result (\<lambda>e. ?post (Inl (e, None)))
      (\<lambda>_. wp (transition env Preparing) (on_result (\<lambda>e. ?post (Inl (e, Some ?t)))
      (\<lambda>_. wp (put_record env) (on_result (\<lambda>e. ?post (Inl (e, Some ?t))) (\<lambda>_. ?post (Inr ?t)))))))
      (w1\<lparr>w_tick := n, w_record := ?r\<rparr>)" for n
  proof (rule wp_put_first[OF start, of _ _ ?r ?d], goal_cases)
    case (3 w2)
    then show ?case
      by (intro wp_advance_frame[where ph = Started]) (use r fail frame_only in auto)
  qed (use r same fail in auto)
  show ?thesis
    unfolding begin_transaction_def Let_def
    using put by (simp add: wp_simps ctx)
qed

section \<open>One endpoint\<close>

text \<open>The three ways in which applying one desired state ends: without a transaction; with a journal
  that failed while the transaction was opened; with a transaction that succeeded, failed or is in
  doubt.\<close>

definition no_tx_outcome ::
  "DeviceDesiredState \<Rightarrow> DriftPolicy \<Rightarrow> world \<Rightarrow> DeviceApplyResult \<Rightarrow> world \<Rightarrow> bool" where
  "no_tx_outcome desired policy w r w' \<longleftrightarrow>
     quiet w w' \<and> dr_tx_id r = None \<and> dr_status r \<in> {NoOpSuccess, ApplyFailed, ApplyInDoubt} \<and>
     (dr_status r = NoOpSuccess \<longrightarrow> (\<exists>plan. admitted w desired policy plan \<and> is_noop plan))"

definition not_opened_outcome ::
  "env \<Rightarrow> DeviceDesiredState \<Rightarrow> DriftPolicy \<Rightarrow> world \<Rightarrow> DeviceApplyResult \<Rightarrow> world \<Rightarrow> bool" where
  "not_opened_outcome env desired policy w r w' \<longleftrightarrow>
     (\<exists>plan. admitted w desired policy plan) \<and> dr_status r \<in> {ApplyFailed, ApplyInDoubt} \<and> not_opened env w (dr_tx_id r) w'"

definition tx_success ::
  "env \<Rightarrow> TxJournalRecord \<Rightarrow> DeviceDesiredState \<Rightarrow> bool \<Rightarrow> DryRunPlan \<Rightarrow> world \<Rightarrow> rpc list \<Rightarrow> DeviceApplyResult \<Rightarrow> world \<Rightarrow> bool" where
  "tx_success env r0 desired allow plan w ops r w' \<longleftrightarrow> (\<exists>cs strategy c.
     find (\<lambda>cs. cs_device_id cs = ds_device_id desired) (dn_change_sets plan) = Some cs \<and>
     is_supported strategy \<and> (is_degraded strategy \<longrightarrow> allow) \<and>
     ops = committed_ops env desired cs strategy c \<and> finished env r0 w desired cs strategy ops r w')"

definition tx_outcome ::
  "env \<Rightarrow> string \<Rightarrow> string \<Rightarrow> DeviceDesiredState \<Rightarrow> bool \<Rightarrow> DriftPolicy \<Rightarrow> world \<Rightarrow> DeviceApplyResult \<Rightarrow> world \<Rightarrow> bool" where
  "tx_outcome env request_id trace_id desired allow policy w r w' \<longleftrightarrow> (\<exists>plan r0 ops.
     admitted w desired policy plan \<and> \<not> is_noop plan \<and> opens env request_id trace_id desired plan r0 \<and>
     (tx_success env r0 desired allow plan w ops r w' \<or> failed_outcome env r0 w desired ops r w'))"

definition single_outcome ::
  "env \<Rightarrow> string \<Rightarrow> string \<Rightarrow> DeviceDesiredState \<Rightarrow> bool \<Rightarrow> DriftPolicy \<Rightarrow> world \<Rightarrow> DeviceApplyResult \<Rightarrow> world \<Rightarrow> bool" where
  "single_outcome env request_id trace_id desired allow policy w r w' \<longleftrightarrow>
     dr_device_id r = ds_device_id desired \<and>
     (no_tx_outcome desired policy w r w' \<or> not_opened_outcome env desired policy w r w' \<or>
      tx_outcome env request_id trace_id desired allow policy w r w')"

lemma device_error_result_simps [simp]:
  "dr_device_id (device_error_result d c t s e) = d"
  "dr_tx_id (device_error_result d c t s e) = t"
  "dr_status (device_error_result d c t s e) \<in> {ApplyFailed, ApplyInDoubt}"
  "dr_status (device_error_result d c t s e) \<noteq> NoOpSuccess"
  by (simp_all add: device_error_result_def case_prod_beta)

lemma wp_transaction:
  assumes "in_tx r0 (ds_device_id desired) w Preparing [] w1"
  shows "wp (on_error (apply_changed_endpoint_states env plan allow [desired] None None)
      (finish_failed_apply env desired (jr_tx_id r0))
      (\<lambda>(strategy, report). finish_successful_apply env desired plan (jr_tx_id r0) strategy report))
    (\<lambda>r w'. \<exists>ops. tx_success env r0 desired allow plan w ops r w' \<or> failed_outcome env r0 w desired ops r w') w1"
  unfolding wp_on_error
proof (rule wp_mono[OF wp_apply_changed_endpoint_states[OF assms]], erule on_result_mono, goal_cases)
  case (1 r w2 e)
  show ?case by (rule wp_mono[OF wp_finish_failed_apply[OF 1]]) auto
next
  case (2 r w2 x)
  then obtain strategy report cs c where x: "x = (strategy, report)"
    and cs: "find (\<lambda>cs. cs_device_id cs = ds_device_id desired) (dn_change_sets plan) = Some cs"
    and ok: "is_supported strategy" "is_degraded strategy \<longrightarrow> allow"
    and tx: "in_tx r0 (ds_device_id desired) w FinalConfirming (committed_ops env desired cs strategy c) w2"
    by (auto simp: tx_applied_def)
  show ?case unfolding x prod.case
    by (rule wp_mono[OF wp_finish_successful_apply[OF tx cs]]) (use cs ok in \<open>auto simp: tx_success_def\<close>)
qed

lemma wp_apply_single_endpoint_state:
  "wp (apply_single_endpoint_state env request_id trace_id desired allow policy)
     (single_outcome env request_id trace_id desired allow policy w) w"
proof -
  let ?d = "ds_device_id desired"
  let ?P = "single_outcome env request_id trace_id desired allow policy w"
  show ?thesis
    unfolding apply_single_endpoint_state_def Let_def wp_on_error wp_return
  proof (rule wp_mono[OF wp_admit[of env desired policy w]], erule on_result_mono, goal_cases)
    case (1 r w1 e)
    then show ?case
      using device_error_result_simps(3)[of ?d False None None e]
      by (auto simp: single_outcome_def no_tx_outcome_def)
  next
    case (2 r w1 plan)
    then have q: "quiet w w1" and adm: "admitted w desired policy plan" by auto
    have noop: "?P (no_op_result ?d) w1" if "is_noop plan"
      using q adm that by (auto simp: single_outcome_def no_tx_outcome_def no_op_result_def)
    have tx: "?P r w'" if "\<not> is_noop plan" "opens env request_id trace_id desired plan r0"
      "tx_success env r0 desired allow plan w ops r w' \<or> failed_outcome env r0 w desired ops r w'" for r w' r0 ops
    proof -
      have "dr_device_id r = ?d"
        using that(3) by (auto simp: tx_success_def finished_def failed_outcome_def)
      then show ?thesis using that adm by (auto simp: single_outcome_def tx_outcome_def)
    qed
    have opened: "wp (begin_transaction env request_id trace_id desired plan) (\<lambda>opened. wp (case opened of
              Inl (err, tx_id) \<Rightarrow> State_Monad.return (device_error_result ?d True tx_id None err)
            | Inr tx_id \<Rightarrow>
                on_error (apply_changed_endpoint_states env plan allow [desired] None None)
                  (finish_failed_apply env desired tx_id)
                  (\<lambda>(strategy, report). finish_successful_apply env desired plan tx_id strategy report)) ?P) w1"
      if "\<not> is_noop plan"
    proof (rule wp_mono[OF wp_begin_transaction[OF q]], goal_cases)
      case (1 opened w2)
      show ?case
      proof (cases opened)
        case (Inl x)
        then show ?thesis
          using 1 adm device_error_result_simps(3)[of ?d True "snd x" None "fst x"]
          by (auto simp: wp_simps single_outcome_def not_opened_outcome_def split: prod.splits)
      next
        case (Inr t)
        then obtain r0 where r0: "jr_tx_id r0 = t" "opens env request_id trace_id desired plan r0"
          "in_tx r0 ?d w Preparing [] w2" using 1 by auto
        show ?thesis unfolding Inr sum.case
          unfolding r0(1)[symmetric]
          by (rule wp_mono[OF wp_transaction[OF r0(3)]]) (use tx[OF that r0(2)] in blast)
      qed
    qed
    show ?case using noop opened by (cases "is_noop plan") (simp_all only: if_True if_False wp_bind wp_return not_False_eq_True)
  qed
qed

end
