(* ===== verification/Sample_World.thy ===== *)
theory Sample_World
  imports Apply Wp
begin

text \<open>
  A concrete world and environment, on which the properties of the coordinators are instantiated:
  one managed device \<open>sw1\<close> with candidate commit, an adapter that answers every call as asked, stores
  that work and a request that creates one VLAN.
\<close>

definition sample_info :: DeviceInfo where
  "sample_info =
     \<lparr>dv_tenant_id = ''t'', dv_site_id = ''s'', dv_id = ''sw1'', dv_management_ip = ''10.0.0.1'',
      dv_management_port = 830, dv_vendor_hint = None, dv_model_hint = None, dv_role = LeafA,
      dv_secret_ref = ''ref'', dv_host_key_policy = TrustOnFirstUse,
      dv_adapter_endpoint = ''http://adapter'', dv_lifecycle_state = Ready\<rparr>"

definition sample_capability :: "TransactionStrategy \<Rightarrow> DeviceCapabilityProfile" where
  "sample_capability strategy =
     \<lparr>ca_vendor = Unknown, ca_model = None, ca_os_version = None, ca_raw_capabilities = [],
      ca_supports_netconf = True, ca_supports_candidate = True, ca_supports_validate = True,
      ca_supports_confirmed_commit = False, ca_supports_persist_id = False,
      ca_supports_rollback_on_error = False, ca_supports_writable_running = False,
      ca_supported_backends = [Netconf], ca_model_profile = None, ca_recommended_strategy = strategy,
      ca_warnings = [], ca_yang_modules = []\<rparr>"

definition sample_desired :: DeviceDesiredState where
  "sample_desired =
     \<lparr>ds_device_id = ''sw1'', ds_vlans = bm_of_list [(10, \<lparr>vc_vlan_id = 10, vc_name = None, vc_description = None\<rparr>)],
      ds_interfaces = bm_empty, ds_acls = bm_empty, ds_acl_bindings = bm_empty,
      ds_route_policy_refs = bs_of_list [], ds_bgp_processes = bm_empty, ds_bgp_neighbors = bm_empty,
      ds_delete_vlan_ids = bs_of_list [], ds_delete_interface_names = bs_of_list [],
      ds_delete_acl_ids = bs_of_list [], ds_delete_acl_bindings = bm_empty,
      ds_delete_bgp_process_vrfs = bs_of_list [], ds_delete_bgp_neighbors = bm_empty\<rparr>"

fun sample_answer :: "rpc \<Rightarrow> AdapterOperationStatus" where
  "sample_answer (RpcPrepare _) = AdPrepared"
| "sample_answer (RpcCommit s _ _) = (if s = ConfirmedCommit then AdConfirmedCommitPending else AdCommitted)"
| "sample_answer (RpcVerify _ _) = AdNoChange"
| "sample_answer RpcFinalConfirm = AdCommitted"
| "sample_answer (RpcRollback _) = AdRolledBack"
| "sample_answer (RpcRecover _ _) = AdRolledBack"
| "sample_answer (RpcForceUnlock _ _ _) = AdCommitted"

definition sample_outcome :: "AdapterOperationStatus \<Rightarrow> AdapterOutcome" where
  "sample_outcome st = \<lparr>ao_status = st, ao_changed = True, ao_warnings = [],
     ao_prepared_candidate_checksum = Some ''sum'', ao_normalized_state = None\<rparr>"

definition sample_env :: env where
  "sample_env =
     \<lparr>ev_confirmed_commit_timeout_secs = 120, ev_now = (\<lambda>_. 7), ev_uuid = (\<lambda>_. ''tx''),
      ev_lock = (\<lambda>_. True), ev_journal_put = (\<lambda>_. Stored), ev_journal_read = (\<lambda>_. None),
      ev_shadow_put = (\<lambda>_. Stored), ev_shadow_read = (\<lambda>_. None), ev_observed_put = (\<lambda>_. Stored),
      ev_client = (\<lambda>_. None), ev_capabilities = (\<lambda>_. Inr (sample_capability CandidateCommit)),
      ev_current_state = (\<lambda>_. Inr (blank_shadow ''sw1'' 1)),
      ev_rpc = (\<lambda>_ op _. Inr (sample_outcome (sample_answer op)))\<rparr>"

definition sample_record :: TxJournalRecord where
  "sample_record = started 0 (new_context '''' '''' '''') []"

definition sample_world :: world where
  "sample_world =
     \<lparr>w_tick = 0, w_inventory = bm_of_list [(''sw1'', \<lparr>md_info = sample_info, md_capability = None\<rparr>)],
      w_journal = bm_empty, w_shadow = bm_empty, w_observed = bm_empty, w_events = [], w_log = [],
      w_record = sample_record\<rparr>"

abbreviation sample_run :: "env \<Rightarrow> DeviceApplyResult \<times> world" where
  "sample_run env \<equiv>
     run_state (apply_single_endpoint_state env ''req'' ''trace'' sample_desired False BlockNewTransaction) sample_world"

section \<open>Evaluation\<close>

text \<open>Runs on these samples are evaluated by the simplifier through the equations of \<open>wp\<close>.\<close>

lemma sample_env_simps [simp]:
  "ev_confirmed_commit_timeout_secs sample_env = 120" "ev_now sample_env n = 7" "ev_uuid sample_env n = ''tx''" "ev_lock sample_env n"
  "ev_journal_put sample_env n = Stored" "ev_journal_read sample_env n = None"
  "ev_shadow_put sample_env n = Stored" "ev_shadow_read sample_env n = None"
  "ev_observed_put sample_env n = Stored" "ev_client sample_env n = None"
  "ev_capabilities sample_env n = Inr (sample_capability CandidateCommit)"
  "ev_current_state sample_env n = Inr (blank_shadow ''sw1'' 1)"
  "ev_rpc sample_env d op n = Inr (sample_outcome (sample_answer op))"
  by (simp_all add: sample_env_def)

lemma sample_world_simps [simp]:
  "w_tick sample_world = 0" "w_log sample_world = []" "w_shadow sample_world = bm_empty"
  "w_journal sample_world = bm_empty" "w_events sample_world = []"
  "inventory_get ''sw1'' (w_inventory sample_world) = Inr \<lparr>md_info = sample_info, md_capability = None\<rparr>"
  by (simp_all add: sample_world_def inventory_get_def bm_get_of_list)

lemma sample_fields [simp]:
  "dv_lifecycle_state sample_info = Ready" "ca_recommended_strategy (sample_capability s) = s"
  "ao_status (sample_outcome st) = st" "ds_device_id sample_desired = ''sw1''"
  "ss_device_id (blank_shadow d n) = d"
  by (simp_all add: sample_info_def sample_capability_def sample_outcome_def sample_desired_def blank_shadow_def)

lemma sample_changes [simp]: "\<not> cs_is_empty (compute_diff sample_desired (blank_shadow ''sw1'' 1))"
  by code_simp

lemma no_records [simp]:
  "journal_list_recoverable bm_empty = Inr []" "in_doubt_records_for_devices [] ds = []"
  by (code_simp, simp add: in_doubt_records_for_devices_def)

lemma candidate_commit [simp]: "is_supported CandidateCommit" "\<not> is_degraded CandidateCommit"
  by code_simp+

lemma compute_diff_device [simp]: "cs_device_id (compute_diff desired current) = ds_device_id desired"
  by (simp add: compute_diff_def Let_def empty_change_set_def)

lemma dry_run_one:
  "build_dry_run_plan [desired] [current] =
     (if ss_device_id current = ds_device_id desired then
        Inr \<lparr>dn_change_sets = [compute_diff desired current], dn_change_plans =
          [build_change_plan_with_evidence (compute_diff desired current) None (ds_route_policy_refs desired)]\<rparr>
      else Inl (InvalidDeviceState (''missing current state for device '' @ ds_device_id desired)))"
  by (auto simp: build_dry_run_plan_def build_dry_run_plan_with_profiles_def dry_run_device_def Let_def
      bm_get_of_list)

lemmas apply_eval = apply_single_endpoint_state_def admit_def ensure_no_in_doubt_for_devices_def
  ensure_drift_policy_allows_apply_def dry_run_desired_states_def begin_transaction_def
  apply_changed_endpoint_def prepare_endpoint_def commit_endpoint_def verify_endpoint_def
  final_confirm_endpoint_def finalize_non_confirmed_commit_def finish_successful_apply_def
  finish_shadow_write_def finish_failed_apply_def commit_status_matches_strategy_def is_noop_def
  dry_run_one started_def new_context_def with_desired_states_def with_change_sets_def
  wp_simps wp_stores put_with_def Let_def

end
