(* ===== verification/Apply_Results.thy ===== *)
theory Apply_Results
  imports Apply_Safety Sample_World
begin

text \<open>
  The properties of the apply coordinator (\<open>src/api/apply_coordinator.rs\<close>), from the outcomes of
  single endpoints: what a status means, what an apply may touch, and what blocks one.
\<close>

section \<open>What follows for the results\<close>

lemma success_statuses:
  "success_outcome r0 w desired cs strategy ops r w' \<Longrightarrow> dr_status r \<in> {Success, SuccessWithWarning}"
  by (simp add: success_outcome_def)

lemma single_outcome_reliable:
  assumes "single_outcome env request_id trace_id desired allow policy w r w'" and "reliable_journal env"
  shows "case dr_tx_id r of
      None \<Rightarrow> quiet w w' \<and> dr_status r \<in> {NoOpSuccess, ApplyFailed, ApplyInDoubt}
    | Some t \<Rightarrow>
        durable_phase w' t = phase_of_status (dr_status r) \<and> durable_phase w' t \<noteq> None \<and>
        (\<exists>ops. w_log w' = w_log w @ map (entry t (ds_device_id desired)) ops \<and>
          (dr_status r = ApplyFailed \<longrightarrow> ops = []) \<and>
          (dr_status r = ApplyRolledBack \<longrightarrow> ops \<noteq> [] \<and> (\<exists>s. last ops = RpcRollback s)) \<and>
          (dr_status r \<in> {ApplyFailed, ApplyRolledBack} \<longrightarrow> w_shadow w' = w_shadow w) \<and>
          (dr_status r \<in> {Success, SuccessWithWarning} \<longrightarrow> (\<exists>cs strategy c.
             ops = committed_ops env desired cs strategy c \<and> (is_degraded strategy \<longrightarrow> allow) \<and>
             w_shadow w' = snd (shadow_put
               (apply_to_shadow cs (bm_get (w_shadow w) (ds_device_id desired)) desired 0) (w_shadow w)))))"
proof -
  have opened: "\<not> not_opened_outcome env desired policy w r w'"
    using assms(2) by (simp add: not_opened_outcome_def not_opened_def)
  consider (no_tx) "no_tx_outcome desired policy w r w'"
    | (success) plan r0 ops where "tx_success env r0 desired allow plan w ops r w'"
    | (failed) r0 ops where "failed_outcome env r0 w desired ops r w'"
    using assms(1) opened unfolding single_outcome_def tx_outcome_def by blast
  then show ?thesis
  proof cases
    case no_tx
    then show ?thesis by (simp add: no_tx_outcome_def)
  next
    case success
    then obtain cs strategy c where f: "finished env r0 w desired cs strategy ops r w'"
      "ops = committed_ops env desired cs strategy c" "is_degraded strategy \<longrightarrow> allow"
      by (auto simp: tx_success_def)
    show ?thesis
    proof (cases "success_outcome r0 w desired cs strategy ops r w'")
      case True
      then have "dr_status r \<in> {Success, SuccessWithWarning}" by (rule success_statuses)
      with True f show ?thesis
        by (auto simp: finished_def tx_closed_def success_outcome_def)
    next
      case False
      with f assms(2) show ?thesis by (auto simp: finished_def tx_closed_def)
    qed
  next
    case failed
    then show ?thesis using assms(2)
      by (auto simp: failed_outcome_def tx_closed_def)
  qed
qed

section \<open>The effect of any sequence of applies\<close>

text \<open>Every call was announced: the journal durably held the phase of the call when it was made.\<close>

definition announced :: "env \<Rightarrow> DeviceId set \<Rightarrow> rpc_entry \<Rightarrow> bool" where
  "announced env ids e \<longleftrightarrow>
     re_durable_phase e = phase_for (re_rpc e) \<and> re_device e \<in> ids \<and> re_tx_id e \<in> range (ev_uuid env)"

definition confined :: "env \<Rightarrow> DeviceId set \<Rightarrow> world \<Rightarrow> world \<Rightarrow> bool" where
  "confined env ids w w' \<longleftrightarrow>
     w_inventory w' = w_inventory w \<and>
     (\<exists>L. w_log w' = w_log w @ L \<and> list_all (announced env ids) L) \<and>
     (\<forall>d. d \<notin> ids \<longrightarrow> bm_get (w_shadow w') d = bm_get (w_shadow w) d) \<and>
     (\<forall>t. t \<notin> range (ev_uuid env) \<longrightarrow> durable w' t = durable w t)"

lemma confined_refl [simp]: "confined env ids w w"
  by (simp add: confined_def)

lemma announced_mono: "announced env A e \<Longrightarrow> A \<subseteq> B \<Longrightarrow> announced env B e"
  by (auto simp: announced_def)

lemma confined_trans:
  assumes "confined env A w w1" and "confined env B w1 w2"
  shows "confined env (A \<union> B) w w2"
proof -
  obtain L M where "w_log w1 = w_log w @ L" "list_all (announced env A) L"
    "w_log w2 = w_log w1 @ M" "list_all (announced env B) M"
    using assms unfolding confined_def by blast
  then have "w_log w2 = w_log w @ (L @ M)" "list_all (announced env (A \<union> B)) (L @ M)"
    by (auto simp: list_all_iff intro: announced_mono)
  moreover have "w_inventory w2 = w_inventory w"
    "\<forall>d. d \<notin> A \<union> B \<longrightarrow> bm_get (w_shadow w2) d = bm_get (w_shadow w) d"
    "\<forall>t. t \<notin> range (ev_uuid env) \<longrightarrow> durable w2 t = durable w t"
    using assms by (simp_all add: confined_def)
  ultimately show ?thesis unfolding confined_def by blast
qed

lemma tx_closed_confined:
  assumes "tx_closed r0 d w ops w'" and "jr_tx_id r0 \<in> range (ev_uuid env)"
  shows "confined env {d} w w'"
proof -
  have "list_all (announced env {d}) (map (entry (jr_tx_id r0) d) ops)"
    using assms(2) by (auto simp: list_all_iff announced_def entry_def)
  moreover have "t \<noteq> jr_tx_id r0" if "t \<notin> range (ev_uuid env)" for t
    using that assms(2) by metis
  ultimately show ?thesis using assms(1) by (auto simp: confined_def tx_closed_def)
qed

lemma single_outcome_confined:
  assumes "single_outcome env request_id trace_id desired allow policy w r w'"
  shows "confined env {ds_device_id desired} w w'"
proof -
  consider (no_tx) "no_tx_outcome desired policy w r w'" | (not_opened) "not_opened_outcome env desired policy w r w'"
    | (tx) "tx_outcome env request_id trace_id desired allow policy w r w'"
    using assms unfolding single_outcome_def by blast
  then show ?thesis
  proof cases
    case no_tx
    then show ?thesis by (simp add: no_tx_outcome_def quiet_def confined_def durable_def)
  next
    case not_opened
    then obtain t where t: "t \<in> range (ev_uuid env)" "only_entry t w w'"
      unfolding not_opened_outcome_def not_opened_def by blast
    have "t' \<noteq> t" if "t' \<notin> range (ev_uuid env)" for t' using that t(1) by metis
    with t(2) show ?thesis by (simp add: only_entry_def confined_def)
  next
    case tx
    then obtain plan r0 ops where "opens env request_id trace_id desired plan r0"
      and "tx_success env r0 desired allow plan w ops r w' \<or> failed_outcome env r0 w desired ops r w'"
      unfolding tx_outcome_def by blast
    then have "tx_closed r0 (ds_device_id desired) w ops w'" "jr_tx_id r0 \<in> range (ev_uuid env)"
      by (auto simp: tx_success_def failed_outcome_def finished_def opens_def)
    then show ?thesis by (rule tx_closed_confined)
  qed
qed

lemma wp_apply_each:
  "wp (apply_each env request_id trace_id allow policy desired_states)
     (\<lambda>results w'. map dr_device_id results = map ds_device_id desired_states \<and>
        confined env (ds_device_id ` set desired_states) w w') w"
proof (induction desired_states arbitrary: w)
  case Nil
  show ?case by (simp add: wp_simps)
next
  case (Cons desired rest)
  show ?case unfolding apply_each.simps wp_bind wp_return
  proof (rule wp_mono[OF wp_apply_single_endpoint_state[of env request_id trace_id desired allow policy w]],
      rule wp_mono[OF Cons.IH], goal_cases)
    case (1 r w1 rs w2)
    have "confined env ({ds_device_id desired} \<union> ds_device_id ` set rest) w w2"
      using 1 by (intro confined_trans[OF single_outcome_confined]) auto
    then show ?case using 1 by (simp add: single_outcome_def)
  qed
qed

lemma wp_apply_desired_states:
  "wp (apply_desired_states env request_id trace_id desired_states allow policy)
     (\<lambda>resp w'. map dr_device_id (ar_device_results resp) = map ds_device_id desired_states \<and>
        ar_status resp = aggregate_apply_status (ar_device_results resp) \<and>
        confined env (ds_device_id ` set desired_states) w w') w"
  unfolding apply_desired_states_def emit_apply_events_def wp_bind wp_return wp_modify
  by (rule wp_mono[OF wp_apply_each]) (simp add: confined_def)

text \<open>C18: Write-ahead journalling, in every environment: whatever the adapters answer and whichever
  store calls fail, every call of an apply that may change a device is made while the journal
  durably holds the phase of that call for its transaction; the calls go to the requested devices
  only, and the shadow states of other devices, the inventory and the records of other
  transactions are unchanged.\<close>

theorem apply_writes_ahead:
  assumes "run_state (apply_desired_states env request_id trace_id desired_states allow policy) w = (resp, w')"
  shows "w_inventory w' = w_inventory w \<and>
    (\<exists>L. w_log w' = w_log w @ L \<and> (\<forall>e \<in> set L.
       re_durable_phase e = phase_for (re_rpc e) \<and> re_device e \<in> ds_device_id ` set desired_states \<and>
       re_tx_id e \<in> range (ev_uuid env))) \<and>
    (\<forall>d. d \<notin> ds_device_id ` set desired_states \<longrightarrow> bm_get (w_shadow w') d = bm_get (w_shadow w) d) \<and>
    (\<forall>t. t \<notin> range (ev_uuid env) \<longrightarrow> bm_get (w_journal w') t = bm_get (w_journal w) t)"
  using wpD[OF wp_apply_desired_states assms]
  by (simp add: confined_def announced_def list_all_iff durable_def)

text \<open>C19: With a journal whose writes succeed, the status of an applied state tells what happened.
  Without a transaction nothing changed.  With one, the journal durably holds the phase that the
  status names; a failed transaction made no call; a rolled back one ended with the rollback call
  and left the shadow state alone; a successful one made exactly the prepare, commit, verify and,
  for confirmed commit, confirm calls and stored the shadow state of its change set.  This holds for
  every answer of the adapters and every failure of the other stores.\<close>

theorem apply_single_status_faithful:
  assumes "reliable_journal env"
    and "run_state (apply_single_endpoint_state env request_id trace_id desired allow policy) w = (r, w')"
  shows "dr_device_id r = ds_device_id desired \<and> (case dr_tx_id r of
      None \<Rightarrow> quiet w w' \<and> dr_status r \<in> {NoOpSuccess, ApplyFailed, ApplyInDoubt}
    | Some t \<Rightarrow>
        durable_phase w' t = phase_of_status (dr_status r) \<and> durable_phase w' t \<noteq> None \<and>
        (\<exists>ops. w_log w' = w_log w @ map (entry t (ds_device_id desired)) ops \<and>
          (dr_status r = ApplyFailed \<longrightarrow> ops = []) \<and>
          (dr_status r = ApplyRolledBack \<longrightarrow> ops \<noteq> [] \<and> (\<exists>s. last ops = RpcRollback s)) \<and>
          (dr_status r \<in> {ApplyFailed, ApplyRolledBack} \<longrightarrow> w_shadow w' = w_shadow w) \<and>
          (dr_status r \<in> {Success, SuccessWithWarning} \<longrightarrow> (\<exists>cs strategy c.
             ops = committed_ops env desired cs strategy c \<and> (is_degraded strategy \<longrightarrow> allow) \<and>
             w_shadow w' = snd (shadow_put
               (apply_to_shadow cs (bm_get (w_shadow w) (ds_device_id desired)) desired 0) (w_shadow w))))))"
proof (rule conjI)
  have outcome: "single_outcome env request_id trace_id desired allow policy w r w'"
    by (rule wpD[OF wp_apply_single_endpoint_state assms(2)])
  then show "dr_device_id r = ds_device_id desired" by (simp add: single_outcome_def)
  show "case dr_tx_id r of
      None \<Rightarrow> quiet w w' \<and> dr_status r \<in> {NoOpSuccess, ApplyFailed, ApplyInDoubt}
    | Some t \<Rightarrow>
        durable_phase w' t = phase_of_status (dr_status r) \<and> durable_phase w' t \<noteq> None \<and>
        (\<exists>ops. w_log w' = w_log w @ map (entry t (ds_device_id desired)) ops \<and>
          (dr_status r = ApplyFailed \<longrightarrow> ops = []) \<and>
          (dr_status r = ApplyRolledBack \<longrightarrow> ops \<noteq> [] \<and> (\<exists>s. last ops = RpcRollback s)) \<and>
          (dr_status r \<in> {ApplyFailed, ApplyRolledBack} \<longrightarrow> w_shadow w' = w_shadow w) \<and>
          (dr_status r \<in> {Success, SuccessWithWarning} \<longrightarrow> (\<exists>cs strategy c.
             ops = committed_ops env desired cs strategy c \<and> (is_degraded strategy \<longrightarrow> allow) \<and>
             w_shadow w' = snd (shadow_put
               (apply_to_shadow cs (bm_get (w_shadow w) (ds_device_id desired)) desired 0) (w_shadow w)))))"
    by (rule single_outcome_reliable[OF outcome assms(1)])
qed

section \<open>Gates\<close>

lemma settled_quiet: "quiet w w' \<Longrightarrow> settled w' d = settled w d"
  by (simp add: settled_def quiet_def durable_def)

lemma blocked_outcome:
  assumes "single_outcome env request_id trace_id desired allow policy w r w'"
    and "\<not> settled w (ds_device_id desired) \<or> \<not> drift_allows w (ds_device_id desired) policy"
  shows "quiet w w' \<and> dr_tx_id r = None \<and> dr_status r \<in> {ApplyFailed, ApplyInDoubt}"
  using assms
  by (auto simp: single_outcome_def no_tx_outcome_def not_opened_outcome_def tx_outcome_def admitted_def)

text \<open>When the lock and the journal answer, an apply blocked by an unresolved transaction is
  reported in doubt.\<close>

lemma blocking_status:
  "dr_status (device_error_result d c t s (blocking_error records)) = ApplyInDoubt"
  by (simp add: device_error_result_def blocking_error_def in_doubt_code_def adapter_error_message_def)

lemma unsettled_blocking:
  assumes "\<not> settled w d" and "journal_list_recoverable (w_journal w) = Inr rs"
  shows "in_doubt_records_for_devices rs [d] \<noteq> []"
  using assms journal_list_recoverable_settled by blast

lemma wp_blocked_status:
  assumes "\<not> settled w (ds_device_id desired)" and "ev_lock env (w_tick w)"
    and "ev_journal_read env (Suc (w_tick w)) = None"
  shows "wp (apply_single_endpoint_state env request_id trace_id desired allow policy)
    (\<lambda>r _. dr_status r = ApplyInDoubt) w"
proof -
  obtain rs where rs: "journal_list_recoverable (w_journal w) = Inr rs"
    by (simp add: journal_list_recoverable_def)
  show ?thesis
    using assms(2,3) unsettled_blocking[OF assms(1) rs]
    unfolding apply_single_endpoint_state_def admit_def ensure_no_in_doubt_for_devices_def
    by (simp add: wp_simps Let_def rs blocking_status)
qed

text \<open>C20: An apply to a device with an unresolved transaction, or to a drifted device under a
  policy that blocks, changes nothing: no call is made, no transaction is opened and no store
  but the observed states is written, whatever else happens.  Once the lock and the journal
  answer, an unresolved transaction is reported as in doubt.\<close>

theorem apply_blocked_changes_nothing:
  assumes "\<not> settled w (ds_device_id desired) \<or> \<not> drift_allows w (ds_device_id desired) policy"
    and "run_state (apply_single_endpoint_state env request_id trace_id desired allow policy) w = (r, w')"
  shows "quiet w w' \<and> dr_tx_id r = None \<and> dr_status r \<in> {ApplyFailed, ApplyInDoubt} \<and>
    (\<not> settled w (ds_device_id desired) \<longrightarrow> ev_lock env (w_tick w) \<longrightarrow>
       ev_journal_read env (Suc (w_tick w)) = None \<longrightarrow> dr_status r = ApplyInDoubt)"
proof -
  have "single_outcome env request_id trace_id desired allow policy w r w'"
    by (rule wpD[OF wp_apply_single_endpoint_state assms(2)])
  from blocked_outcome[OF this assms(1)] show ?thesis
    using wpD[OF wp_blocked_status assms(2)] by blast
qed

section \<open>In doubt blocks the device\<close>

lemma single_outcome_entry:
  assumes "single_outcome env request_id trace_id desired allow policy w r w'"
    and "reliable_journal env" and "dr_tx_id r = Some t"
  shows "\<exists>rec. durable w' t = Some rec \<and> jr_devices rec = [ds_device_id desired] \<and>
    jr_desired_states rec = [desired]"
proof -
  have "tx_outcome env request_id trace_id desired allow policy w r w'"
    using assms by (auto simp: single_outcome_def no_tx_outcome_def not_opened_outcome_def not_opened_def)
  then obtain plan r0 ops where o: "opens env request_id trace_id desired plan r0"
    and "tx_success env r0 desired allow plan w ops r w' \<or> failed_outcome env r0 w desired ops r w'"
    unfolding tx_outcome_def by blast
  then have "tx_closed r0 (ds_device_id desired) w ops w'" "dr_tx_id r = Some (jr_tx_id r0)"
    by (auto simp: tx_success_def failed_outcome_def finished_def)
  then show ?thesis using o assms(3) by (auto simp: tx_closed_def opens_def same_tx_def)
qed

lemma in_doubt_unsettled:
  assumes "single_outcome env request_id trace_id desired allow policy w r w'"
    and "reliable_journal env" and "dr_tx_id r = Some t" and "dr_status r = ApplyInDoubt"
  shows "\<not> settled w' (ds_device_id desired)"
proof -
  obtain rec where rec: "durable w' t = Some rec" "jr_devices rec = [ds_device_id desired]"
    using single_outcome_entry[OF assms(1-3)] by blast
  have "durable_phase w' t = Some InDoubt"
    using single_outcome_reliable[OF assms(1,2)] assms(3,4) by simp
  then have "jr_phase rec = InDoubt" using rec(1) by (simp add: durable_phase_def)
  then have "requires_recovery (jr_phase rec)" by (simp add: requires_recovery_def)
  then show ?thesis using rec unfolding settled_def by (metis list.set_intros(1))
qed


section \<open>Sample runs\<close>

definition sample_success_post :: "DeviceApplyResult \<Rightarrow> world \<Rightarrow> bool" where
  "sample_success_post r w' \<longleftrightarrow> dr_status r = Success \<and> dr_tx_id r = Some ''tx'' \<and>
     map re_durable_phase (w_log w') = [Some Preparing, Some Committing, Some Verifying]"

lemma sample_success:
  "wp (apply_single_endpoint_state sample_env ''req'' ''trace'' sample_desired False BlockNewTransaction)
     sample_success_post sample_world"
  by (simp add: apply_eval sample_success_post_def log_call_def bm_get_insert cong: wp_eval_congs)

lemma sample_success_log:
  assumes "sample_success_post r w'"
  shows "length (w_log w') = 3"
proof -
  have "map re_durable_phase (w_log w') = [Some Preparing, Some Committing, Some Verifying]"
    using assms by (simp add: sample_success_post_def)
  from arg_cong[OF this, of length] show ?thesis by simp
qed

text \<open>An adapter that fails the prepare call and does not roll back.\<close>

definition stuck_env :: env where
  "stuck_env = sample_env\<lparr>ev_rpc := (\<lambda>_ _ _. Inl (AdapterTransport ''down''))\<rparr>"

definition sample_doubt_post :: "DeviceApplyResult \<Rightarrow> world \<Rightarrow> bool" where
  "sample_doubt_post r w' \<longleftrightarrow> dr_status r = ApplyInDoubt \<and> dr_tx_id r = Some ''tx''"

lemma sample_doubt:
  "wp (apply_single_endpoint_state stuck_env ''req'' ''trace'' sample_desired False BlockNewTransaction)
     sample_doubt_post sample_world"
  by (simp add: apply_eval stuck_env_def sample_doubt_post_def rollback_preserving_primary_def
      rollback_after_endpoint_failure_def with_rollback_failure_context_def failed_apply_phase_def
      apply_status_for_failed_phase_def cong: wp_eval_congs)

text \<open>A journal whose one failing write is the announcement of the verify step, after a successful
  commit.\<close>

definition full_disk_env :: env where
  "full_disk_env = sample_env\<lparr>ev_journal_put := (\<lambda>n. if n = 23 then Lost (Internal ''disk full'') else Stored)\<rparr>"

definition sample_lost_post :: "DeviceApplyResult \<Rightarrow> world \<Rightarrow> bool" where
  "sample_lost_post r w' \<longleftrightarrow> dr_status r = ApplyFailed \<and> durable_phase w' ''tx'' = Some Failed \<and>
     settled w' ''sw1'' \<and> w_shadow w' = bm_empty \<and>
     map re_rpc (w_log w') = [RpcPrepare sample_desired, RpcCommit CandidateCommit 120 (Some ''sum'')]"

lemma sample_lost:
  "wp (apply_single_endpoint_state full_disk_env ''req'' ''trace'' sample_desired False BlockNewTransaction)
     sample_lost_post sample_world"
  by (simp add: apply_eval full_disk_env_def sample_lost_post_def failed_apply_phase_def log_call_def
      apply_status_for_failed_phase_def sample_outcome_def durable_phase_def durable_def settled_def bm_get_insert
      requires_recovery_def with_strategy_def with_error_def cong: wp_eval_congs)


theorem apply_single_status_faithful_witness:
  "case run_state (apply_single_endpoint_state sample_env ''req'' ''trace'' sample_desired False
      BlockNewTransaction) sample_world of (r, w') \<Rightarrow>
     reliable_journal sample_env \<and> dr_status r = Success \<and> durable_phase w' ''tx'' = Some Committed \<and>
     dr_device_id r = ''sw1''"
proof -
  obtain r w' where run: "run_state (apply_single_endpoint_state sample_env ''req'' ''trace'' sample_desired False
      BlockNewTransaction) sample_world = (r, w')"
    by (rule prod.exhaust)
  have rel: "reliable_journal sample_env" by (simp add: reliable_journal_def)
  have "dr_status r = Success \<and> dr_tx_id r = Some ''tx''"
    using wpD[OF sample_success run] by (simp add: sample_success_post_def)
  then show ?thesis
    using apply_single_status_faithful[OF rel run] rel by (simp add: run)
qed

theorem apply_writes_ahead_witness:
  "case run_state (apply_desired_states sample_env ''req'' ''trace'' [sample_desired] False
      BlockNewTransaction) sample_world of (resp, w') \<Rightarrow>
     length (w_log w') = 3 \<and> (\<forall>e \<in> set (w_log w'). re_durable_phase e = phase_for (re_rpc e) \<and> re_device e = ''sw1'')"
proof -
  obtain resp w' where run: "run_state (apply_desired_states sample_env ''req'' ''trace'' [sample_desired] False
      BlockNewTransaction) sample_world = (resp, w')"
    by (rule prod.exhaust)
  have "wp (apply_desired_states sample_env ''req'' ''trace'' [sample_desired] False BlockNewTransaction)
      (\<lambda>resp w'. length (w_log w') = 3) sample_world"
    unfolding apply_desired_states_def apply_each.simps emit_apply_events_def wp_bind wp_return wp_modify
    by (rule wp_mono[OF sample_success]) (simp add: sample_success_log)
  from wpD[OF this run] apply_writes_ahead[OF run] show ?thesis by (simp add: run)
qed

theorem apply_blocked_changes_nothing_witness:
  "let w = sample_world\<lparr>w_inventory := bm_of_list [(''sw1'', \<lparr>md_info = sample_info\<lparr>dv_lifecycle_state := Drifted\<rparr>,
             md_capability = None\<rparr>)]\<rparr> in
   \<not> drift_allows w ''sw1'' BlockNewTransaction \<and>
   (case run_state (apply_single_endpoint_state sample_env ''req'' ''trace'' sample_desired False
      BlockNewTransaction) w of (r, w') \<Rightarrow> quiet w w' \<and> dr_tx_id r = None)"
proof -
  let ?w = "sample_world\<lparr>w_inventory := bm_of_list [(''sw1'', \<lparr>md_info = sample_info\<lparr>dv_lifecycle_state := Drifted\<rparr>,
             md_capability = None\<rparr>)]\<rparr>"
  obtain r w' where run: "run_state (apply_single_endpoint_state sample_env ''req'' ''trace'' sample_desired False
      BlockNewTransaction) ?w = (r, w')"
    by (rule prod.exhaust)
  have blocked: "\<not> drift_allows ?w ''sw1'' BlockNewTransaction"
    by (simp add: drift_allows_def inventory_get_def bm_get_of_list)
  then show ?thesis
    using apply_blocked_changes_nothing[OF _ run] by (simp add: run Let_def)
qed


end
