(* ===== verification/Recovery.thy ===== *)
theory Recovery
  imports Apply
begin

text \<open>
  The recovery coordinator (\<open>src/api/recovery_coordinator.rs\<close>) and its helpers
  (\<open>src/api/recovery_ops.rs\<close>).  The endpoint locks are taken before each record and may wait but not
  fail; while they wait the journal may change, so the loop takes any list of candidates, not only
  records that the journal holds, and reads the journal again as the code does.
\<close>

section \<open>Helpers (api/recovery_ops.rs)\<close>

fun recover_phase_from_adapter_status :: "RecoveryAction \<Rightarrow> AdapterOperationStatus \<Rightarrow> TxPhase" where
  "recover_phase_from_adapter_status _ AdRolledBack = RolledBack"
| "recover_phase_from_adapter_status AdapterRecover AdCommitted = Committed"
| "recover_phase_from_adapter_status DiscardPreparedChanges AdNoChange = RolledBack"
| "recover_phase_from_adapter_status _ _ = InDoubt"

definition merge_recovery_phase :: "TxPhase option \<Rightarrow> TxPhase \<Rightarrow> TxPhase" where
  "merge_recovery_phase current next =
     (case current of None \<Rightarrow> next | Some left \<Rightarrow> if left = next then left else InDoubt)"

definition desired_state_for_record :: "TxJournalRecord \<Rightarrow> DeviceId \<Rightarrow> DeviceDesiredState option" where
  "desired_state_for_record r d = find (\<lambda>desired. ds_device_id desired = d) (jr_desired_states r)"

definition change_set_for_record :: "TxJournalRecord \<Rightarrow> DeviceId \<Rightarrow> ChangeSet option" where
  "change_set_for_record r d = find (\<lambda>cs. cs_device_id cs = d) (jr_change_sets r)"

definition error_summary :: "string \<Rightarrow> UnderlayError \<Rightarrow> string" where
  "error_summary operation err =
     (let (code, message) = journal_error_fields err in
      operation @ '' failed with '' @ code @ '': '' @ message)"

definition final_confirm_recovery_in_doubt_error ::
  "TxJournalRecord \<Rightarrow> DeviceId \<Rightarrow> string \<Rightarrow> string \<Rightarrow> string \<Rightarrow> UnderlayError" where
  "final_confirm_recovery_in_doubt_error r d final_confirm_summary verify_summary recover_summary =
     AdapterOperation ''FINAL_CONFIRM_RECOVERY_IN_DOUBT''
       (''could not prove final-confirming transaction '' @ jr_tx_id r @ '' for device '' @ d @ '': '' @
        final_confirm_summary @ ''; '' @ verify_summary @ ''; '' @ recover_summary) True []"

section \<open>Failures per device\<close>

record RecoveryFailure =
  rf_device_id :: string
  rf_error :: UnderlayError

text \<open>The two mutable variables of the loops over the devices of a record.\<close>

type_synonym recovery_acc = "TxPhase option \<times> RecoveryFailure list"

definition record_recovery_failure :: "DeviceId \<Rightarrow> UnderlayError \<Rightarrow> recovery_acc \<Rightarrow> recovery_acc" where
  "record_recovery_failure d err acc =
     (Some (merge_recovery_phase (fst acc) InDoubt),
      snd acc @ [\<lparr>rf_device_id = d, rf_error = err\<rparr>])"

definition merge_phase :: "TxPhase \<Rightarrow> recovery_acc \<Rightarrow> recovery_acc" where
  "merge_phase phase acc = (Some (merge_recovery_phase (fst acc) phase), snd acc)"

definition recovery_failure_summary :: "RecoveryFailure \<Rightarrow> string" where
  "recovery_failure_summary failure =
     (let (code, message) = journal_error_fields (rf_error failure) in
      ''device '' @ rf_device_id failure @ '': '' @ code @ '': '' @ message)"

definition recovery_attempts_in_doubt_error ::
  "TxJournalRecord \<Rightarrow> string \<Rightarrow> string \<Rightarrow> RecoveryFailure list \<Rightarrow> UnderlayError" where
  "recovery_attempts_in_doubt_error r code lead failures =
     (case failures of
        [failure] \<Rightarrow> if length (jr_devices r) = 1 then rf_error failure
          else AdapterOperation code (lead @ '' transaction '' @ jr_tx_id r @ '' for one or more devices: '' @
            join_with ''; '' (map recovery_failure_summary failures)) True []
      | _ \<Rightarrow> AdapterOperation code (lead @ '' transaction '' @ jr_tx_id r @ '' for one or more devices: '' @
            join_with ''; '' (map recovery_failure_summary failures)) True [])"

section \<open>Gates\<close>

datatype RecoveryReportScope = AllRecoverable | AttemptedTxIds

datatype RecoveryRecordGate = AnyRecoverable | TimedOutConfirmedCommit u64 u64

text \<open>\<open>u64::saturating_sub\<close>.\<close>

definition saturating_sub :: "u64 \<Rightarrow> u64 \<Rightarrow> u64" where
  "saturating_sub a b = (if b \<le> a then a - b else 0)"

definition is_timed_out_confirmed_commit :: "TxJournalRecord \<Rightarrow> u64 \<Rightarrow> u64 \<Rightarrow> bool" where
  "is_timed_out_confirmed_commit r now timeout_secs \<longleftrightarrow>
     jr_strategy r = Some ConfirmedCommit \<and>
     (case jr_phase r of Committing \<Rightarrow> True | Verifying \<Rightarrow> True | FinalConfirming \<Rightarrow> True
       | Recovering \<Rightarrow> True | _ \<Rightarrow> False) \<and>
     max timeout_secs 1 \<le> saturating_sub now (jr_updated_at r)"

fun gate_matches :: "RecoveryRecordGate \<Rightarrow> TxJournalRecord \<Rightarrow> bool" where
  "gate_matches AnyRecoverable r = True"
| "gate_matches (TimedOutConfirmedCommit now timeout_secs) r = is_timed_out_confirmed_commit r now timeout_secs"

section \<open>Recovering a record\<close>

text \<open>The loop of \<open>recover_with_transport_retry\<close>, with the number of attempts that are left.\<close>

fun transport_retry ::
  "env \<Rightarrow> string \<Rightarrow> TransactionStrategy option \<Rightarrow> RecoveryAction \<Rightarrow> DeviceId \<Rightarrow> nat \<Rightarrow> string option \<Rightarrow>
   AdapterOutcome tx" where
  "transport_retry env tx_id strategy action d 0 last_transport_error =
     throw (AdapterTransport (case last_transport_error of
       Some message \<Rightarrow> message | None \<Rightarrow> ''adapter recover transport failed''))"
| "transport_retry env tx_id strategy action d (Suc attempts) last_transport_error =
     try_then (open_client env) (\<lambda>_.
     on_error (call_as env tx_id (RpcRecover strategy action) d)
       (\<lambda>err. case err of
          AdapterTransport message \<Rightarrow>
            if attempts > 0 then transport_retry env tx_id strategy action d attempts (Some message) else throw err
        | _ \<Rightarrow> throw err)
       ok)"

definition recover_with_transport_retry ::
  "env \<Rightarrow> string \<Rightarrow> TransactionStrategy option \<Rightarrow> RecoveryAction \<Rightarrow> DeviceId \<Rightarrow> AdapterOutcome tx" where
  "recover_with_transport_retry env tx_id strategy action d =
     transport_retry env tx_id strategy action d 3 None"

text \<open>One device of \<open>recover_record\<close>.\<close>

definition recover_device ::
  "env \<Rightarrow> TxJournalRecord \<Rightarrow> RecoveryAction \<Rightarrow> recovery_acc \<Rightarrow> DeviceId \<Rightarrow> recovery_acc eff" where
  "recover_device env r action acc d =
     on_error (get_managed d)
       (\<lambda>err. State_Monad.return (record_recovery_failure d err acc))
       (\<lambda>managed. on_error (recover_with_transport_retry env (jr_tx_id r) (jr_strategy r) action d)
         (\<lambda>err. State_Monad.return (record_recovery_failure d err acc))
         (\<lambda>outcome. State_Monad.return
           (merge_phase (recover_phase_from_adapter_status action (ao_status outcome)) acc)))"

text \<open>The attempts of \<open>recover_final_confirming_record\<close> on one device: the pending confirm, then the
  verification of the desired state; \<open>None\<close> when one of them proves the commit.\<close>

definition try_final_confirm :: "env \<Rightarrow> TxJournalRecord \<Rightarrow> DeviceId \<Rightarrow> string option eff" where
  "try_final_confirm env r d =
     on_error (call_as env (jr_tx_id r) RpcFinalConfirm d)
       (\<lambda>err. State_Monad.return (Some (error_summary ''final confirm'' err)))
       (\<lambda>outcome. State_Monad.return
         (if ao_status outcome = AdCommitted then None
          else Some (''final confirm returned status '' @ debug_adapter_status (ao_status outcome))))"

definition try_verify :: "env \<Rightarrow> TxJournalRecord \<Rightarrow> DeviceId \<Rightarrow> string option eff" where
  "try_verify env r d =
     (case (desired_state_for_record r d, change_set_for_record r d) of
        (Some desired, Some cs) \<Rightarrow>
          on_error (call_as env (jr_tx_id r) (RpcVerify desired cs) d)
            (\<lambda>err. State_Monad.return (Some (error_summary ''verify'' err)))
            (\<lambda>verify. State_Monad.return
              (if ao_status verify = AdNoChange \<or> ao_status verify = AdCommitted then None
               else Some (''verify returned status '' @ debug_adapter_status (ao_status verify))))
      | _ \<Rightarrow> State_Monad.return (Some (''journal record '' @ jr_tx_id r @
          '' has no desired state or change set for device '' @ d)))"

definition recover_final_confirming_device ::
  "env \<Rightarrow> TxJournalRecord \<Rightarrow> recovery_acc \<Rightarrow> DeviceId \<Rightarrow> recovery_acc eff" where
  "recover_final_confirming_device env r acc d =
     on_error (try_then (get_managed d) (\<lambda>_. open_client env))
       (\<lambda>err. State_Monad.return (record_recovery_failure d err acc))
       (\<lambda>_. State_Monad.bind (try_final_confirm env r d) (\<lambda>confirm.
         case confirm of
           None \<Rightarrow> State_Monad.return (merge_phase Committed acc)
         | Some final_confirm_summary \<Rightarrow>
            State_Monad.bind (try_verify env r d) (\<lambda>verify.
            case verify of
              None \<Rightarrow> State_Monad.return (merge_phase Committed acc)
            | Some verify_summary \<Rightarrow>
               on_error (recover_with_transport_retry env (jr_tx_id r) (jr_strategy r) AdapterRecover d)
                 (\<lambda>err. State_Monad.return (record_recovery_failure d
                   (final_confirm_recovery_in_doubt_error r d final_confirm_summary verify_summary
                     (error_summary ''adapter recover'' err)) acc))
                 (\<lambda>outcome.
                   let phase = recover_phase_from_adapter_status AdapterRecover (ao_status outcome) in
                   State_Monad.return
                     (if phase = Committed \<or> phase = RolledBack then merge_phase phase acc
                      else record_recovery_failure d
                        (final_confirm_recovery_in_doubt_error r d final_confirm_summary verify_summary
                          (''adapter recover returned status '' @ debug_adapter_status (ao_status outcome))) acc)))))"

primrec recover_devices ::
  "(recovery_acc \<Rightarrow> DeviceId \<Rightarrow> recovery_acc eff) \<Rightarrow> DeviceId list \<Rightarrow> recovery_acc \<Rightarrow> recovery_acc eff" where
  "recover_devices step [] acc = State_Monad.return acc"
| "recover_devices step (d # ds) acc = State_Monad.bind (step acc d) (recover_devices step ds)"

definition recovered_phase :: "TxJournalRecord \<Rightarrow> string \<Rightarrow> string \<Rightarrow> recovery_acc \<Rightarrow> TxPhase tx" where
  "recovered_phase r code lead acc =
     (case acc of (merged, failures) \<Rightarrow>
        if failures \<noteq> [] then throw (recovery_attempts_in_doubt_error r code lead failures)
        else ok (case merged of Some phase \<Rightarrow> phase | None \<Rightarrow> InDoubt))"

definition recover_final_confirming_record :: "env \<Rightarrow> TxJournalRecord \<Rightarrow> TxPhase tx" where
  "recover_final_confirming_record env r =
     (if jr_devices r = [] then ok InDoubt
      else State_Monad.bind (recover_devices (recover_final_confirming_device env r) (jr_devices r) (None, []))
        (recovered_phase r ''FINAL_CONFIRM_RECOVERY_IN_DOUBT'' ''could not prove final-confirming''))"

definition recover_record :: "env \<Rightarrow> TxJournalRecord \<Rightarrow> RecoveryAction \<Rightarrow> TxPhase tx" where
  "recover_record env r action =
     (if jr_phase r = FinalConfirming \<and> jr_strategy r = Some ConfirmedCommit
      then recover_final_confirming_record env r
      else if jr_devices r = []
      then ok (case action of DiscardPreparedChanges \<Rightarrow> RolledBack | _ \<Rightarrow> InDoubt)
      else State_Monad.bind (recover_devices (recover_device env r action) (jr_devices r) (None, []))
        (recovered_phase r ''RECOVERY_ATTEMPT_IN_DOUBT'' ''could not recover''))"

text \<open>The shadow states of a transaction that recovery found committed.\<close>

primrec persist_recovered_shadow :: "env \<Rightarrow> TxJournalRecord \<Rightarrow> DeviceId list \<Rightarrow> unit tx" where
  "persist_recovered_shadow env r [] = ok ()"
| "persist_recovered_shadow env r (d # ds) =
     try_then (of_result (ok_or (desired_state_for_record r d)
       (InvalidDeviceState (''journal record '' @ jr_tx_id r @
         '' has no desired state for recovered device '' @ d)))) (\<lambda>desired.
     try_then (get_shadow env d) (\<lambda>existing.
     try_then (put_shadow env
       (case change_set_for_record r d of
          Some cs \<Rightarrow> apply_to_shadow cs existing desired 0
        | None \<Rightarrow> from_desired desired 0)) (\<lambda>_.
     persist_recovered_shadow env r ds)))"

section \<open>Recovering the journal\<close>

text \<open>The variables of the loop over the candidates.\<close>

record recovery_run =
  ra_decisions :: "RecoveryDecision list"
  ra_attempted :: "string bset"
  ra_recovered :: nat

definition stamp_phase :: "env \<Rightarrow> TxPhase \<Rightarrow> TxJournalRecord \<Rightarrow> TxJournalRecord tx" where
  "stamp_phase env phase r = State_Monad.bind (ask (ev_now env)) (\<lambda>now. of_result (transition_phase now phase r))"

text \<open>A copy of the record goes in doubt with the error.\<close>

definition fail_recovery :: "env \<Rightarrow> TxJournalRecord \<Rightarrow> recovery_run \<Rightarrow> UnderlayError \<Rightarrow> recovery_run tx" where
  "fail_recovery env recovering run err =
     (let (code, message) = journal_error_fields err in
      try_then (stamp_phase env InDoubt recovering) (\<lambda>updated.
      State_Monad.bind (ask (ev_now env)) (\<lambda>now.
      try_then (put_journal env (with_error now code message updated)) (\<lambda>_. ok run))))"

text \<open>The attempt on the devices and its outcome, once the record is durably \<open>Recovering\<close>.\<close>

definition settle_recovering ::
  "env \<Rightarrow> TxJournalRecord \<Rightarrow> TxJournalRecord \<Rightarrow> RecoveryAction \<Rightarrow> recovery_run \<Rightarrow> recovery_run tx" where
  "settle_recovering env r recovering action run =
     on_error (recover_record env r action)
       (fail_recovery env recovering run)
       (\<lambda>phase.
         on_error (if phase = Committed then persist_recovered_shadow env r (jr_devices r) else ok ())
           (fail_recovery env recovering run)
           (\<lambda>_.
             try_then (stamp_phase env phase recovering) (\<lambda>recovered.
             try_then (put_journal env recovered) (\<lambda>_.
             ok (if phase = Committed \<or> phase = RolledBack
                 then run\<lparr>ra_recovered := ra_recovered run + 1\<rparr> else run)))))"

definition recover_by_action ::
  "env \<Rightarrow> TxJournalRecord \<Rightarrow> RecoveryAction \<Rightarrow> recovery_run \<Rightarrow> recovery_run tx" where
  "recover_by_action env r action run =
     try_then (stamp_phase env Recovering r) (\<lambda>recovering.
     try_then (put_journal env recovering) (\<lambda>_.
     settle_recovering env r recovering action run))"

definition recover_candidate ::
  "env \<Rightarrow> RecoveryRecordGate \<Rightarrow> TxJournalRecord \<Rightarrow> recovery_run \<Rightarrow> recovery_run tx" where
  "recover_candidate env record_gate candidate run =
     try_then (journal_read env (\<lambda>j. bm_get j (jr_tx_id candidate))) (\<lambda>found.
     case found of
       None \<Rightarrow> ok run
     | Some r \<Rightarrow>
        let decision = classify_recovery r;
            run = run\<lparr>ra_decisions := ra_decisions run @ [decision]\<rparr> in
        if \<not> requires_recovery (jr_phase r) then ok run
        else if \<not> gate_matches record_gate r then ok run
        else
          let run = run\<lparr>ra_attempted := bs_insert (jr_tx_id r) (ra_attempted run)\<rparr> in
          case rd_action decision of
            Noop \<Rightarrow> ok run
          | ManualIntervention \<Rightarrow>
              if jr_phase r \<noteq> InDoubt then
                try_then (stamp_phase env InDoubt r) (\<lambda>updated.
                try_then (put_journal env updated) (\<lambda>_. ok run))
              else ok run
          | action \<Rightarrow> recover_by_action env r action run)"

primrec recover_candidates ::
  "env \<Rightarrow> RecoveryRecordGate \<Rightarrow> TxJournalRecord list \<Rightarrow> recovery_run \<Rightarrow> recovery_run tx" where
  "recover_candidates env record_gate [] run = ok run"
| "recover_candidates env record_gate (candidate # rest) run =
     try_then (recover_candidate env record_gate candidate run) (recover_candidates env record_gate rest)"

definition recover_records ::
  "env \<Rightarrow> TxJournalRecord list \<Rightarrow> RecoveryReportScope \<Rightarrow> RecoveryRecordGate \<Rightarrow> string \<Rightarrow> string \<Rightarrow>
   RecoveryReport tx" where
  "recover_records env candidates report_scope record_gate request_id trace_id =
     try_then (recover_candidates env record_gate candidates
       \<lparr>ra_decisions = [], ra_attempted = bs_of_list [], ra_recovered = 0\<rparr>) (\<lambda>run.
     try_then (journal_read env journal_list_recoverable) (\<lambda>listed.
     try_then (of_result listed) (\<lambda>recoverable.
     let pending_records = (case report_scope of
           AllRecoverable \<Rightarrow> recoverable
         | AttemptedTxIds \<Rightarrow> filter (\<lambda>r. bs_member (ra_attempted run) (jr_tx_id r)) recoverable);
         report = \<lparr>rr_recovered = ra_recovered run,
           rr_in_doubt = length (filter (\<lambda>r. jr_phase r = InDoubt) pending_records),
           rr_pending = length pending_records, rr_tx_ids = map jr_tx_id pending_records,
           rr_decisions = ra_decisions run\<rparr> in
     State_Monad.bind (modify (w_events_update (\<lambda>events. events @ [recovery_completed request_id trace_id report])))
       (\<lambda>_. ok report))))"

definition recover_pending_transactions :: "env \<Rightarrow> RecoveryReport tx" where
  "recover_pending_transactions env =
     try_then (journal_read env journal_list_recoverable) (\<lambda>listed.
     try_then (of_result listed) (\<lambda>recoverable.
     recover_records env recoverable AllRecoverable AnyRecoverable ''recovery'' ''recovery''))"

definition recover_timed_out_confirmed_commits :: "env \<Rightarrow> u64 \<Rightarrow> u64 \<Rightarrow> RecoveryReport tx" where
  "recover_timed_out_confirmed_commits env now timeout_secs =
     try_then (journal_read env journal_list_recoverable) (\<lambda>listed.
     try_then (of_result listed) (\<lambda>recoverable.
     recover_records env (filter (\<lambda>r. is_timed_out_confirmed_commit r now timeout_secs) recoverable)
       AttemptedTxIds (TimedOutConfirmedCommit now timeout_secs)
       ''confirmed-commit-timeout-watcher'' ''confirmed-commit-timeout-watcher''))"

end
