(* ===== verification/Recovery_Safety.thy ===== *)
theory Recovery_Safety
  imports Recovery Apply_Safety
begin

text \<open>
  What recovery does to the journal, the devices and the shadow store, in every environment.

  \<open>calls_for t ds w\<close> is the frame of the calls to the devices of one record; \<open>evidence\<close> is the answer
  of a device that settles a transaction; \<open>recovery_rel\<close> relates the world before a recovery to the world after
  any number of its steps.  It is reflexive and transitive, so the loop over the candidates only
  needs the lemma on one candidate.
\<close>

section \<open>Calls on behalf of a record\<close>

definition calls_for :: "string \<Rightarrow> DeviceId set \<Rightarrow> world \<Rightarrow> world \<Rightarrow> bool" where
  "calls_for t ds w w' \<longleftrightarrow> w_tick w \<le> w_tick w' \<and> (\<exists>es.
     w' = w\<lparr>w_tick := w_tick w', w_log := w_log w @ es\<rparr> \<and>
     (\<forall>e \<in> set es. re_tx_id e = t \<and> re_device e \<in> ds \<and>
       re_durable_phase e = map_option jr_phase (durable w t)))"

lemma calls_for_refl: "calls_for t ds w w"
  unfolding calls_for_def by (intro conjI exI[of _ "[]"]) simp_all

lemma calls_for_ask: "calls_for t ds w0 w \<Longrightarrow> calls_for t ds w0 (w\<lparr>w_tick := Suc (w_tick w)\<rparr>)"
proof -
  assume "calls_for t ds w0 w"
  then obtain es where es: "w = w0\<lparr>w_tick := w_tick w, w_log := w_log w0 @ es\<rparr>" "w_tick w0 \<le> w_tick w"
    "\<forall>e \<in> set es. re_tx_id e = t \<and> re_device e \<in> ds \<and> re_durable_phase e = map_option jr_phase (durable w0 t)"
    by (auto simp: calls_for_def)
  have "w\<lparr>w_tick := Suc (w_tick w)\<rparr> = w0\<lparr>w_tick := Suc (w_tick w), w_log := w_log w0 @ es\<rparr>"
    by (subst es(1)) simp
  with es(2,3) show ?thesis by (auto simp: calls_for_def)
qed

lemma calls_for_call:
  assumes "calls_for t ds w0 w" and "d \<in> ds"
  shows "calls_for t ds w0 (w\<lparr>w_tick := Suc (w_tick w), w_log := w_log w @ [log_call t op d w]\<rparr>)"
proof -
  obtain es where es: "w = w0\<lparr>w_tick := w_tick w, w_log := w_log w0 @ es\<rparr>" "w_tick w0 \<le> w_tick w"
    "\<forall>e \<in> set es. re_tx_id e = t \<and> re_device e \<in> ds \<and> re_durable_phase e = map_option jr_phase (durable w0 t)"
    using assms(1) by (auto simp: calls_for_def)
  have "w_journal w = w_journal w0" by (subst es(1)) simp
  then have e: "log_call t op d w = \<lparr>re_rpc = op, re_device = d, re_tx_id = t,
      re_durable_phase = map_option jr_phase (durable w0 t)\<rparr>"
    by (simp add: log_call_def durable_def)
  have "w\<lparr>w_tick := Suc (w_tick w), w_log := w_log w @ [log_call t op d w]\<rparr> =
      w0\<lparr>w_tick := Suc (w_tick w), w_log := w_log w0 @ (es @ [log_call t op d w])\<rparr>"
    by (subst (1 3) es(1)) simp
  then show ?thesis
    unfolding calls_for_def using es(2,3) assms(2) e by (intro conjI exI[of _ "es @ [log_call t op d w]"]) auto
qed

lemma keeps_calls_ask [keeps_intros]: "keeps (calls_for t ds w0) (ask f)"
  by (simp add: keeps_def wp_ask calls_for_ask)

lemma keeps_calls_open [keeps_intros]: "keeps (calls_for t ds w0) (open_client env)"
  unfolding open_client_def by (intro keeps_intros)

lemma keeps_calls_managed [keeps_intros]: "keeps (calls_for t ds w0) (get_managed d)"
  unfolding get_managed_def by (intro keeps_intros)

lemma keeps_calls_call [keeps_intros]:
  "d \<in> ds \<Longrightarrow> keeps (calls_for t ds w0) (call_as env t op d)"
  by (simp add: keeps_def wp_call_as calls_for_call)

lemma keeps_transport_retry:
  "d \<in> ds \<Longrightarrow> keeps (calls_for t ds w0) (transport_retry env t strategy action d n le)"
proof (induction n arbitrary: le)
  case 0
  show ?case by (simp add: keeps_intros)
next
  case (Suc n)
  have "keeps (calls_for t ds w0) (case err of
      AdapterTransport message \<Rightarrow> if n > 0 then transport_retry env t strategy action d n (Some message) else throw err
    | _ \<Rightarrow> throw err)" for err :: UnderlayError
    by (cases err) (auto intro!: keeps_intros Suc)
  then show ?case unfolding transport_retry.simps by (intro keeps_intros Suc.prems) auto
qed

lemma keeps_recover_retry [keeps_intros]:
  "d \<in> ds \<Longrightarrow> keeps (calls_for t ds w0) (recover_with_transport_retry env t strategy action d)"
  unfolding recover_with_transport_retry_def by (rule keeps_transport_retry)

lemma keeps_recover_device:
  "d \<in> ds \<Longrightarrow> keeps (calls_for (jr_tx_id r) ds w0) (recover_device env r action acc d)"
  unfolding recover_device_def by (intro keeps_intros)

lemma keeps_final_confirming:
  "d \<in> ds \<Longrightarrow> keeps (calls_for (jr_tx_id r) ds w0) (recover_final_confirming_device env r acc d)"
  unfolding recover_final_confirming_device_def try_final_confirm_def try_verify_def
  by (intro keeps_intros; assumption)

lemma keeps_recover_devices:
  "(\<And>acc d. d \<in> set ds \<Longrightarrow> keeps I (step acc d)) \<Longrightarrow> keeps I (recover_devices step ds acc)"
proof (induction ds arbitrary: acc)
  case Nil
  show ?case by (simp add: keeps_intros)
next
  case (Cons d ds)
  then show ?case by (simp add: keeps_bind)
qed

lemma keeps_recovered_phase [keeps_intros]: "keeps I (recovered_phase r code lead acc)"
  unfolding recovered_phase_def by (intro keeps_intros)

lemma keeps_recover_record:
  "keeps (calls_for (jr_tx_id r) (set (jr_devices r)) w0) (recover_record env r action)"
  unfolding recover_record_def recover_final_confirming_record_def
  by (intro keeps_intros keeps_recover_devices keeps_recover_device keeps_final_confirming)

section \<open>Evidence\<close>

text \<open>The device answered the call with the status at a tick of the interval.\<close>

definition answered :: "env \<Rightarrow> nat \<Rightarrow> nat \<Rightarrow> DeviceId \<Rightarrow> rpc \<Rightarrow> AdapterOperationStatus \<Rightarrow> bool" where
  "answered env lo hi d op status \<longleftrightarrow>
     (\<exists>n outcome. lo \<le> n \<and> n < hi \<and> ev_rpc env d op n = Inr outcome \<and> ao_status outcome = status)"

text \<open>What a device must have answered before recovery settles a transaction: it confirmed, verified
  or recovered the commit, or it undid the transaction or had nothing prepared.\<close>

fun evidence :: "env \<Rightarrow> nat \<Rightarrow> nat \<Rightarrow> TxJournalRecord \<Rightarrow> DeviceId \<Rightarrow> TxPhase \<Rightarrow> bool" where
  "evidence env lo hi r d Committed \<longleftrightarrow>
     answered env lo hi d RpcFinalConfirm AdCommitted \<or>
     (\<exists>desired cs. desired_state_for_record r d = Some desired \<and> change_set_for_record r d = Some cs \<and>
        (answered env lo hi d (RpcVerify desired cs) AdNoChange \<or>
         answered env lo hi d (RpcVerify desired cs) AdCommitted)) \<or>
     answered env lo hi d (RpcRecover (jr_strategy r) AdapterRecover) AdCommitted"
| "evidence env lo hi r d RolledBack \<longleftrightarrow>
     (\<exists>action. answered env lo hi d (RpcRecover (jr_strategy r) action) AdRolledBack) \<or>
     answered env lo hi d (RpcRecover (jr_strategy r) DiscardPreparedChanges) AdNoChange"
| "evidence env lo hi r d _ \<longleftrightarrow> True"

lemma answeredI:
  "ev_rpc env d op n = Inr outcome \<Longrightarrow> ao_status outcome = status \<Longrightarrow> lo \<le> n \<Longrightarrow> n < hi \<Longrightarrow>
   answered env lo hi d op status"
  unfolding answered_def by blast

lemma answered_mono: "answered env lo hi d op status \<Longrightarrow> lo' \<le> lo \<Longrightarrow> hi \<le> hi' \<Longrightarrow> answered env lo' hi' d op status"
  unfolding answered_def using le_trans less_le_trans by blast

lemma evidence_mono:
  "evidence env lo hi r d ph \<Longrightarrow> lo' \<le> lo \<Longrightarrow> hi \<le> hi' \<Longrightarrow> evidence env lo' hi' r d ph"
  by (cases ph) (auto intro: answered_mono)

lemma evidence_same_tx:
  "same_tx r r' \<Longrightarrow> jr_strategy r' = jr_strategy r \<Longrightarrow> evidence env lo hi r' d ph = evidence env lo hi r d ph"
  by (cases ph) (simp_all add: same_tx_def desired_state_for_record_def change_set_for_record_def)

lemma recover_status_evidence:
  "answered env lo hi d (RpcRecover (jr_strategy r) action) status \<Longrightarrow>
   evidence env lo hi r d (recover_phase_from_adapter_status action status)"
  by (induction action status rule: recover_phase_from_adapter_status.induct) auto

lemma evidence_in_doubt: "evidence env lo hi r d InDoubt"
  by simp

lemma evidence_final_confirm:
  "answered env lo hi d RpcFinalConfirm AdCommitted \<Longrightarrow> evidence env lo hi r d Committed"
  by simp

lemma evidence_verify:
  "answered env lo hi d (RpcVerify desired cs) status \<Longrightarrow> status \<in> {AdNoChange, AdCommitted} \<Longrightarrow>
   desired_state_for_record r d = Some desired \<Longrightarrow> change_set_for_record r d = Some cs \<Longrightarrow>
   evidence env lo hi r d Committed"
  by auto

declare evidence.simps [simp del] evidence_in_doubt [simp]

lemma recover_status_phase:
  "recover_phase_from_adapter_status action status \<in> {Committed, RolledBack, InDoubt}"
  by (induction action status rule: recover_phase_from_adapter_status.induct) simp_all

lemma wp_transport_retry_answered:
  "lo \<le> w_tick w \<Longrightarrow> wp (transport_retry env t strategy action d n le) (\<lambda>x w'. w_tick w \<le> w_tick w' \<and>
     (\<forall>outcome. x = Inr outcome \<longrightarrow>
        answered env lo (w_tick w') d (RpcRecover strategy action) (ao_status outcome))) w"
proof (induction n arbitrary: le w)
  case 0
  then show ?case by (simp add: wp_simps)
next
  case (Suc n)
  let ?P = "\<lambda>x w'. w_tick w \<le> w_tick w' \<and> (\<forall>outcome. x = Inr outcome \<longrightarrow>
        answered env lo (w_tick w') d (RpcRecover strategy action) (ao_status outcome))"
  have handler: "wp (case err of
      AdapterTransport message \<Rightarrow> if n > 0 then transport_retry env t strategy action d n (Some message) else throw err
    | _ \<Rightarrow> throw err) ?P v" if "w_tick w \<le> w_tick v" for err v
    using that Suc.prems
    by (cases err) (auto simp: wp_simps intro!: wp_mono[OF Suc.IH])
  show ?case
    unfolding transport_retry.simps wp_try_then wp_open_client wp_on_error Let_def
    using Suc.prems
    by (auto split: option.split simp: wp_call_as on_result_iff wp_ok intro!: handler answeredI)
qed

lemma wp_recover_retry_answered:
  assumes "lo \<le> w_tick w"
    and "\<And>e w'. w_tick w \<le> w_tick w' \<Longrightarrow> E e w'"
    and "\<And>outcome w'. w_tick w \<le> w_tick w' \<Longrightarrow>
      answered env lo (w_tick w') d (RpcRecover strategy action) (ao_status outcome) \<Longrightarrow> K outcome w'"
  shows "wp (recover_with_transport_retry env t strategy action d) (on_result E K) w"
  unfolding recover_with_transport_retry_def
  by (rule wp_mono[OF wp_transport_retry_answered[OF assms(1)]]) (auto simp: on_result_iff intro: assms(2,3))

text \<open>The accumulators of the device loops: without a failure the merged phase has the evidence of
  every device so far.\<close>

definition settles :: "env \<Rightarrow> nat \<Rightarrow> TxJournalRecord \<Rightarrow> DeviceId set \<Rightarrow> recovery_acc \<Rightarrow> world \<Rightarrow> bool" where
  "settles env lo r ds acc w \<longleftrightarrow> lo \<le> w_tick w \<and>
     (snd acc = [] \<longrightarrow> (case fst acc of
        None \<Rightarrow> ds = {}
      | Some ph \<Rightarrow> ph \<in> {Committed, RolledBack, InDoubt} \<and> (\<forall>d \<in> ds. evidence env lo (w_tick w) r d ph)))"

lemma settles_failure: "lo \<le> w_tick w \<Longrightarrow> settles env lo r ds (record_recovery_failure d err acc) w"
  by (simp add: settles_def record_recovery_failure_def)

lemma settles_merge:
  assumes "settles env lo r ds acc w" and "w_tick w \<le> w_tick w'"
    and "evidence env lo (w_tick w') r d ph" and "ph \<in> {Committed, RolledBack, InDoubt}"
  shows "settles env lo r (insert d ds) (merge_phase ph acc) w'"
  using assms evidence_mono[OF _ order_refl assms(2)]
  by (auto simp: settles_def merge_phase_def merge_recovery_phase_def split: option.splits)

lemma wp_recover_device:
  assumes "settles env lo r ds acc w"
  shows "wp (recover_device env r action acc d) (settles env lo r (insert d ds)) w"
proof -
  have lo: "lo \<le> w_tick w" using assms by (simp add: settles_def)
  show ?thesis
    unfolding recover_device_def wp_on_error wp_get_managed wp_return
    by (cases "inventory_get d (w_inventory w)")
      (use lo in \<open>auto intro!: settles_failure wp_recover_retry_answered settles_merge[OF assms]
        recover_status_phase simp del: insert_iff intro: recover_status_evidence\<close>)
qed

lemma wp_final_confirming_device:
  assumes "settles env lo r ds acc w"
  shows "wp (recover_final_confirming_device env r acc d) (settles env lo r (insert d ds)) w"
proof -
  have lo: "lo \<le> w_tick w" using assms by (simp add: settles_def)
  have rest: "wp (on_error (recover_with_transport_retry env (jr_tx_id r) (jr_strategy r) AdapterRecover d)
       (\<lambda>err. State_Monad.return (record_recovery_failure d (f err) acc))
       (\<lambda>outcome. let phase = recover_phase_from_adapter_status AdapterRecover (ao_status outcome) in
          State_Monad.return (if phase = Committed \<or> phase = RolledBack then merge_phase phase acc
            else record_recovery_failure d (g outcome) acc))) (settles env lo r (insert d ds)) v"
    if "w_tick w \<le> w_tick v" for v f g
    unfolding wp_on_error
    by (rule wp_recover_retry_answered[OF le_trans[OF lo that]])
      (use lo that in \<open>auto simp: wp_simps Let_def intro!: settles_failure settles_merge[OF assms]
        dest: recover_status_evidence\<close>)
  have verify: "wp (try_verify env r d) (\<lambda>x w'. w_tick w \<le> w_tick w' \<and>
      (x = None \<longrightarrow> evidence env lo (w_tick w') r d Committed)) v" if "w_tick w \<le> w_tick v" for v
    unfolding try_verify_def
    using lo that
    by (auto split: option.split simp: wp_simps wp_call_as on_result_iff
        intro!: evidence_verify answeredI)
  have confirm: "wp (try_final_confirm env r d) (\<lambda>x w'. w_tick w \<le> w_tick w' \<and>
      (x = None \<longrightarrow> evidence env lo (w_tick w') r d Committed)) v" if "w_tick w \<le> w_tick v" for v
    unfolding try_final_confirm_def
    using lo that by (auto simp: wp_simps wp_call_as on_result_iff intro!: evidence_final_confirm answeredI)
  show ?thesis
    unfolding recover_final_confirming_device_def
    unfolding wp_on_error wp_try_then wp_get_managed wp_open_client wp_bind Let_def
    using lo
    by (auto simp: on_result_iff wp_return wp_bind split: option.split
        intro!: settles_failure settles_merge[OF assms] rest[unfolded Let_def]
          wp_mono[OF confirm] wp_mono[OF verify])
qed

lemma wp_recover_devices:
  assumes step: "\<And>ds acc w d. settles env lo r ds acc w \<Longrightarrow> wp (step acc d) (settles env lo r (insert d ds)) w"
    and "settles env lo r seen acc w"
  shows "wp (recover_devices step ds acc) (settles env lo r (seen \<union> set ds)) w"
  using assms(2)
proof (induction ds arbitrary: seen acc w)
  case Nil
  then show ?case by (simp add: wp_simps)
next
  case (Cons d ds)
  show ?case
    unfolding recover_devices.simps wp_bind
    by (rule wp_mono[OF step[OF Cons.prems]], drule Cons.IH) simp
qed

text \<open>A record is settled only with the evidence of each of its devices.\<close>

lemma wp_recover_record:
  "wp (recover_record env r action) (\<lambda>x w'. \<forall>ph. x = Inr ph \<longrightarrow> ph \<in> {Committed, RolledBack, InDoubt} \<and>
     (\<forall>d \<in> set (jr_devices r). evidence env (w_tick w) (w_tick w') r d ph)) w"
proof -
  let ?P = "\<lambda>x w'. \<forall>ph. x = Inr ph \<longrightarrow> ph \<in> {Committed, RolledBack, InDoubt} \<and>
     (\<forall>d \<in> set (jr_devices r). evidence env (w_tick w) (w_tick w') r d ph)"
  have init: "settles env (w_tick w) r {} (None, []) w" by (simp add: settles_def)
  have last: "wp (recovered_phase r code lead acc) ?P v"
    if "settles env (w_tick w) r ({} \<union> set (jr_devices r)) acc v" for acc v code lead
    using that by (auto simp: recovered_phase_def settles_def wp_simps split: prod.split option.splits)
  have loop: "wp (State_Monad.bind (recover_devices step (jr_devices r) (None, [])) (recovered_phase r code lead)) ?P w"
    if "\<And>ds acc v d. settles env (w_tick w) r ds acc v \<Longrightarrow> wp (step acc d) (settles env (w_tick w) r (insert d ds)) v"
    for step code lead
    unfolding wp_bind by (rule wp_mono[OF wp_recover_devices[OF that init]], assumption, rule last)
  have "wp (ok ph) ?P w" if "jr_devices r = []" "ph \<in> {Committed, RolledBack, InDoubt}" for ph
    using that by (simp add: wp_simps)
  then show ?thesis
    unfolding recover_record_def recover_final_confirming_record_def wp_if
    using loop[OF wp_recover_device] loop[OF wp_final_confirming_device]
    by (simp split: RecoveryAction.split)
qed

section \<open>What a recovery may do\<close>

definition unfinished :: "TxJournalRecord \<Rightarrow> bool" where
  "unfinished r \<longleftrightarrow> requires_recovery (jr_phase r) \<and> jr_phase r \<noteq> InDoubt"

definition same_record :: "TxJournalRecord \<Rightarrow> TxJournalRecord \<Rightarrow> bool" where
  "same_record r r' \<longleftrightarrow> same_tx r r' \<and> jr_strategy r' = jr_strategy r"

lemma same_record_refl: "same_record r r"
  by (simp add: same_record_def same_tx_def)

lemma same_record_trans: "same_record r r1 \<Longrightarrow> same_record r1 r2 \<Longrightarrow> same_record r r2"
  by (simp add: same_record_def same_tx_def)

lemma same_record_updates [simp]:
  "same_record r0 (r\<lparr>jr_phase := ph\<rparr>) = same_record r0 r"
  "same_record r0 (r\<lparr>jr_updated_at := now\<rparr>) = same_record r0 r"
  "same_record r0 (with_error now c m r) = same_record r0 r"
  by (simp_all add: same_record_def with_error_def) (simp add: same_tx_def)

lemma same_record_fields:
  "same_record r r' \<Longrightarrow> jr_tx_id r' = jr_tx_id r \<and> jr_devices r' = jr_devices r"
  by (simp add: same_record_def same_tx_def)

text \<open>The relation is over the records \<open>el\<close> that the recovery may touch.\<close>

text \<open>The entry of one transaction: unchanged, or an el record moved to a phase of recovery, to a
  settled one only with the evidence of each device.\<close>

definition record_step ::
  "(TxJournalRecord \<Rightarrow> bool) \<Rightarrow> env \<Rightarrow> nat \<Rightarrow> nat \<Rightarrow> TxJournalRecord option \<Rightarrow> TxJournalRecord option \<Rightarrow> bool" where
  "record_step el env lo hi old new \<longleftrightarrow> new = old \<or>
     (\<exists>r r'. old = Some r \<and> new = Some r' \<and> el r \<and> same_record r r' \<and>
        jr_phase r' \<in> {Recovering, InDoubt, Committed, RolledBack} \<and>
        (\<forall>d \<in> set (jr_devices r). evidence env lo hi r d (jr_phase r')))"

text \<open>A call is made for an eligible transaction and one of its devices, while the journal says
  that the transaction is being recovered.\<close>

definition recovery_call :: "(TxJournalRecord \<Rightarrow> bool) \<Rightarrow> world \<Rightarrow> rpc_entry \<Rightarrow> bool" where
  "recovery_call el w0 e \<longleftrightarrow> re_durable_phase e = Some Recovering \<and>
     (\<exists>r. durable w0 (re_tx_id e) = Some r \<and> el r \<and> re_device e \<in> set (jr_devices r))"

text \<open>The shadow of a device moves only when the device proved the commit.\<close>

definition shadow_step :: "(TxJournalRecord \<Rightarrow> bool) \<Rightarrow> env \<Rightarrow> world \<Rightarrow> world \<Rightarrow> DeviceId \<Rightarrow> bool" where
  "shadow_step el env w0 w d \<longleftrightarrow> bm_get (w_shadow w) d = bm_get (w_shadow w0) d \<or>
     (\<exists>t r. durable w0 t = Some r \<and> el r \<and> d \<in> set (jr_devices r) \<and>
        evidence env (w_tick w0) (w_tick w) r d Committed)"

definition recovery_rel :: "(TxJournalRecord \<Rightarrow> bool) \<Rightarrow> env \<Rightarrow> world \<Rightarrow> world \<Rightarrow> bool" where
  "recovery_rel el env w0 w \<longleftrightarrow>
     w_tick w0 \<le> w_tick w \<and> w_inventory w = w_inventory w0 \<and> w_observed w = w_observed w0 \<and>
     (\<exists>es. w_log w = w_log w0 @ es \<and> (\<forall>e \<in> set es. recovery_call el w0 e)) \<and>
     (\<forall>t. record_step el env (w_tick w0) (w_tick w) (durable w0 t) (durable w t)) \<and>
     (\<forall>d. shadow_step el env w0 w d)"

lemma record_step_refl [simp]: "record_step el env lo hi x x"
  by (simp add: record_step_def)

lemma record_step_mono:
  assumes "record_step el env lo hi old new" "lo' \<le> lo" "hi \<le> hi'"
  shows "record_step el env lo' hi' old new"
proof (cases "new = old")
  case False
  then obtain r r' where "old = Some r" "new = Some r'" "el r" "same_record r r'"
    "jr_phase r' \<in> {Recovering, InDoubt, Committed, RolledBack}"
    "\<forall>d \<in> set (jr_devices r). evidence env lo hi r d (jr_phase r')"
    using assms(1) unfolding record_step_def by blast
  with evidence_mono[OF _ assms(2,3)] show ?thesis unfolding record_step_def by blast
qed simp

lemma record_step_eligible:
  "record_step el env lo hi old (Some r) \<Longrightarrow> el r \<Longrightarrow> \<exists>r0. old = Some r0 \<and> el r0 \<and> same_record r0 r"
  by (auto simp: record_step_def intro: same_record_refl)

lemma record_step_trans:
  assumes "record_step el env lo hi x y" "record_step el env lo hi y z"
  shows "record_step el env lo hi x z"
proof (cases "z = y \<or> y = x")
  case True
  with assms show ?thesis by auto
next
  case False
  with assms(2) obtain r1 r2 where r2: "y = Some r1" "z = Some r2" "el r1" "same_record r1 r2"
    "jr_phase r2 \<in> {Recovering, InDoubt, Committed, RolledBack}"
    "\<forall>d \<in> set (jr_devices r1). evidence env lo hi r1 d (jr_phase r2)"
    unfolding record_step_def by blast
  from assms(1) r2(1,3) obtain r where r: "x = Some r" "el r" "same_record r r1"
    using record_step_eligible by blast
  then have "\<forall>d \<in> set (jr_devices r). evidence env lo hi r d (jr_phase r2)"
    using r2(6) evidence_same_tx[of r r1] by (simp add: same_record_def same_tx_def)
  with r r2 show ?thesis unfolding record_step_def using same_record_trans by blast
qed

lemma recovery_rel_refl: "recovery_rel el env w w"
  by (simp add: recovery_rel_def shadow_step_def)

lemma recovery_rel_ticks: "recovery_rel el env w0 w \<Longrightarrow> w_tick w0 \<le> w_tick w"
  by (simp add: recovery_rel_def)

lemma recovery_rel_record:
  "recovery_rel el env w0 w \<Longrightarrow> record_step el env (w_tick w0) (w_tick w) (durable w0 t) (durable w t)"
  by (simp add: recovery_rel_def)

lemma recovery_rel_origin:
  assumes "recovery_rel el env w0 w" "durable w t = Some r" "el r"
  obtains r0 where "durable w0 t = Some r0" "el r0" "same_record r0 r"
  using record_step_eligible[of el env "w_tick w0" "w_tick w" "durable w0 t" r]
    recovery_rel_record[OF assms(1), of t] assms(2,3) by auto

lemma recovery_call_back:
  assumes "recovery_rel el env w0 w" "recovery_call el w e"
  shows "recovery_call el w0 e"
proof -
  obtain r where r: "durable w (re_tx_id e) = Some r" "el r" "re_device e \<in> set (jr_devices r)"
    using assms(2) by (auto simp: recovery_call_def)
  obtain r0 where "durable w0 (re_tx_id e) = Some r0" "el r0" "same_record r0 r"
    using recovery_rel_origin[OF assms(1) r(1,2)] .
  with r(3) assms(2) show ?thesis by (simp add: recovery_call_def same_record_fields)
qed

lemma shadow_step_trans:
  assumes rel: "recovery_rel el env w0 w1" and "w_tick w1 \<le> w_tick w2"
    and "shadow_step el env w0 w1 d" "shadow_step el env w1 w2 d"
  shows "shadow_step el env w0 w2 d"
proof -
  have ticks: "w_tick w0 \<le> w_tick w1" using rel by (simp add: recovery_rel_def)
  consider (first) "bm_get (w_shadow w1) d \<noteq> bm_get (w_shadow w0) d"
    | (second) "bm_get (w_shadow w2) d \<noteq> bm_get (w_shadow w1) d"
    | (same) "bm_get (w_shadow w2) d = bm_get (w_shadow w0) d" by metis
  then show ?thesis
  proof cases
    case first
    with assms(3) obtain t r where "durable w0 t = Some r" "el r" "d \<in> set (jr_devices r)"
      "evidence env (w_tick w0) (w_tick w1) r d Committed" by (auto simp: shadow_step_def)
    with evidence_mono[OF _ order_refl assms(2)] show ?thesis unfolding shadow_step_def by blast
  next
    case second
    with assms(4) obtain t r where r: "durable w1 t = Some r" "el r" "d \<in> set (jr_devices r)"
      "evidence env (w_tick w1) (w_tick w2) r d Committed" by (auto simp: shadow_step_def)
    obtain r0 where r0: "durable w0 t = Some r0" "el r0" "same_record r0 r"
      using recovery_rel_origin[OF rel r(1,2)] .
    have "evidence env (w_tick w0) (w_tick w2) r0 d Committed"
      using evidence_mono[OF r(4) ticks order_refl] r0(3) evidence_same_tx[of r0 r]
      by (simp add: same_record_def)
    with r0 r(3) show ?thesis by (auto simp: shadow_step_def same_record_fields)
  qed (simp add: shadow_step_def)
qed

lemma recovery_rel_trans:
  assumes "recovery_rel el env w0 w1" "recovery_rel el env w1 w2"
  shows "recovery_rel el env w0 w2"
proof -
  have ticks: "w_tick w0 \<le> w_tick w1" "w_tick w1 \<le> w_tick w2" using assms by (simp_all add: recovery_rel_ticks)
  obtain es1 where es1: "w_log w1 = w_log w0 @ es1" "\<forall>e \<in> set es1. recovery_call el w0 e"
    using assms(1) by (auto simp: recovery_rel_def)
  obtain es2 where es2: "w_log w2 = w_log w1 @ es2" "\<forall>e \<in> set es2. recovery_call el w1 e"
    using assms(2) by (auto simp: recovery_rel_def)
  have log: "\<exists>es. w_log w2 = w_log w0 @ es \<and> (\<forall>e \<in> set es. recovery_call el w0 e)"
    using es1 es2 recovery_call_back[OF assms(1)] by (intro exI[of _ "es1 @ es2"]) auto
  have journal: "record_step el env (w_tick w0) (w_tick w2) (durable w0 t) (durable w2 t)" for t
    using record_step_mono[OF recovery_rel_record[OF assms(1), of t] order_refl ticks(2)]
      record_step_mono[OF recovery_rel_record[OF assms(2), of t] ticks(1) order_refl]
    by (rule record_step_trans)
  have shadow: "shadow_step el env w0 w2 d" for d
    by (rule shadow_step_trans[OF assms(1) ticks(2)]) (use assms in \<open>simp_all add: recovery_rel_def\<close>)
  show ?thesis
    unfolding recovery_rel_def using assms ticks log journal shadow
    by (intro conjI allI) (simp_all add: recovery_rel_def)
qed

lemma recovery_rel_tick: "recovery_rel el env w0 w \<Longrightarrow> recovery_rel el env w0 (w\<lparr>w_tick := Suc (w_tick w)\<rparr>)"
proof (erule recovery_rel_trans)
  show "recovery_rel el env w (w\<lparr>w_tick := Suc (w_tick w)\<rparr>)"
    by (simp add: recovery_rel_def shadow_step_def)
qed

lemma recovery_rel_calls:
  assumes "recovery_rel el env w0 w" and "calls_for t (set (jr_devices r)) w w'"
    and "durable w0 t = Some r" and "el r"
    and "durable w t = Some recovering" and "jr_phase recovering = Recovering"
  shows "recovery_rel el env w0 w'"
proof -
  obtain es where w': "w' = w\<lparr>w_tick := w_tick w', w_log := w_log w @ es\<rparr>" and ticks: "w_tick w \<le> w_tick w'"
    and es: "\<forall>e \<in> set es. re_tx_id e = t \<and> re_device e \<in> set (jr_devices r) \<and>
      re_durable_phase e = map_option jr_phase (durable w t)"
    using assms(2) unfolding calls_for_def by blast
  have calls: "\<forall>e \<in> set es. recovery_call el w0 e" using es assms(3-6) by (simp add: recovery_call_def)
  have fields: "w_inventory w' = w_inventory w" "w_observed w' = w_observed w" "w_shadow w' = w_shadow w"
    "w_log w' = w_log w @ es" "durable w' = durable w"
    by (subst w', simp)+ (subst w', simp add: durable_def fun_eq_iff)
  obtain es0 where "w_log w = w_log w0 @ es0" "\<forall>e \<in> set es0. recovery_call el w0 e"
    using assms(1) by (auto simp: recovery_rel_def)
  with calls fields have log: "\<exists>es. w_log w' = w_log w0 @ es \<and> (\<forall>e \<in> set es. recovery_call el w0 e)"
    by (intro exI[of _ "es0 @ es"]) auto
  have "record_step el env (w_tick w0) (w_tick w') (durable w0 u) (durable w' u)" for u
    using record_step_mono[OF recovery_rel_record[OF assms(1)] order_refl ticks] fields by simp
  moreover have "shadow_step el env w0 w' x" for x
    using assms(1) fields evidence_mono[OF _ order_refl ticks]
    unfolding recovery_rel_def shadow_step_def by metis
  ultimately show ?thesis
    unfolding recovery_rel_def using assms(1) log fields ticks
    by (intro conjI allI) (simp_all add: recovery_rel_def)
qed

text \<open>A record that recovery may store.\<close>

definition storable :: "env \<Rightarrow> world \<Rightarrow> TxJournalRecord \<Rightarrow> TxJournalRecord \<Rightarrow> world \<Rightarrow> bool" where
  "storable env w0 r r' w \<longleftrightarrow> same_record r r' \<and>
     jr_phase r' \<in> {Recovering, InDoubt, Committed, RolledBack} \<and>
     (\<forall>d \<in> set (jr_devices r). evidence env (w_tick w0) (w_tick w) r d (jr_phase r'))"

lemma recovery_rel_store:
  assumes "recovery_rel el env w0 w" and "durable w0 (jr_tx_id r) = Some r" and "el r"
    and "storable env w0 r r' w"
  shows "recovery_rel el env w0 (w_journal_update (bm_insert (jr_tx_id r') r') w)"
proof -
  have "jr_tx_id r' = jr_tx_id r" using assms(4) by (simp add: storable_def same_record_fields)
  moreover have "record_step el env (w_tick w0) (w_tick w) (Some r) (Some r')"
    unfolding record_step_def using assms(3,4) by (simp add: storable_def)
  ultimately show ?thesis
    using assms(1,2) by (simp add: recovery_rel_def shadow_step_def)
qed

lemma recovery_rel_shadow:
  assumes "recovery_rel el env w0 w" and "durable w0 t = Some r" and "el r"
    and "ss_device_id st \<in> set (jr_devices r)"
    and "evidence env (w_tick w0) (w_tick w) r (ss_device_id st) Committed"
  shows "recovery_rel el env w0 (w_shadow_update (\<lambda>s. snd (shadow_put st s)) w)"
proof -
  have "shadow_step el env w0 (w_shadow_update (\<lambda>s. snd (shadow_put st s)) w) d" for d
  proof (cases "d = ss_device_id st")
    case True
    with assms(2-5) show ?thesis unfolding shadow_step_def by auto
  next
    case False
    moreover have "shadow_step el env w0 w d" using assms(1) by (simp add: recovery_rel_def)
    ultimately show ?thesis by (simp add: shadow_step_def shadow_put_eq Let_def bm_get_insert)
  qed
  with assms(1) show ?thesis by (simp add: recovery_rel_def)
qed

section \<open>One transaction\<close>

text \<open>After an attempt on transaction \<open>t\<close>: the relation holds, and with a reliable journal the attempt
  succeeds and leaves the transaction finished.\<close>

definition attempted :: "(TxJournalRecord \<Rightarrow> bool) \<Rightarrow> env \<Rightarrow> world \<Rightarrow> string \<Rightarrow> 'a result \<Rightarrow> world \<Rightarrow> bool" where
  "attempted el env w0 t x w \<longleftrightarrow> recovery_rel el env w0 w \<and>
     (reliable_journal env \<longrightarrow> (\<exists>y. x = Inr y) \<and> (\<forall>r. durable w t = Some r \<longrightarrow> \<not> unfinished r))"

lemma wp_stamp_phase:
  "wp (stamp_phase env ph r) Q w \<longleftrightarrow>
     Q (if is_allowed (jr_phase r) ph
        then Inr (r\<lparr>jr_phase := ph, jr_updated_at := ev_now env (w_tick w)\<rparr>)
        else Inl (InvalidPhaseTransition (debug_phase (jr_phase r)) (debug_phase ph)))
       (w\<lparr>w_tick := Suc (w_tick w)\<rparr>)"
  by (simp add: stamp_phase_def wp_simps transition_phase_def validate_transition_def)

lemma storable_later:
  "storable env w0 r r' w \<Longrightarrow> w_tick w \<le> w_tick w' \<Longrightarrow> storable env w0 r r' w'"
  by (auto simp: storable_def intro: evidence_mono)

lemma wp_put_recovery:
  assumes "recovery_rel el env w0 w" and "durable w0 (jr_tx_id r) = Some r" and "el r"
    and "storable env w0 r r' w"
    and "\<And>e w'. recovery_rel el env w0 w' \<Longrightarrow> \<not> reliable_journal env \<Longrightarrow> E e w'"
    and "\<And>w'. recovery_rel el env w0 w' \<Longrightarrow> durable w' (jr_tx_id r) = Some r' \<Longrightarrow> w_tick w \<le> w_tick w' \<Longrightarrow> K () w'"
  shows "wp (put_journal env r') (on_result E K) w"
proof -
  let ?v = "w\<lparr>w_tick := Suc (w_tick w)\<rparr>"
  have v: "recovery_rel el env w0 ?v" using assms(1) by (rule recovery_rel_tick)
  have "storable env w0 r r' ?v" using assms(4) by (rule storable_later) simp
  with v assms(2,3) have s: "recovery_rel el env w0 (w_journal_update (bm_insert (jr_tx_id r') r') ?v)"
    by (rule recovery_rel_store)
  have "jr_tx_id r' = jr_tx_id r" using assms(4) by (simp add: storable_def same_record_fields)
  with v s show ?thesis
    unfolding wp_put_journal
    by (intro put_withI) (auto intro!: assms(5,6) simp: reliable_journal_def)
qed

lemma attempted_broken: "recovery_rel el env w0 w \<Longrightarrow> \<not> reliable_journal env \<Longrightarrow> attempted el env w0 t x w"
  by (simp add: attempted_def)

lemma attempted_stored:
  "recovery_rel el env w0 w \<Longrightarrow> durable w t = Some r \<Longrightarrow> jr_phase r \<in> {Committed, RolledBack, InDoubt} \<Longrightarrow>
   attempted el env w0 t (Inr y) w"
  by (auto simp: attempted_def unfinished_def requires_recovery_def)

lemma wp_fail_recovery:
  assumes "recovery_rel el env w0 w" and "durable w0 (jr_tx_id r) = Some r" and "el r"
    and "same_record r recovering" and "jr_phase recovering = Recovering"
  shows "wp (fail_recovery env recovering run err) (attempted el env w0 (jr_tx_id r)) w"
proof -
  have rel: "recovery_rel el env w0 (w\<lparr>w_tick := Suc (w_tick w)\<rparr>)"
    "recovery_rel el env w0 (w\<lparr>w_tick := Suc (Suc (w_tick w))\<rparr>)"
    using recovery_rel_tick[OF assms(1)] recovery_rel_tick[OF recovery_rel_tick[OF assms(1)]] by simp_all
  show ?thesis
    unfolding fail_recovery_def Let_def case_prod_unfold wp_try_then wp_bind
    by (simp add: wp_stamp_phase assms(5) wp_ask, rule wp_put_recovery[OF rel(2) assms(2,3)])
      (use assms(4) in \<open>auto simp: storable_def wp_ok intro: attempted_broken elim: attempted_stored\<close>)
qed

lemma wp_persist_recovered_shadow:
  assumes "recovery_rel el env w0 w" and "durable w0 t = Some r" and "el r"
    and "set ds \<subseteq> set (jr_devices r)"
    and "\<forall>d \<in> set ds. evidence env (w_tick w0) (w_tick w) r d Committed"
  shows "wp (persist_recovered_shadow env r ds)
    (\<lambda>_ w'. recovery_rel el env w0 w' \<and> w_tick w \<le> w_tick w' \<and> durable w' = durable w) w"
  using assms(1,4,5)
proof (induction ds arbitrary: w)
  case Nil
  then show ?case by (simp add: wp_simps)
next
  case (Cons d ds)
  let ?v = "w\<lparr>w_tick := Suc (w_tick w)\<rparr>" and ?u = "w\<lparr>w_tick := Suc (Suc (w_tick w))\<rparr>"
  have rel: "recovery_rel el env w0 ?v" "recovery_rel el env w0 ?u"
    using recovery_rel_tick[OF Cons.prems(1)] recovery_rel_tick[OF recovery_rel_tick[OF Cons.prems(1)]] by simp_all
  show ?case
  proof (cases "desired_state_for_record r d")
    case None
    then show ?thesis using Cons.prems by (simp add: wp_simps ok_or_def)
  next
    case (Some desired)
    then have id: "ds_device_id desired = d"
      by (auto simp: desired_state_for_record_def find_Some_iff)
    let ?st = "case change_set_for_record r d of
        Some cs \<Rightarrow> apply_to_shadow cs (bm_get (w_shadow w) d) desired 0 | None \<Rightarrow> from_desired desired 0"
    let ?s = "w_shadow_update (\<lambda>s. snd (shadow_put ?st s)) ?u"
    have dev: "ss_device_id ?st = d" using id by (auto simp: from_desired_def split: option.split)
    have ev: "\<forall>d \<in> set (d # ds). evidence env (w_tick w0) (w_tick ?u) r d Committed"
      using Cons.prems(3) by (auto intro: evidence_mono[where hi = "w_tick w", OF _ order_refl])
    then have s: "recovery_rel el env w0 ?s"
      using Cons.prems(2) dev by (intro recovery_rel_shadow[OF rel(2) assms(2,3)]) simp_all
    have "wp (persist_recovered_shadow env r ds)
        (\<lambda>_ w'. recovery_rel el env w0 w' \<and> w_tick ?s \<le> w_tick w' \<and> durable w' = durable ?s) ?s"
      using s Cons.prems(2) ev by (intro Cons.IH) auto
    moreover have "durable ?s = durable w" "durable ?u = durable w" "durable ?v = durable w"
      by (simp_all add: fun_eq_iff durable_def)
    ultimately show ?thesis
      using Some rel s
      by (auto simp: wp_simps wp_put_shadow ok_or_def Let_def put_with_def split: option.split put_outcome.split
          elim!: wp_mono)
  qed
qed

lemma recover_action_allowed: "unfinished r \<Longrightarrow> is_allowed (jr_phase r) Recovering"
  by (cases "jr_phase r") (auto simp: unfinished_def requires_recovery_def)

lemma wp_finish_recovery:
  assumes "recovery_rel el env w0 w" and "durable w0 (jr_tx_id r) = Some r" and "el r"
    and "same_record r recovering" and "jr_phase recovering = Recovering"
    and "ph \<in> {Committed, RolledBack, InDoubt}"
    and "\<forall>d \<in> set (jr_devices r). evidence env (w_tick w0) (w_tick w) r d ph"
  shows "wp (try_then (stamp_phase env ph recovering) (\<lambda>recovered.
    try_then (put_journal env recovered) (\<lambda>_. ok run))) (attempted el env w0 (jr_tx_id r)) w"
proof -
  let ?r = "recovering\<lparr>jr_phase := ph, jr_updated_at := ev_now env (w_tick w)\<rparr>"
  have "storable env w0 r ?r (w\<lparr>w_tick := Suc (w_tick w)\<rparr>)"
    using assms(4,6,7) by (auto simp: storable_def intro: evidence_mono[where hi = "w_tick w", OF _ order_refl])
  then have "wp (put_journal env ?r) (on_result (\<lambda>e. attempted el env w0 (jr_tx_id r) (Inl e))
      (\<lambda>_. attempted el env w0 (jr_tx_id r) (Inr run))) (w\<lparr>w_tick := Suc (w_tick w)\<rparr>)"
    by (rule wp_put_recovery[OF recovery_rel_tick[OF assms(1)] assms(2,3)])
      (use assms(6) in \<open>auto intro: attempted_broken elim: attempted_stored\<close>)
  then show ?thesis using assms(5,6) by (auto simp: wp_try_then wp_stamp_phase wp_ok)
qed

lemma wp_recover_record_rel:
  assumes "durable w0 (jr_tx_id r) = Some r" and "el r" and "recovery_rel el env w0 w"
    and "durable w (jr_tx_id r) = Some recovering" and "jr_phase recovering = Recovering"
  shows "wp (recover_record env r action) (\<lambda>x w'. recovery_rel el env w0 w' \<and>
      (\<forall>ph. x = Inr ph \<longrightarrow> ph \<in> {Committed, RolledBack, InDoubt} \<and>
        (\<forall>d \<in> set (jr_devices r). evidence env (w_tick w0) (w_tick w') r d ph))) w"
proof (rule wp_mono[OF wp_conj[OF wp_recover_record
      keeps_wp[OF keeps_recover_record[of r w], OF calls_for_refl]]], intro conjI, goal_cases)
  case (1 x w')
  then show ?case using recovery_rel_calls[OF assms(3) _ assms(1,2,4,5)] by simp
next
  case (2 x w')
  then show ?case using evidence_mono[OF _ recovery_rel_ticks[OF assms(3)] order_refl] by blast
qed

lemma wp_settle_recovering:
  assumes "durable w0 (jr_tx_id r) = Some r" and "el r" and "recovery_rel el env w0 w"
    and "durable w (jr_tx_id r) = Some recovering"
    and "same_record r recovering" and "jr_phase recovering = Recovering"
  shows "wp (settle_recovering env r recovering action run) (attempted el env w0 (jr_tx_id r)) w"
  unfolding settle_recovering_def wp_on_error
proof (rule wp_mono[OF wp_recover_record_rel[OF assms(1-4,6)]], simp only: on_result_iff, intro conjI allI impI, goal_cases)
  case (1 x w1 e)
  then show ?case by (intro wp_fail_recovery assms) simp
next
  case (2 x w1 ph)
  then have ph: "recovery_rel el env w0 w1" "ph \<in> {Committed, RolledBack, InDoubt}"
    "\<forall>d \<in> set (jr_devices r). evidence env (w_tick w0) (w_tick w1) r d ph" by blast+
  have "wp (if ph = Committed then persist_recovered_shadow env r (jr_devices r) else ok ())
      (\<lambda>_ w'. recovery_rel el env w0 w' \<and> w_tick w1 \<le> w_tick w') w1"
    using wp_persist_recovered_shadow[OF ph(1) assms(1,2) order_refl] ph
    by (auto simp: wp_simps elim: wp_mono)
  then show ?case
  proof (rule wp_mono, simp only: on_result_iff, intro conjI allI impI, goal_cases)
    case (1 y w2 e)
    then show ?case by (intro wp_fail_recovery assms) simp
  next
    case (2 y w2 u)
    have "\<forall>d \<in> set (jr_devices r). evidence env (w_tick w0) (w_tick w2) r d ph"
      using ph(3) 2(1) evidence_mono[OF _ order_refl] by blast
    with 2(1) ph(2) show ?case by (intro wp_finish_recovery assms) simp_all
  qed
qed

lemma wp_recover_by_action:
  assumes "durable w0 (jr_tx_id r) = Some r" and "el r" and "unfinished r"
  shows "wp (recover_by_action env r action run) (attempted el env w0 (jr_tx_id r)) w0"
proof -
  let ?recovering = "r\<lparr>jr_phase := Recovering, jr_updated_at := ev_now env (w_tick w0)\<rparr>"
  have same: "same_record r ?recovering" by (simp add: same_record_refl)
  then have "storable env w0 r ?recovering (w0\<lparr>w_tick := Suc (w_tick w0)\<rparr>)"
    by (simp add: storable_def evidence.simps)
  then have "wp (put_journal env ?recovering) (on_result (\<lambda>e. attempted el env w0 (jr_tx_id r) (Inl e))
      (\<lambda>_. wp (settle_recovering env r ?recovering action run) (attempted el env w0 (jr_tx_id r))))
      (w0\<lparr>w_tick := Suc (w_tick w0)\<rparr>)"
    by (rule wp_put_recovery[where el = el, OF recovery_rel_tick[OF recovery_rel_refl] assms(1,2)])
      (erule (1) attempted_broken, rule wp_settle_recovering[where el = el, OF assms(1,2) _ _ same], simp_all)
  then show ?thesis
    using recover_action_allowed[OF assms(3)]
    by (simp add: recover_by_action_def wp_try_then wp_stamp_phase)
qed

section \<open>The candidates\<close>

definition eligible :: "RecoveryRecordGate \<Rightarrow> TxJournalRecord \<Rightarrow> bool" where
  "eligible record_gate r \<longleftrightarrow> unfinished r \<and> gate_matches record_gate r"

text \<open>Reads of the journal succeed as well.\<close>

definition dependable_journal :: "env \<Rightarrow> bool" where
  "dependable_journal env \<longleftrightarrow> reliable_journal env \<and> (\<forall>n. ev_journal_read env n = None)"

definition dealt_with :: "RecoveryRecordGate \<Rightarrow> env \<Rightarrow> world \<Rightarrow> string set \<Rightarrow> 'a result \<Rightarrow> world \<Rightarrow> bool" where
  "dealt_with record_gate env w0 ts x w \<longleftrightarrow> recovery_rel (eligible record_gate) env w0 w \<and>
     (dependable_journal env \<longrightarrow> (\<exists>y. x = Inr y) \<and>
        (record_gate = AnyRecoverable \<longrightarrow> (\<forall>t \<in> ts. \<forall>r. durable w t = Some r \<longrightarrow> \<not> unfinished r)))"

lemma recovery_rel_inv:
  assumes "recovery_rel el env w0 w" and "journal_inv (w_journal w0)"
  shows "journal_inv (w_journal w)"
  unfolding journal_inv_def
proof (intro allI impI)
  fix t r assume "bm_get (w_journal w) t = Some r"
  then have r: "durable w t = Some r" by (simp add: durable_def)
  obtain r0 where "durable w0 t = Some r0" "jr_tx_id r = jr_tx_id r0"
    using recovery_rel_record[OF assms(1), of t] r by (cases "durable w0 t") (auto simp: record_step_def same_record_fields)
  with assms(2) show "jr_tx_id r = t" by (simp add: durable_def journal_inv_def)
qed

lemma recovery_rel_finished:
  assumes "recovery_rel (eligible record_gate) env w0 w" and "\<forall>r. durable w0 t = Some r \<longrightarrow> \<not> unfinished r"
  shows "\<forall>r. durable w t = Some r \<longrightarrow> \<not> unfinished r"
  using recovery_rel_record[OF assms(1), of t] assms(2) by (auto simp: record_step_def eligible_def)

lemma recovery_action_cases:
  "requires_recovery (jr_phase r) \<Longrightarrow> rd_action (classify_recovery r) = ManualIntervention \<and> jr_phase r = InDoubt \<or>
   unfinished r \<and> rd_action (classify_recovery r) \<in> {DiscardPreparedChanges, AdapterRecover}"
  by (cases "jr_phase r") (auto simp: unfinished_def requires_recovery_def classify_recovery_def)

lemma finished_in_doubt: "jr_phase r = InDoubt \<Longrightarrow> \<not> unfinished r"
  by (simp add: unfinished_def)

lemma wp_recover_candidate:
  assumes "journal_inv (w_journal w)"
  shows "wp (recover_candidate env record_gate c run) (dealt_with record_gate env w {jr_tx_id c}) w"
proof -
  let ?v = "w\<lparr>w_tick := Suc (w_tick w)\<rparr>"
  let ?P = "dealt_with record_gate env w {jr_tx_id c} :: recovery_run result \<Rightarrow> world \<Rightarrow> bool"
  have v: "recovery_rel (eligible record_gate) env w ?v" by (rule recovery_rel_tick[OF recovery_rel_refl])
  have same: "durable ?v = durable w" by (simp add: fun_eq_iff)
  show ?thesis
  proof (cases "ev_journal_read env (w_tick w)")
    case (Some e)
    then show ?thesis
      using v by (auto simp: recover_candidate_def wp_simps dealt_with_def dependable_journal_def)
  next
    case read: None
    show ?thesis
    proof (cases "durable w (jr_tx_id c)")
      case None
      then show ?thesis
        using v read same by (simp add: recover_candidate_def wp_simps durable_def dealt_with_def)
    next
      case (Some r)
      then have id: "jr_tx_id r = jr_tx_id c" using assms by (simp add: journal_inv_def durable_def)
      have unchanged: "?P (Inr run') ?v" if "\<not> unfinished r \<or> \<not> gate_matches record_gate r" for run'
        using that v Some same by (auto simp: dealt_with_def)
      have acts: "wp (recover_by_action env r action run') ?P ?v"
        if "unfinished r" "gate_matches record_gate r" for action run'
      proof -
        have "wp (recover_by_action env r action run') (attempted (eligible record_gate) env ?v (jr_tx_id r)) ?v"
          using that Some id same by (intro wp_recover_by_action) (simp_all add: eligible_def)
        then show ?thesis
          by (rule wp_mono)
            (use recovery_rel_trans[OF v] id in \<open>auto simp: attempted_def dealt_with_def dependable_journal_def\<close>)
      qed
      show ?thesis
      proof (cases "requires_recovery (jr_phase r) \<and> gate_matches record_gate r")
        case False
        then show ?thesis
          using read Some unchanged by (auto simp: recover_candidate_def wp_simps durable_def Let_def unfinished_def)
      next
        case True
        then show ?thesis
          using read Some unchanged acts recovery_action_cases[of r]
          by (auto simp: recover_candidate_def wp_simps durable_def Let_def finished_in_doubt)
      qed
    qed
  qed
qed

lemma wp_recover_candidates:
  assumes "journal_inv (w_journal w)"
  shows "wp (recover_candidates env record_gate cs run) (dealt_with record_gate env w (jr_tx_id ` set cs)) w"
  using assms
proof (induction cs arbitrary: w run)
  case Nil
  show ?case by (simp add: wp_simps dealt_with_def recovery_rel_refl)
next
  case (Cons c cs)
  show ?case
    unfolding recover_candidates.simps wp_try_then
  proof (rule wp_mono[OF wp_recover_candidate[OF Cons.prems]], simp only: on_result_iff, intro conjI allI impI, goal_cases)
    case (1 x w1 e)
    then show ?case by (auto simp: dealt_with_def)
  next
    case (2 x w1 run1)
    then have rel: "recovery_rel (eligible record_gate) env w w1" by (simp add: dealt_with_def)
    have "wp (recover_candidates env record_gate cs run1) (dealt_with record_gate env w1 (jr_tx_id ` set cs)) w1"
      by (rule Cons.IH[OF recovery_rel_inv[OF rel Cons.prems]])
    then show ?case
    proof (rule wp_mono)
      fix y :: "recovery_run result" and w2 assume step: "dealt_with record_gate env w1 (jr_tx_id ` set cs) y w2"
      then have rel2: "recovery_rel (eligible record_gate) env w1 w2" by (simp add: dealt_with_def)
      have c: "\<forall>r. durable w2 (jr_tx_id c) = Some r \<longrightarrow> \<not> unfinished r"
        if "dependable_journal env" "record_gate = AnyRecoverable"
        by (rule recovery_rel_finished[OF rel2]) (use 2(1) that in \<open>unfold dealt_with_def, blast\<close>)
      have "recovery_rel (eligible record_gate) env w w2" by (rule recovery_rel_trans[OF rel rel2])
      with step c show "dealt_with record_gate env w (jr_tx_id ` set (c # cs)) y w2"
        unfolding dealt_with_def list.set image_insert by blast
    qed
  qed
qed

end
