(* ===== verification/Recovery_Results.thy ===== *)
theory Recovery_Results
  imports Recovery_Safety Sample_World
begin

text \<open>
  The properties of recovery (\<open>src/api/recovery_coordinator.rs\<close>), for the startup recovery of all
  transactions and for the watcher of timed-out confirmed commits.
\<close>

section \<open>A whole recovery\<close>

definition all_finished :: "world \<Rightarrow> bool" where
  "all_finished w \<longleftrightarrow> (\<forall>t r. durable w t = Some r \<longrightarrow> \<not> unfinished r)"

definition pending_records :: "world \<Rightarrow> TxJournalRecord list" where
  "pending_records w = filter (\<lambda>r. requires_recovery (jr_phase r)) (bm_values (w_journal w))"

definition faithful_report :: "RecoveryReport \<Rightarrow> world \<Rightarrow> bool" where
  "faithful_report report w \<longleftrightarrow> rr_tx_ids report = map jr_tx_id (pending_records w) \<and>
     rr_pending report = length (pending_records w) \<and>
     rr_in_doubt report = length (filter (\<lambda>r. jr_phase r = InDoubt) (pending_records w))"

definition recovery_post ::
  "RecoveryReportScope \<Rightarrow> RecoveryRecordGate \<Rightarrow> env \<Rightarrow> world \<Rightarrow> string set \<Rightarrow> RecoveryReport result \<Rightarrow> world \<Rightarrow> bool" where
  "recovery_post report_scope record_gate env w ts x w' \<longleftrightarrow> dealt_with record_gate env w ts x w' \<and>
     (\<forall>report. x = Inr report \<longrightarrow> report_scope = AllRecoverable \<longrightarrow> faithful_report report w')"

lemma dealt_with_frame:
  assumes "dealt_with record_gate env w ts x w1" "durable w' = durable w1" "w_tick w1 \<le> w_tick w'"
    "w_inventory w' = w_inventory w1" "w_observed w' = w_observed w1" "w_log w' = w_log w1" "w_shadow w' = w_shadow w1"
    and "dependable_journal env \<Longrightarrow> \<exists>y. x' = Inr y"
  shows "dealt_with record_gate env w ts x' w'"
proof -
  have "recovery_rel (eligible record_gate) env w1 w'"
    using assms(2-7) by (simp add: recovery_rel_def shadow_step_def)
  then have "recovery_rel (eligible record_gate) env w w'"
    using assms(1) recovery_rel_trans unfolding dealt_with_def by blast
  then show ?thesis using assms(1,2,8) unfolding dealt_with_def by auto
qed

lemma wp_recover_records:
  assumes "journal_inv (w_journal w)"
  shows "wp (recover_records env cs report_scope record_gate request_id trace_id)
    (recovery_post report_scope record_gate env w (jr_tx_id ` set cs)) w"
  unfolding recover_records_def wp_try_then
proof (rule wp_mono[OF wp_recover_candidates[OF assms]], goal_cases)
  case (1 x w1)
  have post: "recovery_post report_scope record_gate env w (jr_tx_id ` set cs) y w'"
    if "durable w' = durable w1" "w_tick w1 \<le> w_tick w'" "w_inventory w' = w_inventory w1"
      "w_observed w' = w_observed w1" "w_log w' = w_log w1" "w_shadow w' = w_shadow w1"
      "dependable_journal env \<Longrightarrow> \<exists>report. y = Inr report"
      "\<And>report. y = Inr report \<Longrightarrow> report_scope = AllRecoverable \<Longrightarrow> faithful_report report w'" for y w'
    unfolding recovery_post_def using dealt_with_frame[OF 1 that(1-7)] that(8) by blast
  show ?case
  proof (cases x)
    case (Inl e)
    with 1 show ?thesis by (simp add: dealt_with_def recovery_post_def)
  next
    case (Inr run)
    then show ?thesis
      by (auto simp: wp_simps Let_def journal_list_recoverable_def dependable_journal_def durable_def
          faithful_report_def pending_records_def intro!: post split: option.split)
  qed
qed

lemma listed_all:
  assumes "journal_inv (w_journal w)" "durable w t = Some r" "unfinished r"
  shows "t \<in> jr_tx_id ` set (pending_records w)"
proof -
  have "jr_tx_id r = t" using assms(1,2) by (simp add: journal_inv_def durable_def)
  with assms show ?thesis
    by (intro image_eqI[of _ _ r]) (simp_all add: pending_records_def journal_inv_values durable_def unfinished_def)
qed

lemma finished_pending:
  assumes "journal_inv (w_journal w)" "all_finished w"
  shows "pending_records w = filter (\<lambda>r. jr_phase r = InDoubt) (bm_values (w_journal w))"
  unfolding pending_records_def
proof (rule filter_cong[OF refl])
  fix r assume "r \<in> set (bm_values (w_journal w))"
  with assms have "\<not> unfinished r" by (simp add: journal_inv_values all_finished_def durable_def)
  then show "requires_recovery (jr_phase r) = (jr_phase r = InDoubt)"
    by (auto simp: unfinished_def requires_recovery_def)
qed

text \<open>The two entry points, with the records that each may touch.\<close>

lemma wp_recover_pending:
  assumes "journal_inv (w_journal w)"
  shows "wp (recover_pending_transactions env) (\<lambda>x w'. recovery_rel unfinished env w w' \<and>
    (dependable_journal env \<longrightarrow> (\<exists>report. x = Inr report \<and> all_finished w' \<and> faithful_report report w'))) w"
proof -
  let ?v = "w\<lparr>w_tick := Suc (w_tick w)\<rparr>"
  let ?P = "\<lambda>x w'. recovery_rel unfinished env w w' \<and>
    (dependable_journal env \<longrightarrow> (\<exists>report. x = Inr report \<and> all_finished w' \<and> faithful_report report w'))"
  have el: "eligible AnyRecoverable = unfinished" by (simp add: fun_eq_iff eligible_def)
  have v: "recovery_rel unfinished env w ?v" by (rule recovery_rel_tick[OF recovery_rel_refl])
  have inv: "journal_inv (w_journal ?v)" using assms by simp
  have run: "wp (recover_records env (pending_records w) AllRecoverable AnyRecoverable ''recovery'' ''recovery'') ?P ?v"
  proof (rule wp_mono[OF wp_recover_records[OF inv]])
    fix x w' assume post: "recovery_post AllRecoverable AnyRecoverable env ?v (jr_tx_id ` set (pending_records w)) x w'"
    then have rel: "recovery_rel unfinished env w w'"
      using recovery_rel_trans[OF v] el by (simp add: recovery_post_def dealt_with_def)
    have fin: "all_finished w'" if "dependable_journal env"
      unfolding all_finished_def
    proof (intro allI impI)
      fix t r assume r: "durable w' t = Some r"
      show "\<not> unfinished r"
      proof (cases "t \<in> jr_tx_id ` set (pending_records w)")
        case True
        with post that r show ?thesis unfolding recovery_post_def dealt_with_def by blast
      next
        case False
        then have "\<forall>r. durable w t = Some r \<longrightarrow> \<not> unfinished r" using listed_all[OF assms] by blast
        then show ?thesis using recovery_rel_finished[of AnyRecoverable env w w' t, unfolded el, OF rel] r by blast
      qed
    qed
    then show "?P x w'"
      using rel post unfolding recovery_post_def dealt_with_def by blast
  qed
  show ?thesis
    using run v
    by (auto simp: recover_pending_transactions_def wp_simps Let_def journal_list_recoverable_def
        dependable_journal_def pending_records_def split: option.split)
qed

lemma wp_recover_timed_out:
  assumes "journal_inv (w_journal w)"
  shows "wp (recover_timed_out_confirmed_commits env now timeout_secs) (\<lambda>x w'.
    recovery_rel (\<lambda>r. unfinished r \<and> is_timed_out_confirmed_commit r now timeout_secs) env w w') w"
proof -
  let ?v = "w\<lparr>w_tick := Suc (w_tick w)\<rparr>"
  let ?el = "\<lambda>r. unfinished r \<and> is_timed_out_confirmed_commit r now timeout_secs"
  have el: "eligible (TimedOutConfirmedCommit now timeout_secs) = ?el" by (simp add: fun_eq_iff eligible_def)
  have v: "recovery_rel ?el env w ?v" by (rule recovery_rel_tick[OF recovery_rel_refl])
  have inv: "journal_inv (w_journal ?v)" using assms by simp
  have "wp (recover_records env cs AttemptedTxIds (TimedOutConfirmedCommit now timeout_secs) q t)
      (\<lambda>_. recovery_rel ?el env w) ?v" for cs q t
    by (rule wp_mono[OF wp_recover_records[OF inv]])
      (use recovery_rel_trans[OF v] el in \<open>simp add: recovery_post_def dealt_with_def\<close>)
  then show ?thesis
    using v by (auto simp: recover_timed_out_confirmed_commits_def wp_simps Let_def journal_list_recoverable_def
        split: option.split)
qed

lemma recovery_run_rel:
  assumes "journal_inv (w_journal w)" and "run_state m w = (x, w')"
    and "m = recover_pending_transactions env \<and> el = unfinished \<or>
      m = recover_timed_out_confirmed_commits env now timeout_secs \<and>
        el = (\<lambda>r. unfinished r \<and> is_timed_out_confirmed_commit r now timeout_secs)"
  shows "recovery_rel el env w w'"
  using assms(3)
proof (elim disjE conjE)
  assume "m = recover_pending_transactions env" "el = unfinished"
  then show ?thesis using wpD[OF wp_recover_pending[OF assms(1)]] assms(2) by blast
next
  assume "m = recover_timed_out_confirmed_commits env now timeout_secs"
    "el = (\<lambda>r. unfinished r \<and> is_timed_out_confirmed_commit r now timeout_secs)"
  then show ?thesis using wpD[OF wp_recover_timed_out[OF assms(1)]] assms(2) by blast
qed

section \<open>Properties\<close>

text \<open>C23: In every environment, a startup recovery and a run of the confirmed commit watcher make each
  device call for a transaction that was unfinished in the journal, to one of its devices, while the
  journal durably holds that transaction as Recovering; they leave settled and in-doubt records,
  absent ones, the inventory and the observed states as they were.  The watcher calls for and changes
  only confirmed commits that have timed out.\<close>

theorem recovery_writes_ahead:
  assumes "journal_inv (w_journal w)"
    and "m = recover_pending_transactions env \<and> el = unfinished \<or>
      m = recover_timed_out_confirmed_commits env now timeout_secs \<and>
        el = (\<lambda>r. unfinished r \<and> is_timed_out_confirmed_commit r now timeout_secs)"
    and "run_state m w = (x, w')"
  shows "(\<exists>es. w_log w' = w_log w @ es \<and> (\<forall>e \<in> set es. re_durable_phase e = Some Recovering \<and>
      (\<exists>r. bm_get (w_journal w) (re_tx_id e) = Some r \<and> el r \<and> re_device e \<in> set (jr_devices r)))) \<and>
    (\<forall>t. (case bm_get (w_journal w) t of None \<Rightarrow> True | Some r \<Rightarrow> \<not> el r) \<longrightarrow>
      bm_get (w_journal w') t = bm_get (w_journal w) t) \<and>
    w_inventory w' = w_inventory w \<and> w_observed w' = w_observed w"
proof -
  have rel: "recovery_rel el env w w'" by (rule recovery_run_rel[OF assms(1,3,2)])
  have "durable w' t = durable w t" if "case durable w t of None \<Rightarrow> True | Some r \<Rightarrow> \<not> el r" for t
    using recovery_rel_record[OF rel, of t] that by (auto simp: record_step_def)
  with rel show ?thesis by (simp add: recovery_rel_def recovery_call_def durable_def)
qed

text \<open>C24: Recovery never guesses.  In every environment, when a recovery changes a record to Committed
  or RolledBack, every device of the transaction proved it during that recovery: it answered the pending confirm, the
  verification of the desired state or a recover call with the commit, or answered a recover call that it
  rolled back or had nothing prepared.  The shadow state of a device changes only when the device proved
  the commit of one of its unfinished transactions.\<close>

theorem recovery_never_guesses:
  assumes "journal_inv (w_journal w)"
    and "m = recover_pending_transactions env \<or> m = recover_timed_out_confirmed_commits env now timeout_secs"
    and "run_state m w = (x, w')"
  shows "(\<forall>t r'. bm_get (w_journal w') t = Some r' \<longrightarrow> bm_get (w_journal w) t \<noteq> Some r' \<longrightarrow>
      jr_phase r' \<in> {Recovering, InDoubt, Committed, RolledBack} \<and>
      (\<exists>r. bm_get (w_journal w) t = Some r \<and> same_record r r' \<and>
        (\<forall>d \<in> set (jr_devices r). evidence env (w_tick w) (w_tick w') r d (jr_phase r')))) \<and>
    (\<forall>d. bm_get (w_shadow w') d \<noteq> bm_get (w_shadow w) d \<longrightarrow>
      (\<exists>t r. bm_get (w_journal w) t = Some r \<and> unfinished r \<and> d \<in> set (jr_devices r) \<and>
        evidence env (w_tick w) (w_tick w') r d Committed))"
proof -
  define el where "el = (if m = recover_pending_transactions env then unfinished
    else (\<lambda>r. unfinished r \<and> is_timed_out_confirmed_commit r now timeout_secs))"
  then have rel: "recovery_rel el env w w'" using assms(2)
    by (intro recovery_run_rel[OF assms(1,3)]) auto
  have el: "unfinished r" if "el r" for r using that by (simp add: el_def split: if_splits)
  have "jr_phase r' \<in> {Recovering, InDoubt, Committed, RolledBack} \<and>
      (\<exists>r. durable w t = Some r \<and> same_record r r' \<and>
        (\<forall>d \<in> set (jr_devices r). evidence env (w_tick w) (w_tick w') r d (jr_phase r')))"
    if "durable w' t = Some r'" "durable w t \<noteq> Some r'" for t r'
    using recovery_rel_record[OF rel, of t] that by (auto simp: record_step_def)
  moreover have "\<exists>t r. durable w t = Some r \<and> unfinished r \<and> d \<in> set (jr_devices r) \<and>
        evidence env (w_tick w) (w_tick w') r d Committed"
    if "bm_get (w_shadow w') d \<noteq> bm_get (w_shadow w) d" for d
  proof -
    have "shadow_step el env w w' d" using rel by (simp add: recovery_rel_def)
    with that el show ?thesis unfolding shadow_step_def by blast
  qed
  ultimately show ?thesis unfolding durable_def by blast
qed

text \<open>C25: When the calls of the journal succeed, a startup recovery returns a report, whatever the
  adapters, the shadow store and the inventory do, and leaves every transaction settled or in doubt;
  the report lists exactly the transactions in doubt.\<close>

theorem recovery_finishes:
  assumes "journal_inv (w_journal w)" and "\<forall>n. ev_journal_put env n = Stored"
    and "\<forall>n. ev_journal_read env n = None"
    and "run_state (recover_pending_transactions env) w = (x, w')"
  shows "\<exists>report. x = Inr report \<and>
    (\<forall>r \<in> set (bm_values (w_journal w')). requires_recovery (jr_phase r) \<longrightarrow> jr_phase r = InDoubt) \<and>
    rr_tx_ids report = map jr_tx_id (filter (\<lambda>r. jr_phase r = InDoubt) (bm_values (w_journal w'))) \<and>
    rr_pending report = length (rr_tx_ids report) \<and> rr_in_doubt report = length (rr_tx_ids report)"
proof -
  have "dependable_journal env" using assms(2,3) by (simp add: dependable_journal_def reliable_journal_def)
  then obtain report where report: "x = Inr report" "all_finished w'" "faithful_report report w'"
    and rel: "recovery_rel unfinished env w w'"
    using wpD[OF wp_recover_pending[OF assms(1)] assms(4)] by blast
  have inv: "journal_inv (w_journal w')" by (rule recovery_rel_inv[OF rel assms(1)])
  have "\<forall>r \<in> set (bm_values (w_journal w')). requires_recovery (jr_phase r) \<longrightarrow> jr_phase r = InDoubt"
    using report(2) inv by (auto simp: journal_inv_values all_finished_def durable_def unfinished_def)
  with report finished_pending[OF inv report(2)] show ?thesis
    by (simp add: faithful_report_def)
qed

section \<open>Witnesses\<close>

text \<open>A confirmed commit whose process died while it waited for the final confirm.\<close>

definition interrupted_record :: TxJournalRecord where
  "interrupted_record = sample_record\<lparr>jr_tx_id := ''tx'', jr_devices := [''sw1''], jr_desired_states := [sample_desired],
     jr_change_sets := [compute_diff sample_desired (blank_shadow ''sw1'' 1)], jr_phase := FinalConfirming,
     jr_strategy := Some ConfirmedCommit\<rparr>"

definition interrupted_world :: world where
  "interrupted_world = sample_world\<lparr>w_journal := bm_of_list [(''tx'', interrupted_record)]\<rparr>"

lemma interrupted_fields [simp]:
  "jr_tx_id interrupted_record = ''tx''" "jr_devices interrupted_record = [''sw1'']"
  "jr_desired_states interrupted_record = [sample_desired]" "jr_phase interrupted_record = FinalConfirming"
  "jr_strategy interrupted_record = Some ConfirmedCommit" "jr_updated_at interrupted_record = 0"
  "jr_change_sets interrupted_record = [compute_diff sample_desired (blank_shadow ''sw1'' 1)]"
  by (simp_all add: interrupted_record_def sample_record_def started_def)

lemma interrupted_world_fields [simp]:
  "w_tick interrupted_world = 0" "w_log interrupted_world = []" "w_shadow interrupted_world = bm_empty"
  "w_journal interrupted_world = bm_of_list [(''tx'', interrupted_record)]" "w_events interrupted_world = []"
  "w_inventory interrupted_world = w_inventory sample_world"
  by (simp_all add: interrupted_world_def)

lemma bm_values_one: "bm_values (bm_of_list [(k, v)]) = [v]"
  by (simp add: bm_values_def bm_of_list_def bm_insert.rep_eq bm_empty.rep_eq)

lemma interrupted_inv: "journal_inv (w_journal interrupted_world)"
  by (simp add: journal_inv_def bm_get_of_list)

lemmas recovery_eval = recover_pending_transactions_def recover_timed_out_confirmed_commits_def recover_records_def
  recover_candidate_def recover_by_action_def settle_recovering_def recover_record_def
  recover_final_confirming_record_def recover_final_confirming_device_def try_final_confirm_def
  recovered_phase_def merge_phase_def merge_recovery_phase_def desired_state_for_record_def
  change_set_for_record_def classify_recovery_def wp_stamp_phase journal_list_recoverable_def
  bm_values_one bm_get_of_list bm_get_insert requires_recovery_def is_timed_out_confirmed_commit_def
  saturating_sub_def ok_or_def wp_simps wp_stores put_with_def Let_def

lemma interrupted_recovery:
  "wp (recover_pending_transactions sample_env) (\<lambda>x w'. length (w_log w') = 1 \<and>
     map_option jr_phase (bm_get (w_journal w') ''tx'') = Some Committed \<and> is_ok x) interrupted_world"
  by (simp add: recovery_eval cong: wp_eval_congs)

lemma interrupted_watch:
  "wp (recover_timed_out_confirmed_commits sample_env 500 120) (\<lambda>x w'. length (w_log w') = 1) interrupted_world"
  by (simp add: recovery_eval cong: wp_eval_congs)

theorem recovery_writes_ahead_witness:
  "case run_state (recover_timed_out_confirmed_commits sample_env 500 120) interrupted_world of (x, w') \<Rightarrow>
     journal_inv (w_journal interrupted_world) \<and> length (w_log w') = 1 \<and>
     (\<forall>e \<in> set (w_log w'). re_durable_phase e = Some Recovering \<and>
       is_timed_out_confirmed_commit (the (bm_get (w_journal interrupted_world) (re_tx_id e))) 500 120)"
proof -
  obtain x w' where run: "run_state (recover_timed_out_confirmed_commits sample_env 500 120) interrupted_world = (x, w')"
    by (rule prod.exhaust)
  show ?thesis
    using recovery_writes_ahead[OF interrupted_inv _ run, where now = 500 and timeout_secs = 120]
      wpD[OF interrupted_watch run] interrupted_inv
    by (fastforce simp: run)
qed

theorem recovery_never_guesses_witness:
  "case run_state (recover_pending_transactions sample_env) interrupted_world of (x, w') \<Rightarrow>
     journal_inv (w_journal interrupted_world) \<and>
     map_option jr_phase (bm_get (w_journal w') ''tx'') = Some Committed \<and>
     evidence sample_env 0 (w_tick w') interrupted_record ''sw1'' Committed"
proof -
  obtain x w' where run: "run_state (recover_pending_transactions sample_env) interrupted_world = (x, w')"
    by (rule prod.exhaust)
  have phase: "map_option jr_phase (bm_get (w_journal w') ''tx'') = Some Committed"
    using wpD[OF interrupted_recovery run] by simp
  then obtain r' where r': "bm_get (w_journal w') ''tx'' = Some r'" "jr_phase r' = Committed" by auto
  have before: "bm_get (w_journal interrupted_world) ''tx'' = Some interrupted_record"
    by (simp add: bm_get_of_list)
  have "r' \<noteq> interrupted_record" using r'(2) by auto
  with recovery_never_guesses[OF interrupted_inv _ run] r' before
  have "\<forall>d \<in> set (jr_devices interrupted_record). evidence sample_env 0 (w_tick w') interrupted_record d Committed"
    by fastforce
  then show ?thesis using phase interrupted_inv by (simp add: run)
qed

theorem recovery_finishes_witness:
  "case run_state (recover_pending_transactions sample_env) interrupted_world of (x, w') \<Rightarrow>
     journal_inv (w_journal interrupted_world) \<and>
     (\<exists>report. x = Inr report \<and> rr_pending report = length (rr_tx_ids report)) \<and>
     (\<forall>r \<in> set (bm_values (w_journal w')). requires_recovery (jr_phase r) \<longrightarrow> jr_phase r = InDoubt)"
proof -
  obtain x w' where run: "run_state (recover_pending_transactions sample_env) interrupted_world = (x, w')"
    by (rule prod.exhaust)
  have reliable: "\<forall>n. ev_journal_put sample_env n = Stored" "\<forall>n. ev_journal_read sample_env n = None" by simp_all
  obtain report where "x = Inr report" "rr_pending report = length (rr_tx_ids report)"
    "\<forall>r \<in> set (bm_values (w_journal w')). requires_recovery (jr_phase r) \<longrightarrow> jr_phase r = InDoubt"
    using recovery_finishes[OF interrupted_inv reliable run] by blast
  then show ?thesis using interrupted_inv by (simp add: run)
qed

end
