(* ===== verification/Authz.thy ===== *)
theory Authz
  imports Model Btree
begin

text \<open>
  Authorization of administrative operations (\<open>src/authz.rs\<close>).  A policy is a function from
  requests to decisions; the two policies of the source are definitions.
\<close>

datatype AdminAction =
    ListOperationSummaries | ListAlerts | ListInDoubtTransactions | AcknowledgeAlert | ResolveAlert
  | SuppressAlert | ExpireAlert | ForceResolveTransaction | ForceUnlockSession | ChangeRetentionPolicy
  | ChangeDaemonSchedule | GetProductStatusBundle | GetWorkerReloadStatus | ExportAuditHistory

text \<open>The derived order is the order of the declaration.\<close>

primrec action_rank :: "AdminAction \<Rightarrow> nat" where
  "action_rank ListOperationSummaries = 0"
| "action_rank ListAlerts = 1"
| "action_rank ListInDoubtTransactions = 2"
| "action_rank AcknowledgeAlert = 3"
| "action_rank ResolveAlert = 4"
| "action_rank SuppressAlert = 5"
| "action_rank ExpireAlert = 6"
| "action_rank ForceResolveTransaction = 7"
| "action_rank ForceUnlockSession = 8"
| "action_rank ChangeRetentionPolicy = 9"
| "action_rank ChangeDaemonSchedule = 10"
| "action_rank GetProductStatusBundle = 11"
| "action_rank GetWorkerReloadStatus = 12"
| "action_rank ExportAuditHistory = 13"

lemma action_rank_inject: "action_rank a = action_rank b \<Longrightarrow> a = b"
  by (cases a; cases b) simp_all

instantiation AdminAction :: linorder
begin

definition less_eq_AdminAction :: "AdminAction \<Rightarrow> AdminAction \<Rightarrow> bool" where
  "less_eq_AdminAction a b \<longleftrightarrow> action_rank a \<le> action_rank b"

definition less_AdminAction :: "AdminAction \<Rightarrow> AdminAction \<Rightarrow> bool" where
  "less_AdminAction a b \<longleftrightarrow> action_rank a < action_rank b"

instance
  by standard (auto simp: less_eq_AdminAction_def less_AdminAction_def action_rank_inject)

end

fun debug_action :: "AdminAction \<Rightarrow> string" where
  "debug_action ListOperationSummaries = ''ListOperationSummaries''"
| "debug_action ListAlerts = ''ListAlerts''"
| "debug_action ListInDoubtTransactions = ''ListInDoubtTransactions''"
| "debug_action AcknowledgeAlert = ''AcknowledgeAlert''"
| "debug_action ResolveAlert = ''ResolveAlert''"
| "debug_action SuppressAlert = ''SuppressAlert''"
| "debug_action ExpireAlert = ''ExpireAlert''"
| "debug_action ForceResolveTransaction = ''ForceResolveTransaction''"
| "debug_action ForceUnlockSession = ''ForceUnlockSession''"
| "debug_action ChangeRetentionPolicy = ''ChangeRetentionPolicy''"
| "debug_action ChangeDaemonSchedule = ''ChangeDaemonSchedule''"
| "debug_action GetProductStatusBundle = ''GetProductStatusBundle''"
| "debug_action GetWorkerReloadStatus = ''GetWorkerReloadStatus''"
| "debug_action ExportAuditHistory = ''ExportAuditHistory''"

definition all_actions :: "AdminAction bset" where
  "all_actions = bs_of_list
     [ListOperationSummaries, ListAlerts, ListInDoubtTransactions, AcknowledgeAlert, ResolveAlert,
      SuppressAlert, ExpireAlert, ForceResolveTransaction, ForceUnlockSession, ChangeRetentionPolicy,
      ChangeDaemonSchedule, GetProductStatusBundle, GetWorkerReloadStatus, ExportAuditHistory]"

record AuthorizationRequest =
  az_request_id :: string
  az_trace_id :: string
  az_operator_id :: string
  az_action :: AdminAction

record AuthorizationDecision =
  ad_operator_id :: string
  ad_action :: AdminAction

type_synonym authorization_policy = "AuthorizationRequest \<Rightarrow> AuthorizationDecision result"

definition permit_all :: authorization_policy where
  "permit_all request = Inr \<lparr>ad_operator_id = az_operator_id request, ad_action = az_action request\<rparr>"

type_synonym static_policy = "(string, AdminAction bset) bmap"

definition with_operator :: "string \<Rightarrow> static_policy \<Rightarrow> static_policy" where
  "with_operator operator_id operators = bm_insert operator_id all_actions operators"

definition with_allowed_actions :: "string \<Rightarrow> AdminAction list \<Rightarrow> static_policy \<Rightarrow> static_policy" where
  "with_allowed_actions operator_id actions operators = bm_insert operator_id (bs_of_list actions) operators"

definition static_authorize :: "static_policy \<Rightarrow> authorization_policy" where
  "static_authorize operators request =
     (case bm_get operators (az_operator_id request) of
        None \<Rightarrow> Inl (AuthorizationDenied (''operator '' @ az_operator_id request @
          '' is not registered for local admin operations''))
      | Some allowed_actions \<Rightarrow>
          if \<not> bs_member allowed_actions (az_action request)
          then Inl (AuthorizationDenied (''operator '' @ az_operator_id request @
            '' is not authorized for '' @ debug_action (az_action request)))
          else Inr \<lparr>ad_operator_id = az_operator_id request, ad_action = az_action request\<rparr>)"

section \<open>What a policy decides\<close>

text \<open>The interface the clients rely on: a decision names the operator and the action of its request,
  and a refusal is a denial.\<close>

locale authorization =
  fixes authorize :: authorization_policy
  assumes decides: "authorize request = Inr decision \<Longrightarrow>
      ad_operator_id decision = az_operator_id request \<and> ad_action decision = az_action request"
    and denies: "authorize request = Inl e \<Longrightarrow> \<exists>reason. e = AuthorizationDenied reason"

interpretation permit_all: authorization permit_all
  by unfold_locales (auto simp: permit_all_def)

interpretation static_policy: authorization "static_authorize operators" for operators
  by unfold_locales (auto simp: static_authorize_def split: option.splits if_splits)

lemma bs_member_all_actions: "bs_member all_actions a"
  by (cases a) (simp_all add: all_actions_def)

lemma static_authorize_iff:
  "is_ok (static_authorize operators request) \<longleftrightarrow>
     (\<exists>allowed. bm_get operators (az_operator_id request) = Some allowed \<and> bs_member allowed (az_action request))"
  by (auto simp: static_authorize_def split: option.split)

lemma with_operator_authorizes:
  "is_ok (static_authorize (with_operator operator_id operators) request) \<longleftrightarrow>
     az_operator_id request = operator_id \<or> is_ok (static_authorize operators request)"
  by (auto simp: static_authorize_iff with_operator_def bm_get_insert bs_member_all_actions)

text \<open>A later registration replaces the actions of an operator.\<close>

lemma with_allowed_actions_authorizes:
  "is_ok (static_authorize (with_allowed_actions operator_id actions operators) request) \<longleftrightarrow>
     (if az_operator_id request = operator_id then az_action request \<in> set actions
      else is_ok (static_authorize operators request))"
  by (auto simp: static_authorize_iff with_allowed_actions_def bm_get_insert)

end
