(* ===== verification/Compensation.thy ===== *)
theory Compensation
  imports Plan Response Drift Shadow Locks
begin

text \<open>
  The requests of the API (\<open>src/api/request.rs\<close>) and the retry of the failed endpoints of a domain
  apply (\<open>src/api/apply_compensation.rs\<close>): the record of an apply and its stores, the plan that
  classifies the endpoints, the selection of endpoints to retry and the intent that is left for
  them.
\<close>

section \<open>Requests (api/request.rs)\<close>

datatype ApplyLockScope = LockDomain | LockRegion | LockSwitchPair

record ApplyOptions =
  op_dry_run :: bool
  op_allow_degraded_atomicity :: bool
  op_drift_policy :: DriftPolicy
  op_lock_scope :: ApplyLockScope
  op_region_id :: "string option"

definition default_drift_policy :: DriftPolicy where
  "default_drift_policy = ReportOnly"

definition default_apply_options :: ApplyOptions where
  "default_apply_options = \<lparr>op_dry_run = False, op_allow_degraded_atomicity = False,
     op_drift_policy = default_drift_policy, op_lock_scope = LockDomain, op_region_id = None\<rparr>"

record ApplyIntentRequest =
  aq_request_id :: string
  aq_trace_id :: "string option"
  aq_intent :: SwitchPairIntent
  aq_options :: ApplyOptions

record ApplyDomainIntentRequest =
  dq_request_id :: string
  dq_trace_id :: "string option"
  dq_idempotency_key :: "string option"
  dq_intent :: UnderlayDomainIntent
  dq_options :: ApplyOptions

record RetryFailedDomainEndpointsRequest =
  rq_request_id :: string
  rq_trace_id :: "string option"
  rq_original_request_id :: string
  rq_endpoint_ids :: "DeviceId list"
  rq_idempotency_key :: "string option"

section \<open>The record of an apply\<close>

record DomainApplyRecord =
  rec_request :: ApplyDomainIntentRequest
  rec_response :: ApplyIntentResponse
  rec_domain_id :: string
  rec_created_at :: u64
  rec_updated_at :: u64

definition new_domain_apply_record ::
  "u64 \<Rightarrow> ApplyDomainIntentRequest \<Rightarrow> ApplyIntentResponse \<Rightarrow> DomainApplyRecord" where
  "new_domain_apply_record now request response =
     \<lparr>rec_request = request, rec_response = response, rec_domain_id = di_domain_id (dq_intent request),
      rec_created_at = now, rec_updated_at = now\<rparr>"

record DomainApplyCompensationPlan =
  pl_original_request_id :: string
  pl_original_trace_id :: string
  pl_domain_id :: string
  pl_status :: ApplyStatus
  pl_retryable_failed :: "DeviceId list"
  pl_requires_recovery :: "DeviceId list"
  pl_completed :: "DeviceId list"

text \<open>One device result of the loop over the three lists.\<close>

definition classify_result ::
  "DeviceId list \<times> DeviceId list \<times> DeviceId list \<Rightarrow> DeviceApplyResult \<Rightarrow>
   DeviceId list \<times> DeviceId list \<times> DeviceId list" where
  "classify_result acc result =
     (case acc of (retryable_failed, in_recovery, completed) \<Rightarrow>
        case dr_status result of
          ApplyFailed \<Rightarrow> (retryable_failed @ [dr_device_id result], in_recovery, completed)
        | ApplyRolledBack \<Rightarrow> (retryable_failed @ [dr_device_id result], in_recovery, completed)
        | ApplyInDoubt \<Rightarrow> (retryable_failed, in_recovery @ [dr_device_id result], completed)
        | Success \<Rightarrow> (retryable_failed, in_recovery, completed @ [dr_device_id result])
        | SuccessWithWarning \<Rightarrow> (retryable_failed, in_recovery, completed @ [dr_device_id result])
        | NoOpSuccess \<Rightarrow> (retryable_failed, in_recovery, completed @ [dr_device_id result])
        | PartialSuccess \<Rightarrow> acc)"

definition compensation_plan_from_record :: "DomainApplyRecord \<Rightarrow> DomainApplyCompensationPlan" where
  "compensation_plan_from_record r =
     (let request = rec_request r in
      case foldl classify_result ([], [], []) (ar_device_results (rec_response r)) of
        (retryable_failed, in_recovery, completed) \<Rightarrow>
          \<lparr>pl_original_request_id = dq_request_id request,
           pl_original_trace_id = (case dq_trace_id request of Some t \<Rightarrow> t | None \<Rightarrow> dq_request_id request),
           pl_domain_id = rec_domain_id r, pl_status = ar_status (rec_response r),
           pl_retryable_failed = retryable_failed, pl_requires_recovery = in_recovery,
           pl_completed = completed\<rparr>)"

section \<open>What is retried\<close>

definition select_retryable_failed_endpoints ::
  "DomainApplyRecord \<Rightarrow> DeviceId list \<Rightarrow> DeviceId list result" where
  "select_retryable_failed_endpoints r explicit_endpoint_ids =
     (let plan = compensation_plan_from_record r; retryable = bs_of_list (pl_retryable_failed plan) in
      and_then
        (if explicit_endpoint_ids = [] then Inr (pl_retryable_failed plan)
         else and_then (try_map (\<lambda>endpoint_id.
             if \<not> bs_member retryable endpoint_id
             then Inl (InvalidIntent (''endpoint '' @ endpoint_id @
               '' is not a terminal failed endpoint for original request '' @ dq_request_id (rec_request r)))
             else Inr endpoint_id) explicit_endpoint_ids) (\<lambda>selected. Inr (remdups_adj (sort selected)))) (\<lambda>selected.
      if selected = []
      then Inl (InvalidIntent (''original request '' @ dq_request_id (rec_request r) @
        '' has no terminal failed endpoints to retry''))
      else Inr selected))"

definition filter_domain_intent_to_endpoints ::
  "UnderlayDomainIntent \<Rightarrow> DeviceId list \<Rightarrow> UnderlayDomainIntent result" where
  "filter_domain_intent_to_endpoints intent endpoint_ids =
     (if endpoint_ids = [] then Inl (InvalidIntent ''retry endpoint list must not be empty'')
      else
        let selected_endpoints = bs_of_list endpoint_ids;
            existing_endpoints = bs_of_list (map me_endpoint_id (di_endpoints intent)) in
        and_then (try_each (\<lambda>endpoint_id. ensure (bs_member existing_endpoints endpoint_id)
          (InvalidIntent (''endpoint '' @ endpoint_id @ '' does not exist in original domain intent'')))
          (bs_elems selected_endpoints)) (\<lambda>_.
        let endpoints = filter (\<lambda>e. bs_member selected_endpoints (me_endpoint_id e)) (di_endpoints intent);
            members = filter (\<lambda>m. bs_member selected_endpoints (sm_management_endpoint_id m)) (di_members intent);
            selected_members = bs_of_list (map sm_member_id members) in
        Inr \<lparr>di_domain_id = di_domain_id intent,
             di_topology = (if length endpoints = 1 then StackSingleManagementIp else di_topology intent),
             di_endpoints = endpoints,
             di_members = members,
             di_vlans = di_vlans intent,
             di_interfaces = filter (\<lambda>x. bs_member selected_members (ii_device_id x)) (di_interfaces intent),
             di_acls = di_acls intent,
             di_acl_bindings = filter (\<lambda>x. bs_member selected_members (abi_device_id x)) (di_acl_bindings intent),
             di_delete_vlan_ids = di_delete_vlan_ids intent,
             di_delete_interfaces =
               filter (\<lambda>x. bs_member selected_members (ixd_device_id x)) (di_delete_interfaces intent),
             di_delete_acl_ids = di_delete_acl_ids intent,
             di_delete_acl_bindings =
               filter (\<lambda>x. bs_member selected_members (abi_device_id x)) (di_delete_acl_bindings intent),
             di_bgp_processes = filter (\<lambda>x. bs_member selected_members (bpi_device_id x)) (di_bgp_processes intent),
             di_bgp_neighbors = filter (\<lambda>x. bs_member selected_members (bni_device_id x)) (di_bgp_neighbors intent),
             di_delete_bgp_processes =
               filter (\<lambda>x. bs_member selected_members (bpd_device_id x)) (di_delete_bgp_processes intent),
             di_delete_bgp_neighbors =
               filter (\<lambda>x. bs_member selected_members (bnd_device_id x)) (di_delete_bgp_neighbors intent)\<rparr>))"

section \<open>The plan partitions the endpoints\<close>

lemma foldl_classify:
  "foldl classify_result (a, b, c) rs =
     (a @ map dr_device_id (filter (\<lambda>r. dr_status r \<in> {ApplyFailed, ApplyRolledBack}) rs),
      b @ map dr_device_id (filter (\<lambda>r. dr_status r = ApplyInDoubt) rs),
      c @ map dr_device_id (filter (\<lambda>r. succeeded (dr_status r)) rs))"
proof (induction rs arbitrary: a b c)
  case (Cons r rs)
  then show ?case by (cases "dr_status r") (simp_all add: classify_result_def succeeded_def)
qed simp

lemma retryable_failed_eq:
  "pl_retryable_failed (compensation_plan_from_record r) =
     map dr_device_id (filter (\<lambda>x. dr_status x \<in> {ApplyFailed, ApplyRolledBack}) (ar_device_results (rec_response r)))"
  by (simp add: compensation_plan_from_record_def foldl_classify Let_def)

lemma try_map_guard:
  "try_map (\<lambda>x. if P x then Inl (e x) else Inr x) xs = Inr ys \<longleftrightarrow> ys = xs \<and> (\<forall>x \<in> set xs. \<not> P x)"
  by (induction xs arbitrary: ys) (auto simp: and_then_Inr_iff)

lemma select_retryable_Inr:
  "select_retryable_failed_endpoints r ids = Inr selected \<Longrightarrow>
   selected \<noteq> [] \<and> set selected \<subseteq> set (pl_retryable_failed (compensation_plan_from_record r)) \<and>
   (ids \<noteq> [] \<longrightarrow> set selected = set ids \<and> sorted selected \<and> distinct selected) \<and>
   (ids = [] \<longrightarrow> selected = pl_retryable_failed (compensation_plan_from_record r))"
  unfolding select_retryable_failed_endpoints_def Let_def
  using strict_remdups_adj[OF sorted_sort, of ids]
  by (auto simp: and_then_Inr_iff try_map_guard strict_sorted_iff split: if_splits)

section \<open>The filtered intent\<close>

definition selected_member_ids :: "UnderlayDomainIntent \<Rightarrow> DeviceId list \<Rightarrow> DeviceId set" where
  "selected_member_ids i ids =
     sm_member_id ` {m \<in> set (di_members i). sm_management_endpoint_id m \<in> set ids}"

text \<open>The part of an intent that concerns the selected endpoints.\<close>

definition restrict_intent :: "UnderlayDomainIntent \<Rightarrow> DeviceId list \<Rightarrow> UnderlayDomainIntent" where
  "restrict_intent i ids =
     (let endpoints = filter (\<lambda>e. me_endpoint_id e \<in> set ids) (di_endpoints i); sel = selected_member_ids i ids in
      i\<lparr>di_topology := (if length endpoints = 1 then StackSingleManagementIp else di_topology i),
        di_endpoints := endpoints,
        di_members := filter (\<lambda>m. sm_management_endpoint_id m \<in> set ids) (di_members i),
        di_interfaces := filter (\<lambda>x. ii_device_id x \<in> sel) (di_interfaces i),
        di_acl_bindings := filter (\<lambda>x. abi_device_id x \<in> sel) (di_acl_bindings i),
        di_delete_interfaces := filter (\<lambda>x. ixd_device_id x \<in> sel) (di_delete_interfaces i),
        di_delete_acl_bindings := filter (\<lambda>x. abi_device_id x \<in> sel) (di_delete_acl_bindings i),
        di_bgp_processes := filter (\<lambda>x. bpi_device_id x \<in> sel) (di_bgp_processes i),
        di_bgp_neighbors := filter (\<lambda>x. bni_device_id x \<in> sel) (di_bgp_neighbors i),
        di_delete_bgp_processes := filter (\<lambda>x. bpd_device_id x \<in> sel) (di_delete_bgp_processes i),
        di_delete_bgp_neighbors := filter (\<lambda>x. bnd_device_id x \<in> sel) (di_delete_bgp_neighbors i)\<rparr>)"

lemma filter_domain_intent_eq:
  "filter_domain_intent_to_endpoints i ids = Inr i' \<longleftrightarrow>
     ids \<noteq> [] \<and> set ids \<subseteq> me_endpoint_id ` set (di_endpoints i) \<and> i' = restrict_intent i ids"
proof -
  have sel: "bs_member (bs_of_list (map sm_member_id
      (filter (\<lambda>m. bs_member (bs_of_list ids) (sm_management_endpoint_id m)) (di_members i)))) d \<longleftrightarrow>
      d \<in> selected_member_ids i ids" for d
    by (auto simp: selected_member_ids_def)
  have known: "is_ok (try_each (\<lambda>endpoint_id. ensure (bs_member (bs_of_list (map me_endpoint_id (di_endpoints i))) endpoint_id)
      (e endpoint_id)) (bs_elems (bs_of_list ids))) \<longleftrightarrow> set ids \<subseteq> me_endpoint_id ` set (di_endpoints i)" for e
    by auto
  show ?thesis
    unfolding filter_domain_intent_to_endpoints_def Let_def sel restrict_intent_def
    using known by (auto simp: and_then_Inr_iff simp flip: is_ok_unit)
qed

text \<open>Restricting an accepted intent keeps it acceptable, as long as a selected endpoint has a member.\<close>

lemma distinct_by_filter: "distinct_by f xs \<Longrightarrow> distinct_by f (filter P xs)"
  by (simp add: distinct_by_def distinct_map_filter)

lemma restrict_member_ids: "member_id_set (restrict_intent i ids) = selected_member_ids i ids"
  by (auto simp: member_id_set_def restrict_intent_def selected_member_ids_def Let_def)

lemma restrict_endpoints_ok:
  assumes "endpoints_ok i" "ids \<noteq> []" "set ids \<subseteq> me_endpoint_id ` set (di_endpoints i)"
  shows "endpoints_ok (restrict_intent i ids)"
proof -
  let ?es = "filter (\<lambda>e. me_endpoint_id e \<in> set ids) (di_endpoints i)"
  have "?es \<noteq> []" using assms(2,3) by (cases ids) (auto simp: filter_empty_conv)
  then have pos: "length ?es > 0" by simp
  have le: "length ?es \<le> length (di_endpoints i)" by (rule length_filter_le)
  show ?thesis
    using assms(1) pos le distinct_by_filter[of me_endpoint_id "di_endpoints i" "\<lambda>e. me_endpoint_id e \<in> set ids"]
    unfolding endpoints_ok_def restrict_intent_def Let_def
    by (cases "di_topology i") (auto simp del: length_greater_0_conv)
qed

lemma restrict_intent_ok:
  assumes "domain_intent_ok i" "ids \<noteq> []" "set ids \<subseteq> me_endpoint_id ` set (di_endpoints i)"
    and "\<exists>m \<in> set (di_members i). sm_management_endpoint_id m \<in> set ids"
  shows "domain_intent_ok (restrict_intent i ids)"
proof -
  let ?r = "restrict_intent i ids"
  have ok: "endpoints_ok i" "members_ok i" "vlans_ok i" "interfaces_ok i" "acls_ok i" "bindings_ok i" "bgp_ok i"
    "trim (di_domain_id i) \<noteq> []"
    using assms(1) by (simp_all add: domain_intent_ok_def)
  have "endpoints_ok ?r" by (rule restrict_endpoints_ok[OF ok(1) assms(2,3)])
  moreover have "members_ok ?r"
    using ok(2) assms(3,4) unfolding members_ok_def restrict_intent_def Let_def
    by (auto simp: distinct_by_filter filter_empty_conv)
  moreover have "vlans_ok ?r" using ok(3) by (simp add: vlans_ok_def restrict_intent_def Let_def)
  moreover have "acls_ok ?r" using ok(5) by (simp add: acls_ok_def restrict_intent_def Let_def)
  moreover have "interfaces_ok ?r"
    using ok(4) unfolding interfaces_ok_def interface_list_ok_def restrict_member_ids
    by (auto simp: distinct_by_filter restrict_intent_def Let_def)
  moreover have "bindings_ok ?r"
    using ok(6) unfolding bindings_ok_def restrict_member_ids
    by (auto simp: distinct_by_filter restrict_intent_def Let_def)
  moreover have "bgp_ok ?r"
    using ok(7) unfolding bgp_ok_def restrict_member_ids
    by (auto simp: distinct_by_filter restrict_intent_def Let_def)
  moreover have "trim (di_domain_id ?r) \<noteq> []" using ok(8) by (simp add: restrict_intent_def Let_def)
  ultimately show ?thesis by (simp add: domain_intent_ok_def)
qed

text \<open>A selected endpoint gets the same state from the restricted intent.\<close>

lemma find_distinct_iff:
  "distinct (map k ms) \<Longrightarrow>
   map_option g (find (\<lambda>m. k m = d) ms) = Some e \<longleftrightarrow> (\<exists>m \<in> set ms. k m = d \<and> g m = e)"
  by (induction ms) (auto simp: image_iff)

lemma owner_restrict:
  assumes "members_ok i" "e \<in> set ids"
  shows "owner (restrict_intent i ids) d = Some e \<longleftrightarrow> owner i d = Some e"
proof -
  have dist: "distinct (map sm_member_id (di_members i))"
    using assms(1) by (simp add: members_ok_def distinct_by_def)
  have dist': "distinct (map sm_member_id (di_members (restrict_intent i ids)))"
    using dist by (simp add: restrict_intent_def Let_def distinct_map_filter)
  show ?thesis
    unfolding owner_def find_distinct_iff[OF dist] find_distinct_iff[OF dist']
    using assms(2) by (auto simp: restrict_intent_def Let_def)
qed

lemma owned_restrict:
  assumes "members_ok i" "e \<in> set ids"
  shows "owned (restrict_intent i ids) e dev (filter (\<lambda>x. dev x \<in> selected_member_ids i ids) xs) = owned i e dev xs"
proof -
  have "d \<in> selected_member_ids i ids" if "owner i d = Some e" for d
    using that assms(2) unfolding owner_def selected_member_ids_def
    by (auto simp: find_Some_iff)
  then show ?thesis
    unfolding owned_def using owner_restrict[OF assms] by (auto intro!: filter_cong)
qed

lemma planned_state_restrict:
  assumes "members_ok i" "e \<in> set ids"
  shows "planned_state (restrict_intent i ids) e = planned_state i e"
proof -
  have fields: "di_interfaces (restrict_intent i ids) = filter (\<lambda>x. ii_device_id x \<in> selected_member_ids i ids) (di_interfaces i)"
    "di_acl_bindings (restrict_intent i ids) = filter (\<lambda>x. abi_device_id x \<in> selected_member_ids i ids) (di_acl_bindings i)"
    "di_delete_interfaces (restrict_intent i ids) = filter (\<lambda>x. ixd_device_id x \<in> selected_member_ids i ids) (di_delete_interfaces i)"
    "di_delete_acl_bindings (restrict_intent i ids) = filter (\<lambda>x. abi_device_id x \<in> selected_member_ids i ids) (di_delete_acl_bindings i)"
    "di_bgp_processes (restrict_intent i ids) = filter (\<lambda>x. bpi_device_id x \<in> selected_member_ids i ids) (di_bgp_processes i)"
    "di_bgp_neighbors (restrict_intent i ids) = filter (\<lambda>x. bni_device_id x \<in> selected_member_ids i ids) (di_bgp_neighbors i)"
    "di_delete_bgp_processes (restrict_intent i ids) = filter (\<lambda>x. bpd_device_id x \<in> selected_member_ids i ids) (di_delete_bgp_processes i)"
    "di_delete_bgp_neighbors (restrict_intent i ids) = filter (\<lambda>x. bnd_device_id x \<in> selected_member_ids i ids) (di_delete_bgp_neighbors i)"
    "di_vlans (restrict_intent i ids) = di_vlans i" "di_acls (restrict_intent i ids) = di_acls i"
    "di_delete_vlan_ids (restrict_intent i ids) = di_delete_vlan_ids i"
    "di_delete_acl_ids (restrict_intent i ids) = di_delete_acl_ids i"
    by (simp_all add: restrict_intent_def Let_def)
  show ?thesis unfolding planned_state_def fields owned_restrict[OF assms] by simp
qed

section \<open>Properties\<close>


section \<open>Witness\<close>

definition two_endpoint_intent :: UnderlayDomainIntent where
  "two_endpoint_intent =
     \<lparr>di_domain_id = ''d1'', di_topology = SmallFabric,
      di_endpoints = map (\<lambda>e. \<lparr>me_endpoint_id = e, me_host = ''10.0.0.1'', me_port = 830, me_secret_ref = ''ref'',
        me_vendor_hint = None, me_model_hint = None\<rparr>) [''ep1'', ''ep2''],
      di_members = [\<lparr>sm_member_id = ''sw1'', sm_role = None, sm_management_endpoint_id = ''ep1''\<rparr>],
      di_vlans = [\<lparr>vi_vlan_id = 10, vi_name = None, vi_description = None\<rparr>],
      di_interfaces = [], di_acls = [], di_acl_bindings = [], di_delete_vlan_ids = [],
      di_delete_interfaces = [], di_delete_acl_ids = [], di_delete_acl_bindings = [], di_bgp_processes = [],
      di_bgp_neighbors = [], di_delete_bgp_processes = [], di_delete_bgp_neighbors = []\<rparr>"

lemma two_endpoint_plan:
  "plan_underlay_domain two_endpoint_intent = Inr (map (planned_state two_endpoint_intent) [''ep1'', ''ep2''])"
proof -
  have "is_ok (validate_underlay_domain_intent two_endpoint_intent)" by code_simp
  moreover have "sorted_list_of_set {''ep1'', ''ep2''} = [''ep1'', ''ep2'']"
    by code_simp
  ultimately show ?thesis
    by (auto simp: plan_underlay_domain_planned two_endpoint_intent_def split: sum.split)
qed


end
