(* ===== verification/Idempotency.thy ===== *)
theory Idempotency
  imports Compensation Journal
begin

text \<open>
  Idempotency keys and their records (\<open>src/api/idempotency.rs\<close>), and the stores of domain apply
  records (\<open>src/api/apply_compensation.rs\<close>).  The JSON codec is a parameter.  The mutexes are never
  poisoned: no operation panics while it holds one.
\<close>

section \<open>Keys\<close>

definition MAX_IDEMPOTENCY_KEY_BYTES :: nat where
  "MAX_IDEMPOTENCY_KEY_BYTES = 125"

definition normalize_idempotency_key :: "string \<Rightarrow> string result" where
  "normalize_idempotency_key raw =
     (let key = trim raw in
      if key = [] then Inl (InvalidIntent ''idempotency_key must not be empty'')
      else if length key > MAX_IDEMPOTENCY_KEY_BYTES
      then Inl (InvalidIntent (''idempotency_key must be at most '' @ show_nat MAX_IDEMPOTENCY_KEY_BYTES @
        '' bytes after trimming; got '' @ show_nat (length key) @ '' bytes''))
      else Inr key)"

definition idempotency_payload_mismatch_error :: "string \<Rightarrow> UnderlayError" where
  "idempotency_payload_mismatch_error key =
     InvalidIntent (''idempotency_key '' @ debug_str key @ '' was already used with a different apply payload'')"

text \<open>\<open>{byte:02x}\<close> for every byte.  Both files have a copy of this function.\<close>

definition hex_digit :: "nat \<Rightarrow> char" where
  "hex_digit n = (if n < 10 then char_of (48 + n) else char_of (87 + n))"

definition hex_encode :: "string \<Rightarrow> string" where
  "hex_encode v = concat (map (\<lambda>byte. [hex_digit (of_char byte div 16), hex_digit (of_char byte mod 16)]) v)"

section \<open>Records and their stores\<close>

record ApplyIdempotencyRecord =
  ir_stored_at :: u64
  ir_fingerprint :: string
  ir_response :: ApplyIntentResponse

definition new_idempotency_record :: "u64 \<Rightarrow> string \<Rightarrow> ApplyIntentResponse \<Rightarrow> ApplyIdempotencyRecord" where
  "new_idempotency_record now fingerprint response =
     \<lparr>ir_stored_at = now, ir_fingerprint = fingerprint, ir_response = response\<rparr>"

type_synonym memory_idempotency = "(string, ApplyIdempotencyRecord) bmap"

definition idempotency_get :: "string \<Rightarrow> memory_idempotency \<Rightarrow> ApplyIdempotencyRecord option result" where
  "idempotency_get key s = Inr (bm_get s key)"

definition idempotency_put :: "string \<Rightarrow> ApplyIdempotencyRecord \<Rightarrow> memory_idempotency \<Rightarrow> unit result \<times> memory_idempotency" where
  "idempotency_put key r s = (Inr (), bm_insert key r s)"

definition idempotency_path_for :: "string \<Rightarrow> string" where
  "idempotency_path_for key = hex_encode key @ ''.json''"

definition idempotency_io_error :: "string \<Rightarrow> UnderlayError" where
  "idempotency_io_error err = Internal (''apply idempotency io error: '' @ err)"

definition read_idempotency_record ::
  "('b list \<Rightarrow> string + ApplyIdempotencyRecord) \<Rightarrow> string \<Rightarrow> 'b list \<Rightarrow> ApplyIdempotencyRecord result" where
  "read_idempotency_record dec path payload =
     map_err (\<lambda>err. Internal (''parse apply idempotency record '' @ debug_str path @ '': '' @ err)) (dec payload)"

definition file_idempotency_get ::
  "('b list \<Rightarrow> string + ApplyIdempotencyRecord) \<Rightarrow> string \<Rightarrow> 'b dir \<Rightarrow> ApplyIdempotencyRecord option result" where
  "file_idempotency_get dec key files =
     (let path = idempotency_path_for key in
      case bm_get files path of
        None \<Rightarrow> Inr None
      | Some payload \<Rightarrow> and_then (read_idempotency_record dec path payload) (\<lambda>r. Inr (Some r)))"

definition file_idempotency_put ::
  "(ApplyIdempotencyRecord \<Rightarrow> 'b list) \<Rightarrow> io_fault \<Rightarrow> string \<Rightarrow> string \<Rightarrow> ApplyIdempotencyRecord \<Rightarrow> 'b dir \<Rightarrow>
   unit result \<times> 'b dir" where
  "file_idempotency_put enc fault uuid key r files =
     atomic_write fault uuid (idempotency_path_for key) (enc r) idempotency_io_error files"

type_synonym memory_apply_records = "(string, DomainApplyRecord) bmap"

definition apply_record_get :: "string \<Rightarrow> memory_apply_records \<Rightarrow> DomainApplyRecord option result" where
  "apply_record_get request_id s = Inr (bm_get s request_id)"

definition apply_record_put :: "DomainApplyRecord \<Rightarrow> memory_apply_records \<Rightarrow> unit result \<times> memory_apply_records" where
  "apply_record_put r s = (Inr (), bm_insert (dq_request_id (rec_request r)) r s)"

definition validate_domain_apply_request_id :: "string \<Rightarrow> unit result" where
  "validate_domain_apply_request_id request_id =
     ensure (trim request_id \<noteq> [])
       (InvalidIntent (''domain apply request_id '' @ debug_str request_id @ '' is invalid for file store''))"

definition apply_record_path_for :: "string \<Rightarrow> string result" where
  "apply_record_path_for request_id =
     and_then (validate_domain_apply_request_id request_id) (\<lambda>_. Inr (hex_encode request_id @ ''.json''))"

definition domain_apply_record_io_error :: "string \<Rightarrow> UnderlayError" where
  "domain_apply_record_io_error err = Internal (''domain apply record io error: '' @ err)"

text \<open>The directory is created before and again by \<open>atomic_write\<close>, with the same error.\<close>

definition file_apply_record_put ::
  "(DomainApplyRecord \<Rightarrow> 'b list) \<Rightarrow> io_fault \<Rightarrow> string \<Rightarrow> DomainApplyRecord \<Rightarrow> 'b dir \<Rightarrow> unit result \<times> 'b dir" where
  "file_apply_record_put enc fault uuid r files =
     (case apply_record_path_for (dq_request_id (rec_request r)) of
        Inl e \<Rightarrow> (Inl e, files)
      | Inr path \<Rightarrow> atomic_write fault uuid path (enc r) domain_apply_record_io_error files)"

definition file_apply_record_get ::
  "('b list \<Rightarrow> string + DomainApplyRecord) \<Rightarrow> string \<Rightarrow> 'b dir \<Rightarrow> DomainApplyRecord option result" where
  "file_apply_record_get dec request_id files =
     and_then (apply_record_path_for request_id) (\<lambda>path.
     case bm_get files path of
       None \<Rightarrow> Inr None
     | Some payload \<Rightarrow>
        map_err (\<lambda>err. Internal (''parse domain apply record '' @ debug_str path @ '': '' @ err))
          (and_then (dec payload) (\<lambda>r. Inr (Some r))))"

section \<open>Both stores keep the last record of a key\<close>

locale keyed_store =
  fixes lookup :: "string \<Rightarrow> 's \<Rightarrow> 'v option result"
    and store :: "'r \<Rightarrow> 's \<Rightarrow> unit result \<times> 's"
    and key :: "'r \<Rightarrow> string"
    and content :: "'r \<Rightarrow> 'v"
  assumes store_ok: "store r s = (Inr u, s') \<Longrightarrow> lookup (key r) s' = Inr (Some (content r))"
    and store_err: "store r s = (Inl e, s') \<Longrightarrow>
        lookup (key r) s' = lookup (key r) s \<or> lookup (key r) s' = Inr (Some (content r))"
    and store_frame: "k \<noteq> key r \<Longrightarrow> lookup k (snd (store r s)) = lookup k s"
begin

lemma stored_survives:
  assumes "store r s = (Inr u, s')" and "\<forall>q \<in> set qs. key q \<noteq> key r"
  shows "lookup (key r) (foldl (\<lambda>s q. snd (store q s)) s' qs) = Inr (Some (content r))"
proof -
  have "lookup (key r) (foldl (\<lambda>s q. snd (store q s)) s' qs) = lookup (key r) s'" for s'
    using assms(2)
  proof (induction qs arbitrary: s')
    case (Cons q qs)
    then have "lookup (key r) (snd (store q s')) = lookup (key r) s'" by (intro store_frame) auto
    with Cons show ?case by simp
  qed simp
  then show ?thesis using store_ok[OF assms(1)] by simp
qed

end

interpretation mem_idempotency: keyed_store idempotency_get "\<lambda>(k, r). idempotency_put k r" fst snd
  by unfold_locales (auto simp: idempotency_get_def idempotency_put_def bm_get_insert)

interpretation mem_apply_records: keyed_store apply_record_get apply_record_put "\<lambda>r. dq_request_id (rec_request r)" id
  by unfold_locales (auto simp: apply_record_get_def apply_record_put_def bm_get_insert)

text \<open>File names: distinct keys have distinct files, never the name of a temporary file.\<close>

lemma of_char_hex_digit: "n < 16 \<Longrightarrow> of_char (hex_digit n) = (if n < 10 then 48 + n else 87 + n)"
  by (simp add: hex_digit_def take_bit_nat_eq_self)

lemma hex_digit_inject:
  assumes "m < 16" "n < 16" "hex_digit m = hex_digit n"
  shows "m = n"
  using assms(1,2) arg_cong[OF assms(3), of "of_char :: char \<Rightarrow> nat"]
  by (auto simp: of_char_hex_digit split: if_splits)

lemma hex_encode_Cons:
  "hex_encode (c # v) = hex_digit (of_char c div 16) # hex_digit (of_char c mod 16) # hex_encode v"
  by (simp add: hex_encode_def)

lemma hex_encode_inject: "hex_encode v = hex_encode v' \<Longrightarrow> v = v'"
proof (induction v arbitrary: v')
  case Nil
  then show ?case by (cases v') (simp_all add: hex_encode_def)
next
  case (Cons c v)
  then obtain c' w where v': "v' = c' # w" by (cases v') (simp_all add: hex_encode_def)
  have small: "of_char x div 16 < (16 :: nat)" for x :: char
    using nat_of_char_less_256[of x] by (simp add: less_mult_imp_div_less)
  from Cons.prems v' have "hex_digit (of_char c div 16) = hex_digit (of_char c' div 16)"
    "hex_digit (of_char c mod 16) = hex_digit (of_char c' mod 16)" "hex_encode v = hex_encode w"
    by (simp_all add: hex_encode_Cons)
  with small have "of_char c div 16 = (of_char c' div 16 :: nat)" "of_char c mod 16 = (of_char c' mod 16 :: nat)" "v = w"
    by (auto intro!: hex_digit_inject Cons.IH)
  then have "of_char c = (of_char c' :: nat)" by (metis div_mult_mod_eq)
  with \<open>v = w\<close> v' show ?case by simp
qed

lemma length_hex_encode: "length (hex_encode v) = 2 * length v"
  by (induction v) (simp_all add: hex_encode_Cons, simp add: hex_encode_def)

lemma hex_not_tmp: "hex_encode v @ ''.json'' \<noteq> unique_tmp_path uuid path"
proof
  assume eq: "hex_encode v @ ''.json'' = unique_tmp_path uuid path"
  have "drop (length (hex_encode v @ ''.json'') - 4) (hex_encode v @ ''.json'') = ''json''" by simp
  moreover have "drop (length (unique_tmp_path uuid path) - 4) (unique_tmp_path uuid path) = ''.tmp''"
    by (simp add: unique_tmp_path_def)
  ultimately show False using eq by simp
qed

lemma file_idempotency_put_get:
  "bm_get (snd (file_idempotency_put enc fault uuid key r files)) (idempotency_path_for k) =
     (if k = key \<and> replaced fault then Some (enc r) else bm_get files (idempotency_path_for k))"
  unfolding file_idempotency_put_def idempotency_path_for_def
  by (subst atomic_write_get[OF hex_not_tmp]) (auto dest: hex_encode_inject)

lemma apply_record_path_Inr: "apply_record_path_for t = Inr p \<longleftrightarrow> trim t \<noteq> [] \<and> p = hex_encode t @ ''.json''"
  by (auto simp: apply_record_path_for_def validate_domain_apply_request_id_def and_then_Inr_iff ensure_eq_iff)

lemma file_apply_record_put_get:
  assumes "apply_record_path_for t = Inr p"
  shows "bm_get (snd (file_apply_record_put enc fault uuid r files)) p =
     (if t = dq_request_id (rec_request r) \<and> replaced fault then Some (enc r) else bm_get files p)"
proof (cases "apply_record_path_for (dq_request_id (rec_request r))")
  case (Inl e)
  then have "t \<noteq> dq_request_id (rec_request r)" using assms by auto
  with Inl show ?thesis by (simp add: file_apply_record_put_def)
next
  case (Inr q)
  then have "p = q \<longleftrightarrow> t = dq_request_id (rec_request r)" and p: "p = hex_encode t @ ''.json''"
    using assms by (auto simp: apply_record_path_Inr dest: hex_encode_inject)
  then show ?thesis
    using Inr by (auto simp: file_apply_record_put_def atomic_write_get[OF hex_not_tmp])
qed

text \<open>The codec of each file store: what was written reads back.\<close>

locale idempotency_codec =
  fixes enc :: "ApplyIdempotencyRecord \<Rightarrow> 'b list" and dec :: "'b list \<Rightarrow> string + ApplyIdempotencyRecord"
  assumes dec_enc: "dec (enc r) = Inr r"

locale apply_record_codec =
  fixes enc :: "DomainApplyRecord \<Rightarrow> 'b list" and dec :: "'b list \<Rightarrow> string + DomainApplyRecord"
  assumes dec_enc: "dec (enc r) = Inr r"

sublocale idempotency_codec \<subseteq> on_disk: keyed_store "file_idempotency_get dec"
  "\<lambda>(k, r). file_idempotency_put enc fault uuid k r" fst snd
  for fault uuid
proof -
  have get: "file_idempotency_get dec k (snd (file_idempotency_put enc fault uuid key r files)) =
      (if k = key \<and> replaced fault then Inr (Some r) else file_idempotency_get dec k files)" for k key r files
    by (simp add: file_idempotency_get_def file_idempotency_put_get Let_def read_idempotency_record_def dec_enc)
  have result: "fst (file_idempotency_put enc fault uuid key r files) =
      (if fault = None then Inr () else Inl (idempotency_io_error (fault_text fault)))" for key r files
    by (simp add: file_idempotency_put_def atomic_write_result)
  show "keyed_store (file_idempotency_get dec) (\<lambda>(k, r). file_idempotency_put enc fault uuid k r) fst snd"
  proof unfold_locales
    fix p :: "string \<times> ApplyIdempotencyRecord" and u and files files' :: "'b dir"
    assume "(case p of (k, r) \<Rightarrow> file_idempotency_put enc fault uuid k r) files = (Inr u, files')"
    then show "file_idempotency_get dec (fst p) files' = Inr (Some (snd p))"
      using get[of "fst p" "fst p" "snd p" files] result[of "fst p" "snd p" files]
      by (auto simp: case_prod_unfold replaced_def split: if_splits)
  next
    fix p :: "string \<times> ApplyIdempotencyRecord" and e and files files' :: "'b dir"
    assume "(case p of (k, r) \<Rightarrow> file_idempotency_put enc fault uuid k r) files = (Inl e, files')"
    then show "file_idempotency_get dec (fst p) files' = file_idempotency_get dec (fst p) files \<or>
        file_idempotency_get dec (fst p) files' = Inr (Some (snd p))"
      using get[of "fst p" "fst p" "snd p" files] by (auto simp: case_prod_unfold split: if_splits)
  next
    fix k :: string and p :: "string \<times> ApplyIdempotencyRecord" and files :: "'b dir"
    assume "k \<noteq> fst p"
    then show "file_idempotency_get dec k (snd ((case p of (k, r) \<Rightarrow> file_idempotency_put enc fault uuid k r) files)) =
        file_idempotency_get dec k files"
      using get[of k "fst p" "snd p" files] by (simp add: case_prod_unfold)
  qed
qed

sublocale apply_record_codec \<subseteq> on_disk: keyed_store "file_apply_record_get dec" "file_apply_record_put enc fault uuid"
  "\<lambda>r. dq_request_id (rec_request r)" id
  for fault uuid
proof -
  have get: "file_apply_record_get dec k (snd (file_apply_record_put enc fault uuid r files)) =
      (if k = dq_request_id (rec_request r) \<and> replaced fault \<and> is_ok (apply_record_path_for k) then Inr (Some r)
       else file_apply_record_get dec k files)" for k r files
    by (cases "apply_record_path_for k") (simp_all add: file_apply_record_get_def file_apply_record_put_get dec_enc)
  have result: "fst (file_apply_record_put enc fault uuid r files) = Inr u \<Longrightarrow>
      fault = None \<and> is_ok (apply_record_path_for (dq_request_id (rec_request r)))" for r u files
    by (auto simp: file_apply_record_put_def atomic_write_result split: sum.splits if_splits)
  show "keyed_store (file_apply_record_get dec) (file_apply_record_put enc fault uuid) (\<lambda>r. dq_request_id (rec_request r)) id"
  proof unfold_locales
    fix r u and files files' :: "'b dir"
    assume put: "file_apply_record_put enc fault uuid r files = (Inr u, files')"
    then show "file_apply_record_get dec (dq_request_id (rec_request r)) files' = Inr (Some (id r))"
      using get[of "dq_request_id (rec_request r)" r files] result[of r files u] by (simp add: replaced_def)
  next
    fix r e and files files' :: "'b dir"
    assume "file_apply_record_put enc fault uuid r files = (Inl e, files')"
    then show "file_apply_record_get dec (dq_request_id (rec_request r)) files' =
          file_apply_record_get dec (dq_request_id (rec_request r)) files \<or>
        file_apply_record_get dec (dq_request_id (rec_request r)) files' = Inr (Some (id r))"
      using get[of "dq_request_id (rec_request r)" r files] by (auto split: if_splits)
  qed (simp add: get)
qed

interpretation verbatim_idempotency: idempotency_codec verbatim_enc verbatim_dec
  by unfold_locales (simp add: verbatim_enc_def verbatim_dec_def)

interpretation verbatim_apply_record: apply_record_codec verbatim_enc verbatim_dec
  by unfold_locales (simp add: verbatim_enc_def verbatim_dec_def)

section \<open>Properties\<close>

text \<open>C27: Distinct accepted keys have distinct files, and the file name of every accepted key has at most
  255 bytes, the usual limit of a file system.  The file is written under a temporary name first, and
  with a UUID of 36 bytes that name respects the limit only for keys of at most 104 bytes, although
  keys of up to 125 bytes are accepted.\<close>

theorem idempotency_file_names:
  assumes "normalize_idempotency_key raw = Inr key"
  shows "length (idempotency_path_for key) \<le> 255 \<and>
    (normalize_idempotency_key raw' = Inr key' \<longrightarrow> idempotency_path_for key' = idempotency_path_for key \<longrightarrow> key' = key) \<and>
    (length uuid = 36 \<longrightarrow> (length (unique_tmp_path uuid (idempotency_path_for key)) \<le> 255 \<longleftrightarrow> length key \<le> 104))"
proof -
  have "length key \<le> 125"
    using assms by (simp add: normalize_idempotency_key_def MAX_IDEMPOTENCY_KEY_BYTES_def Let_def split: if_splits)
  then show ?thesis
    by (auto simp: idempotency_path_for_def length_hex_encode unique_tmp_path_def dest: hex_encode_inject)
qed

theorem idempotency_file_names_witness:
  "normalize_idempotency_key (replicate 125 CHR ''k'') = Inr (replicate 125 CHR ''k'') \<and>
   length (idempotency_path_for (replicate 125 CHR ''k'')) \<le> 255 \<and>
   \<not> length (unique_tmp_path (replicate 36 CHR ''0'') (idempotency_path_for (replicate 125 CHR ''k''))) \<le> 255"
proof -
  have "normalize_idempotency_key (replicate 125 CHR ''k'') = Inr (replicate 125 CHR ''k'')" by code_simp
  from idempotency_file_names[OF this, of "[]" "[]" "replicate 36 CHR ''0''"] this show ?thesis by simp
qed

end
