(* ===== verification/Service_Base.thy ===== *)
theory Service_Base
  imports Wp Authz Idempotency
begin

text \<open>
  The state of \<open>AriaUnderlayService\<close> (\<open>src/api/service.rs\<close>): the world of the coordinators plus the
  secret store, the idempotency registry with its store, the records of domain applies and the product
  audit.  Its environment adds an oracle for each of these stores, the authorization policy, and the
  functions of other packages that the service calls: the parser of adapter endpoints and the JSON
  encoding that is the fingerprint of a payload.
\<close>

section \<open>Records of the service\<close>

datatype NetconfCredentialInput =
    PasswordInput string string
  | PrivateKeyInput string string "string option"
  | ExistingSecretRef string

datatype StoredNetconfCredential =
    PasswordCredential string string
  | PrivateKeyCredential string string "string option"

type_synonym secret_store = "(string, StoredNetconfCredential) bmap"

record ProductAuditRecord =
  pa_request_id :: string
  pa_trace_id :: string
  pa_action :: string
  pa_result :: string
  pa_tx_id :: "string option"
  pa_device_id :: "DeviceId option"
  pa_operator_id :: "string option"
  pa_reason :: "string option"
  pa_attention_required :: bool
  pa_error_code :: "string option"
  pa_error_message :: "string option"
  pa_fields :: "(string, string) bmap"
  pa_appended_at :: u64

record service =
  sv_world :: world
  sv_secrets :: secret_store
  sv_slots :: "(string, ApplyIdempotencyRecord option) bmap"
  sv_idempotency :: memory_idempotency
  sv_apply_records :: memory_apply_records
  sv_audit :: "ProductAuditRecord list"

record service_env =
  se_env :: env
  se_endpoint_error :: "string \<Rightarrow> string option"
  se_fingerprint :: "UnderlayDomainIntent \<Rightarrow> ApplyOptions \<Rightarrow> string result"
  se_authorize :: authorization_policy
  se_secret_delete :: "nat \<Rightarrow> UnderlayError option"
  se_idempotency_read :: "nat \<Rightarrow> UnderlayError option"
  se_idempotency_put :: "nat \<Rightarrow> put_outcome"
  se_record_read :: "nat \<Rightarrow> UnderlayError option"
  se_record_put :: "nat \<Rightarrow> put_outcome"
  se_audit_put :: "nat \<Rightarrow> put_outcome"

type_synonym 'a svc = "(service, 'a result) state"

section \<open>Steps\<close>

text \<open>A step of the coordinators, on the world.\<close>

definition lift :: "'a eff \<Rightarrow> (service, 'a) state" where
  "lift m = State (\<lambda>s. case run_state m (sv_world s) of (x, w) \<Rightarrow> (x, s\<lparr>sv_world := w\<rparr>))"

definition read_store :: "(nat \<Rightarrow> UnderlayError option) \<Rightarrow> (service \<Rightarrow> 'a) \<Rightarrow> 'a svc" where
  "read_store oracle f = State_Monad.bind (lift (ask oracle)) (\<lambda>failure.
     case failure of Some e \<Rightarrow> throw e | None \<Rightarrow> State_Monad.bind (reads f) ok)"

definition write_store :: "(nat \<Rightarrow> put_outcome) \<Rightarrow> (service \<Rightarrow> service) \<Rightarrow> unit svc" where
  "write_store oracle store = State_Monad.bind (lift (ask oracle)) (\<lambda>outcome.
     case outcome of
       Stored \<Rightarrow> State_Monad.bind (modify store) (\<lambda>_. ok ())
     | Lost e \<Rightarrow> throw e
     | StoredButFailed e \<Rightarrow> State_Monad.bind (modify store) (\<lambda>_. throw e))"

lemma wp_lift [wp_simps]: "wp (lift m) Q s \<longleftrightarrow> wp m (\<lambda>x w. Q x (s\<lparr>sv_world := w\<rparr>)) (sv_world s)"
  by (simp add: wp_def lift_def split: prod.split)

definition sv_tick :: "service \<Rightarrow> service" where
  "sv_tick s = s\<lparr>sv_world := (sv_world s)\<lparr>w_tick := Suc (w_tick (sv_world s))\<rparr>\<rparr>"

lemma wp_read_store [wp_simps]:
  "wp (read_store oracle f) Q s \<longleftrightarrow>
     (case oracle (w_tick (sv_world s)) of
        Some e \<Rightarrow> Q (Inl e) (sv_tick s) | None \<Rightarrow> Q (Inr (f (sv_tick s))) (sv_tick s))"
  by (simp add: read_store_def wp_simps sv_tick_def split: option.split)

lemma wp_write_store [wp_stores]:
  "wp (write_store oracle store) Q s \<longleftrightarrow>
     (case oracle (w_tick (sv_world s)) of
        Stored \<Rightarrow> Q (Inr ()) (store (sv_tick s))
      | Lost e \<Rightarrow> Q (Inl e) (sv_tick s)
      | StoredButFailed e \<Rightarrow> Q (Inl e) (store (sv_tick s)))"
  by (simp add: write_store_def wp_simps sv_tick_def split: put_outcome.split)

lemma sv_tick_fields [simp]:
  "sv_secrets (sv_tick s) = sv_secrets s" "sv_slots (sv_tick s) = sv_slots s"
  "sv_idempotency (sv_tick s) = sv_idempotency s" "sv_apply_records (sv_tick s) = sv_apply_records s"
  "sv_audit (sv_tick s) = sv_audit s"
  "sv_world (sv_tick s) = (sv_world s)\<lparr>w_tick := Suc (w_tick (sv_world s))\<rparr>"
  by (simp_all add: sv_tick_def)

end
