(* ===== verification/Onboarding.thy ===== *)
theory Onboarding
  imports Service_Base Sample_World
begin

text \<open>
  Registration (\<open>src/device/registration.rs\<close>), onboarding (\<open>src/device/onboarding.rs\<close>), the secret
  store (\<open>src/device/secret.rs\<close>) and the initialization of a site (\<open>src/device/bootstrap.rs\<close>).
\<close>

section \<open>Registration (device/registration.rs)\<close>

record RegisterDeviceRequest =
  rg_tenant_id :: string
  rg_site_id :: string
  rg_device_id :: DeviceId
  rg_management_ip :: string
  rg_management_port :: u16
  rg_vendor_hint :: "Vendor option"
  rg_model_hint :: "string option"
  rg_role :: DeviceRole
  rg_secret_ref :: string
  rg_host_key_policy :: HostKeyPolicy
  rg_adapter_endpoint :: string

record RegisterDeviceResponse =
  rs_device_id :: DeviceId
  rs_lifecycle_state :: DeviceLifecycleState

definition validate_required :: "string \<Rightarrow> string \<Rightarrow> unit result" where
  "validate_required field v = ensure (trim v \<noteq> []) (InvalidDeviceState (field @ '' is empty''))"

definition validate_registered_device_id :: "string \<Rightarrow> DeviceId \<Rightarrow> unit result" where
  "validate_registered_device_id field device_id =
     ensure (is_canonical device_id)
       (InvalidDeviceState (field @ '' '' @ device_id @ '' is invalid: '' @ canonical_rule))"

definition validate_nonzero_port :: "string \<Rightarrow> u16 \<Rightarrow> unit result" where
  "validate_nonzero_port field port = ensure (port \<noteq> 0) (InvalidDeviceState (field @ '' must be non-zero''))"

definition validate_adapter_endpoint :: "(string \<Rightarrow> string option) \<Rightarrow> string \<Rightarrow> unit result" where
  "validate_adapter_endpoint endpoint_error adapter_endpoint =
     and_then (validate_required ''adapter_endpoint'' adapter_endpoint) (\<lambda>_.
     case endpoint_error adapter_endpoint of
       Some err \<Rightarrow> Inl (InvalidDeviceState (''adapter_endpoint is invalid: '' @ err))
     | None \<Rightarrow> Inr ())"

fun validate_host_key_policy :: "HostKeyPolicy \<Rightarrow> unit result" where
  "validate_host_key_policy TrustOnFirstUse = Inr ()"
| "validate_host_key_policy (KnownHostsFile path) =
     and_then (validate_required ''host_key_policy.known_hosts_path'' path) (\<lambda>_.
     ensure (CHR 0x0A \<notin> set path \<and> CHR 0x0D \<notin> set path)
       (InvalidDeviceState ''host_key_policy.known_hosts_path must be a single-line path''))"
| "validate_host_key_policy (PinnedKey fingerprint) =
     validate_required ''host_key_policy.pinned_fingerprint'' fingerprint"

definition validate_register_device_request :: "(string \<Rightarrow> string option) \<Rightarrow> RegisterDeviceRequest \<Rightarrow> unit result" where
  "validate_register_device_request endpoint_error request =
     and_then (validate_required ''tenant_id'' (rg_tenant_id request)) (\<lambda>_.
     and_then (validate_required ''site_id'' (rg_site_id request)) (\<lambda>_.
     and_then (validate_registered_device_id ''device_id'' (rg_device_id request)) (\<lambda>_.
     and_then (validate_required ''management_ip'' (rg_management_ip request)) (\<lambda>_.
     and_then (validate_nonzero_port ''management_port'' (rg_management_port request)) (\<lambda>_.
     and_then (validate_required ''secret_ref'' (rg_secret_ref request)) (\<lambda>_.
     and_then (validate_adapter_endpoint endpoint_error (rg_adapter_endpoint request)) (\<lambda>_.
     validate_host_key_policy (rg_host_key_policy request))))))))"

text \<open>A call on the inventory.\<close>

definition on_inventory :: "(inventory \<Rightarrow> 'a result \<times> inventory) \<Rightarrow> 'a tx" where
  "on_inventory f = State (\<lambda>w. case f (w_inventory w) of (x, iv) \<Rightarrow> (x, w\<lparr>w_inventory := iv\<rparr>))"

definition registered_info :: "RegisterDeviceRequest \<Rightarrow> DeviceInfo" where
  "registered_info request =
     \<lparr>dv_tenant_id = rg_tenant_id request, dv_site_id = rg_site_id request, dv_id = rg_device_id request,
      dv_management_ip = rg_management_ip request, dv_management_port = rg_management_port request,
      dv_vendor_hint = rg_vendor_hint request, dv_model_hint = rg_model_hint request,
      dv_role = rg_role request, dv_secret_ref = rg_secret_ref request,
      dv_host_key_policy = rg_host_key_policy request,
      dv_adapter_endpoint = rg_adapter_endpoint request, dv_lifecycle_state = Pending\<rparr>"

definition register_device :: "(string \<Rightarrow> string option) \<Rightarrow> RegisterDeviceRequest \<Rightarrow> RegisterDeviceResponse tx" where
  "register_device endpoint_error request =
     try_then (of_result (validate_register_device_request endpoint_error request)) (\<lambda>_.
     try_then (on_inventory (inventory_insert (registered_info request))) (\<lambda>_.
     ok \<lparr>rs_device_id = rg_device_id request, rs_lifecycle_state = Pending\<rparr>))"

section \<open>Onboarding (device/onboarding.rs)\<close>

fun debug_lifecycle :: "DeviceLifecycleState \<Rightarrow> string" where
  "debug_lifecycle Pending = ''Pending''"
| "debug_lifecycle Probing = ''Probing''"
| "debug_lifecycle Ready = ''Ready''"
| "debug_lifecycle Degraded = ''Degraded''"
| "debug_lifecycle DeviceUnsupported = ''Unsupported''"
| "debug_lifecycle Unreachable = ''Unreachable''"
| "debug_lifecycle AuthFailed = ''AuthFailed''"
| "debug_lifecycle Drifted = ''Drifted''"
| "debug_lifecycle Maintenance = ''Maintenance''"

fun lifecycle_state_for_onboarding_error :: "UnderlayError \<Rightarrow> DeviceLifecycleState" where
  "lifecycle_state_for_onboarding_error (AdapterOperation code _ retryable _) =
     (if code = ''AUTH_FAILED'' then AuthFailed
      else if code = ''DEVICE_UNREACHABLE'' then Unreachable
      else if code = ''UNSUPPORTED_DEVICE'' then DeviceUnsupported
      else if retryable then Unreachable
      else DeviceUnsupported)"
| "lifecycle_state_for_onboarding_error (AdapterTransport _) = Unreachable"
| "lifecycle_state_for_onboarding_error _ = DeviceUnsupported"

definition onboardable :: "DeviceLifecycleState \<Rightarrow> bool" where
  "onboardable st \<longleftrightarrow> st \<in> {Pending, Probing, Unreachable, AuthFailed, DeviceUnsupported, Degraded}"

definition onboarded_state :: "DeviceCapabilityProfile \<Rightarrow> DeviceLifecycleState" where
  "onboarded_state capability =
     (if is_supported (ca_recommended_strategy capability) then
        (if is_degraded (ca_recommended_strategy capability) then Degraded else Ready)
      else if ca_supports_netconf capability \<or> ca_supported_backends capability \<noteq> [] then DeviceUnsupported
      else Unreachable)"

definition fail_onboarding :: "DeviceId \<Rightarrow> UnderlayError \<Rightarrow> DeviceLifecycleState tx" where
  "fail_onboarding device_id err =
     try_then (on_inventory (inventory_set_state device_id (lifecycle_state_for_onboarding_error err))) (\<lambda>_.
     throw err)"

definition onboard_device :: "env \<Rightarrow> DeviceId \<Rightarrow> DeviceLifecycleState tx" where
  "onboard_device env device_id =
     try_then (get_managed device_id) (\<lambda>managed.
     if \<not> onboardable (dv_lifecycle_state (md_info managed))
     then throw (InvalidDeviceState (''cannot onboard device from state '' @
       debug_lifecycle (dv_lifecycle_state (md_info managed))))
     else
       try_then (on_inventory (inventory_set_state device_id Probing)) (\<lambda>_.
       on_error (open_client env) (fail_onboarding device_id) (\<lambda>_.
       on_error (ask (ev_capabilities env)) (fail_onboarding device_id) (\<lambda>capability.
       try_then (on_inventory (inventory_set_capability device_id capability)) (\<lambda>_.
       try_then (on_inventory (inventory_set_state device_id (onboarded_state capability))) (\<lambda>_.
       ok (onboarded_state capability)))))))"

section \<open>Secrets (device/secret.rs)\<close>

record SecretProvisioningResult =
  spr_secret_ref :: string
  spr_cleanup_on_registration_failure :: bool

definition validate_username :: "string \<Rightarrow> unit result" where
  "validate_username username = ensure (trim username \<noteq> []) (InvalidDeviceState ''NETCONF username cannot be empty'')"

definition device_secret_ref :: "string \<Rightarrow> string \<Rightarrow> DeviceId \<Rightarrow> string" where
  "device_secret_ref tenant_id site_id device_id = ''local/'' @ tenant_id @ ''/'' @ site_id @ ''/'' @ device_id"

fun create_for_device ::
  "string \<Rightarrow> string \<Rightarrow> DeviceId \<Rightarrow> NetconfCredentialInput \<Rightarrow> secret_store \<Rightarrow>
   SecretProvisioningResult result \<times> secret_store" where
  "create_for_device tenant_id site_id device_id (ExistingSecretRef secret_ref) s =
     (if trim secret_ref = [] then (Inl (InvalidDeviceState ''secret_ref cannot be empty''), s)
      else (Inr \<lparr>spr_secret_ref = secret_ref, spr_cleanup_on_registration_failure = False\<rparr>, s))"
| "create_for_device tenant_id site_id device_id (PasswordInput username password) s =
     (case and_then (validate_username username) (\<lambda>_.
        ensure (password \<noteq> []) (InvalidDeviceState ''NETCONF password cannot be empty'')) of
        Inl e \<Rightarrow> (Inl e, s)
      | Inr _ \<Rightarrow>
         (let secret_ref = device_secret_ref tenant_id site_id device_id in
          (Inr \<lparr>spr_secret_ref = secret_ref, spr_cleanup_on_registration_failure = True\<rparr>,
           bm_insert secret_ref (PasswordCredential username password) s)))"
| "create_for_device tenant_id site_id device_id (PrivateKeyInput username key_pem passphrase) s =
     (case and_then (validate_username username) (\<lambda>_.
        ensure (key_pem \<noteq> []) (InvalidDeviceState ''NETCONF private key cannot be empty'')) of
        Inl e \<Rightarrow> (Inl e, s)
      | Inr _ \<Rightarrow>
         (let secret_ref = device_secret_ref tenant_id site_id device_id in
          (Inr \<lparr>spr_secret_ref = secret_ref, spr_cleanup_on_registration_failure = True\<rparr>,
           bm_insert secret_ref (PrivateKeyCredential username key_pem passphrase) s)))"

definition delete_secret :: "string \<Rightarrow> secret_store \<Rightarrow> unit result \<times> secret_store" where
  "delete_secret secret_ref s = (Inr (), bm_remove secret_ref s)"

section \<open>Site initialization (device/bootstrap.rs)\<close>

record SwitchBootstrapRequest =
  sb_device_id :: DeviceId
  sb_role :: DeviceRole
  sb_management_ip :: string
  sb_management_port :: u16
  sb_vendor_hint :: "Vendor option"
  sb_model_hint :: "string option"
  sb_host_key_policy :: HostKeyPolicy
  sb_credential :: NetconfCredentialInput

record InitializeUnderlaySiteRequest =
  is_request_id :: string
  is_tenant_id :: string
  is_site_id :: string
  is_adapter_endpoint :: string
  is_switches :: "SwitchBootstrapRequest list"
  is_allow_degraded :: bool

datatype SiteInitializationStatus = SiteReady | ReadyWithDegradedDevice | SiteFailed | PartiallyRegistered

record DeviceInitializationResult =
  dn_device_id :: DeviceId
  dn_role :: DeviceRole
  dn_secret_ref :: "string option"
  dn_lifecycle_state :: "DeviceLifecycleState option"
  dn_error :: "string option"

record InitializeUnderlaySiteResponse =
  ir_request_id :: string
  ir_tenant_id :: string
  ir_site_id :: string
  ir_status :: SiteInitializationStatus
  ir_devices :: "DeviceInitializationResult list"

definition validate_bootstrap_pair :: "(string \<Rightarrow> string option) \<Rightarrow> InitializeUnderlaySiteRequest \<Rightarrow> unit result" where
  "validate_bootstrap_pair endpoint_error request =
     and_then (validate_required ''request_id'' (is_request_id request)) (\<lambda>_.
     and_then (validate_required ''tenant_id'' (is_tenant_id request)) (\<lambda>_.
     and_then (validate_required ''site_id'' (is_site_id request)) (\<lambda>_.
     and_then (validate_adapter_endpoint endpoint_error (is_adapter_endpoint request)) (\<lambda>_.
     case is_switches request of
       [a, b] \<Rightarrow>
         and_then (ensure (length (filter (\<lambda>s. sb_role s = LeafA) [a, b]) = 1 \<and>
             length (filter (\<lambda>s. sb_role s = LeafB) [a, b]) = 1)
           (InvalidDeviceState ''switch pair must contain exactly one LeafA and one LeafB'')) (\<lambda>_.
         and_then (ensure (sb_device_id a \<noteq> sb_device_id b)
           (InvalidDeviceState ''switch pair device_id values must be unique'')) (\<lambda>_.
         try_each (\<lambda>s.
           and_then (validate_registered_device_id ''switch device_id'' (sb_device_id s)) (\<lambda>_.
           and_then (validate_required ''switch management_ip'' (sb_management_ip s)) (\<lambda>_.
           and_then (validate_nonzero_port ''switch management_port'' (sb_management_port s)) (\<lambda>_.
           validate_host_key_policy (sb_host_key_policy s))))) [a, b]))
     | _ \<Rightarrow> Inl (InvalidDeviceState ''underlay site initialization requires exactly two switches'')))))"

definition summarize_status :: "DeviceInitializationResult list \<Rightarrow> bool \<Rightarrow> SiteInitializationStatus" where
  "summarize_status devices allow_degraded =
     (if list_ex (\<lambda>d. dn_lifecycle_state d = None) devices then PartiallyRegistered
      else if list_all (\<lambda>d. dn_lifecycle_state d = Some Ready) devices then SiteReady
      else if allow_degraded \<and>
        list_all (\<lambda>d. dn_lifecycle_state d = Some Ready \<or> dn_lifecycle_state d = Some Degraded) devices
      then ReadyWithDegradedDevice
      else SiteFailed)"

definition init_result ::
  "SwitchBootstrapRequest \<Rightarrow> string option \<Rightarrow> DeviceLifecycleState option \<Rightarrow> string option \<Rightarrow>
   DeviceInitializationResult" where
  "init_result switch secret_ref lifecycle_state err =
     \<lparr>dn_device_id = sb_device_id switch, dn_role = sb_role switch, dn_secret_ref = secret_ref,
      dn_lifecycle_state = lifecycle_state, dn_error = err\<rparr>"

text \<open>Calls on the secret store; a store may fail to delete.\<close>

definition on_secrets :: "(secret_store \<Rightarrow> 'a result \<times> secret_store) \<Rightarrow> 'a svc" where
  "on_secrets f = State (\<lambda>s. case f (sv_secrets s) of (x, ss) \<Rightarrow> (x, s\<lparr>sv_secrets := ss\<rparr>))"

definition delete_secret_call :: "service_env \<Rightarrow> string \<Rightarrow> unit svc" where
  "delete_secret_call senv secret_ref = State_Monad.bind (lift (ask (se_secret_delete senv))) (\<lambda>failure.
     case failure of Some e \<Rightarrow> throw e | None \<Rightarrow> on_secrets (delete_secret secret_ref))"

definition registration_failure_result_with_secret_cleanup ::
  "service_env \<Rightarrow> SwitchBootstrapRequest \<Rightarrow> string \<Rightarrow> UnderlayError \<Rightarrow> (service, DeviceInitializationResult) state" where
  "registration_failure_result_with_secret_cleanup senv switch secret_ref registration_error =
     on_error (delete_secret_call senv secret_ref)
       (\<lambda>cleanup_error. State_Monad.return (init_result switch (Some secret_ref) None
         (Some (error_display registration_error @ ''; secret cleanup failed for created secret: '' @
           error_display cleanup_error))))
       (\<lambda>_. State_Monad.return (init_result switch None None (Some (error_display registration_error))))"

definition initialize_switch ::
  "service_env \<Rightarrow> InitializeUnderlaySiteRequest \<Rightarrow> SwitchBootstrapRequest \<Rightarrow>
   (service, DeviceInitializationResult) state" where
  "initialize_switch senv request switch =
     on_error (on_secrets (create_for_device (is_tenant_id request) (is_site_id request) (sb_device_id switch)
         (sb_credential switch)))
       (\<lambda>e. State_Monad.return (init_result switch None None (Some (error_display e))))
       (\<lambda>secret.
     on_error (lift (register_device (se_endpoint_error senv)
         \<lparr>rg_tenant_id = is_tenant_id request, rg_site_id = is_site_id request,
          rg_device_id = sb_device_id switch, rg_management_ip = sb_management_ip switch,
          rg_management_port = sb_management_port switch, rg_vendor_hint = sb_vendor_hint switch,
          rg_model_hint = sb_model_hint switch, rg_role = sb_role switch,
          rg_secret_ref = spr_secret_ref secret, rg_host_key_policy = sb_host_key_policy switch,
          rg_adapter_endpoint = is_adapter_endpoint request\<rparr>))
       (\<lambda>e. if spr_cleanup_on_registration_failure secret
         then registration_failure_result_with_secret_cleanup senv switch (spr_secret_ref secret) e
         else State_Monad.return (init_result switch (Some (spr_secret_ref secret)) None (Some (error_display e))))
       (\<lambda>_.
     State_Monad.bind (lift (onboard_device (se_env senv) (sb_device_id switch))) (\<lambda>onboarding_result.
     State_Monad.bind (reads (\<lambda>s. inventory_get (sb_device_id switch) (w_inventory (sv_world s)))) (\<lambda>found.
     State_Monad.return (init_result switch (Some (spr_secret_ref secret))
       (case found of Inr managed \<Rightarrow> Some (dv_lifecycle_state (md_info managed)) | Inl _ \<Rightarrow> None)
       (case onboarding_result of Inl e \<Rightarrow> Some (error_display e) | Inr _ \<Rightarrow> None))))))"

primrec initialize_switches ::
  "service_env \<Rightarrow> InitializeUnderlaySiteRequest \<Rightarrow> SwitchBootstrapRequest list \<Rightarrow>
   (service, DeviceInitializationResult list) state" where
  "initialize_switches senv request [] = State_Monad.return []"
| "initialize_switches senv request (switch # rest) =
     State_Monad.bind (initialize_switch senv request switch) (\<lambda>result.
     State_Monad.bind (initialize_switches senv request rest) (\<lambda>results.
     State_Monad.return (result # results)))"

definition initialize_site :: "service_env \<Rightarrow> InitializeUnderlaySiteRequest \<Rightarrow> InitializeUnderlaySiteResponse svc" where
  "initialize_site senv request =
     try_then (of_result (validate_bootstrap_pair (se_endpoint_error senv) request)) (\<lambda>_.
     State_Monad.bind (initialize_switches senv request (is_switches request)) (\<lambda>devices.
     ok \<lparr>ir_request_id = is_request_id request, ir_tenant_id = is_tenant_id request,
         ir_site_id = is_site_id request,
         ir_status = summarize_status devices (is_allow_degraded request), ir_devices = devices\<rparr>))"

section \<open>Correctness\<close>

lemma wp_on_inventory [wp_simps]:
  "wp (on_inventory f) Q w \<longleftrightarrow> (case f (w_inventory w) of (x, iv) \<Rightarrow> Q x (w\<lparr>w_inventory := iv\<rparr>))"
  by (simp add: wp_def on_inventory_def split: prod.split)

lemma wp_on_secrets [wp_simps]:
  "wp (on_secrets f) Q s \<longleftrightarrow> (case f (sv_secrets s) of (x, ss) \<Rightarrow> Q x (s\<lparr>sv_secrets := ss\<rparr>))"
  by (simp add: wp_def on_secrets_def split: prod.split)

lemma inventory_set_found:
  assumes "inventory_get d iv = Inr m"
  shows "inventory_set_state d st iv = (Inr (), bm_insert d (m\<lparr>md_info := (md_info m)\<lparr>dv_lifecycle_state := st\<rparr>\<rparr>) iv)"
    and "inventory_set_capability d c iv = (Inr (), bm_insert d (m\<lparr>md_capability := Some c\<rparr>) iv)"
  using assms by (simp_all add: inventory_get_def ok_or_def inventory_set_state_def inventory_set_capability_def
      split: option.splits)

lemma inventory_get_inserted [simp]:
  "inventory_get d (bm_insert d' m iv) = (if d = d' then Inr m else inventory_get d iv)"
  by (simp add: inventory_get_def bm_get_insert ok_or_def)

text \<open>The lifecycle state after onboarding.\<close>

definition lifecycle_of :: "world \<Rightarrow> DeviceId \<Rightarrow> DeviceLifecycleState option" where
  "lifecycle_of w d = map_option (\<lambda>m. dv_lifecycle_state (md_info m)) (bm_get (w_inventory w) d)"

definition onboard_post :: "env \<Rightarrow> DeviceId \<Rightarrow> world \<Rightarrow> DeviceLifecycleState result \<Rightarrow> world \<Rightarrow> bool" where
  "onboard_post env d w x w' \<longleftrightarrow>
     (\<forall>d'. d' \<noteq> d \<longrightarrow> bm_get (w_inventory w') d' = bm_get (w_inventory w) d') \<and>
     w_log w' = w_log w \<and> w_journal w' = w_journal w \<and>
     (case x of
        Inr st \<Rightarrow> st \<in> {Ready, Degraded, DeviceUnsupported, Unreachable} \<and> lifecycle_of w' d = Some st \<and>
          (\<exists>n capability. ev_capabilities env n = Inr capability \<and> st = onboarded_state capability \<and>
             map_option md_capability (bm_get (w_inventory w') d) = Some (Some capability))
      | Inl e \<Rightarrow>
          (case lifecycle_of w d of
             Some st \<Rightarrow> if onboardable st then lifecycle_of w' d = Some (lifecycle_state_for_onboarding_error e)
               else w_inventory w' = w_inventory w
           | None \<Rightarrow> e = DeviceNotFound d \<and> w_inventory w' = w_inventory w))"

lemma onboarded_states: "onboarded_state c \<in> {Ready, Degraded, DeviceUnsupported, Unreachable}"
  by (simp add: onboarded_state_def)

lemma wp_onboard_device: "wp (onboard_device env d) (onboard_post env d w) w"
proof (cases "bm_get (w_inventory w) d")
  case None
  then show ?thesis
    by (simp add: onboard_device_def wp_simps inventory_get_def ok_or_def onboard_post_def lifecycle_of_def)
next
  case (Some m)
  then have found: "inventory_get d (w_inventory w) = Inr m" by (simp add: inventory_get_def ok_or_def)
  have set_state: "inventory_set_state d st (bm_insert d x iv) =
      (Inr (), bm_insert d (x\<lparr>md_info := (md_info x)\<lparr>dv_lifecycle_state := st\<rparr>\<rparr>) (bm_insert d x iv))"
    and set_capability: "inventory_set_capability d c (bm_insert d x iv) =
      (Inr (), bm_insert d (x\<lparr>md_capability := Some c\<rparr>) (bm_insert d x iv))" for st c x iv
    by (simp_all add: inventory_set_found)
  note eval = onboard_device_def fail_onboarding_def wp_simps found inventory_set_found[OF found] set_state
    set_capability onboard_post_def lifecycle_of_def bm_get_insert Let_def Some
  show ?thesis
  proof (cases "ev_client env (w_tick w)")
    case client: None
    show ?thesis
    proof (cases "ev_capabilities env (Suc (w_tick w))")
      case (Inl e)
      with client show ?thesis by (simp add: eval)
    next
      case (Inr c)
      with client onboarded_states[of c] show ?thesis by (auto simp: eval intro!: exI[of _ "Suc (w_tick w)"])
    qed
  qed (simp add: eval)
qed

section \<open>Properties\<close>

text \<open>C28: Initializing a site again destroys the credential of a device that is already registered.  The
  new credential is stored under the reference that the registered device uses, registration fails
  because the device exists, and the clean-up deletes the reference; the device stays in the
  inventory and keeps pointing to it.\<close>

theorem reinitialize_drops_secret:
  assumes "bm_get (w_inventory (sv_world s)) (sb_device_id switch) = Some m"
    and "dv_secret_ref (md_info m) = device_secret_ref (is_tenant_id request) (is_site_id request) (sb_device_id switch)"
    and "sb_credential switch = PasswordInput username password" and "trim username \<noteq> []" and "password \<noteq> []"
    and "\<forall>n. se_secret_delete senv n = None"
    and "run_state (initialize_switch senv request switch) s = (result, s')"
  shows "bm_get (w_inventory (sv_world s')) (sb_device_id switch) = Some m \<and>
    bm_get (sv_secrets s') (dv_secret_ref (md_info m)) = None \<and> dn_secret_ref result = None"
proof -
  have exists: "bm_contains (w_inventory (sv_world s)) (sb_device_id switch)"
    using assms(1) by (simp add: bm_contains_def)
  have "wp (initialize_switch senv request switch) (\<lambda>result s'.
      w_inventory (sv_world s') = w_inventory (sv_world s) \<and>
      bm_get (sv_secrets s') (dv_secret_ref (md_info m)) = None \<and> dn_secret_ref result = None) s"
    using assms(2-6) exists
    by (auto simp: initialize_switch_def wp_simps validate_username_def Let_def register_device_def
        on_result_iff inventory_insert_def registered_info_def
        registration_failure_result_with_secret_cleanup_def delete_secret_call_def delete_secret_def
        bm_get_remove init_result_def)
  from wpD[OF this assms(7)] assms(1) show ?thesis by simp
qed

section \<open>Witness\<close>

definition sample_service :: service where
  "sample_service = \<lparr>sv_world = sample_world, sv_secrets = bm_empty, sv_slots = bm_empty,
     sv_idempotency = bm_empty, sv_apply_records = bm_empty, sv_audit = []\<rparr>"

definition sample_senv :: service_env where
  "sample_senv = \<lparr>se_env = sample_env, se_endpoint_error = (\<lambda>_. None),
     se_fingerprint = (\<lambda>intent _. Inr (di_domain_id intent)), se_authorize = permit_all,
     se_secret_delete = (\<lambda>_. None), se_idempotency_read = (\<lambda>_. None), se_idempotency_put = (\<lambda>_. Stored),
     se_record_read = (\<lambda>_. None), se_record_put = (\<lambda>_. Stored), se_audit_put = (\<lambda>_. Stored)\<rparr>"

definition known_device :: ManagedDevice where
  "known_device = \<lparr>md_info = sample_info\<lparr>dv_secret_ref := ''local/t/s/sw1''\<rparr>, md_capability = None\<rparr>"

definition known_service :: service where
  "known_service = sample_service\<lparr>sv_world := sample_world\<lparr>w_inventory := bm_of_list [(''sw1'', known_device)]\<rparr>,
     sv_secrets := bm_of_list [(''local/t/s/sw1'', PasswordCredential ''admin'' ''old'')]\<rparr>"

definition again_switch :: SwitchBootstrapRequest where
  "again_switch = \<lparr>sb_device_id = ''sw1'', sb_role = LeafA, sb_management_ip = ''10.0.0.1'', sb_management_port = 830,
     sb_vendor_hint = None, sb_model_hint = None, sb_host_key_policy = TrustOnFirstUse,
     sb_credential = PasswordInput ''admin'' ''new''\<rparr>"

definition again_request :: InitializeUnderlaySiteRequest where
  "again_request = \<lparr>is_request_id = ''r'', is_tenant_id = ''t'', is_site_id = ''s'',
     is_adapter_endpoint = ''http://adapter'', is_switches = [again_switch], is_allow_degraded = False\<rparr>"

theorem reinitialize_drops_secret_witness:
  "case run_state (initialize_switch sample_senv again_request again_switch) known_service of (result, s') \<Rightarrow>
     bm_get (sv_secrets known_service) ''local/t/s/sw1'' = Some (PasswordCredential ''admin'' ''old'') \<and>
     bm_get (w_inventory (sv_world s')) ''sw1'' = Some known_device \<and>
     bm_get (sv_secrets s') ''local/t/s/sw1'' = None"
proof -
  obtain result s' where run: "run_state (initialize_switch sample_senv again_request again_switch) known_service = (result, s')"
    by (rule prod.exhaust)
  have "trim ''admin'' \<noteq> []" by code_simp
  then have "bm_get (w_inventory (sv_world s')) ''sw1'' = Some known_device \<and> bm_get (sv_secrets s') ''local/t/s/sw1'' = None"
    using reinitialize_drops_secret[OF _ _ _ _ _ _ run, of known_device "''admin''" "''new''"]
    by (simp add: known_service_def known_device_def again_request_def again_switch_def sample_senv_def
        device_secret_ref_def bm_get_of_list)
  then show ?thesis
    unfolding run prod.case by (simp add: known_service_def bm_get_of_list)
qed

end
