(* ===== verification/Service.thy ===== *)
theory Service
  imports Onboarding Recovery
begin

text \<open>
  The operations of \<open>AriaUnderlayService\<close> (\<open>src/api/service.rs\<close>) and of its administration
  (\<open>src/api/admin_ops.rs\<close>, \<open>src/api/recovery_ops.rs\<close>), as state transformers of \<open>service\<close>.  Every
  operation runs to its end before the next: the domain locks serialize the applies of a domain, the
  slot of an idempotency key is locked while its first request runs.
\<close>

section \<open>Helpers (api/service.rs)\<close>

definition annotate_apply_idempotency_response ::
  "ApplyIntentResponse \<Rightarrow> string \<Rightarrow> string \<Rightarrow> string \<Rightarrow> bool \<Rightarrow> ApplyIntentResponse" where
  "annotate_apply_idempotency_response response request_id trace_id idempotency_key reused =
     response\<lparr>ar_request_id := request_id, ar_trace_id := trace_id,
       ar_idempotency_key := Some idempotency_key, ar_reused := reused\<rparr>"

definition require_non_empty :: "string \<Rightarrow> string \<Rightarrow> unit result" where
  "require_non_empty field v = ensure (trim v \<noteq> []) (InvalidIntent (field @ '' must not be empty''))"

definition ha_lease_required_error :: UnderlayError where
  "ha_lease_required_error =
     (let code = ''HA_LEASE_REQUIRED'';
          message = ''production HA mode requires active-passive lease configuration before accepting writes'' in
      AdapterOperation code message False [\<lparr>ad_code = code, ad_message = message\<rparr>])"

definition normalized_lock_component :: "string \<Rightarrow> string \<Rightarrow> string result" where
  "normalized_lock_component field raw =
     (let v = trim raw in
      if v = [] then Inl (InvalidIntent (field @ '' must not be empty''))
      else if CHR '':'' \<in> set v
      then Inl (InvalidIntent (field @ '' must not contain '' @ [CHR 0x27, CHR '':'', CHR 0x27]))
      else Inr v)"

definition apply_scope_lock_keys :: "ApplyDomainIntentRequest \<Rightarrow> string list result" where
  "apply_scope_lock_keys request =
     and_then (normalized_lock_component ''domain_id'' (di_domain_id (dq_intent request))) (\<lambda>domain_id.
     let domain_key = ''domain:'' @ domain_id in
     case op_lock_scope (dq_options request) of
       LockDomain \<Rightarrow> Inr [domain_key]
     | LockRegion \<Rightarrow>
         and_then (ok_or (op_region_id (dq_options request))
           (InvalidIntent ''ApplyOptions.region_id is required when lock_scope is Region'')) (\<lambda>region_id.
         and_then (normalized_lock_component ''region_id'' region_id) (\<lambda>region_id.
         Inr [domain_key, ''region:'' @ region_id]))
     | LockSwitchPair \<Rightarrow>
         and_then (try_map (\<lambda>ep.
           and_then (normalized_lock_component ''management endpoint_id'' (me_endpoint_id ep)) (\<lambda>endpoint_id.
           Inr (''switch_pair:'' @ domain_id @ '':'' @ endpoint_id))) (di_endpoints (dq_intent request))) (\<lambda>keys.
         if keys = [] then Inl (InvalidIntent ''switch_pair lock scope requires at least one management endpoint'')
         else Inr (remdups_adj (sort (keys @ [domain_key])))))"

definition trace_or_request :: "string option \<Rightarrow> string \<Rightarrow> string" where
  "trace_or_request trace_id request_id = (case trace_id of Some t \<Rightarrow> t | None \<Rightarrow> request_id)"

section \<open>Domain applies\<close>

definition persist_domain_apply_record ::
  "service_env \<Rightarrow> ApplyDomainIntentRequest \<Rightarrow> ApplyIntentResponse \<Rightarrow> (service, ApplyIntentResponse) state" where
  "persist_domain_apply_record senv request response =
     State_Monad.bind (lift (ask (ev_now (se_env senv)))) (\<lambda>now.
     on_error (write_store (se_record_put senv)
         (sv_apply_records_update (\<lambda>rs. snd (apply_record_put (new_domain_apply_record now request response) rs))))
       (\<lambda>err. State_Monad.return (response\<lparr>ar_warnings := ar_warnings response @
         [''domain apply record persistence failed: '' @ error_display err]\<rparr>))
       (\<lambda>_. State_Monad.return response))"

text \<open>\<open>ApplyIdempotencyRegistry::slot\<close>: the record in the slot of a key, loaded when the slot is new.\<close>

definition idempotency_slot :: "service_env \<Rightarrow> string \<Rightarrow> ApplyIdempotencyRecord option svc" where
  "idempotency_slot senv key =
     State_Monad.bind (reads (\<lambda>s. bm_get (sv_slots s) key)) (\<lambda>slot.
     case slot of
       Some content \<Rightarrow> ok content
     | None \<Rightarrow>
        try_then (read_store (se_idempotency_read senv) (\<lambda>s. bm_get (sv_idempotency s) key)) (\<lambda>stored.
        State_Monad.bind (modify (sv_slots_update (bm_insert key stored))) (\<lambda>_. ok stored)))"

definition run_apply ::
  "service_env \<Rightarrow> string \<Rightarrow> string \<Rightarrow> DeviceDesiredState list \<Rightarrow> ApplyOptions \<Rightarrow> (service, ApplyIntentResponse) state" where
  "run_apply senv request_id trace_id desired_states options =
     lift (apply_desired_states (se_env senv) request_id trace_id desired_states
       (op_allow_degraded_atomicity options) (op_drift_policy options))"

definition apply_and_record ::
  "service_env \<Rightarrow> ApplyDomainIntentRequest \<Rightarrow> string \<Rightarrow> string \<Rightarrow> DeviceDesiredState list \<Rightarrow> ApplyIntentResponse svc" where
  "apply_and_record senv request key fingerprint desired_states =
     (let request_id = dq_request_id request; trace_id = trace_or_request (dq_trace_id request) request_id in
      State_Monad.bind (run_apply senv request_id trace_id desired_states (dq_options request)) (\<lambda>response.
      State_Monad.bind (persist_domain_apply_record senv request
        (annotate_apply_idempotency_response response request_id trace_id key False)) (\<lambda>response.
      State_Monad.bind (lift (ask (ev_now (se_env senv)))) (\<lambda>now.
      let stored_record = new_idempotency_record now fingerprint response in
      on_error (write_store (se_idempotency_put senv)
          (sv_idempotency_update (\<lambda>st. snd (idempotency_put key stored_record st))))
        (\<lambda>err. ok (response\<lparr>ar_warnings := ar_warnings response @
          [''idempotency record persistence failed: '' @ error_display err]\<rparr>))
        (\<lambda>_. State_Monad.bind (modify (sv_slots_update (bm_insert key (Some stored_record)))) (\<lambda>_.
          ok response))))))"

definition apply_with_key ::
  "service_env \<Rightarrow> ApplyDomainIntentRequest \<Rightarrow> string \<Rightarrow> string \<Rightarrow> DeviceDesiredState list \<Rightarrow> ApplyIntentResponse svc" where
  "apply_with_key senv request key fingerprint desired_states =
     (let request_id = dq_request_id request; trace_id = trace_or_request (dq_trace_id request) request_id in
      try_then (idempotency_slot senv key) (\<lambda>slot.
      case slot of
        Some r \<Rightarrow>
          if ir_fingerprint r \<noteq> fingerprint then throw (idempotency_payload_mismatch_error key)
          else ok (annotate_apply_idempotency_response (ir_response r) request_id trace_id key True)
      | None \<Rightarrow> apply_and_record senv request key fingerprint desired_states))"

definition apply_domain_intent :: "service_env \<Rightarrow> ApplyDomainIntentRequest \<Rightarrow> ApplyIntentResponse svc" where
  "apply_domain_intent senv request =
     try_then (of_result (apply_scope_lock_keys request)) (\<lambda>lock_keys.
     try_then (of_result (normalize_scope_keys lock_keys)) (\<lambda>_.
     try_then (of_result (case dq_idempotency_key request of
         None \<Rightarrow> Inr None | Some raw \<Rightarrow> and_then (normalize_idempotency_key raw) (\<lambda>key. Inr (Some key)))) (\<lambda>key.
     try_then (of_result (case key of
         None \<Rightarrow> Inr None
       | Some _ \<Rightarrow> and_then (se_fingerprint senv (dq_intent request) (dq_options request)) (\<lambda>f. Inr (Some f)))) (\<lambda>fingerprint.
     try_then (of_result (plan_underlay_domain (dq_intent request))) (\<lambda>desired_states.
     case (key, fingerprint) of
       (Some key, Some fingerprint) \<Rightarrow> apply_with_key senv request key fingerprint desired_states
     | _ \<Rightarrow>
         let request_id = dq_request_id request; trace_id = trace_or_request (dq_trace_id request) request_id in
         State_Monad.bind (run_apply senv request_id trace_id desired_states (dq_options request)) (\<lambda>response.
         State_Monad.bind (persist_domain_apply_record senv request response) ok))))))"

definition domain_apply_record :: "service_env \<Rightarrow> string \<Rightarrow> DomainApplyRecord svc" where
  "domain_apply_record senv request_id =
     try_then (of_result (require_non_empty ''domain apply request_id'' request_id)) (\<lambda>_.
     try_then (read_store (se_record_read senv) (\<lambda>s. bm_get (sv_apply_records s) request_id)) (\<lambda>found.
     of_result (ok_or found (InvalidIntent (''domain apply record '' @ request_id @ '' was not found'')))))"

definition get_domain_apply_compensation_plan :: "service_env \<Rightarrow> string \<Rightarrow> DomainApplyCompensationPlan svc" where
  "get_domain_apply_compensation_plan senv request_id =
     try_then (domain_apply_record senv request_id) (\<lambda>r. ok (compensation_plan_from_record r))"

definition retry_failed_domain_endpoints ::
  "service_env \<Rightarrow> RetryFailedDomainEndpointsRequest \<Rightarrow> ApplyIntentResponse svc" where
  "retry_failed_domain_endpoints senv request =
     try_then (of_result (require_non_empty ''retry failed endpoint request_id'' (rq_request_id request))) (\<lambda>_.
     try_then (of_result (require_non_empty ''retry failed endpoint original_request_id''
       (rq_original_request_id request))) (\<lambda>_.
     try_then (domain_apply_record senv (rq_original_request_id request)) (\<lambda>r.
     try_then (of_result (select_retryable_failed_endpoints r (rq_endpoint_ids request))) (\<lambda>endpoint_ids.
     try_then (of_result (filter_domain_intent_to_endpoints (dq_intent (rec_request r)) endpoint_ids)) (\<lambda>intent.
     apply_domain_intent senv
       \<lparr>dq_request_id = rq_request_id request, dq_trace_id = rq_trace_id request,
        dq_idempotency_key = rq_idempotency_key request, dq_intent = intent,
        dq_options = dq_options (rec_request r)\<rparr>)))))"

section \<open>Applies of a switch pair, dry runs\<close>

definition apply_intent :: "env \<Rightarrow> ApplyIntentRequest \<Rightarrow> ApplyIntentResponse tx" where
  "apply_intent env request =
     try_then (of_result (validate_switch_pair_intent (aq_intent request))) (\<lambda>_.
     State_Monad.bind (apply_desired_states env (aq_request_id request)
       (trace_or_request (aq_trace_id request) (aq_request_id request)) (plan_switch_pair (aq_intent request))
       (op_allow_degraded_atomicity (aq_options request)) (op_drift_policy (aq_options request))) ok)"

record DryRunResponse =
  dy_device_results :: "DeviceApplyResult list"
  dy_change_sets :: "ChangeSet list"
  dy_change_plans :: "ChangePlan list"
  dy_noop :: bool

definition dry_run_response :: "DryRunPlan \<Rightarrow> DryRunResponse" where
  "dry_run_response plan =
     \<lparr>dy_device_results = device_results_from_plan plan, dy_change_sets = dn_change_sets plan,
      dy_change_plans = dn_change_plans plan, dy_noop = is_noop plan\<rparr>"

definition dry_run :: "env \<Rightarrow> ApplyIntentRequest \<Rightarrow> DryRunResponse tx" where
  "dry_run env request =
     try_then (of_result (validate_switch_pair_intent (aq_intent request))) (\<lambda>_.
     try_then (dry_run_desired_states env (plan_switch_pair (aq_intent request))) (\<lambda>plan.
     ok (dry_run_response plan)))"

definition dry_run_domain :: "env \<Rightarrow> ApplyDomainIntentRequest \<Rightarrow> DryRunResponse tx" where
  "dry_run_domain env request =
     try_then (of_result (plan_underlay_domain (dq_intent request))) (\<lambda>desired_states.
     try_then (dry_run_desired_states env desired_states) (\<lambda>plan.
     ok (dry_run_response plan)))"

section \<open>Observed states and drift\<close>

definition fetch_device_state_from_adapter :: "env \<Rightarrow> DeviceId \<Rightarrow> DeviceShadowState tx" where
  "fetch_device_state_from_adapter env device_id =
     try_then (get_managed device_id) (\<lambda>managed.
     try_then (open_client env) (\<lambda>_.
     ask (ev_current_state env)))"

definition get_device_state :: "env \<Rightarrow> DeviceId \<Rightarrow> DeviceShadowState tx" where
  "get_device_state env device_id =
     try_then (fetch_device_state_from_adapter env device_id) (\<lambda>st.
     try_then (put_observed env st) (\<lambda>_.
     ok st))"

primrec refresh_each :: "env \<Rightarrow> DeviceId list \<Rightarrow> unit tx" where
  "refresh_each env [] = ok ()"
| "refresh_each env (d # ds) = try_then (get_device_state env d) (\<lambda>_. refresh_each env ds)"

definition refresh_state :: "env \<Rightarrow> DeviceId list \<Rightarrow> DeviceId list tx" where
  "refresh_state env device_ids = try_then (refresh_each env device_ids) (\<lambda>_. ok device_ids)"

definition emit_event :: "UnderlayEvent \<Rightarrow> unit eff" where
  "emit_event event = modify (\<lambda>w. w\<lparr>w_events := w_events w @ [event]\<rparr>)"

text \<open>One device of the audit: whether it drifted.\<close>

definition audit_one :: "env \<Rightarrow> DeviceId \<Rightarrow> bool tx" where
  "audit_one env device_id =
     try_then (fetch_device_state_from_adapter env device_id) (\<lambda>observed.
     try_then (put_observed env observed) (\<lambda>_.
     try_then (get_shadow env device_id) (\<lambda>expected.
     let report = (case expected of
           Some expected \<Rightarrow> detect_drift expected observed
         | None \<Rightarrow> from_adapter_warnings device_id (ss_warnings observed)) in
     if dp_drift_detected report then
       State_Monad.bind (emit_event (drift_detected ''drift-audit'' ''drift-audit'' report)) (\<lambda>_.
       try_then (on_inventory (inventory_set_state device_id Drifted)) (\<lambda>_.
       ok True))
     else if expected \<noteq> None then
       try_then (get_managed device_id) (\<lambda>managed.
       if dv_lifecycle_state (md_info managed) = Drifted
       then try_then (on_inventory (inventory_set_state device_id Ready)) (\<lambda>_. ok False)
       else ok False)
     else ok False)))"

primrec audit_each :: "env \<Rightarrow> DeviceId list \<Rightarrow> DeviceId list tx" where
  "audit_each env [] = ok []"
| "audit_each env (d # ds) =
     try_then (audit_one env d) (\<lambda>drifted.
     try_then (audit_each env ds) (\<lambda>rest.
     ok (if drifted then d # rest else rest)))"

definition run_drift_audit :: "env \<Rightarrow> DeviceId list \<Rightarrow> DeviceId list tx" where
  "run_drift_audit env device_ids =
     try_then (audit_each env device_ids) (\<lambda>drifted_devices.
     State_Monad.bind (emit_event (drift_audit_completed ''drift-audit'' ''drift-audit'' (length device_ids)
       drifted_devices)) (\<lambda>_.
     ok drifted_devices))"

definition recover_timed_out :: "env \<Rightarrow> RecoveryReport tx" where
  "recover_timed_out env = State_Monad.bind (ask (ev_now env)) (\<lambda>now.
     recover_timed_out_confirmed_commits env now (ucast (ev_confirmed_commit_timeout_secs env)))"

section \<open>Administration (api/admin_ops.rs)\<close>

record ForceUnlockRequest =
  fu_request_id :: string
  fu_trace_id :: "string option"
  fu_device_id :: DeviceId
  fu_lock_owner :: string
  fu_reason :: string
  fu_break_glass_enabled :: bool

record ForceUnlockResponse =
  fo_device_id :: DeviceId
  fo_unlocked :: bool
  fo_warnings :: "string list"

record ForceResolveTransactionRequest =
  fr_request_id :: string
  fr_trace_id :: "string option"
  fr_tx_id :: string
  fr_operator :: string
  fr_reason :: string
  fr_break_glass_enabled :: bool

record ForceResolveTransactionResponse =
  fp_tx_id :: string
  fp_previous_phase :: TxPhase
  fp_resolved_phase :: TxPhase
  fp_devices :: "DeviceId list"
  fp_resolved :: bool
  fp_warnings :: "string list"

record InDoubtTransactionSummary =
  id_tx_id :: string
  id_request_id :: string
  id_trace_id :: string
  id_phase :: TxPhase
  id_devices :: "DeviceId list"
  id_strategy :: "TransactionStrategy option"
  id_error_code :: "string option"
  id_error_message :: "string option"
  id_error_history :: "TxJournalErrorEvent list"
  id_created_at :: u64
  id_updated_at :: u64

definition in_doubt_summary_from_record :: "TxJournalRecord \<Rightarrow> InDoubtTransactionSummary" where
  "in_doubt_summary_from_record r =
     \<lparr>id_tx_id = jr_tx_id r, id_request_id = jr_request_id r, id_trace_id = jr_trace_id r,
      id_phase = jr_phase r, id_devices = jr_devices r, id_strategy = jr_strategy r,
      id_error_code = jr_error_code r, id_error_message = jr_error_message r,
      id_error_history = jr_error_history r, id_created_at = jr_created_at r, id_updated_at = jr_updated_at r\<rparr>"

definition validate_force_resolve_request :: "ForceResolveTransactionRequest \<Rightarrow> unit result" where
  "validate_force_resolve_request request =
     and_then (ensure (trim (fr_tx_id request) \<noteq> []) (InvalidIntent ''force resolve requires tx_id'')) (\<lambda>_.
     and_then (ensure (trim (fr_operator request) \<noteq> []) (InvalidIntent ''force resolve requires operator'')) (\<lambda>_.
     and_then (ensure (trim (fr_reason request) \<noteq> []) (InvalidIntent ''force resolve requires reason'')) (\<lambda>_.
     ensure (fr_break_glass_enabled request) (AdapterOperation ''FORCE_RESOLVE_BREAK_GLASS_REQUIRED''
       ''break-glass must be enabled to force resolve an in-doubt transaction'' False []))))"

definition list_in_doubt_transactions :: "env \<Rightarrow> DeviceId option \<Rightarrow> InDoubtTransactionSummary list tx" where
  "list_in_doubt_transactions env device_id =
     try_then (journal_read env journal_list_recoverable) (\<lambda>listed.
     try_then (of_result listed) (\<lambda>recoverable.
     ok (sort_key id_tx_id (map in_doubt_summary_from_record
       (filter (\<lambda>r. requires_recovery (jr_phase r) \<and>
          (case device_id of Some d \<Rightarrow> d \<in> set (jr_devices r) | None \<Rightarrow> True)) recoverable)))))"

definition force_unlock :: "env \<Rightarrow> ForceUnlockRequest \<Rightarrow> ForceUnlockResponse tx" where
  "force_unlock env request =
     try_then (get_managed (fu_device_id request)) (\<lambda>managed.
     try_then (open_client env) (\<lambda>_.
     try_then (call_as env [] (RpcForceUnlock (fu_lock_owner request) (fu_reason request)
       (fu_break_glass_enabled request)) (fu_device_id request)) (\<lambda>outcome.
     ok \<lparr>fo_device_id = fu_device_id request, fo_unlocked = (ao_status outcome = AdCommitted),
         fo_warnings = ao_warnings outcome\<rparr>)))"

definition tx_not_found :: "string \<Rightarrow> UnderlayError" where
  "tx_not_found tx_id =
     AdapterOperation ''TX_NOT_FOUND'' (''transaction '' @ tx_id @ '' was not found'') False []"

definition tx_not_in_doubt :: "TxJournalRecord \<Rightarrow> UnderlayError" where
  "tx_not_in_doubt r = AdapterOperation ''TX_NOT_IN_DOUBT''
     (''transaction '' @ jr_tx_id r @ '' is '' @ debug_phase (jr_phase r) @ '', not InDoubt'') False []"

definition force_resolve_requested ::
  "u64 \<Rightarrow> string \<Rightarrow> string \<Rightarrow> string \<Rightarrow> string \<Rightarrow> string \<Rightarrow> ProductAuditRecord" where
  "force_resolve_requested now request_id trace_id tx_id operator_id reason =
     \<lparr>pa_request_id = request_id, pa_trace_id = trace_id,
      pa_action = ''transaction.force_resolve_requested'', pa_result = ''authorized'',
      pa_tx_id = Some tx_id, pa_device_id = None, pa_operator_id = Some operator_id, pa_reason = Some reason,
      pa_attention_required = False, pa_error_code = None, pa_error_message = None, pa_fields = bm_empty,
      pa_appended_at = now\<rparr>"

fun product_audit_error :: "UnderlayError \<Rightarrow> UnderlayError" where
  "product_audit_error (ProductAuditWriteFailed m) = ProductAuditWriteFailed m"
| "product_audit_error other = ProductAuditWriteFailed (error_display other)"

definition append_audit :: "service_env \<Rightarrow> ProductAuditRecord \<Rightarrow> unit svc" where
  "append_audit senv r = on_error (write_store (se_audit_put senv) (sv_audit_update (\<lambda>rs. rs @ [r])))
     (\<lambda>e. throw (product_audit_error e)) ok"

text \<open>The record of the request, and a typed error where there is none.\<close>

definition get_transaction :: "env \<Rightarrow> string \<Rightarrow> TxJournalRecord tx" where
  "get_transaction env tx_id =
     try_then (journal_read env (journal_get tx_id)) (\<lambda>found.
     try_then (of_result found) (\<lambda>found.
     of_result (ok_or found (tx_not_found tx_id))))"

definition resolve_record :: "env \<Rightarrow> ForceResolveTransactionRequest \<Rightarrow> string \<Rightarrow> TxJournalRecord \<Rightarrow> unit tx" where
  "resolve_record env request trace_id r =
     State_Monad.bind (ask (ev_now env)) (\<lambda>now.
     State_Monad.bind (ask (ev_now env)) (\<lambda>later.
     try_then (of_result (transition_phase later ForceResolved
       (with_manual_resolution now (fr_operator request) (fr_reason request) (fr_request_id request) trace_id r)))
     (put_journal env)))"

definition force_resolve_transaction ::
  "service_env \<Rightarrow> ForceResolveTransactionRequest \<Rightarrow> ForceResolveTransactionResponse svc" where
  "force_resolve_transaction senv request =
     (let env = se_env senv; trace_id = trace_or_request (fr_trace_id request) (fr_request_id request) in
      try_then (of_result (validate_force_resolve_request request)) (\<lambda>_.
      try_then (lift (get_transaction env (fr_tx_id request))) (\<lambda>candidate.
      try_then (lift (get_transaction env (fr_tx_id request))) (\<lambda>r.
      if jr_phase r \<noteq> InDoubt then throw (tx_not_in_doubt r)
      else
        try_then (of_result (se_authorize senv
          \<lparr>az_request_id = fr_request_id request, az_trace_id = trace_id, az_operator_id = fr_operator request,
           az_action = ForceResolveTransaction\<rparr>)) (\<lambda>authorization.
        State_Monad.bind (lift (ask (ev_now env))) (\<lambda>now.
        try_then (append_audit senv (force_resolve_requested now (fr_request_id request) trace_id (jr_tx_id r)
          (ad_operator_id authorization) (fr_reason request))) (\<lambda>_.
        try_then (lift (resolve_record env request trace_id r)) (\<lambda>_.
        State_Monad.bind (lift (emit_event (transaction_force_resolved (fr_request_id request) trace_id (jr_tx_id r)
          (jr_phase r) (jr_devices r) (fr_operator request) (fr_reason request)))) (\<lambda>_.
        ok \<lparr>fp_tx_id = jr_tx_id r, fp_previous_phase = jr_phase r, fp_resolved_phase = ForceResolved,
            fp_devices = jr_devices r, fp_resolved = True, fp_warnings = []\<rparr>)))))))))"

end
