(* ===== verification/Replay.thy ===== *)
theory Replay
  imports Service
begin

text \<open>
  Idempotency of domain applies: what the service keeps of an idempotency key, and that a replay of a
  request, at any later time and also after a restart, is answered from that record.
\<close>

section \<open>What the service keeps of a key\<close>

text \<open>A filled slot agrees with the store.\<close>

definition idempotency_inv :: "service \<Rightarrow> bool" where
  "idempotency_inv s \<longleftrightarrow>
     (\<forall>key v. bm_get (sv_slots s) key = Some (Some v) \<longrightarrow> bm_get (sv_idempotency s) key = Some v)"

definition recorded :: "string \<Rightarrow> ApplyIdempotencyRecord \<Rightarrow> service \<Rightarrow> bool" where
  "recorded key v s \<longleftrightarrow>
     bm_get (sv_idempotency s) key = Some v \<and> bm_get (sv_slots s) key \<in> {None, Some (Some v)}"

text \<open>What may happen between two requests: other domain applies, a restart that forgets the slots, and
  every operation that has nothing to do with idempotency.\<close>

inductive service_step :: "service_env \<Rightarrow> service \<Rightarrow> service \<Rightarrow> bool" for senv where
  serve: "run_state (apply_domain_intent senv q) s = (x, s') \<Longrightarrow> service_step senv s s'"
| restart: "service_step senv s (s\<lparr>sv_slots := bm_empty\<rparr>)"
| other: "sv_slots s' = sv_slots s \<Longrightarrow> sv_idempotency s' = sv_idempotency s \<Longrightarrow> service_step senv s s'"

text \<open>Nothing but the clock and the slots has changed.\<close>

definition undisturbed :: "service \<Rightarrow> service \<Rightarrow> bool" where
  "undisturbed s s' \<longleftrightarrow> (\<exists>n slots. s' = s\<lparr>sv_world := (sv_world s)\<lparr>w_tick := n\<rparr>, sv_slots := slots\<rparr>)"

lemma undisturbedI [intro]:
  "undisturbed s s"
  "undisturbed s (sv_tick s)"
  "undisturbed s (sv_slots_update g (sv_tick s))"
  unfolding undisturbed_def sv_tick_def
  by (rule exI[of _ "w_tick (sv_world s)"], rule exI[of _ "sv_slots s"], simp)
    (rule exI[of _ "Suc (w_tick (sv_world s))"], rule exI[of _ "sv_slots s"], simp,
     rule exI[of _ "Suc (w_tick (sv_world s))"], rule exI[of _ "g (sv_slots s)"], simp)

section \<open>Steps\<close>

text \<open>The apply itself and the record of the apply leave slots and store alone.\<close>

definition same_keys :: "service \<Rightarrow> service \<Rightarrow> bool" where
  "same_keys s s' \<longleftrightarrow> sv_slots s' = sv_slots s \<and> sv_idempotency s' = sv_idempotency s"

lemma recorded_same_keys: "same_keys s s' \<Longrightarrow> recorded key v s \<Longrightarrow> recorded key v s'"
  by (simp add: same_keys_def recorded_def)

lemma wp_lift_same_keys: "wp (lift m) (\<lambda>_. same_keys s) s"
  by (auto simp: wp_simps same_keys_def intro: wpI)

lemma wp_persist_same_keys:
  "same_keys s0 s \<Longrightarrow> wp (persist_domain_apply_record senv q response) (\<lambda>_. same_keys s0) s"
  by (simp add: persist_domain_apply_record_def wp_simps wp_stores same_keys_def sv_tick_def split: put_outcome.split)

lemma wp_run_apply_same_keys: "wp (run_apply senv rid tid ds options) (\<lambda>_. same_keys s) s"
  unfolding run_apply_def by (rule wp_lift_same_keys)

lemma annotate_twice [simp]:
  "annotate_apply_idempotency_response (annotate_apply_idempotency_response r a b k u) c d k' u' =
   annotate_apply_idempotency_response r c d k' u'"
  by (simp add: annotate_apply_idempotency_response_def)

lemma wp_apply_and_record:
  assumes "\<And>s1 response v. same_keys s s1 \<Longrightarrow> ir_fingerprint v = f \<Longrightarrow> ir_response v = response \<Longrightarrow>
      (se_idempotency_put senv (w_tick (sv_world s1)) = Stored \<longrightarrow>
         Q (Inr response) (sv_slots_update (bm_insert key (Some v)) (sv_idempotency_update (bm_insert key v) (sv_tick s1)))) \<and>
      (se_idempotency_put senv (w_tick (sv_world s1)) \<noteq> Stored \<longrightarrow>
         (\<forall>warned s2. s2 = sv_tick s1 \<or> s2 = sv_idempotency_update (bm_insert key v) (sv_tick s1) \<longrightarrow>
            Q (Inr warned) s2))"
  shows "wp (apply_and_record senv q key f ds) Q s"
  unfolding apply_and_record_def Let_def wp_bind
proof (rule wp_mono[OF wp_run_apply_same_keys], rule wp_mono[OF wp_persist_same_keys], assumption, unfold wp_lift wp_ask)
  fix r0 s' response s1 assume "same_keys s s1"
  then have "same_keys s (sv_tick s1)" by (simp add: same_keys_def)
  from assms[OF this, of "new_idempotency_record (ev_now (se_env senv) (w_tick (sv_world s1))) f response" response]
  show "wp (on_error (write_store (se_idempotency_put senv)
          (sv_idempotency_update (\<lambda>st. snd (idempotency_put key
            (new_idempotency_record (ev_now (se_env senv) (w_tick (sv_world s1))) f response) st))))
        (\<lambda>err. ok (response\<lparr>ar_warnings := ar_warnings response @
          [''idempotency record persistence failed: '' @ error_display err]\<rparr>))
        (\<lambda>_. State_Monad.bind (modify (sv_slots_update (bm_insert key
            (Some (new_idempotency_record (ev_now (se_env senv) (w_tick (sv_world s1))) f response))))) (\<lambda>_.
          ok response))) Q
      (s1\<lparr>sv_world := (sv_world s1)\<lparr>w_tick := Suc (w_tick (sv_world s1))\<rparr>\<rparr>)"
    by (auto simp add: wp_simps wp_stores new_idempotency_record_def idempotency_put_def sv_tick_def
        split: put_outcome.split)
qed

text \<open>The slot is filled, or it is loaded from the store.\<close>

lemma wp_idempotency_slot:
  "wp (idempotency_slot senv key) Q s \<longleftrightarrow>
     (case bm_get (sv_slots s) key of
        Some content \<Rightarrow> Q (Inr content) s
      | None \<Rightarrow> (case se_idempotency_read senv (w_tick (sv_world s)) of
          Some e \<Rightarrow> Q (Inl e) (sv_tick s)
        | None \<Rightarrow> Q (Inr (bm_get (sv_idempotency s) key))
            (sv_slots_update (bm_insert key (bm_get (sv_idempotency s) key)) (sv_tick s))))"
  by (simp add: idempotency_slot_def wp_simps split: option.split)

lemma recorded_by_put:
  "recorded key v (sv_slots_update (bm_insert key (Some v)) (sv_idempotency_update (bm_insert key v) s))"
  by (simp add: recorded_def bm_get_insert)

text \<open>A record stays.\<close>

lemma apply_with_key_keeps_recorded:
  assumes "recorded key v s"
  shows "wp (apply_with_key senv q k f ds) (\<lambda>_. recorded key v) s"
proof -
  have other: "wp (apply_and_record senv q k f ds) (\<lambda>_. recorded key v) s0"
    if "k \<noteq> key" "recorded key v s0" for s0
    by (rule wp_apply_and_record) (use that in \<open>auto simp: recorded_def same_keys_def bm_get_insert\<close>)
  show ?thesis
  proof (cases "k = key")
    case True
    then show ?thesis using assms
      unfolding apply_with_key_def Let_def wp_try_then wp_idempotency_slot
      by (auto simp: wp_simps recorded_def bm_get_insert split: option.split)
  next
    case False
    moreover have "recorded key v (sv_slots_update (bm_insert k content) (sv_tick s))" "recorded key v (sv_tick s)"
      for content
      using False assms by (simp_all add: recorded_def bm_get_insert)
    ultimately show ?thesis using assms
      unfolding apply_with_key_def Let_def wp_try_then wp_idempotency_slot
      by (simp add: wp_simps other split: option.split)
  qed
qed

text \<open>A recorded key is answered from its record, and nothing happens.\<close>

lemma apply_with_key_replays:
  assumes "recorded key v s" "\<And>n. se_idempotency_read senv n = None"
  shows "wp (apply_with_key senv q key f ds) (\<lambda>x s'. undisturbed s s' \<and>
      x = (if ir_fingerprint v \<noteq> f then Inl (idempotency_payload_mismatch_error key)
        else Inr (annotate_apply_idempotency_response (ir_response v) (dq_request_id q)
          (trace_or_request (dq_trace_id q) (dq_request_id q)) key True))) s"
  using assms unfolding apply_with_key_def Let_def wp_try_then wp_idempotency_slot
  by (auto simp: wp_simps recorded_def undisturbedI)

text \<open>A successful apply leaves a record.\<close>

definition leaves_record :: "string \<Rightarrow> string \<Rightarrow> ApplyIntentResponse result \<Rightarrow> service \<Rightarrow> bool" where
  "leaves_record key f x s \<longleftrightarrow> (\<forall>r. x = Inr r \<longrightarrow>
     (\<exists>v. recorded key v s \<and> ir_fingerprint v = f \<and>
       (\<forall>rid tid. annotate_apply_idempotency_response (ir_response v) rid tid key True =
          annotate_apply_idempotency_response r rid tid key True)))"

lemma leaves_recordI:
  "leaves_record key f (Inl e) s"
  "recorded key v s \<Longrightarrow> ir_fingerprint v = f \<Longrightarrow> leaves_record key f (Inr (ir_response v)) s"
  "recorded key v s \<Longrightarrow> ir_fingerprint v = f \<Longrightarrow> leaves_record key f
     (Inr (annotate_apply_idempotency_response (ir_response v) rid tid key True)) s"
  by (auto simp: leaves_record_def)

lemma apply_with_key_records:
  assumes "idempotency_inv s" "\<And>n. se_idempotency_read senv n = None" "\<And>n. se_idempotency_put senv n = Stored"
  shows "wp (apply_with_key senv q key f ds) (leaves_record key f) s"
proof -
  have fresh: "wp (apply_and_record senv q key f ds) (leaves_record key f) s0" for s0
    by (rule wp_apply_and_record) (use assms(3) in \<open>auto intro: leaves_recordI recorded_by_put\<close>)
  have hit: "recorded key v (sv_slots_update (bm_insert key (Some v)) (sv_tick s))"
    if "bm_get (sv_idempotency s) key = Some v" for v
    using that by (simp add: recorded_def bm_get_insert)
  have kept: "recorded key v s" if "bm_get (sv_slots s) key = Some (Some v)" for v
    using assms(1) that by (simp add: recorded_def idempotency_inv_def)
  show ?thesis
    unfolding apply_with_key_def Let_def wp_try_then wp_idempotency_slot
    by (simp add: assms(2) wp_simps leaves_recordI leaves_recordI(3)[OF hit] leaves_recordI(3)[OF kept] fresh
        split: option.split)
qed

section \<open>Domain applies\<close>

text \<open>The checks of a request: its idempotency key with the fingerprint of its payload, and its plan.\<close>

definition admission ::
  "service_env \<Rightarrow> ApplyDomainIntentRequest \<Rightarrow> ((string \<times> string) option \<times> DeviceDesiredState list) result" where
  "admission senv q =
     and_then (apply_scope_lock_keys q) (\<lambda>lock_keys.
     and_then (normalize_scope_keys lock_keys) (\<lambda>_.
     and_then (case dq_idempotency_key q of
         None \<Rightarrow> Inr None
       | Some raw \<Rightarrow> and_then (normalize_idempotency_key raw) (\<lambda>key.
           and_then (se_fingerprint senv (dq_intent q) (dq_options q)) (\<lambda>f. Inr (Some (key, f))))) (\<lambda>key.
     and_then (plan_underlay_domain (dq_intent q)) (\<lambda>desired_states.
     Inr (key, desired_states)))))"

definition apply_keyless :: "service_env \<Rightarrow> ApplyDomainIntentRequest \<Rightarrow> DeviceDesiredState list \<Rightarrow> ApplyIntentResponse svc" where
  "apply_keyless senv q desired_states =
     State_Monad.bind (run_apply senv (dq_request_id q) (trace_or_request (dq_trace_id q) (dq_request_id q))
       desired_states (dq_options q)) (\<lambda>response.
     State_Monad.bind (persist_domain_apply_record senv q response) ok)"

lemma wp_apply_domain_intent:
  "wp (apply_domain_intent senv q) Q s \<longleftrightarrow>
     (case admission senv q of
        Inl e \<Rightarrow> Q (Inl e) s
      | Inr (Some (key, f), ds) \<Rightarrow> wp (apply_with_key senv q key f ds) Q s
      | Inr (None, ds) \<Rightarrow> wp (apply_keyless senv q ds) Q s)"
  unfolding apply_domain_intent_def admission_def apply_keyless_def Let_def
  by (simp add: wp_try_then wp_of_result and_then_def on_result_def split: sum.split option.split)

lemma wp_apply_keyless_same_keys: "wp (apply_keyless senv q ds) (\<lambda>_. same_keys s) s"
  unfolding apply_keyless_def wp_bind
  by (rule wp_mono[OF wp_run_apply_same_keys], rule wp_mono[OF wp_persist_same_keys], assumption) (simp add: wp_ok)

lemma service_step_keeps_recorded:
  assumes "service_step senv s s'" "recorded key v s"
  shows "recorded key v s'"
  using assms(1)
proof cases
  case (serve q x)
  have "wp (apply_domain_intent senv q) (\<lambda>_. recorded key v) s"
    unfolding wp_apply_domain_intent
    using assms(2) by (auto split: sum.split option.split
        intro: apply_with_key_keeps_recorded wp_mono[OF wp_apply_keyless_same_keys] recorded_same_keys)
  from wpD[OF this serve] show ?thesis .
next
  case restart
  then show ?thesis using assms(2) by (simp add: recorded_def)
next
  case other
  then show ?thesis using assms(2) by (simp add: recorded_def)
qed

lemma service_steps_keep_recorded:
  "(service_step senv)\<^sup>*\<^sup>* s s' \<Longrightarrow> recorded key v s \<Longrightarrow> recorded key v s'"
  by (induction rule: rtranclp_induct) (auto intro: service_step_keeps_recorded)

lemma admission_same_payload:
  assumes "admission senv q = Inr (Some (key, f), ds)"
    and "dq_intent q' = dq_intent q" "dq_options q' = dq_options q"
    and "dq_idempotency_key q = Some raw" "dq_idempotency_key q' = Some raw'" "trim raw' = trim raw"
  shows "admission senv q' = Inr (Some (key, f), ds)"
proof -
  have "normalize_idempotency_key raw' = normalize_idempotency_key raw"
    using assms(6) by (simp add: normalize_idempotency_key_def)
  moreover have "apply_scope_lock_keys q' = apply_scope_lock_keys q"
    unfolding apply_scope_lock_keys_def assms(2,3) ..
  ultimately show ?thesis using assms by (simp add: admission_def)
qed

lemma admission_key:
  assumes "admission senv q = Inr (k, ds)" "dq_idempotency_key q = Some raw"
  shows "\<exists>f. k = Some (trim raw, f) \<and> se_fingerprint senv (dq_intent q) (dq_options q) = Inr f"
  using assms
  by (auto simp: admission_def normalize_idempotency_key_def Let_def and_then_def split: sum.splits if_splits)

lemma keyed_apply_records:
  assumes "idempotency_inv s" "\<And>n. se_idempotency_read senv n = None" "\<And>n. se_idempotency_put senv n = Stored"
    and "dq_idempotency_key q = Some raw"
  shows "wp (apply_domain_intent senv q) (\<lambda>x s'. \<forall>r. x = Inr r \<longrightarrow>
      (\<exists>f ds. admission senv q = Inr (Some (trim raw, f), ds) \<and> leaves_record (trim raw) f x s')) s"
proof (cases "admission senv q")
  case (Inr a)
  obtain k ds where "a = (k, ds)" by (cases a)
  with admission_key Inr assms(4) obtain f where adm: "admission senv q = Inr (Some (trim raw, f), ds)" by blast
  show ?thesis unfolding wp_apply_domain_intent adm sum.case prod.case option.case
    by (rule wp_mono[OF apply_with_key_records[OF assms(1-3)]]) blast
qed (simp add: wp_apply_domain_intent)

lemma keyed_apply_replays:
  assumes "recorded (trim raw) v s" "\<And>n. se_idempotency_read senv n = None" "dq_idempotency_key q = Some raw"
  shows "wp (apply_domain_intent senv q) (\<lambda>x s'. undisturbed s s' \<and>
      (\<forall>f ds. admission senv q = Inr (Some (trim raw, f), ds) \<and> ir_fingerprint v = f \<longrightarrow>
         x = Inr (annotate_apply_idempotency_response (ir_response v) (dq_request_id q)
           (trace_or_request (dq_trace_id q) (dq_request_id q)) (trim raw) True)) \<and>
      (se_fingerprint senv (dq_intent q) (dq_options q) \<noteq> Inr (ir_fingerprint v) \<longrightarrow> (\<exists>e. x = Inl e))) s"
proof (cases "admission senv q")
  case (Inr a)
  obtain k ds where "a = (k, ds)" by (cases a)
  with admission_key Inr assms(3) obtain f where adm: "admission senv q = Inr (Some (trim raw, f), ds)"
    and f: "se_fingerprint senv (dq_intent q) (dq_options q) = Inr f" by blast
  show ?thesis unfolding wp_apply_domain_intent adm sum.case prod.case option.case
    by (rule wp_mono[OF apply_with_key_replays[OF assms(1,2)]]) (auto simp: f)
qed (simp add: wp_apply_domain_intent undisturbedI)


definition keyed_request :: "string \<Rightarrow> string \<Rightarrow> ApplyDomainIntentRequest" where
  "keyed_request rid key =
     \<lparr>dq_request_id = rid, dq_trace_id = None, dq_idempotency_key = Some key, dq_intent = two_endpoint_intent,
      dq_options = default_apply_options\<rparr>"

lemma fresh_key_is_answered:
  assumes "admission senv q = Inr (Some (key, f), ds)" "\<And>n. se_idempotency_read senv n = None"
    and "bm_get (sv_slots s) key = None" "bm_get (sv_idempotency s) key = None"
  shows "wp (apply_domain_intent senv q) (\<lambda>x _. \<exists>r. x = Inr r) s"
proof -
  have "wp (apply_and_record senv q key f ds) (\<lambda>x _. \<exists>r. x = Inr r) s0" for s0
    by (rule wp_apply_and_record) simp
  with assms show ?thesis
    unfolding wp_apply_domain_intent apply_with_key_def Let_def wp_try_then wp_idempotency_slot by simp
qed


end
