(* ===== verification/Admin_Safety.thy ===== *)
theory Admin_Safety
  imports Service
begin

text \<open>
  Force resolve, the only operation that settles a transaction without asking its devices: which
  conditions it needs and what it changes, in every environment.
\<close>

definition audit_of ::
  "ForceResolveTransactionRequest \<Rightarrow> AuthorizationDecision \<Rightarrow> ProductAuditRecord \<Rightarrow> bool" where
  "audit_of request d a \<longleftrightarrow>
     pa_action a = ''transaction.force_resolve_requested'' \<and> pa_request_id a = fr_request_id request \<and>
     pa_tx_id a = Some (fr_tx_id request) \<and> pa_operator_id a = Some (ad_operator_id d) \<and>
     pa_reason a = Some (fr_reason request)"

definition resolved_by :: "ForceResolveTransactionRequest \<Rightarrow> TxJournalRecord \<Rightarrow> TxJournalRecord \<Rightarrow> bool" where
  "resolved_by request r r' \<longleftrightarrow>
     (\<exists>m later. r' = r\<lparr>jr_manual_resolution := Some m, jr_phase := ForceResolved, jr_updated_at := later\<rparr> \<and>
        mr_operator m = fr_operator request \<and> mr_reason m = fr_reason request \<and>
        mr_request_id m = fr_request_id request)"

text \<open>Everything a force resolve needs before it may touch the journal.\<close>

definition may_resolve :: "service_env \<Rightarrow> ForceResolveTransactionRequest \<Rightarrow> service \<Rightarrow> service \<Rightarrow> bool" where
  "may_resolve senv request s s' \<longleftrightarrow>
     fr_break_glass_enabled request \<and> trim (fr_operator request) \<noteq> [] \<and> trim (fr_reason request) \<noteq> [] \<and>
     (\<exists>r r' d a. bm_get (w_journal (sv_world s)) (fr_tx_id request) = Some r \<and> jr_phase r = InDoubt \<and>
        se_authorize senv \<lparr>az_request_id = fr_request_id request,
          az_trace_id = trace_or_request (fr_trace_id request) (fr_request_id request),
          az_operator_id = fr_operator request, az_action = ForceResolveTransaction\<rparr> = Inr d \<and>
        sv_audit s' = sv_audit s @ [a] \<and> audit_of request d a \<and>
        w_journal (sv_world s') = bm_insert (fr_tx_id request) r' (w_journal (sv_world s)) \<and> resolved_by request r r')"

definition force_resolve_post ::
  "service_env \<Rightarrow> ForceResolveTransactionRequest \<Rightarrow> service \<Rightarrow> ForceResolveTransactionResponse result \<Rightarrow> service \<Rightarrow> bool" where
  "force_resolve_post senv request s x s' \<longleftrightarrow>
     w_log (sv_world s') = w_log (sv_world s) \<and> w_shadow (sv_world s') = w_shadow (sv_world s) \<and>
     w_inventory (sv_world s') = w_inventory (sv_world s) \<and> sv_secrets s' = sv_secrets s \<and>
     (w_journal (sv_world s') \<noteq> w_journal (sv_world s) \<or> (\<exists>y. x = Inr y) \<longrightarrow> may_resolve senv request s s')"

lemma wp_get_transaction:
  "wp (get_transaction env t) Q w \<longleftrightarrow>
     (let w' = w\<lparr>w_tick := Suc (w_tick w)\<rparr> in
      case ev_journal_read env (w_tick w) of
        Some e \<Rightarrow> Q (Inl e) w'
      | None \<Rightarrow> (case bm_get (w_journal w) t of Some r \<Rightarrow> Q (Inr r) w' | None \<Rightarrow> Q (Inl (tx_not_found t)) w'))"
  by (simp add: get_transaction_def wp_simps journal_get_def ok_or_def Let_def split: option.split)

lemma wp_resolve_record:
  assumes "jr_phase r = InDoubt"
    and "\<And>r' n u. resolved_by request r r' \<Longrightarrow> Q (u :: unit result)
      (w_journal_update (bm_insert (jr_tx_id r) r') (w\<lparr>w_tick := n\<rparr>))"
    and "\<And>e n. Q (Inl e) (w\<lparr>w_tick := n\<rparr>)"
  shows "wp (resolve_record env request trace_id r) Q w"
proof -
  have "resolved_by request r (r\<lparr>jr_manual_resolution := Some m, jr_phase := ForceResolved, jr_updated_at := later\<rparr>)"
    if "mr_operator m = fr_operator request" "mr_reason m = fr_reason request" "mr_request_id m = fr_request_id request"
    for m later
    using that by (auto simp: resolved_by_def)
  then show ?thesis
    unfolding resolve_record_def wp_bind wp_ask wp_try_then wp_of_result
    using assms
    by (auto simp: transition_phase_def validate_transition_def with_manual_resolution_def is_allowed_def wp_put_journal
        intro!: put_withI)
qed

lemma force_resolve_postI:
  assumes "w_journal w = w_journal (sv_world s)" "w_log w = w_log (sv_world s)" "w_shadow w = w_shadow (sv_world s)"
    "w_inventory w = w_inventory (sv_world s)"
  shows "force_resolve_post senv request s (Inl e) (s\<lparr>sv_world := w\<rparr>)"
    and "force_resolve_post senv request s (Inl e) (sv_audit_update f (s\<lparr>sv_world := w\<rparr>))"
  using assms by (simp_all add: force_resolve_post_def)

lemma validate_force_resolve_ok:
  "validate_force_resolve_request request = Inr u \<Longrightarrow>
   fr_break_glass_enabled request \<and> trim (fr_operator request) \<noteq> [] \<and> trim (fr_reason request) \<noteq> []"
  by (auto simp: validate_force_resolve_request_def and_then_Inr_iff ensure_def split: if_splits)

lemma wp_force_resolve_transaction:
  assumes inv: "journal_inv (w_journal (sv_world s))"
  shows "wp (force_resolve_transaction senv request) (force_resolve_post senv request s) s"
proof (cases "validate_force_resolve_request request")
  case (Inl e)
  then show ?thesis
    by (simp add: force_resolve_transaction_def Inl Let_def wp_simps force_resolve_post_def)
next
  case (Inr u)
  let ?j = "w_journal (sv_world s)"
  let ?d = "se_authorize senv \<lparr>az_request_id = fr_request_id request,
          az_trace_id = trace_or_request (fr_trace_id request) (fr_request_id request),
          az_operator_id = fr_operator request, az_action = ForceResolveTransaction\<rparr>"
  note valid = validate_force_resolve_ok[OF Inr]
  have resolve: "wp (lift (resolve_record (se_env senv) request trace_id r))
      (on_result (\<lambda>e. force_resolve_post senv request s (Inl e)) (\<lambda>_. wp (State_Monad.bind (lift (emit_event ev)) (\<lambda>_. ok y))
        (force_resolve_post senv request s)))
      (sv_audit_update (\<lambda>rs. rs @ [a]) (s\<lparr>sv_world := (sv_world s)\<lparr>w_tick := n\<rparr>\<rparr>))"
    if r: "bm_get ?j (fr_tx_id request) = Some r" "jr_phase r = InDoubt" and d: "?d = Inr d" and a: "audit_of request d a"
    for r d a n trace_id ev y
  proof -
    have "jr_tx_id r = fr_tx_id request" using inv r by (simp add: journal_inv_def)
    then have post: "may_resolve senv request s s'"
      if "sv_audit s' = sv_audit s @ [a]" "resolved_by request r r'"
        "w_journal (sv_world s') = bm_insert (jr_tx_id r) r' ?j" for s' r'
      using that valid r d a by (auto simp: may_resolve_def)
    show ?thesis
      unfolding wp_lift
    proof (rule wp_resolve_record[OF r(2)])
      fix r' k and x :: "unit result" assume r': "resolved_by request r r'"
      show "on_result (\<lambda>e. force_resolve_post senv request s (Inl e)) (\<lambda>_. wp (State_Monad.bind (lift (emit_event ev)) (\<lambda>_. ok y))
          (force_resolve_post senv request s)) x
          ((sv_audit_update (\<lambda>rs. rs @ [a]) (s\<lparr>sv_world := (sv_world s)\<lparr>w_tick := n\<rparr>\<rparr>))\<lparr>sv_world :=
            w_journal_update (bm_insert (jr_tx_id r) r') ((sv_world (sv_audit_update (\<lambda>rs. rs @ [a])
              (s\<lparr>sv_world := (sv_world s)\<lparr>w_tick := n\<rparr>\<rparr>)))\<lparr>w_tick := k\<rparr>)\<rparr>)"
        by (cases x) (simp_all add: wp_simps emit_event_def force_resolve_post_def post[OF _ r'])
    qed (simp add: force_resolve_post_def)
  qed
  show ?thesis
  proof (cases "bm_get ?j (fr_tx_id request)")
    case None
    then show ?thesis
      by (simp add: force_resolve_transaction_def Inr wp_simps wp_get_transaction Let_def force_resolve_post_def
          split: option.split)
  next
    case (Some r)
    have "audit_of request d (force_resolve_requested now (fr_request_id request) trace_id (jr_tx_id r)
        (ad_operator_id d) (fr_reason request))" for d now trace_id
      using inv Some by (simp add: audit_of_def force_resolve_requested_def journal_inv_def)
    note steps = resolve[OF Some _ _ this]
    show ?thesis
    proof (cases "jr_phase r = InDoubt")
      case False
      then show ?thesis using Some
        by (simp add: force_resolve_transaction_def Inr wp_simps wp_get_transaction Let_def force_resolve_post_def
            split: option.split)
    next
      case True
      show ?thesis
      proof (cases ?d)
        case (Inl e)
        then show ?thesis using True Some
          by (simp add: force_resolve_transaction_def Inr wp_simps wp_get_transaction Let_def force_resolve_post_def
              split: option.split)
      next
        case (Inr d)
        show ?thesis
          using True Some Inr steps[OF True Inr] 
          unfolding force_resolve_transaction_def append_audit_def Let_def wp_try_then wp_of_result
            \<open>validate_force_resolve_request request = Inr u\<close>
          by (simp add: wp_lift wp_get_transaction Let_def wp_bind wp_ask wp_try_then wp_of_result wp_on_error wp_write_store wp_throw wp_ok
              force_resolve_postI sv_tick_def split: option.split put_outcome.split)
      qed
    qed
  qed
qed


definition doubtful_record :: TxJournalRecord where
  "doubtful_record = sample_record\<lparr>jr_tx_id := ''tx'', jr_phase := InDoubt, jr_devices := [''sw1'']\<rparr>"

definition doubtful_service :: service where
  "doubtful_service = sample_service\<lparr>sv_world := sample_world\<lparr>w_journal := bm_of_list [(''tx'', doubtful_record)]\<rparr>\<rparr>"

definition resolve_request :: ForceResolveTransactionRequest where
  "resolve_request = \<lparr>fr_request_id = ''r'', fr_trace_id = None, fr_tx_id = ''tx'', fr_operator = ''op'',
     fr_reason = ''checked'', fr_break_glass_enabled = True\<rparr>"


end
