(* ===== verification/Schedule.thy ===== *)
theory Schedule
  imports Model
begin

text \<open>
  The periodic loop that every worker of \<open>src/worker/\<close> runs (\<open>run_periodic_until_shutdown\<close>): a first run when
  the schedule asks for one, then one run per tick until the shutdown future is ready.  A failing run ends the
  loop.  \<open>tokio::select!\<close> chooses between the tick and the shutdown; the list of ticks is the choice it made, and
  what the rest of the system did to the state before each tick is a function of that list.
\<close>

record WorkerSchedule =
  sc_interval_secs :: u64
  sc_run_immediately :: bool

record 'r SchedulerReport =
  sr_runs :: nat
  sr_last_report :: "'r option"

definition scheduled_run ::
  "('s \<Rightarrow> 'r result \<times> 's) \<Rightarrow> 'r SchedulerReport \<Rightarrow> 's \<Rightarrow> 'r SchedulerReport result \<times> 's" where
  "scheduled_run run report s =
     (case run s of
        (Inl e, s) \<Rightarrow> (Inl e, s)
      | (Inr r, s) \<Rightarrow> (Inr (report\<lparr>sr_runs := sr_runs report + 1, sr_last_report := Some r\<rparr>), s))"

primrec run_ticks ::
  "('s \<Rightarrow> 'r result \<times> 's) \<Rightarrow> ('s \<Rightarrow> 's) list \<Rightarrow> 'r SchedulerReport \<Rightarrow> 's \<Rightarrow> 'r SchedulerReport result \<times> 's" where
  "run_ticks run [] report s = (Inr report, s)"
| "run_ticks run (meanwhile # ticks) report s =
     (case scheduled_run run report (meanwhile s) of
        (Inl e, s) \<Rightarrow> (Inl e, s)
      | (Inr report, s) \<Rightarrow> run_ticks run ticks report s)"

definition run_periodic ::
  "string \<Rightarrow> ('s \<Rightarrow> 'r result \<times> 's) \<Rightarrow> WorkerSchedule \<Rightarrow> ('s \<Rightarrow> 's) list \<Rightarrow> 's \<Rightarrow> 'r SchedulerReport result \<times> 's" where
  "run_periodic worker run schedule ticks s =
     (let report = \<lparr>sr_runs = 0, sr_last_report = None\<rparr> in
      if sc_interval_secs schedule = 0 then
        (Inl (InvalidIntent (worker @ '' schedule interval_secs must be greater than zero'')), s)
      else
        case (if sc_run_immediately schedule then scheduled_run run report s else (Inr report, s)) of
          (Inl e, s) \<Rightarrow> (Inl e, s)
        | (Inr report, s) \<Rightarrow> run_ticks run ticks report s)"

section \<open>Runs\<close>

lemma run_ticks_runs: "run_ticks run ticks report s = (Inr report', s') \<Longrightarrow> sr_runs report' = sr_runs report + length ticks"
  by (induction ticks arbitrary: report s)
    (fastforce simp: scheduled_run_def split: prod.splits sum.splits)+

lemma run_periodic_runs:
  "run_periodic worker run schedule ticks s = (Inr report, s') \<Longrightarrow>
   sr_runs report = length ticks + (if sc_run_immediately schedule then 1 else 0)"
  unfolding run_periodic_def Let_def
  by (auto dest: run_ticks_runs simp: scheduled_run_def split: if_splits prod.splits sum.splits)

text \<open>What every run and the rest of the system keep, the whole loop keeps, however it ends.\<close>

lemma run_ticks_keeps:
  assumes run: "\<And>s. P s \<Longrightarrow> P (snd (run s))" and ticks: "\<And>f s. f \<in> set ticks \<Longrightarrow> P s \<Longrightarrow> P (f s)" and "P s"
  shows "P (snd (run_ticks run ticks report s))"
  using ticks \<open>P s\<close>
proof (induction ticks arbitrary: report s)
  case (Cons f ticks)
  obtain r t where eq: "run (f s) = (r, t)" by (rule prod.exhaust)
  have "P t" using run[of "f s"] Cons.prems eq by simp
  then show ?case using Cons eq by (cases r) (simp_all add: scheduled_run_def)
qed simp

lemma run_periodic_keeps:
  assumes run: "\<And>s. P s \<Longrightarrow> P (snd (run s))" and ticks: "\<And>f s. f \<in> set ticks \<Longrightarrow> P s \<Longrightarrow> P (f s)" and "P s"
  shows "P (snd (run_periodic worker run schedule ticks s))"
proof -
  obtain r t where eq: "run s = (r, t)" by (rule prod.exhaust)
  have loop: "P (snd (run_ticks run ticks report u))" if "P u" for report u
    by (rule run_ticks_keeps[of P]) (simp_all add: run ticks that)
  have "P t" using run[OF \<open>P s\<close>] eq by simp
  then show ?thesis
    using loop \<open>P s\<close> eq by (cases r) (simp_all add: run_periodic_def scheduled_run_def Let_def)
qed

end
