(* ===== verification/Gc.thy ===== *)
theory Gc
  imports Journal Events Schedule "HOL-Library.Product_Lexorder"
begin

text \<open>
  Garbage collection of journals, rollback artifacts and idempotency records (\<open>src/worker/gc.rs\<close>).  The journal
  directory maps file names to contents; the artifact directory maps a device to the transactions that have
  an artifact directory below it.  What the operating system answers, the listings of directories included, is
  the record \<open>gc_io\<close>: a listing may fail, may have entries that cannot be read and need not show files that
  were created after it was made.
\<close>

section \<open>Policies and reports\<close>

record RetentionPolicy =
  gp_committed_journal_retention_days :: u32
  gp_rolled_back_journal_retention_days :: u32
  gp_failed_journal_retention_days :: u32
  gp_rollback_artifact_retention_days :: u32
  gp_max_artifacts_per_device :: u32

definition default_gc_policy :: RetentionPolicy where
  "default_gc_policy =
     \<lparr>gp_committed_journal_retention_days = 30, gp_rolled_back_journal_retention_days = 30,
      gp_failed_journal_retention_days = 90, gp_rollback_artifact_retention_days = 30,
      gp_max_artifacts_per_device = 50\<rparr>"

definition validate_gc_policy :: "RetentionPolicy \<Rightarrow> unit result" where
  "validate_gc_policy policy =
     ensure (gp_max_artifacts_per_device policy \<noteq> 0)
       (InvalidIntent ''journal GC retention max_artifacts_per_device must be greater than zero'')"

record JournalGcReport =
  jg_journals_deleted :: nat
  jg_journals_retained :: nat
  jg_journals_failed :: nat
  jg_artifacts_deleted :: nat
  jg_artifacts_failed :: nat
  jg_journal_deleted_tx_ids :: "string list"
  jg_failed_journal_refs :: "string list"
  jg_artifact_deleted_refs :: "string list"
  jg_failed_artifact_refs :: "string list"

definition default_gc_report :: JournalGcReport where
  "default_gc_report =
     \<lparr>jg_journals_deleted = 0, jg_journals_retained = 0, jg_journals_failed = 0, jg_artifacts_deleted = 0,
      jg_artifacts_failed = 0, jg_journal_deleted_tx_ids = [], jg_failed_journal_refs = [],
      jg_artifact_deleted_refs = [], jg_failed_artifact_refs = []\<rparr>"

definition gc_deleted_total :: "JournalGcReport \<Rightarrow> nat" where
  "gc_deleted_total report = jg_journals_deleted report + jg_artifacts_deleted report"

definition gc_sort_details :: "JournalGcReport \<Rightarrow> JournalGcReport" where
  "gc_sort_details report =
     report\<lparr>jg_journal_deleted_tx_ids := sort (jg_journal_deleted_tx_ids report),
       jg_failed_journal_refs := sort (jg_failed_journal_refs report),
       jg_artifact_deleted_refs := sort (jg_artifact_deleted_refs report),
       jg_failed_artifact_refs := sort (jg_failed_artifact_refs report)\<rparr>"

definition is_terminal_phase :: "TxPhase \<Rightarrow> bool" where
  "is_terminal_phase phase \<longleftrightarrow> phase \<in> {Committed, RolledBack, Failed, ForceResolved}"

definition journal_retention_days :: "TxPhase \<Rightarrow> RetentionPolicy \<Rightarrow> u32" where
  "journal_retention_days phase policy =
     (case phase of
        Committed \<Rightarrow> gp_committed_journal_retention_days policy
      | RolledBack \<Rightarrow> gp_rolled_back_journal_retention_days policy
      | Failed \<Rightarrow> gp_failed_journal_retention_days policy
      | ForceResolved \<Rightarrow> gp_failed_journal_retention_days policy
      | _ \<Rightarrow> - 1)"

text \<open>\<open>u32::MAX\<close> is \<open>- 1\<close>; both saturating operations are written out.\<close>

definition is_older_than :: "u64 \<Rightarrow> u64 \<Rightarrow> u32 \<Rightarrow> bool" where
  "is_older_than updated_at now retention_days =
     (if retention_days = - 1 then False
      else min (unat retention_days * (24 * 60 * 60)) (2 ^ 64 - 1) \<le> unat now - unat updated_at)"

section \<open>Paths\<close>

definition file_stem :: "string \<Rightarrow> string" where
  "file_stem name =
     (case file_extension name of None \<Rightarrow> name | Some ext \<Rightarrow> take (length name - length ext - 1) name)"

text \<open>\<open>Path::file_name\<close>: the last component, unless it is a dot or two.\<close>

definition path_file_name :: "string \<Rightarrow> string option" where
  "path_file_name path =
     (let parts = filter (\<lambda>p. p \<noteq> []) (split_on (CHR ''/'') path);
          parts = (case parts of [] \<Rightarrow> [] | p # rest \<Rightarrow> p # filter (\<lambda>p. p \<noteq> ''.'') rest) in
      if parts = [] \<or> last parts = ''.'' \<or> last parts = ''..'' then None else Some (last parts))"

definition path_ref :: "string \<Rightarrow> string" where
  "path_ref path = (case path_file_name path of Some name \<Rightarrow> name | None \<Rightarrow> path)"

definition record_journal_failure :: "string \<Rightarrow> JournalGcReport \<Rightarrow> JournalGcReport" where
  "record_journal_failure reference report =
     (if reference \<in> set (jg_failed_journal_refs report) then report
      else report\<lparr>jg_journals_failed := jg_journals_failed report + 1,
        jg_failed_journal_refs := jg_failed_journal_refs report @ [reference]\<rparr>)"

definition record_artifact_failure :: "string \<Rightarrow> JournalGcReport \<Rightarrow> JournalGcReport" where
  "record_artifact_failure reference report =
     (if reference \<in> set (jg_failed_artifact_refs report) then report
      else report\<lparr>jg_artifacts_failed := jg_artifacts_failed report + 1,
        jg_failed_artifact_refs := jg_failed_artifact_refs report @ [reference]\<rparr>)"

section \<open>The disk\<close>

type_synonym artifacts = "(DeviceId, string bset) bmap"

text \<open>A listing: \<open>None\<close> when \<open>read_dir\<close> fails, and \<open>None\<close> for an entry that cannot be read.\<close>

type_synonym listing = "string option list option"

record gc_io =
  gi_journal_listing :: listing
  gi_read_fails :: "string \<Rightarrow> bool"
  gi_remove_fails :: "string \<Rightarrow> bool"
  gi_devices_for_tx :: "string \<Rightarrow> listing"
  gi_devices :: listing
  gi_artifacts_of :: "DeviceId \<Rightarrow> listing"
  gi_remove_artifact_fails :: "DeviceId \<Rightarrow> string \<Rightarrow> bool"

record 'b gc_disk =
  gd_journal :: "'b dir"
  gd_artifacts :: artifacts

definition artifact_exists :: "DeviceId \<Rightarrow> string \<Rightarrow> artifacts \<Rightarrow> bool" where
  "artifact_exists device_id tx_id arts =
     (case bm_get arts device_id of Some txs \<Rightarrow> bs_member txs tx_id | None \<Rightarrow> False)"

definition drop_artifact :: "DeviceId \<Rightarrow> string \<Rightarrow> artifacts \<Rightarrow> artifacts" where
  "drop_artifact device_id tx_id arts =
     (case bm_get arts device_id of Some txs \<Rightarrow> bm_insert device_id (bm_remove tx_id txs) arts | None \<Rightarrow> arts)"

text \<open>\<open>remove_dir_all\<close> and the account of it.\<close>

definition remove_artifact ::
  "gc_io \<Rightarrow> DeviceId \<Rightarrow> string \<Rightarrow> artifacts \<times> JournalGcReport \<Rightarrow> artifacts \<times> JournalGcReport" where
  "remove_artifact io device_id tx_id s =
     (case s of (arts, report) \<Rightarrow>
        let artifact_ref = device_id @ ''/'' @ tx_id in
        if gi_remove_artifact_fails io device_id tx_id then (arts, record_artifact_failure artifact_ref report)
        else (drop_artifact device_id tx_id arts,
          report\<lparr>jg_artifacts_deleted := jg_artifacts_deleted report + 1,
            jg_artifact_deleted_refs := jg_artifact_deleted_refs report @ [artifact_ref]\<rparr>))"

section \<open>Collection\<close>

text \<open>The roots; the artifact root may be absent from the configuration or from the disk.\<close>

record JournalGc =
  jc_journal_root :: "string option"
  jc_journal_exists :: bool
  jc_artifact_root :: "string option"
  jc_artifact_exists :: bool
  jc_now :: u64

definition delete_artifact_of ::
  "gc_io \<Rightarrow> string \<Rightarrow> string \<Rightarrow> artifacts \<times> JournalGcReport \<Rightarrow> string option \<Rightarrow> artifacts \<times> JournalGcReport" where
  "delete_artifact_of io root tx_id s found =
     (case found of
        None \<Rightarrow> (fst s, record_artifact_failure (path_ref root) (snd s))
      | Some device_id \<Rightarrow>
          if artifact_exists device_id tx_id (fst s) then remove_artifact io device_id tx_id s else s)"

definition delete_artifacts_for_tx ::
  "gc_io \<Rightarrow> JournalGc \<Rightarrow> string \<Rightarrow> artifacts \<times> JournalGcReport \<Rightarrow> artifacts \<times> JournalGcReport" where
  "delete_artifacts_for_tx io gc tx_id s =
     (case jc_artifact_root gc of
        None \<Rightarrow> s
      | Some root \<Rightarrow>
          if \<not> jc_artifact_exists gc then s
          else case gi_devices_for_tx io tx_id of
            None \<Rightarrow> (fst s, record_artifact_failure (path_ref root) (snd s))
          | Some found \<Rightarrow> foldl (delete_artifact_of io root tx_id) s found)"

text \<open>One transaction directory of a device: an orphan is removed, one of a terminal transaction is collected.\<close>

definition visit_artifact ::
  "gc_io \<Rightarrow> (string, u64) bmap \<Rightarrow> string bset \<Rightarrow> DeviceId \<Rightarrow>
   (u64 \<times> string) list \<times> artifacts \<times> JournalGcReport \<Rightarrow> string option \<Rightarrow>
   (u64 \<times> string) list \<times> artifacts \<times> JournalGcReport" where
  "visit_artifact io terminal_by_tx known device_id s found =
     (case s of (terminal, arts, report) \<Rightarrow>
      case found of
        None \<Rightarrow> (terminal, arts, record_artifact_failure device_id report)
      | Some tx_id \<Rightarrow>
          if \<not> artifact_exists device_id tx_id arts then s
          else case bm_get terminal_by_tx tx_id of
            None \<Rightarrow>
              if bs_member known tx_id then s
              else (terminal, remove_artifact io device_id tx_id (arts, report))
          | Some updated_at \<Rightarrow> (terminal @ [(updated_at, tx_id)], arts, report))"

definition keep_newest ::
  "gc_io \<Rightarrow> DeviceId \<Rightarrow> nat \<Rightarrow> string bset \<times> artifacts \<times> JournalGcReport \<Rightarrow> u64 \<times> string \<Rightarrow>
   string bset \<times> artifacts \<times> JournalGcReport" where
  "keep_newest io device_id max_artifacts s item =
     (case (s, item) of ((kept, arts, report), (_, tx_id)) \<Rightarrow>
        if length (bs_elems kept) < max_artifacts then (bs_insert tx_id kept, arts, report)
        else if artifact_exists device_id tx_id arts then (kept, remove_artifact io device_id tx_id (arts, report))
        else s)"

definition prune_device ::
  "gc_io \<Rightarrow> string \<Rightarrow> (string, u64) bmap \<Rightarrow> string bset \<Rightarrow> nat \<Rightarrow> artifacts \<times> JournalGcReport \<Rightarrow> string option \<Rightarrow>
   artifacts \<times> JournalGcReport" where
  "prune_device io root terminal_by_tx known max_artifacts s found =
     (case found of
        None \<Rightarrow> (fst s, record_artifact_failure (path_ref root) (snd s))
      | Some device_id \<Rightarrow>
          if bm_get (fst s) device_id = None then s
          else case gi_artifacts_of io device_id of
            None \<Rightarrow> (fst s, record_artifact_failure device_id (snd s))
          | Some txs \<Rightarrow>
             (case foldl (visit_artifact io terminal_by_tx known device_id) ([], s) txs of
                (terminal, s) \<Rightarrow>
                  snd (foldl (keep_newest io device_id max_artifacts) (bm_empty, s) (rev (sort terminal)))))"

definition prune_artifacts_per_device ::
  "gc_io \<Rightarrow> JournalGc \<Rightarrow> TxJournalRecord list \<Rightarrow> string bset \<Rightarrow> nat \<Rightarrow> artifacts \<times> JournalGcReport \<Rightarrow>
   artifacts \<times> JournalGcReport" where
  "prune_artifacts_per_device io gc terminal_records known max_artifacts s =
     (case jc_artifact_root gc of
        None \<Rightarrow> s
      | Some root \<Rightarrow>
          if max_artifacts = 0 \<or> \<not> jc_artifact_exists gc then s
          else
            let terminal_by_tx = bm_of_list (map (\<lambda>r. (jr_tx_id r, jr_updated_at r))
                  (filter (\<lambda>r. is_terminal_phase (jr_phase r)) terminal_records)) in
            case gi_devices io of
              None \<Rightarrow> (fst s, record_artifact_failure (path_ref root) (snd s))
            | Some found \<Rightarrow> foldl (prune_device io root terminal_by_tx known max_artifacts) s found)"

record 'b gc_run =
  gr_disk :: "'b gc_disk"
  gr_report :: JournalGcReport
  gr_terminal :: "TxJournalRecord list"
  gr_known :: "string bset"

definition gc_fail :: "string \<Rightarrow> 'b gc_run \<Rightarrow> 'b gc_run" where
  "gc_fail reference s = s\<lparr>gr_report := record_journal_failure reference (gr_report s)\<rparr>"

definition gc_read :: "('b list \<Rightarrow> string + TxJournalRecord) \<Rightarrow> gc_io \<Rightarrow> string \<Rightarrow> 'b gc_run \<Rightarrow> TxJournalRecord option" where
  "gc_read dec io name s =
     (if gi_read_fails io name then None
      else case bm_get (gd_journal (gr_disk s)) name of
        None \<Rightarrow> None
      | Some payload \<Rightarrow> (case dec payload of Inl _ \<Rightarrow> None | Inr r \<Rightarrow> Some r))"

text \<open>A terminal record: its journal file and its artifacts, each when due.\<close>

definition gc_remove_journal :: "gc_io \<Rightarrow> string \<Rightarrow> TxJournalRecord \<Rightarrow> 'b gc_run \<Rightarrow> 'b gc_run" where
  "gc_remove_journal io name r s =
     (if gi_remove_fails io name then gc_fail name s
      else s\<lparr>gr_disk := (gr_disk s)\<lparr>gd_journal := bm_remove name (gd_journal (gr_disk s))\<rparr>,
        gr_report := (gr_report s)\<lparr>jg_journals_deleted := jg_journals_deleted (gr_report s) + 1,
          jg_journal_deleted_tx_ids := jg_journal_deleted_tx_ids (gr_report s) @ [jr_tx_id r]\<rparr>\<rparr>)"

definition gc_retain :: "'b gc_run \<Rightarrow> 'b gc_run" where
  "gc_retain s = s\<lparr>gr_report := (gr_report s)\<lparr>jg_journals_retained := jg_journals_retained (gr_report s) + 1\<rparr>\<rparr>"

definition gc_artifacts ::
  "(artifacts \<times> JournalGcReport \<Rightarrow> artifacts \<times> JournalGcReport) \<Rightarrow> 'b gc_run \<Rightarrow> 'b gc_run" where
  "gc_artifacts f s =
     (case f (gd_artifacts (gr_disk s), gr_report s) of
        (arts, report) \<Rightarrow> s\<lparr>gr_disk := (gr_disk s)\<lparr>gd_artifacts := arts\<rparr>, gr_report := report\<rparr>)"

definition gc_terminal :: "gc_io \<Rightarrow> JournalGc \<Rightarrow> RetentionPolicy \<Rightarrow> string \<Rightarrow> TxJournalRecord \<Rightarrow> 'b gc_run \<Rightarrow> 'b gc_run" where
  "gc_terminal io gc policy name r s =
     (let artifact_due = is_older_than (jr_updated_at r) (jc_now gc) (gp_rollback_artifact_retention_days policy);
          journal_due = is_older_than (jr_updated_at r) (jc_now gc)
            (max (journal_retention_days (jr_phase r) policy) (gp_rollback_artifact_retention_days policy));
          s = s\<lparr>gr_terminal := gr_terminal s @ [r]\<rparr>;
          s = (if journal_due then gc_remove_journal io name r s else gc_retain s) in
      if artifact_due then gc_artifacts (delete_artifacts_for_tx io gc (jr_tx_id r)) s else s)"

definition gc_entry ::
  "('b list \<Rightarrow> string + TxJournalRecord) \<Rightarrow> gc_io \<Rightarrow> JournalGc \<Rightarrow> string \<Rightarrow> RetentionPolicy \<Rightarrow> 'b gc_run \<Rightarrow> string option \<Rightarrow> 'b gc_run" where
  "gc_entry dec io gc root policy s found =
     (case found of
        None \<Rightarrow> gc_fail (path_ref root) s
      | Some name \<Rightarrow>
          if file_extension name \<noteq> Some ''json'' then s
          else
            let s = s\<lparr>gr_known := bs_insert (file_stem name) (gr_known s)\<rparr> in
            case gc_read dec io name s of
              None \<Rightarrow> gc_fail name s
            | Some r \<Rightarrow>
                let s = s\<lparr>gr_known := bs_insert (jr_tx_id r) (gr_known s)\<rparr> in
                if \<not> is_terminal_phase (jr_phase r) then gc_retain s
                else gc_terminal io gc policy name r s)"

definition gc_run_once ::
  "('b list \<Rightarrow> string + TxJournalRecord) \<Rightarrow> gc_io \<Rightarrow> JournalGc \<Rightarrow> RetentionPolicy \<Rightarrow> 'b gc_disk \<Rightarrow>
   JournalGcReport result \<times> 'b gc_disk" where
  "gc_run_once dec io gc policy disk =
     (case jc_journal_root gc of
        None \<Rightarrow> (Inr default_gc_report, disk)
      | Some root \<Rightarrow>
          if \<not> jc_journal_exists gc then (Inr default_gc_report, disk)
          else
            let s = \<lparr>gr_disk = disk, gr_report = default_gc_report, gr_terminal = [], gr_known = bm_empty\<rparr> in
            case gi_journal_listing io of
              None \<Rightarrow> (Inr (gc_sort_details (record_journal_failure (path_ref root) default_gc_report)), disk)
            | Some found \<Rightarrow>
                let s = foldl (gc_entry dec io gc root policy) s found;
                    s = gc_artifacts (prune_artifacts_per_device io gc (gr_terminal s) (gr_known s)
                          (unat (gp_max_artifacts_per_device policy))) s in
                (Inr (gc_sort_details (gr_report s)), gr_disk s))"

text \<open>The event of a run and the worker.\<close>

definition journal_gc_completed :: "string \<Rightarrow> string \<Rightarrow> JournalGcReport \<Rightarrow> UnderlayEvent" where
  "journal_gc_completed request_id trace_id report =
     (let event = (bare_event UnderlayJournalGcCompleted request_id trace_id)\<lparr>ue_result := Some ''completed''\<rparr>;
          event = put_field ''journals_deleted'' (show_nat (jg_journals_deleted report)) event;
          event = put_field ''journals_retained'' (show_nat (jg_journals_retained report)) event;
          event = put_field ''journals_failed'' (show_nat (jg_journals_failed report)) event;
          event = put_field ''artifacts_deleted'' (show_nat (jg_artifacts_deleted report)) event;
          event = put_field ''artifacts_failed'' (show_nat (jg_artifacts_failed report)) event;
          event = put_field ''deleted_total'' (show_nat (gc_deleted_total report)) event;
          event = put_field_if (jg_journal_deleted_tx_ids report \<noteq> []) ''journal_deleted_tx_ids''
            (join_with '','' (jg_journal_deleted_tx_ids report)) event;
          event = put_field_if (jg_artifact_deleted_refs report \<noteq> []) ''artifact_deleted_refs''
            (join_with '','' (jg_artifact_deleted_refs report)) event;
          event = put_field_if (jg_failed_journal_refs report \<noteq> []) ''failed_journal_refs''
            (join_with '','' (jg_failed_journal_refs report)) event in
      put_field_if (jg_failed_artifact_refs report \<noteq> []) ''failed_artifact_refs''
        (join_with '','' (jg_failed_artifact_refs report)) event)"

definition gc_run_once_and_emit ::
  "('b list \<Rightarrow> string + TxJournalRecord) \<Rightarrow> gc_io \<Rightarrow> JournalGc \<Rightarrow> RetentionPolicy \<Rightarrow> string \<Rightarrow> string \<Rightarrow>
   'b gc_disk \<times> UnderlayEvent list \<Rightarrow> JournalGcReport result \<times> 'b gc_disk \<times> UnderlayEvent list" where
  "gc_run_once_and_emit dec io gc policy request_id trace_id s =
     (case gc_run_once dec io gc policy (fst s) of
        (Inl e, disk) \<Rightarrow> (Inl e, disk, snd s)
      | (Inr report, disk) \<Rightarrow> (Inr report, disk, snd s @ [journal_gc_completed request_id trace_id report]))"

definition default_gc_schedule :: WorkerSchedule where
  "default_gc_schedule = \<lparr>sc_interval_secs = 60 * 60, sc_run_immediately = True\<rparr>"

text \<open>The worker on its schedule; before each tick the rest of the system may change the disk and the answers
  of the operating system.\<close>

definition run_gc_worker ::
  "('b list \<Rightarrow> string + TxJournalRecord) \<Rightarrow> RetentionPolicy \<Rightarrow> string \<Rightarrow> string \<Rightarrow> WorkerSchedule \<Rightarrow>
   ((gc_io \<times> JournalGc \<times> 'b gc_disk \<times> UnderlayEvent list) \<Rightarrow> (gc_io \<times> JournalGc \<times> 'b gc_disk \<times> UnderlayEvent list)) list \<Rightarrow>
   (gc_io \<times> JournalGc \<times> 'b gc_disk \<times> UnderlayEvent list) \<Rightarrow>
   JournalGcReport SchedulerReport result \<times> (gc_io \<times> JournalGc \<times> 'b gc_disk \<times> UnderlayEvent list)" where
  "run_gc_worker dec policy request_id trace_id =
     run_periodic ''journal GC'' (\<lambda>(io, gc, s). case gc_run_once_and_emit dec io gc policy request_id trace_id s of
       (r, s) \<Rightarrow> (r, io, gc, s))"

section \<open>Idempotency records\<close>

record ApplyIdempotencyRetentionPolicy =
  ip_retention_days :: u32

definition default_idempotency_policy :: ApplyIdempotencyRetentionPolicy where
  "default_idempotency_policy = \<lparr>ip_retention_days = 30\<rparr>"

definition validate_idempotency_policy :: "ApplyIdempotencyRetentionPolicy \<Rightarrow> unit result" where
  "validate_idempotency_policy policy =
     ensure (ip_retention_days policy \<noteq> 0)
       (InvalidIntent ''apply idempotency GC retention_days must be greater than zero'')"

record ApplyIdempotencyGcReport =
  ig_records_deleted :: nat
  ig_records_retained :: nat
  ig_records_failed :: nat
  ig_deleted_refs :: "string list"
  ig_failed_refs :: "string list"

definition default_idempotency_report :: ApplyIdempotencyGcReport where
  "default_idempotency_report =
     \<lparr>ig_records_deleted = 0, ig_records_retained = 0, ig_records_failed = 0, ig_deleted_refs = [], ig_failed_refs = []\<rparr>"

definition idempotency_sort_details :: "ApplyIdempotencyGcReport \<Rightarrow> ApplyIdempotencyGcReport" where
  "idempotency_sort_details report =
     report\<lparr>ig_deleted_refs := sort (ig_deleted_refs report), ig_failed_refs := sort (ig_failed_refs report)\<rparr>"

definition record_idempotency_failure :: "string \<Rightarrow> ApplyIdempotencyGcReport \<Rightarrow> ApplyIdempotencyGcReport" where
  "record_idempotency_failure reference report =
     (if reference \<in> set (ig_failed_refs report) then report
      else report\<lparr>ig_records_failed := ig_records_failed report + 1, ig_failed_refs := ig_failed_refs report @ [reference]\<rparr>)"

text \<open>\<open>dec\<close> reads the time of a record from its file; the default of a record without one is the current time.\<close>

definition idempotency_gc_entry ::
  "('b list \<Rightarrow> string + u64) \<Rightarrow> gc_io \<Rightarrow> string \<Rightarrow> u64 \<Rightarrow> u32 \<Rightarrow> 'b dir \<times> ApplyIdempotencyGcReport \<Rightarrow> string option \<Rightarrow>
   'b dir \<times> ApplyIdempotencyGcReport" where
  "idempotency_gc_entry dec io root now retention_days s found =
     (case s of (files, report) \<Rightarrow>
      case found of
        None \<Rightarrow> (files, record_idempotency_failure (path_ref root) report)
      | Some name \<Rightarrow>
          if file_extension name \<noteq> Some ''json'' then s
          else case (if gi_read_fails io name then None else Option.bind (bm_get files name) (\<lambda>payload.
              case dec payload of Inl _ \<Rightarrow> None | Inr t \<Rightarrow> Some t)) of
            None \<Rightarrow> (files, record_idempotency_failure name report)
          | Some stored_at \<Rightarrow>
              if is_older_than stored_at now retention_days then
                if gi_remove_fails io name then (files, record_idempotency_failure name report)
                else (bm_remove name files, report\<lparr>ig_records_deleted := ig_records_deleted report + 1,
                  ig_deleted_refs := ig_deleted_refs report @ [name]\<rparr>)
              else (files, report\<lparr>ig_records_retained := ig_records_retained report + 1\<rparr>))"

record ApplyIdempotencyGc =
  ic_root :: "string option"
  ic_exists :: bool
  ic_now :: u64

definition idempotency_gc_run_once ::
  "('b list \<Rightarrow> string + u64) \<Rightarrow> gc_io \<Rightarrow> ApplyIdempotencyGc \<Rightarrow> ApplyIdempotencyRetentionPolicy \<Rightarrow> 'b dir \<Rightarrow>
   ApplyIdempotencyGcReport result \<times> 'b dir" where
  "idempotency_gc_run_once dec io gc policy files =
     (case validate_idempotency_policy policy of
        Inl e \<Rightarrow> (Inl e, files)
      | Inr _ \<Rightarrow>
         (case ic_root gc of
            None \<Rightarrow> (Inr default_idempotency_report, files)
          | Some root \<Rightarrow>
              if \<not> ic_exists gc then (Inr default_idempotency_report, files)
              else case gi_journal_listing io of
                None \<Rightarrow> (Inr (idempotency_sort_details (record_idempotency_failure (path_ref root) default_idempotency_report)), files)
              | Some found \<Rightarrow>
                 (case foldl (idempotency_gc_entry dec io root (ic_now gc) (ip_retention_days policy))
                     (files, default_idempotency_report) found of
                    (files, report) \<Rightarrow> (Inr (idempotency_sort_details report), files))))"

definition apply_idempotency_gc_completed :: "string \<Rightarrow> string \<Rightarrow> ApplyIdempotencyGcReport \<Rightarrow> UnderlayEvent" where
  "apply_idempotency_gc_completed request_id trace_id report =
     (let event = (bare_event UnderlayApplyIdempotencyGcCompleted request_id trace_id)\<lparr>ue_result := Some ''completed''\<rparr>;
          event = put_field ''records_deleted'' (show_nat (ig_records_deleted report)) event;
          event = put_field ''records_retained'' (show_nat (ig_records_retained report)) event;
          event = put_field ''records_failed'' (show_nat (ig_records_failed report)) event;
          event = put_field ''deleted_total'' (show_nat (ig_records_deleted report)) event;
          event = put_field_if (ig_deleted_refs report \<noteq> []) ''deleted_refs'' (join_with '','' (ig_deleted_refs report)) event in
      put_field_if (ig_failed_refs report \<noteq> []) ''failed_refs'' (join_with '','' (ig_failed_refs report)) event)"

section \<open>What a run removes\<close>

text \<open>Artifacts only go, and only those of the transactions that \<open>may_go\<close>.\<close>

definition shrinks :: "(string \<Rightarrow> bool) \<Rightarrow> artifacts \<Rightarrow> artifacts \<Rightarrow> bool" where
  "shrinks may_go arts arts' \<longleftrightarrow> (\<forall>d t. (artifact_exists d t arts' \<longrightarrow> artifact_exists d t arts) \<and>
     (artifact_exists d t arts \<longrightarrow> \<not> artifact_exists d t arts' \<longrightarrow> may_go t))"

lemma shrinks_refl [simp]: "shrinks may_go arts arts"
  by (simp add: shrinks_def)

lemma shrinks_trans: "shrinks may_go a b \<Longrightarrow> shrinks may_go b c \<Longrightarrow> shrinks may_go a c"
  unfolding shrinks_def by blast

lemma shrinks_mono: "shrinks p a b \<Longrightarrow> (\<And>t. p t \<Longrightarrow> q t) \<Longrightarrow> shrinks q a b"
  unfolding shrinks_def by blast

lemma artifact_exists_drop:
  "artifact_exists d t (drop_artifact d' t' arts) \<longleftrightarrow> artifact_exists d t arts \<and> \<not> (d = d' \<and> t = t')"
  by (cases "bm_get arts d'")
    (auto simp: artifact_exists_def drop_artifact_def bm_get_insert bm_contains_def bm_get_remove split: option.splits)

lemma foldl_shrinks:
  assumes "\<And>s x. x \<in> set xs \<Longrightarrow> shrinks may_go (arts_of s) (arts_of (f s x))"
  shows "shrinks may_go (arts_of s) (arts_of (foldl f s xs))"
  using assms
proof (induction xs arbitrary: s)
  case (Cons x xs)
  then show ?case using shrinks_trans[of may_go "arts_of s" "arts_of (f s x)"] by simp
qed simp

lemma remove_artifact_shrinks:
  "may_go t \<Longrightarrow> shrinks may_go (fst s) (fst (remove_artifact io d t s))"
  by (cases s) (auto simp: remove_artifact_def Let_def shrinks_def artifact_exists_drop)

lemma delete_artifacts_shrinks:
  assumes "may_go t"
  shows "shrinks may_go (fst s) (fst (delete_artifacts_for_tx io gc t s))"
proof -
  have step: "shrinks may_go (fst s) (fst (delete_artifact_of io root t s found))" for s root found
    using remove_artifact_shrinks[of may_go t] assms by (auto simp: delete_artifact_of_def split: option.splits)
  have "shrinks may_go (fst s) (fst (foldl (delete_artifact_of io root t) s found))" for root found
    by (rule foldl_shrinks[of _ may_go fst]) (rule step)
  then show ?thesis by (auto simp: delete_artifacts_for_tx_def split: option.splits)
qed

lemma visit_artifact_shrinks:
  assumes "\<And>t. \<not> bs_member known t \<Longrightarrow> may_go t"
  shows "shrinks may_go (fst (snd s)) (fst (snd (visit_artifact io terminal_by_tx known d s found)))"
proof -
  obtain terminal arts report where s: "s = (terminal, arts, report)" by (rule prod_cases3)
  show ?thesis
    using remove_artifact_shrinks[of may_go _ "(arts, report)"] assms
    by (auto simp: s visit_artifact_def split: option.splits)
qed

lemma visit_artifact_terminal:
  "snd ` set (fst (visit_artifact io terminal_by_tx known d s found)) \<subseteq>
   snd ` set (fst s) \<union> {t. bm_get terminal_by_tx t \<noteq> None}"
  by (cases s) (auto simp: visit_artifact_def split: option.splits)

lemma visits_terminal:
  "snd ` set (fst (foldl (visit_artifact io terminal_by_tx known d) s found)) \<subseteq>
   snd ` set (fst s) \<union> {t. bm_get terminal_by_tx t \<noteq> None}"
proof (induction found arbitrary: s)
  case (Cons x found)
  from Cons.IH[of "visit_artifact io terminal_by_tx known d s x"] visit_artifact_terminal[of io terminal_by_tx known d s x]
  show ?case by auto
qed simp

lemma keep_newest_shrinks:
  assumes "may_go (snd item)"
  shows "shrinks may_go (fst (snd s)) (fst (snd (keep_newest io d n s item)))"
proof -
  obtain kept arts report where s: "s = (kept, arts, report)" by (rule prod_cases3)
  show ?thesis
    using remove_artifact_shrinks[of may_go "snd item" "(arts, report)" io d] assms
    by (auto simp: s keep_newest_def split: prod.splits)
qed

lemma prune_device_shrinks:
  assumes known: "\<And>t. \<not> bs_member known t \<Longrightarrow> may_go t" and terminal: "\<And>t. bm_get terminal_by_tx t \<noteq> None \<Longrightarrow> may_go t"
  shows "shrinks may_go (fst s) (fst (prune_device io root terminal_by_tx known n s found))"
proof -
  have run: "shrinks may_go (fst s) (fst (snd (foldl (keep_newest io d n) (bm_empty, s') (rev (sort collected)))))"
    if visits: "foldl (visit_artifact io terminal_by_tx known d) ([], s) txs = (collected, s')" for d txs collected s'
  proof -
    have visit: "shrinks may_go (fst (snd u)) (fst (snd (visit_artifact io terminal_by_tx known d u x)))" for u x
      by (rule visit_artifact_shrinks) (rule known)
    from foldl_shrinks[of txs may_go "\<lambda>u. fst (snd u)" "visit_artifact io terminal_by_tx known d" "([], s)", OF visit]
    have first: "shrinks may_go (fst s) (fst s')" by (simp add: visits)
    have gone: "may_go (snd item)" if "item \<in> set (rev (sort collected))" for item
      using visits_terminal[of io terminal_by_tx known d "([], s)" txs] that terminal by (auto simp: visits)
    have keep: "shrinks may_go (fst (snd u)) (fst (snd (keep_newest io d n u x)))" if "x \<in> set (rev (sort collected))" for u x
      using keep_newest_shrinks[of may_go x u io d n] gone[OF that] .
    from foldl_shrinks[of "rev (sort collected)" may_go "\<lambda>u. fst (snd u)" "keep_newest io d n" "(bm_empty, s')",
        OF keep]
    show ?thesis using shrinks_trans[OF first] by simp
  qed
  then show ?thesis by (auto simp: prune_device_def split: option.splits prod.splits)
qed

lemma prune_artifacts_shrinks:
  assumes known: "\<And>t. \<not> bs_member known t \<Longrightarrow> may_go t"
    and terminal: "\<And>r. r \<in> set records \<Longrightarrow> is_terminal_phase (jr_phase r) \<Longrightarrow> may_go (jr_tx_id r)"
  shows "shrinks may_go (fst s) (fst (prune_artifacts_per_device io gc records known n s))"
proof -
  let ?terminal = "bm_of_list (map (\<lambda>r. (jr_tx_id r, jr_updated_at r)) (filter (\<lambda>r. is_terminal_phase (jr_phase r)) records))"
  have "may_go t" if "bm_get ?terminal t \<noteq> None" for t
    using that terminal by (fastforce simp: bm_get_of_list dest: map_of_SomeD)
  then have "shrinks may_go (fst u) (fst (prune_device io root ?terminal known n u x))" for root u x
    by (intro prune_device_shrinks) (simp_all add: known)
  then have "shrinks may_go (fst s) (fst (foldl (prune_device io root ?terminal known n) s found))" for root found
    by (intro foldl_shrinks[of _ may_go fst])
  then show ?thesis by (auto simp: prune_artifacts_per_device_def Let_def split: option.splits)
qed

text \<open>A transaction is settled when the journal has a terminal record of it, and a journal file is due when it
  holds one that is older than its retention.\<close>

definition settled :: "('b list \<Rightarrow> string + TxJournalRecord) \<Rightarrow> 'b dir \<Rightarrow> string \<Rightarrow> bool" where
  "settled dec files tx_id \<longleftrightarrow> (\<exists>path payload r. bm_get files path = Some payload \<and> file_extension path = Some ''json'' \<and>
     dec payload = Inr r \<and> jr_tx_id r = tx_id \<and> is_terminal_phase (jr_phase r))"

definition journal_due ::
  "('b list \<Rightarrow> string + TxJournalRecord) \<Rightarrow> JournalGc \<Rightarrow> RetentionPolicy \<Rightarrow> 'b dir \<Rightarrow> string \<Rightarrow> bool" where
  "journal_due dec gc policy files path \<longleftrightarrow> (\<exists>payload r. bm_get files path = Some payload \<and>
     file_extension path = Some ''json'' \<and> dec payload = Inr r \<and> is_terminal_phase (jr_phase r) \<and>
     is_older_than (jr_updated_at r) (jc_now gc) (journal_retention_days (jr_phase r) policy) \<and>
     is_older_than (jr_updated_at r) (jc_now gc) (gp_rollback_artifact_retention_days policy))"

lemma is_older_than_antimono:
  "is_older_than u now b \<Longrightarrow> a \<le> b \<Longrightarrow> is_older_than u now a"
proof -
  assume old: "is_older_than u now b" and le: "a \<le> b"
  have "b \<noteq> - 1" using old by (auto simp: is_older_than_def)
  moreover have "a \<noteq> - 1" using le \<open>b \<noteq> - 1\<close> by (metis word_order.extremum_unique)
  moreover have "unat a \<le> unat b" using le by (simp add: word_le_nat_alt)
  ultimately show ?thesis using old by (auto simp: is_older_than_def min_def split: if_splits)
qed

text \<open>What holds after each entry of the listing.\<close>

definition gc_inv ::
  "('b list \<Rightarrow> string + TxJournalRecord) \<Rightarrow> JournalGc \<Rightarrow> RetentionPolicy \<Rightarrow> 'b gc_disk \<Rightarrow> 'b gc_run \<Rightarrow> bool" where
  "gc_inv dec gc policy disk s \<longleftrightarrow>
     (\<forall>path. bm_get (gd_journal (gr_disk s)) path = bm_get (gd_journal disk) path \<or>
        bm_get (gd_journal (gr_disk s)) path = None \<and> journal_due dec gc policy (gd_journal disk) path) \<and>
     shrinks (settled dec (gd_journal disk)) (gd_artifacts disk) (gd_artifacts (gr_disk s)) \<and>
     (\<forall>r \<in> set (gr_terminal s). settled dec (gd_journal disk) (jr_tx_id r))"

lemma gc_inv_cong:
  "gc_inv dec gc policy disk s \<Longrightarrow> gr_disk s' = gr_disk s \<Longrightarrow> gr_terminal s' = gr_terminal s \<Longrightarrow>
   gc_inv dec gc policy disk s'"
  by (simp add: gc_inv_def)

lemma gc_read_Some:
  assumes "gc_read dec io name s = Some r" "gc_inv dec gc policy disk s"
  obtains payload where "bm_get (gd_journal disk) name = Some payload" "dec payload = Inr r"
proof -
  from assms(1) obtain payload where "bm_get (gd_journal (gr_disk s)) name = Some payload" "dec payload = Inr r"
    by (auto simp: gc_read_def split: if_splits option.splits sum.splits)
  then show thesis using assms(2) that by (metis gc_inv_def option.distinct(1))
qed

lemma gc_artifacts_inv:
  assumes "gc_inv dec gc policy disk s"
    and "\<And>a. shrinks (settled dec (gd_journal disk)) (fst a) (fst (f a))"
  shows "gc_inv dec gc policy disk (gc_artifacts f s)"
  using assms(1) assms(2)[of "(gd_artifacts (gr_disk s), gr_report s)"] shrinks_trans
  by (fastforce simp: gc_inv_def gc_artifacts_def split: prod.splits)

lemma gc_terminal_inv:
  assumes "gc_inv dec gc policy disk s" "bm_get (gd_journal disk) name = Some payload" "dec payload = Inr r"
    and "file_extension name = Some ''json''" "is_terminal_phase (jr_phase r)"
  shows "gc_inv dec gc policy disk (gc_terminal io gc policy name r s)"
proof -
  let ?due = "is_older_than (jr_updated_at r) (jc_now gc)
    (max (journal_retention_days (jr_phase r) policy) (gp_rollback_artifact_retention_days policy))"
  have settled: "settled dec (gd_journal disk) (jr_tx_id r)" using assms(2-5) by (auto simp: settled_def)
  define s1 where "s1 = s\<lparr>gr_terminal := gr_terminal s @ [r]\<rparr>"
  define s2 where "s2 = (if ?due then gc_remove_journal io name r s1 else gc_retain s1)"
  have inv1: "gc_inv dec gc policy disk s1" using assms(1) settled by (auto simp: gc_inv_def s1_def)
  have "journal_due dec gc policy (gd_journal disk) name" if ?due
    using assms(2-5) is_older_than_antimono[OF that] by (auto simp: journal_due_def)
  then have inv2: "gc_inv dec gc policy disk s2"
    using inv1 by (auto simp: s2_def gc_remove_journal_def gc_fail_def gc_retain_def gc_inv_def bm_get_remove)
  have "shrinks (settled dec (gd_journal disk)) (fst a) (fst (delete_artifacts_for_tx io gc (jr_tx_id r) a))" for a
    by (rule delete_artifacts_shrinks[of "settled dec (gd_journal disk)"]) (rule settled)
  then have "gc_inv dec gc policy disk (gc_artifacts (delete_artifacts_for_tx io gc (jr_tx_id r)) s2)"
    by (rule gc_artifacts_inv[OF inv2])
  then show ?thesis using inv2 by (simp add: gc_terminal_def Let_def flip: s1_def s2_def)
qed

lemma gc_entry_inv:
  assumes "gc_inv dec gc policy disk s"
  shows "gc_inv dec gc policy disk (gc_entry dec io gc root policy s found)"
proof (cases found)
  case None
  then show ?thesis using gc_inv_cong[OF assms] by (simp add: gc_entry_def gc_fail_def)
next
  case (Some name)
  define s1 where "s1 = s\<lparr>gr_known := bs_insert (file_stem name) (gr_known s)\<rparr>"
  have inv1: "gc_inv dec gc policy disk s1" by (rule gc_inv_cong[OF assms]) (simp_all add: s1_def)
  show ?thesis
  proof (cases "file_extension name = Some ''json''")
    case json: True
    show ?thesis
    proof (cases "gc_read dec io name s1")
      case None
      then show ?thesis
        using gc_inv_cong[OF inv1, of "gc_fail name s1"] json Some
        by (simp add: gc_entry_def gc_fail_def Let_def flip: s1_def)
    next
      case (Some r)
      define s2 where "s2 = s1\<lparr>gr_known := bs_insert (jr_tx_id r) (gr_known s1)\<rparr>"
      have inv2: "gc_inv dec gc policy disk s2" by (rule gc_inv_cong[OF inv1]) (simp_all add: s2_def)
      obtain payload where "bm_get (gd_journal disk) name = Some payload" "dec payload = Inr r"
        by (rule gc_read_Some[OF Some inv1])
      then have "gc_inv dec gc policy disk (gc_terminal io gc policy name r s2)" if "is_terminal_phase (jr_phase r)"
        using gc_terminal_inv[OF inv2 _ _ json that] by blast
      moreover have "gc_inv dec gc policy disk (gc_retain s2)"
        by (rule gc_inv_cong[OF inv2]) (simp_all add: gc_retain_def)
      ultimately show ?thesis
        using Some json \<open>found = Some name\<close> by (simp add: gc_entry_def Let_def flip: s1_def s2_def)
    qed
  qed (use assms Some in \<open>simp add: gc_entry_def\<close>)
qed

lemma gc_entries_inv:
  "gc_inv dec gc policy disk s \<Longrightarrow> gc_inv dec gc policy disk (foldl (gc_entry dec io gc root policy) s found)"
  by (induction found arbitrary: s) (simp_all add: gc_entry_inv)

text \<open>Every listed journal is known to the run, readable or not.\<close>

lemma gc_known_grows: "bs_member (gr_known s) t \<Longrightarrow> bs_member (gr_known (gc_entry dec io gc root policy s found)) t"
  by (auto simp: gc_entry_def gc_fail_def gc_retain_def gc_terminal_def gc_remove_journal_def gc_artifacts_def Let_def
      split: option.splits prod.splits)

lemma gc_known_stem:
  "file_extension name = Some ''json'' \<Longrightarrow> bs_member (gr_known (gc_entry dec io gc root policy s (Some name))) (file_stem name)"
  by (auto simp: gc_entry_def gc_fail_def gc_retain_def gc_terminal_def gc_remove_journal_def gc_artifacts_def Let_def
      split: option.splits prod.splits)

lemma gc_known_listed:
  assumes "Some name \<in> set found" "file_extension name = Some ''json''"
  shows "bs_member (gr_known (foldl (gc_entry dec io gc root policy) s found)) (file_stem name)"
  using assms(1)
proof (induction found rule: rev_induct)
  case (snoc x found)
  then show ?case using gc_known_grows gc_known_stem[OF assms(2)] by fastforce
qed simp

lemma file_stem_json: "t \<noteq> [] \<Longrightarrow> file_stem (t @ ''.json'') = t"
  by (simp add: file_stem_def file_extension_json)

definition gc_start :: "'b gc_disk \<Rightarrow> 'b gc_run" where
  "gc_start disk = \<lparr>gr_disk = disk, gr_report = default_gc_report, gr_terminal = [], gr_known = bm_empty\<rparr>"

lemma gc_start_inv: "gc_inv dec gc policy disk (gc_start disk)"
  by (simp add: gc_start_def gc_inv_def)

text \<open>A transaction whose journal file the listing does not show.\<close>

definition unlisted :: "gc_io \<Rightarrow> string \<Rightarrow> bool" where
  "unlisted io tx_id \<longleftrightarrow> (\<exists>found. gi_journal_listing io = Some found \<and> (tx_id = [] \<or> Some (tx_id @ ''.json'') \<notin> set found))"

lemma gc_run_once_cases:
  assumes "gc_run_once dec io gc policy disk = (res, disk')"
  obtains (nothing) report where "res = Inr report" "disk' = disk"
  | (collected) report root found s where "res = Inr report" "jc_journal_root gc = Some root" "jc_journal_exists gc"
      "gi_journal_listing io = Some found" "s = foldl (gc_entry dec io gc root policy) (gc_start disk) found"
      "disk' = gr_disk (gc_artifacts (prune_artifacts_per_device io gc (gr_terminal s) (gr_known s)
         (unat (gp_max_artifacts_per_device policy))) s)"
  using assms unfolding gc_run_once_def Let_def gc_start_def
  by (auto split: option.splits if_splits)

text \<open>The journal part of a run and the artifact part, whatever the listings show.\<close>

lemma gc_run_removes:
  assumes "gc_run_once dec io gc policy disk = (res, disk')"
  shows "bm_get (gd_journal disk') path = bm_get (gd_journal disk) path \<or>
      bm_get (gd_journal disk') path = None \<and> journal_due dec gc policy (gd_journal disk) path"
    and "shrinks (\<lambda>t. settled dec (gd_journal disk) t \<or>
      unlisted io t) (gd_artifacts disk) (gd_artifacts disk')"
proof -
  let ?may_go = "\<lambda>t. settled dec (gd_journal disk) t \<or>
    unlisted io t"
  show "bm_get (gd_journal disk') path = bm_get (gd_journal disk) path \<or>
      bm_get (gd_journal disk') path = None \<and> journal_due dec gc policy (gd_journal disk) path"
    using assms
  proof (cases rule: gc_run_once_cases)
    case (collected report root found s)
    have "gc_inv dec gc policy disk s" unfolding collected(5) by (rule gc_entries_inv[OF gc_start_inv])
    then show ?thesis by (simp add: collected(6) gc_inv_def gc_artifacts_def split: prod.splits)
  qed simp
  show "shrinks ?may_go (gd_artifacts disk) (gd_artifacts disk')"
    using assms
  proof (cases rule: gc_run_once_cases)
    case (collected report root found s)
    let ?prune = "prune_artifacts_per_device io gc (gr_terminal s) (gr_known s) (unat (gp_max_artifacts_per_device policy))"
    have inv: "gc_inv dec gc policy disk s" unfolding collected(5) by (rule gc_entries_inv[OF gc_start_inv])
    then have first: "shrinks ?may_go (gd_artifacts disk) (gd_artifacts (gr_disk s))"
      unfolding gc_inv_def using shrinks_mono[where q = ?may_go] by blast
    have known: "?may_go t" if "\<not> bs_member (gr_known s) t" for t
    proof -
      have "Some (t @ ''.json'') \<notin> set found" if "t \<noteq> []"
        using gc_known_listed[of "t @ ''.json''" found dec io gc root policy "gc_start disk"] \<open>\<not> bs_member (gr_known s) t\<close> that
        by (auto simp: collected(5) file_stem_json file_extension_json)
      then show ?thesis using collected(4) by (auto simp: unlisted_def)
    qed
    have pruned: "shrinks ?may_go (fst a) (fst (?prune a))" for a
      by (rule prune_artifacts_shrinks) (use inv known in \<open>auto simp: gc_inv_def\<close>)
    obtain arts report' where run: "?prune (gd_artifacts (gr_disk s), gr_report s) = (arts, report')" by (rule prod.exhaust)
    have "shrinks ?may_go (gd_artifacts (gr_disk s)) arts"
      using pruned[of "(gd_artifacts (gr_disk s), gr_report s)"] by (simp add: run)
    then show ?thesis using shrinks_trans[OF first] by (simp add: collected(6) gc_artifacts_def run)
  qed simp
qed


text \<open>C34: Garbage collection removes only what is settled.  Whatever calls fail, a journal file that is gone
  held a terminal record older than its retention, artifacts are only removed, and when the listing shows every
  journal file, an artifact that is gone belonged to a transaction that is settled or has no journal file.  So
  an unresolved transaction, and one whose journal cannot be parsed, keeps its journal file and all its
  artifacts.\<close>

theorem gc_collects_only_settled:
  assumes run: "gc_run_once dec io gc policy disk = (res, disk')"
    and journal: "journal_dir_inv dec (gd_journal disk)"
    and listing: "\<forall>found path. gi_journal_listing io = Some found \<longrightarrow> bm_get (gd_journal disk) path \<noteq> None \<longrightarrow>
      Some path \<in> set found"
  shows "(\<forall>path. bm_get (gd_journal disk') path \<noteq> bm_get (gd_journal disk) path \<longrightarrow>
        bm_get (gd_journal disk') path = None \<and> journal_due dec gc policy (gd_journal disk) path) \<and>
     (\<forall>d t. artifact_exists d t (gd_artifacts disk') \<longrightarrow> artifact_exists d t (gd_artifacts disk)) \<and>
     (\<forall>tx_id path payload. journal_path_for tx_id = Inr path \<longrightarrow> bm_get (gd_journal disk) path = Some payload \<longrightarrow>
        (\<forall>r. dec payload = Inr r \<longrightarrow> requires_recovery (jr_phase r)) \<longrightarrow>
        bm_get (gd_journal disk') path = Some payload \<and>
        (\<forall>d. artifact_exists d tx_id (gd_artifacts disk') = artifact_exists d tx_id (gd_artifacts disk)))"
proof -
  note files = gc_run_removes(1)[OF run] and arts = gc_run_removes(2)[OF run, unfolded shrinks_def]
  have phases: "requires_recovery p \<Longrightarrow> \<not> is_terminal_phase p" for p
    by (auto simp: requires_recovery_def is_terminal_phase_def)
  have "bm_get (gd_journal disk') path = Some payload \<and>
      (\<forall>d. artifact_exists d tx_id (gd_artifacts disk') = artifact_exists d tx_id (gd_artifacts disk))"
    if path: "journal_path_for tx_id = Inr path" "bm_get (gd_journal disk) path = Some payload"
      and unresolved: "\<forall>r. dec payload = Inr r \<longrightarrow> requires_recovery (jr_phase r)" for tx_id path payload
  proof -
    have "\<not> journal_due dec gc policy (gd_journal disk) path"
      using path(2) unresolved phases by (auto simp: journal_due_def)
    moreover have "\<not> settled dec (gd_journal disk) tx_id"
      using journal path unresolved phases by (fastforce simp: settled_def journal_dir_inv_def)
    moreover have "\<not> unlisted io tx_id"
      using listing path by (auto simp: unlisted_def journal_path_for_Inr is_canonical_identifier_def)
    ultimately show ?thesis using files[of path] path(2) arts by auto
  qed
  then show ?thesis using files arts by blast
qed

text \<open>What the run knows: the stems of the listed files and the transactions of their records.\<close>

lemma gc_known_only:
  assumes "gc_inv dec gc policy disk s" "journal_dir_inv dec (gd_journal disk)"
    and "bs_member (gr_known (gc_entry dec io gc root policy s found)) t"
  shows "bs_member (gr_known s) t \<or> (\<exists>name. found = Some name \<and> file_extension name = Some ''json'' \<and>
    (t = file_stem name \<or> name = t @ ''.json''))"
proof (rule ccontr)
  assume new: "\<not> ?thesis"
  then obtain name r where found: "found = Some name" "file_extension name = Some ''json''" "t = jr_tx_id r"
      "gc_read dec io name (s\<lparr>gr_known := bs_insert (file_stem name) (gr_known s)\<rparr>) = Some r"
    using assms(3)
    by (auto simp: gc_entry_def gc_fail_def gc_retain_def gc_terminal_def gc_remove_journal_def gc_artifacts_def Let_def
        split: option.splits prod.splits if_splits)
  have "gc_inv dec gc policy disk (s\<lparr>gr_known := bs_insert (file_stem name) (gr_known s)\<rparr>)"
    by (rule gc_inv_cong[OF assms(1)]) simp_all
  from gc_read_Some[OF found(4) this] obtain payload where
    "bm_get (gd_journal disk) name = Some payload" "dec payload = Inr r" by blast
  then have "name = t @ ''.json''"
    using assms(2) found(2,3) by (auto simp: journal_dir_inv_def journal_path_for_Inr)
  then show False using new found by blast
qed

lemma json_name_stem: "file_extension name = Some ''json'' \<Longrightarrow> name = file_stem name @ ''.json''"
proof -
  assume json: "file_extension name = Some ''json''"
  define dotless where "dotless = (\<lambda>c. c \<noteq> CHR ''.'')"
  define ext where "ext = takeWhile dotless (rev name)"
  have ext: "rev ext = ''json''" "length ext < length name - 1"
    using json by (auto simp: file_extension_def ext_def dotless_def Let_def split: if_splits)
  have "dropWhile dotless (rev name) \<noteq> []"
  proof
    assume "dropWhile dotless (rev name) = []"
    then have "ext = rev name" unfolding ext_def by (simp add: takeWhile_eq_all_conv dropWhile_eq_Nil_conv)
    then show False using ext(2) by simp
  qed
  then obtain c rest where rest: "dropWhile dotless (rev name) = c # rest" by (cases "dropWhile dotless (rev name)") auto
  then have dot: "c = CHR ''.''" using hd_dropWhile[of dotless "rev name"] by (simp add: dotless_def)
  have "rev name = ext @ c # rest" unfolding ext_def rest[symmetric] by (rule takeWhile_dropWhile_id[symmetric])
  then have "rev (rev name) = rev (ext @ c # rest)" by (rule arg_cong)
  then have name: "name = rev rest @ ''.json''" using ext(1) dot by simp
  show ?thesis using json by (subst (2) name, subst name) (simp add: file_stem_def, simp add: name)
qed

lemma gc_terminal_known:
  assumes "\<forall>r \<in> set (gr_terminal s). bs_member (gr_known s) (jr_tx_id r)"
  shows "\<forall>r \<in> set (gr_terminal (gc_entry dec io gc root policy s found)).
    bs_member (gr_known (gc_entry dec io gc root policy s found)) (jr_tx_id r)"
  using assms
  by (auto simp: gc_entry_def gc_fail_def gc_retain_def gc_terminal_def gc_remove_journal_def gc_artifacts_def Let_def
      split: option.splits prod.splits if_splits)

lemma gc_entries_terminal_known:
  "\<forall>r \<in> set (gr_terminal (foldl (gc_entry dec io gc root policy) (gc_start disk) found)).
    bs_member (gr_known (foldl (gc_entry dec io gc root policy) (gc_start disk) found)) (jr_tx_id r)"
proof (induction found rule: rev_induct)
  case Nil
  then show ?case by (simp add: gc_start_def)
next
  case (snoc x found)
  from gc_terminal_known[OF snoc.IH] show ?case by simp
qed

lemma gc_unlisted_unknown:
  assumes "journal_dir_inv dec (gd_journal disk)" "Some (t @ ''.json'') \<notin> set found"
  shows "\<not> bs_member (gr_known (foldl (gc_entry dec io gc root policy) (gc_start disk) found)) t"
  using assms(2)
proof (induction found rule: rev_induct)
  case Nil
  then show ?case by (simp add: gc_start_def)
next
  case (snoc x found)
  then show ?case
    using gc_known_only[OF gc_entries_inv[OF gc_start_inv] assms(1)] json_name_stem by fastforce
qed

text \<open>An orphan is removed when its device and itself are listed.\<close>

lemma visit_orphan:
  assumes "Some t \<in> set txs" "bm_get terminal_by_tx t = None" "\<not> bs_member known t" "\<not> gi_remove_artifact_fails io d t"
  shows "\<not> artifact_exists d t (fst (snd (foldl (visit_artifact io terminal_by_tx known d) s txs)))"
  using assms(1)
proof (induction txs arbitrary: s)
  case (Cons x txs)
  have stays: "\<not> artifact_exists d t (fst (snd (foldl (visit_artifact io terminal_by_tx known d) u txs)))"
    if "\<not> artifact_exists d t (fst (snd u))" for u
    using foldl_shrinks[of txs "\<lambda>_. True" "\<lambda>u. fst (snd u)" "visit_artifact io terminal_by_tx known d" u,
        OF visit_artifact_shrinks] that by (auto simp: shrinks_def)
  obtain terminal arts report where s: "s = (terminal, arts, report)" by (rule prod_cases3)
  have "\<not> artifact_exists d t (fst (snd (visit_artifact io terminal_by_tx known d s (Some t))))"
    using assms(2-4) by (auto simp: s visit_artifact_def remove_artifact_def Let_def artifact_exists_drop)
  then show ?case using Cons stays by (cases "x = Some t") auto
qed simp

lemma prune_device_shrinks_all: "shrinks (\<lambda>_. True) (fst s) (fst (prune_device io root terminal_by_tx known n s found))"
  by (rule prune_device_shrinks) simp_all

lemma prune_device_orphan:
  assumes "gi_artifacts_of io d = Some txs" "Some t \<in> set txs" "bm_get terminal_by_tx t = None" "\<not> bs_member known t"
    and "\<not> gi_remove_artifact_fails io d t"
  shows "\<not> artifact_exists d t (fst (prune_device io root terminal_by_tx known n s (Some d)))"
proof (cases "bm_get (fst s) d")
  case None
  then show ?thesis by (simp add: prune_device_def artifact_exists_def)
next
  case (Some _)
  obtain collected s' where visits: "foldl (visit_artifact io terminal_by_tx known d) ([], s) txs = (collected, s')"
    by (rule prod.exhaust)
  have gone: "\<not> artifact_exists d t (fst s')"
    using visit_orphan[OF assms(2-5), of "([], s)"] by (simp add: visits)
  have "shrinks (\<lambda>_. True) (fst s') (fst (snd (foldl (keep_newest io d n) (bm_empty, s') (rev (sort collected)))))"
    using foldl_shrinks[of "rev (sort collected)" "\<lambda>_. True" "\<lambda>u. fst (snd u)" "keep_newest io d n" "(bm_empty, s')",
        OF keep_newest_shrinks] by simp
  then show ?thesis using gone assms(1) Some by (auto simp: prune_device_def visits shrinks_def)
qed

lemma prune_orphan:
  assumes "Some d \<in> set devices" "gi_artifacts_of io d = Some txs" "Some t \<in> set txs" "bm_get terminal_by_tx t = None"
    and "\<not> bs_member known t" "\<not> gi_remove_artifact_fails io d t"
  shows "\<not> artifact_exists d t (fst (foldl (prune_device io root terminal_by_tx known n) s devices))"
  using assms(1)
proof (induction devices arbitrary: s)
  case (Cons x devices)
  have stays: "\<not> artifact_exists d t (fst (foldl (prune_device io root terminal_by_tx known n) u devices))"
    if "\<not> artifact_exists d t (fst u)" for u
    using foldl_shrinks[of devices "\<lambda>_. True" fst "prune_device io root terminal_by_tx known n" u,
        OF prune_device_shrinks_all] that by (auto simp: shrinks_def)
  show ?case
    using Cons stays prune_device_orphan[OF assms(2-6)] by (cases "x = Some d") auto
qed simp

text \<open>C35: The artifacts of a transaction whose journal file the listing does not show, because it was
  created after the listing was made or its entry could not be read, are taken for orphans and deleted, however
  unresolved the transaction is.\<close>

theorem gc_deletes_unlisted_artifacts:
  assumes run: "gc_run_once dec io gc policy disk = (res, disk')"
    and roots: "jc_journal_root gc \<noteq> None" "jc_journal_exists gc" "jc_artifact_root gc \<noteq> None" "jc_artifact_exists gc"
      "gp_max_artifacts_per_device policy \<noteq> 0"
    and journal: "journal_dir_inv dec (gd_journal disk)"
    and doubt: "journal_path_for tx_id = Inr path" "bm_get (gd_journal disk) path = Some payload" "dec payload = Inr r"
      "jr_phase r = InDoubt"
    and listing: "gi_journal_listing io = Some found" "Some path \<notin> set found"
    and artifact: "gi_devices io = Some devices" "Some d \<in> set devices" "gi_artifacts_of io d = Some txs"
      "Some tx_id \<in> set txs" "\<not> gi_remove_artifact_fails io d tx_id"
  shows "bm_get (gd_journal disk') path = Some payload \<and> \<not> artifact_exists d tx_id (gd_artifacts disk')"
proof -
  obtain root where root: "jc_journal_root gc = Some root" using roots(1) by auto
  obtain aroot where aroot: "jc_artifact_root gc = Some aroot" using roots(3) by auto
  define s where "s = foldl (gc_entry dec io gc root policy) (gc_start disk) found"
  let ?n = "unat (gp_max_artifacts_per_device policy)"
  let ?terminal = "bm_of_list (map (\<lambda>r. (jr_tx_id r, jr_updated_at r)) (filter (\<lambda>r. is_terminal_phase (jr_phase r)) (gr_terminal s)))"
  have disk': "disk' = gr_disk (gc_artifacts (prune_artifacts_per_device io gc (gr_terminal s) (gr_known s) ?n) s)"
    using run roots(2) listing(1) by (simp add: gc_run_once_def root Let_def s_def gc_start_def)
  have unknown: "\<not> bs_member (gr_known s) tx_id"
    unfolding s_def using gc_unlisted_unknown[OF journal] doubt(1) listing(2) by (simp add: journal_path_for_Inr)
  have "bm_get ?terminal tx_id = None"
    using gc_entries_terminal_known[of dec io gc root policy disk found] unknown
    by (auto simp: bm_get_of_list map_of_eq_None_iff s_def)
  from prune_orphan[OF artifact(2,3,4) this unknown artifact(5)]
  have "\<not> artifact_exists d tx_id (fst (prune_artifacts_per_device io gc (gr_terminal s) (gr_known s) ?n a))" for a
    using roots(4,5) artifact(1) by (simp add: prune_artifacts_per_device_def aroot Let_def unat_eq_0)
  then have "\<not> artifact_exists d tx_id (gd_artifacts disk')"
    unfolding disk' gc_artifacts_def by (simp split: prod.splits) (metis fst_conv)
  moreover have "\<not> journal_due dec gc policy (gd_journal disk) path"
    using doubt by (auto simp: journal_due_def is_terminal_phase_def)
  ultimately show ?thesis using gc_run_removes(1)[OF run, of path] doubt(2) by auto
qed

text \<open>The idempotency collection removes only records that are older than the retention.\<close>

lemma idempotency_gc_entry_keeps:
  "bm_get (fst (idempotency_gc_entry dec io root now days s found)) name = bm_get (fst s) name \<or>
   bm_get (fst (idempotency_gc_entry dec io root now days s found)) name = None \<and>
     (\<exists>payload stored_at. bm_get (fst s) name = Some payload \<and> dec payload = Inr stored_at \<and> is_older_than stored_at now days)"
  by (cases s)
    (auto simp: idempotency_gc_entry_def bm_get_remove split: option.splits if_splits sum.splits Option.bind_splits)

lemma idempotency_gc_keeps_recent:
  assumes "bm_get files name = Some payload" "\<And>stored_at. dec payload = Inr stored_at \<Longrightarrow>
    \<not> is_older_than stored_at (ic_now gc) (ip_retention_days policy)"
  shows "bm_get (snd (idempotency_gc_run_once dec io gc policy files)) name = Some payload"
proof -
  have "bm_get (fst (foldl (idempotency_gc_entry dec io root (ic_now gc) (ip_retention_days policy)) s found)) name = Some payload"
    if "bm_get (fst s) name = Some payload" for root s found
    using that
  proof (induction found arbitrary: s)
    case (Cons x found)
    have "bm_get (fst (idempotency_gc_entry dec io root (ic_now gc) (ip_retention_days policy) s x)) name = Some payload"
      using idempotency_gc_entry_keeps[of dec io root "ic_now gc" "ip_retention_days policy" s x name] Cons.prems assms(2)
      by auto
    then show ?case using Cons.IH by simp
  qed simp
  from this[of "(files, default_idempotency_report)"] show ?thesis
    using assms(1) unfolding idempotency_gc_run_once_def
    by (auto split: sum.splits option.splits prod.splits) (metis fst_conv)
qed

section \<open>A run\<close>

definition gc_sample_record :: "string \<Rightarrow> TxPhase \<Rightarrow> TxJournalRecord" where
  "gc_sample_record tx_id phase =
     (started 0 \<lparr>cx_tx_id = tx_id, cx_request_id = ''r'', cx_trace_id = ''t''\<rparr> [''leaf''])\<lparr>jr_phase := phase\<rparr>"

fun read_sample :: "TxJournalRecord list \<Rightarrow> string + TxJournalRecord" where
  "read_sample [r] = Inr r"
| "read_sample _ = Inl ''not a record''"

definition gc_sample_disk :: "TxJournalRecord gc_disk" where
  "gc_sample_disk =
     \<lparr>gd_journal = bm_insert ''old.json'' [gc_sample_record ''old'' Committed]
        (bm_insert ''stuck.json'' [gc_sample_record ''stuck'' InDoubt] bm_empty),
      gd_artifacts = bm_insert ''leaf'' (bs_insert ''old'' (bs_insert ''stuck'' bm_empty)) bm_empty\<rparr>"

definition gc_sample_io :: "string option list \<Rightarrow> gc_io" where
  "gc_sample_io found =
     \<lparr>gi_journal_listing = Some found, gi_read_fails = (\<lambda>_. False), gi_remove_fails = (\<lambda>_. False),
      gi_devices_for_tx = (\<lambda>_. Some [Some ''leaf'']), gi_devices = Some [Some ''leaf''],
      gi_artifacts_of = (\<lambda>_. Some [Some ''old'', Some ''stuck'']), gi_remove_artifact_fails = (\<lambda>_ _. False)\<rparr>"

definition gc_sample :: JournalGc where
  "gc_sample = \<lparr>jc_journal_root = Some ''/journal'', jc_journal_exists = True, jc_artifact_root = Some ''/artifacts'',
     jc_artifact_exists = True, jc_now = 40 * 24 * 60 * 60\<rparr>"

lemma gc_sample_dir: "journal_dir_inv read_sample (gd_journal gc_sample_disk)"
proof -
  have "journal_path_for ''old'' = Inr ''old.json''" "journal_path_for ''stuck'' = Inr ''stuck.json''" by code_simp+
  then show ?thesis
    by (auto simp: journal_dir_inv_def gc_sample_disk_def bm_get_insert gc_sample_record_def started_def split: if_splits)
qed

theorem gc_collects_only_settled_witness:
  "case gc_run_once read_sample (gc_sample_io [Some ''old.json'', Some ''stuck.json'']) gc_sample default_gc_policy gc_sample_disk of
     (_, disk') \<Rightarrow> bm_get (gd_journal disk') ''stuck.json'' = Some [gc_sample_record ''stuck'' InDoubt] \<and>
       artifact_exists ''leaf'' ''stuck'' (gd_artifacts disk')"
proof -
  let ?io = "gc_sample_io [Some ''old.json'', Some ''stuck.json'']"
  obtain res disk' where run: "gc_run_once read_sample ?io gc_sample default_gc_policy gc_sample_disk = (res, disk')"
    by (rule prod.exhaust)
  have listing: "\<forall>found path. gi_journal_listing ?io = Some found \<longrightarrow> bm_get (gd_journal gc_sample_disk) path \<noteq> None \<longrightarrow>
      Some path \<in> set found"
    by (auto simp: gc_sample_io_def gc_sample_disk_def bm_get_insert split: if_splits)
  have path: "journal_path_for ''stuck'' = Inr ''stuck.json''" by code_simp
  have stored: "bm_get (gd_journal gc_sample_disk) ''stuck.json'' = Some [gc_sample_record ''stuck'' InDoubt]"
    by (simp add: gc_sample_disk_def bm_get_insert)
  have phase: "\<forall>r. read_sample [gc_sample_record ''stuck'' InDoubt] = Inr r \<longrightarrow> requires_recovery (jr_phase r)"
    by (simp add: gc_sample_record_def requires_recovery_def)
  have exists: "artifact_exists ''leaf'' ''stuck'' (gd_artifacts gc_sample_disk)" by code_simp
  show ?thesis
    using gc_collects_only_settled[OF run gc_sample_dir listing] path stored phase exists unfolding run by simp
qed

theorem gc_deletes_unlisted_artifacts_witness:
  "case gc_run_once read_sample (gc_sample_io [Some ''old.json'', None]) gc_sample default_gc_policy gc_sample_disk of
     (_, disk') \<Rightarrow> bm_get (gd_journal disk') ''stuck.json'' = Some [gc_sample_record ''stuck'' InDoubt] \<and>
       \<not> artifact_exists ''leaf'' ''stuck'' (gd_artifacts disk')"
proof -
  let ?io = "gc_sample_io [Some ''old.json'', None]"
  obtain res disk' where run: "gc_run_once read_sample ?io gc_sample default_gc_policy gc_sample_disk = (res, disk')"
    by (rule prod.exhaust)
  have path: "journal_path_for ''stuck'' = Inr ''stuck.json''" by code_simp
  have stored: "bm_get (gd_journal gc_sample_disk) ''stuck.json'' = Some [gc_sample_record ''stuck'' InDoubt]"
    by (simp add: gc_sample_disk_def bm_get_insert)
  from gc_deletes_unlisted_artifacts[OF run _ _ _ _ _ gc_sample_dir path stored, of "gc_sample_record ''stuck'' InDoubt"
      "[Some ''old.json'', None]" "[Some ''leaf'']" "''leaf''" "[Some ''old'', Some ''stuck'']"]
  show ?thesis unfolding run
    by (simp add: gc_sample_def default_gc_policy_def gc_sample_io_def gc_sample_record_def)
qed

end
