(* ===== verification/Log_File.thy ===== *)
theory Log_File
  imports Atomic_File
begin

text \<open>
  The append-only logs of \<open>src/telemetry/ops.rs\<close> and \<open>src/telemetry/audit.rs\<close>: one JSON record per line,
  appended and synced, compacted to the newest records within the limits of a retention policy, with
  the old file kept in numbered archives.  The stores differ in their record type and texts, which are
  the record \<open>log_codec\<close> with the JSON codec as a parameter.  Every system call may fail.
\<close>

section \<open>Codecs and faults\<close>

record 'r log_codec =
  lc_name :: string
  lc_encode :: "'r \<Rightarrow> string result"
  lc_decode :: "string \<Rightarrow> string + 'r"
  lc_io_error :: "string \<Rightarrow> UnderlayError"
  lc_parse_error :: "string \<Rightarrow> UnderlayError"

record log_faults =
  lf_read :: "string option"
  lf_utf8 :: "string \<Rightarrow> string option"
  lf_rotate :: "nat \<Rightarrow> string option"
  lf_archive :: io_fault
  lf_active :: io_fault
  lf_archive_uuid :: string
  lf_active_uuid :: string

section \<open>Lines\<close>

text \<open>\<open>str::lines\<close>: the parts between line feeds, without a final empty one and without a carriage
  return before a line feed.\<close>

definition newline :: char where
  "newline = CHR 0x0A"

definition strip_cr :: "string \<Rightarrow> string" where
  "strip_cr l = (if l \<noteq> [] \<and> last l = CHR 0x0D then butlast l else l)"

definition str_lines :: "string \<Rightarrow> string list" where
  "str_lines s = (let parts = split_on newline s in
     map strip_cr (butlast parts) @ (if last parts = [] then [] else [last parts]))"

primrec parse_lines :: "'r log_codec \<Rightarrow> string \<Rightarrow> nat \<Rightarrow> string list \<Rightarrow> 'r list result" where
  "parse_lines c path index [] = Inr []"
| "parse_lines c path index (line # rest) =
     (if trim line = [] then parse_lines c path (Suc index) rest
      else case lc_decode c line of
        Inl err \<Rightarrow> Inl (lc_parse_error c (''parse '' @ lc_name c @ '' '' @ debug_str path @ '' line '' @
          show_nat (index + 1) @ '': '' @ err))
      | Inr r \<Rightarrow> and_then (parse_lines c path (Suc index) rest) (\<lambda>records. Inr (r # records)))"

definition encode_line :: "'r log_codec \<Rightarrow> 'r \<Rightarrow> string result" where
  "encode_line c r = and_then (lc_encode c r) (\<lambda>payload. Inr (payload @ [newline]))"

definition encode_lines :: "'r log_codec \<Rightarrow> 'r list \<Rightarrow> string result" where
  "encode_lines c records = and_then (try_map (encode_line c) records) (\<lambda>payloads. Inr (concat payloads))"

section \<open>Appending and listing\<close>

definition append_record :: "'r log_codec \<Rightarrow> io_fault \<Rightarrow> string \<Rightarrow> 'r \<Rightarrow> char dir \<Rightarrow> unit result \<times> char dir" where
  "append_record c fault path r d =
     (let err = Inl (lc_io_error c (fault_text fault));
          old = (case bm_get d path of Some content \<Rightarrow> content | None \<Rightarrow> []) in
      if fails_at fault CreateDirAll then (err, d)
      else case encode_line c r of
        Inl e \<Rightarrow> (Inl e, d)
      | Inr payload \<Rightarrow>
         if fails_at fault OpenTmp then (err, d)
         else case fault of
           Some (WriteAll n, _) \<Rightarrow> (err, bm_insert path (old @ take n payload) d)
         | _ \<Rightarrow> (if fails_at fault SyncAll then err else Inr (), bm_insert path (old @ payload) d))"

definition list_records :: "'r log_codec \<Rightarrow> string option \<Rightarrow> string \<Rightarrow> char dir \<Rightarrow> 'r list result" where
  "list_records c read_fault path d =
     (case bm_get d path of
        None \<Rightarrow> Inr []
      | Some payload \<Rightarrow>
         (case read_fault of
            Some err \<Rightarrow> Inl (lc_io_error c err)
          | None \<Rightarrow> parse_lines c path 0 (str_lines payload)))"

section \<open>Retention\<close>

record OperationSummaryRetentionPolicy =
  rp_max_records :: "nat option"
  rp_max_bytes :: "nat option"
  rp_max_rotated_files :: nat

definition default_max_rotated_summary_files :: nat where
  "default_max_rotated_summary_files = 3"

definition default_retention :: OperationSummaryRetentionPolicy where
  "default_retention = \<lparr>rp_max_records = None, rp_max_bytes = None,
     rp_max_rotated_files = default_max_rotated_summary_files\<rparr>"

definition retention_is_enabled :: "OperationSummaryRetentionPolicy \<Rightarrow> bool" where
  "retention_is_enabled p \<longleftrightarrow> rp_max_records p \<noteq> None \<or> rp_max_bytes p \<noteq> None"

definition validate_retention :: "string \<Rightarrow> OperationSummaryRetentionPolicy \<Rightarrow> unit result" where
  "validate_retention name p =
     and_then (ensure (rp_max_records p \<noteq> Some 0)
       (InvalidIntent (name @ '' retention max_records must be greater than zero''))) (\<lambda>_.
     ensure (rp_max_bytes p \<noteq> Some 0)
       (InvalidIntent (name @ '' retention max_bytes must be greater than zero'')))"

text \<open>The loop over the records from the newest to the oldest.\<close>

primrec retain_newest :: "'r log_codec \<Rightarrow> nat \<Rightarrow> nat \<Rightarrow> 'r list \<Rightarrow> 'r list result" where
  "retain_newest c max_bytes bytes [] = Inr []"
| "retain_newest c max_bytes bytes (r # older) =
     and_then (encode_line c r) (\<lambda>line.
     if bytes + length line > max_bytes then Inr []
     else and_then (retain_newest c max_bytes (bytes + length line) older) (\<lambda>retained. Inr (r # retained)))"

definition retain_records :: "'r log_codec \<Rightarrow> OperationSummaryRetentionPolicy \<Rightarrow> 'r list \<Rightarrow> 'r list result" where
  "retain_records c p records =
     (let start = (case rp_max_records p of Some max_records \<Rightarrow> length records - max_records | None \<Rightarrow> 0);
          candidates = drop start records in
      case rp_max_bytes p of
        None \<Rightarrow> Inr candidates
      | Some max_bytes \<Rightarrow>
          and_then (retain_newest c max_bytes 0 (rev candidates)) (\<lambda>retained. Inr (rev retained)))"

section \<open>Compaction\<close>

record OperationSummaryCompactionReport =
  cr_compacted :: bool
  cr_records_before :: nat
  cr_records_after :: nat
  cr_records_dropped :: nat
  cr_bytes_before :: nat
  cr_bytes_after :: nat
  cr_rotated_files :: nat

definition default_compaction_report :: OperationSummaryCompactionReport where
  "default_compaction_report = \<lparr>cr_compacted = False, cr_records_before = 0, cr_records_after = 0,
     cr_records_dropped = 0, cr_bytes_before = 0, cr_bytes_after = 0, cr_rotated_files = 0\<rparr>"

definition archive_path :: "string \<Rightarrow> nat \<Rightarrow> string" where
  "archive_path path generation = path @ ''.'' @ show_nat generation"

text \<open>The loop over the generations, from the oldest archive to the newest.\<close>

primrec shift_archives ::
  "(string \<Rightarrow> UnderlayError) \<Rightarrow> (nat \<Rightarrow> string option) \<Rightarrow> string \<Rightarrow> nat \<Rightarrow> nat \<Rightarrow> char dir \<Rightarrow> unit result \<times> char dir" where
  "shift_archives io_error fault path max_rotated_files 0 d = (Inr (), d)"
| "shift_archives io_error fault path max_rotated_files (Suc older) d =
     (let generation = Suc older; archive = archive_path path generation in
      case bm_get d archive of
        None \<Rightarrow> shift_archives io_error fault path max_rotated_files older d
      | Some content \<Rightarrow>
         (case fault generation of
            Some err \<Rightarrow> (Inl (io_error err), d)
          | None \<Rightarrow>
             shift_archives io_error fault path max_rotated_files older
               (if generation = max_rotated_files then bm_remove archive d
                else bm_insert (archive_path path (generation + 1)) content (bm_remove archive d))))"

definition rotate_active_payload ::
  "'r log_codec \<Rightarrow> log_faults \<Rightarrow> string \<Rightarrow> string \<Rightarrow> nat \<Rightarrow> char dir \<Rightarrow> nat result \<times> char dir" where
  "rotate_active_payload c faults path active_payload max_rotated_files d =
     (if max_rotated_files = 0 then (Inr 0, d)
      else case shift_archives (lc_io_error c) (lf_rotate faults) path max_rotated_files max_rotated_files d of
        (Inl e, d) \<Rightarrow> (Inl e, d)
      | (Inr _, d) \<Rightarrow>
         (case atomic_write (lf_archive faults) (lf_archive_uuid faults) (archive_path path 1) active_payload
             (lc_io_error c) d of
            (Inl e, d) \<Rightarrow> (Inl e, d)
          | (Inr _, d) \<Rightarrow> (Inr 1, d)))"

definition compact_log ::
  "'r log_codec \<Rightarrow> log_faults \<Rightarrow> OperationSummaryRetentionPolicy \<Rightarrow> string \<Rightarrow> char dir \<Rightarrow>
   OperationSummaryCompactionReport result \<times> char dir" where
  "compact_log c faults p path d =
     (case validate_retention (lc_name c) p of
        Inl e \<Rightarrow> (Inl e, d)
      | Inr _ \<Rightarrow>
        (case bm_get d path of
           None \<Rightarrow> (Inr default_compaction_report, d)
         | Some active_payload \<Rightarrow>
           (case and_then (ensure (lf_read faults = None) (lc_io_error c (the (lf_read faults)))) (\<lambda>_.
              and_then (case lf_utf8 faults active_payload of
                  Some err \<Rightarrow> Inl (Internal (''parse '' @ lc_name c @ '' '' @ debug_str path @ '': invalid utf-8: '' @ err))
                | None \<Rightarrow> Inr ()) (\<lambda>_.
              and_then (parse_lines c path 0 (str_lines active_payload)) (\<lambda>records.
              and_then (retain_records c p records) (\<lambda>retained.
              and_then (encode_lines c retained) (\<lambda>retained_payload.
              Inr (records, retained, retained_payload)))))) of
              Inl e \<Rightarrow> (Inl e, d)
            | Inr (records, retained, retained_payload) \<Rightarrow>
              (let bytes_before = length active_payload;
                   bytes_after = length retained_payload;
                   records_dropped = length records - length retained;
                   size_reduced = (case rp_max_bytes p of
                       Some max_bytes \<Rightarrow> bytes_before > max_bytes \<and> bytes_after < bytes_before
                     | None \<Rightarrow> False);
                   compacted = (records_dropped > 0 \<or> size_reduced);
                   report = \<lparr>cr_compacted = compacted, cr_records_before = length records,
                     cr_records_after = length retained, cr_records_dropped = records_dropped,
                     cr_bytes_before = bytes_before, cr_bytes_after = bytes_after, cr_rotated_files = 0\<rparr> in
               if \<not> compacted then (Inr report, d)
               else case rotate_active_payload c faults path active_payload (rp_max_rotated_files p) d of
                 (Inl e, d) \<Rightarrow> (Inl e, d)
               | (Inr rotated, d) \<Rightarrow>
                  (case atomic_write (lf_active faults) (lf_active_uuid faults) path retained_payload (lc_io_error c) d of
                     (Inl e, d) \<Rightarrow> (Inl e, d)
                   | (Inr _, d) \<Rightarrow> (Inr (report\<lparr>cr_rotated_files := rotated\<rparr>), d))))))"

section \<open>Reading back\<close>

text \<open>What is required of the JSON codec: it encodes every record as a line that is not blank and has
  neither a line feed nor a carriage return, and reads it back.\<close>

definition line_codec :: "'r log_codec \<Rightarrow> bool" where
  "line_codec c \<longleftrightarrow>
     (\<forall>r. \<exists>l. lc_encode c r = Inr l \<and> lc_decode c l = Inr r \<and> trim l \<noteq> [] \<and>
        newline \<notin> set l \<and> CHR 0x0D \<notin> set l)"

definition log_text :: "'r log_codec \<Rightarrow> 'r list \<Rightarrow> string" where
  "log_text c records = concat (map (\<lambda>r. case encode_line c r of Inr l \<Rightarrow> l | Inl _ \<Rightarrow> []) records)"

lemma line_codecE:
  assumes "line_codec c"
  obtains l where "encode_line c r = Inr (l @ [newline])" "lc_decode c l = Inr r" "trim l \<noteq> []"
    "newline \<notin> set l" "strip_cr l = l"
proof -
  from assms obtain l where l: "lc_encode c r = Inr l" "lc_decode c l = Inr r" "trim l \<noteq> []"
    "newline \<notin> set l" "CHR 0x0D \<notin> set l" unfolding line_codec_def by blast
  have "strip_cr l = l" using l(5) last_in_set[of l] unfolding strip_cr_def by metis
  with that l show thesis by (simp add: encode_line_def)
qed

lemma str_lines_Cons:
  assumes "newline \<notin> set l" "strip_cr l = l"
  shows "str_lines (l @ newline # s) = l # str_lines s"
proof -
  have "split_on newline s \<noteq> []" by (cases s) (auto split: list.splits)
  then show ?thesis using assms by (simp add: str_lines_def split_on_join Let_def)
qed

lemma str_lines_Nil [simp]: "str_lines [] = []"
  by (simp add: str_lines_def)

lemma log_text_simps [simp]:
  "log_text c [] = []"
  "log_text c (xs @ ys) = log_text c xs @ log_text c ys"
  by (simp_all add: log_text_def)

lemma parse_log_text:
  assumes "line_codec c"
  shows "parse_lines c path n (str_lines (log_text c records)) = Inr records"
proof (induction records arbitrary: n)
  case (Cons r records)
  obtain l where "encode_line c r = Inr (l @ [newline])" "lc_decode c l = Inr r" "trim l \<noteq> []"
    "newline \<notin> set l" "strip_cr l = l" by (rule line_codecE[OF assms])
  then show ?case using Cons by (simp add: log_text_def str_lines_Cons)
qed simp

lemma encode_log_text:
  assumes "line_codec c"
  shows "encode_lines c records = Inr (log_text c records)"
proof -
  have "encode_line c r = Inr (log_text c [r])" for r
    by (rule line_codecE[OF assms, of r]) (simp add: log_text_def)
  then have "try_map (encode_line c) records = Inr (map (\<lambda>r. log_text c [r]) records)"
    by (simp add: try_map_Inr_iff list_all2_conv_all_nth)
  then show ?thesis by (simp add: encode_lines_def log_text_def)
qed

section \<open>What compaction keeps\<close>

definition within :: "'r log_codec \<Rightarrow> OperationSummaryRetentionPolicy \<Rightarrow> 'r list \<Rightarrow> bool" where
  "within c p kept \<longleftrightarrow>
     (case rp_max_records p of Some m \<Rightarrow> length kept \<le> m | None \<Rightarrow> True) \<and>
     (case rp_max_bytes p of Some m \<Rightarrow> length (log_text c kept) \<le> m | None \<Rightarrow> True)"

text \<open>The longest suffix within the limits.\<close>

definition newest_within :: "'r log_codec \<Rightarrow> OperationSummaryRetentionPolicy \<Rightarrow> 'r list \<Rightarrow> 'r list \<Rightarrow> bool" where
  "newest_within c p records kept \<longleftrightarrow>
     suffix kept records \<and> within c p kept \<and>
     (\<forall>longer. suffix longer records \<and> within c p longer \<longrightarrow> suffix longer kept)"

lemma length_log_text_rev: "length (log_text c (rev records)) = length (log_text c records)"
  by (induction records) (simp_all add: log_text_def)

lemma length_log_text_Cons: "length (log_text c (r # records)) = length (log_text c [r]) + length (log_text c records)"
  by (simp add: log_text_def)

lemma retain_newest_correct:
  assumes "line_codec c" "bytes \<le> max_bytes"
  shows "\<exists>kept. retain_newest c max_bytes bytes records = Inr kept \<and> prefix kept records \<and>
    bytes + length (log_text c kept) \<le> max_bytes \<and>
    (\<forall>longer. prefix longer records \<and> bytes + length (log_text c longer) \<le> max_bytes \<longrightarrow> prefix longer kept)"
  using assms(2)
proof (induction records arbitrary: bytes)
  case (Cons r records)
  have line: "encode_line c r = Inr (log_text c [r])"
    by (rule line_codecE[OF assms(1), of r]) (simp add: log_text_def)
  let ?b = "bytes + length (log_text c [r])"
  have one: "longer = [] \<or> (\<exists>l. longer = r # l \<and> prefix l records \<and>
      length (log_text c longer) = length (log_text c [r]) + length (log_text c l))"
    if "prefix longer (r # records)" for longer
    using that length_log_text_Cons[of c r "tl longer"] by (cases longer) simp_all
  show ?case
  proof (cases "?b > max_bytes")
    case True
    then have "longer = []" if "prefix longer (r # records)" "bytes + length (log_text c longer) \<le> max_bytes" for longer
      using one[OF that(1)] that(2) by auto
    then show ?thesis using True Cons.prems line by auto
  next
    case False
    then obtain kept where kept: "retain_newest c max_bytes ?b records = Inr kept" "prefix kept records"
      "?b + length (log_text c kept) \<le> max_bytes"
      "\<forall>longer. prefix longer records \<and> ?b + length (log_text c longer) \<le> max_bytes \<longrightarrow> prefix longer kept"
      using Cons.IH[of ?b] by auto
    have "prefix longer (r # kept)"
      if "prefix longer (r # records)" "bytes + length (log_text c longer) \<le> max_bytes" for longer
      using one[OF that(1)] that(2) kept(4) by auto
    moreover have "bytes + length (log_text c (r # kept)) \<le> max_bytes"
      using kept(3) length_log_text_Cons[of c r kept] by simp
    ultimately show ?thesis using False kept(1,2) line by (intro exI[of _ "r # kept"]) simp
  qed
qed simp

lemma drop_newest:
  assumes "suffix longer records" "length longer \<le> m"
  shows "suffix longer (drop (length records - m) records)"
proof -
  from assms(1) obtain front where records: "records = front @ longer" by (auto simp: suffix_def)
  have "length records - m \<le> length front" using assms(2) records by simp
  then show ?thesis using records by (auto simp: suffix_def)
qed

lemma retain_records_correct:
  assumes "line_codec c"
  shows "\<exists>kept. retain_records c p records = Inr kept \<and> newest_within c p records kept"
proof -
  define start where "start = (case rp_max_records p of Some m \<Rightarrow> length records - m | None \<Rightarrow> 0)"
  have cut: "suffix longer (drop start records)"
    if "suffix longer records" "within c p longer" for longer
    using that drop_newest[OF that(1)] by (simp add: start_def within_def split: option.splits)
  have fits: "suffix longer records \<and> (case rp_max_records p of Some m \<Rightarrow> length longer \<le> m | None \<Rightarrow> True)"
    if "suffix longer (drop start records)" for longer
    using suffix_length_le[OF that] suffix_order.trans[OF that suffix_drop]
    by (simp add: start_def split: option.splits)
  show ?thesis
  proof (cases "rp_max_bytes p")
    case None
    then have "newest_within c p records (drop start records)"
      using cut fits[OF suffix_order.refl] by (simp add: newest_within_def within_def suffix_drop)
    then show ?thesis using None by (simp add: retain_records_def start_def Let_def)
  next
    case (Some max_bytes)
    obtain kept where kept: "retain_newest c max_bytes 0 (rev (drop start records)) = Inr kept"
      "prefix kept (rev (drop start records))" "length (log_text c kept) \<le> max_bytes"
      "\<forall>longer. prefix longer (rev (drop start records)) \<and> length (log_text c longer) \<le> max_bytes \<longrightarrow> prefix longer kept"
      using retain_newest_correct[OF assms, of 0 max_bytes "rev (drop start records)"] by auto
    have "suffix (rev kept) (drop start records)" using kept(2) by (simp add: suffix_to_prefix)
    moreover have "suffix longer (rev kept)" if "suffix longer records" "within c p longer" for longer
      using kept(4)[rule_format, of "rev longer"] cut[OF that] that(2) Some
      by (simp add: suffix_to_prefix within_def length_log_text_rev)
    ultimately have "newest_within c p records (rev kept)"
      using fits Some kept(3) by (auto simp: newest_within_def within_def length_log_text_rev)
    then show ?thesis using Some kept(1) by (simp add: retain_records_def start_def Let_def)
  qed
qed

lemma newest_within_unique:
  "newest_within c p records a \<Longrightarrow> newest_within c p records b \<Longrightarrow> a = b"
  by (auto simp: newest_within_def intro: suffix_order.antisym)

lemma neq_by_length: "length a \<noteq> length b \<Longrightarrow> a \<noteq> b"
  by auto

lemma log_file_names:
  "archive_path path n \<noteq> path" "unique_tmp_path uuid path \<noteq> path"
  "unique_tmp_path uuid (archive_path path 1) \<noteq> path" "unique_tmp_path uuid path \<noteq> archive_path path 1"
proof -
  show "archive_path path n \<noteq> path" by (simp add: archive_path_def)
  have one: "length (archive_path path 1) = length path + 2" by (simp add: archive_path_def show_nat.simps)
  show "unique_tmp_path uuid path \<noteq> path" by (rule neq_by_length) (simp add: unique_tmp_path_def)
  show "unique_tmp_path uuid (archive_path path 1) \<noteq> path"
    by (rule neq_by_length) (simp add: unique_tmp_path_def one del: One_nat_def)
  show "unique_tmp_path uuid path \<noteq> archive_path path 1"
    by (rule neq_by_length, unfold one) (simp add: unique_tmp_path_def)
qed

lemma shift_archives_get: "bm_get (snd (shift_archives io fault path m n d)) path = bm_get d path"
  by (induction n arbitrary: d)
    (simp_all add: Let_def log_file_names[symmetric] bm_get_insert bm_get_remove split: option.split)

text \<open>The outcome of a rotation: the active file is as it was, and on success the first archive is its copy.\<close>

lemma rotate_active_outcome:
  assumes "rotate_active_payload c faults path payload m d = (res, d')"
  shows "bm_get d' path = bm_get d path"
    and "is_ok res \<Longrightarrow> m > 0 \<Longrightarrow> bm_get d' (archive_path path 1) = Some payload"
proof -
  obtain r1 d1 where shift: "shift_archives (lc_io_error c) (lf_rotate faults) path m m d = (r1, d1)"
    by (rule prod.exhaust)
  obtain r2 d2 where archive: "atomic_write (lf_archive faults) (lf_archive_uuid faults) (archive_path path 1) payload
      (lc_io_error c) d1 = (r2, d2)" by (rule prod.exhaust)
  have d1: "bm_get d1 path = bm_get d path" using shift_archives_get[of "lc_io_error c"] shift by (metis snd_conv)
  have d2: "bm_get d2 path = bm_get d1 path"
    using atomic_write_get[OF log_file_names(3)[symmetric], of "lf_archive faults" "lf_archive_uuid faults" path payload
        "lc_io_error c" d1] archive log_file_names(1)[of path 1] by simp
  have first: "bm_get d2 (archive_path path 1) = Some payload" if "is_ok r2"
    using atomic_write_get[OF log_file_names(2)[symmetric], of "lf_archive faults" "lf_archive_uuid faults"
        "archive_path path 1" payload "lc_io_error c" d1] archive that
      atomic_write_result[of "lf_archive faults" "lf_archive_uuid faults" "archive_path path 1" payload "lc_io_error c" d1]
    by (simp add: replaced_def split: if_splits)
  show "bm_get d' path = bm_get d path" using assms d1 d2 shift archive
    by (auto simp: rotate_active_payload_def split: if_splits sum.splits)
  show "bm_get d' (archive_path path 1) = Some payload" if "is_ok res" "m > 0"
    using assms first shift archive that
    by (auto simp: rotate_active_payload_def split: if_splits sum.splits)
qed

text \<open>C31: compaction keeps the newest records.  On a log that holds \<open>records\<close>, whatever system call of
  the compaction fails, the log afterwards reads as all the records or as the longest suffix of them
  within the limits of the policy, and as long as archives are kept, records are only gone from the log
  when the first archive is a copy of the old log.  A compaction that returns a report has reached
  that suffix, and the report counts what it kept and dropped.\<close>

theorem compaction_keeps_newest:
  assumes codec: "line_codec c" and active: "bm_get d path = Some (log_text c records)"
    and valid: "validate_retention (lc_name c) p = Inr ()"
    and run: "compact_log c faults p path d = (res, d')"
  shows "\<exists>kept. newest_within c p records kept \<and>
    list_records c None path d' \<in> {Inr records, Inr kept} \<and>
    (list_records c None path d' \<noteq> Inr records \<and> rp_max_rotated_files p > 0 \<longrightarrow>
       bm_get d' (archive_path path 1) = Some (log_text c records)) \<and>
    (\<forall>report. res = Inr report \<longrightarrow> list_records c None path d' = Inr kept \<and>
       cr_records_after report = length kept \<and> cr_records_dropped report = length records - length kept)"
proof -
  obtain kept where kept: "retain_records c p records = Inr kept" "newest_within c p records kept"
    using retain_records_correct[OF codec] by blast
  have reads: "list_records c None path e = Inr rs" if "bm_get e path = Some (log_text c rs)" for e rs
    using that by (simp add: list_records_def parse_log_text[OF codec])
  have same: "kept = records" if "length records - length kept = 0"
    using kept(2) that suffix_length_le[of kept records]
    by (auto simp: newest_within_def suffix_def)
  obtain r1 d1 where rotate: "rotate_active_payload c faults path (log_text c records) (rp_max_rotated_files p) d = (r1, d1)"
    by (rule prod.exhaust)
  obtain r2 d2 where final: "atomic_write (lf_active faults) (lf_active_uuid faults) path (log_text c kept)
      (lc_io_error c) d1 = (r2, d2)" by (rule prod.exhaust)
  have d1: "bm_get d1 path = Some (log_text c records)" using rotate_active_outcome(1)[OF rotate] active by simp
  have d2: "bm_get d2 path = Some (log_text c (if replaced (lf_active faults) then kept else records))"
    "bm_get d2 (archive_path path 1) = bm_get d1 (archive_path path 1)"
    using atomic_write_get[OF log_file_names(2)[symmetric], of "lf_active faults" "lf_active_uuid faults" path
        "log_text c kept" "lc_io_error c" d1] final d1 log_file_names(1)[of path 1]
      atomic_write_get[OF log_file_names(4)[symmetric], of "lf_active faults" "lf_active_uuid faults" path
        "log_text c kept" "lc_io_error c" d1] by simp_all
  have r2: "is_ok r2 \<longleftrightarrow> lf_active faults = None"
    using atomic_write_result[of "lf_active faults" "lf_active_uuid faults" path "log_text c kept" "lc_io_error c" d1] final
    by simp
  note archived = rotate_active_outcome(2)[OF rotate]
  let ?rep = "\<lambda>b n. \<lparr>cr_compacted = b, cr_records_before = length records,
     cr_records_after = length kept, cr_records_dropped = length records - length kept,
     cr_bytes_before = length (log_text c records), cr_bytes_after = length (log_text c kept), cr_rotated_files = n\<rparr>"
  consider (refused) e where "res = Inl e" "d' = d"
    | (small) "res = Inr (?rep False 0)" "d' = d" "length records - length kept = 0"
    | (rotation) e where "res = Inl e" "d' = d1"
    | (written) n where "r1 = Inr n" "d' = d2" "is_err r2" "is_err res"
    | (complete) n where "r1 = Inr n" "d' = d2" "is_ok r2" "res = Inr (?rep True n)"
    using run rotate final
    by (auto simp: compact_log_def valid active parse_log_text[OF codec] encode_log_text[OF codec] kept(1) Let_def
        and_then_def ensure_def split: if_splits option.splits sum.splits)
  then show ?thesis
  proof cases
    case refused
    then show ?thesis using kept(2) reads[OF active] by auto
  next
    case small
    then show ?thesis using kept(2) reads[OF active] same by auto
  next
    case rotation
    then show ?thesis using kept(2) reads[OF d1] by auto
  next
    case written
    then show ?thesis using kept(2) reads[OF d2(1)] archived d2(2) by (cases res) auto
  next
    case complete
    then have "replaced (lf_active faults)" using r2 by (simp add: replaced_def)
    then show ?thesis using complete kept(2) reads[OF d2(1)] archived d2(2) by auto
  qed
qed

text \<open>Without a fault the compaction returns a report.\<close>

lemma shift_archives_succeeds:
  "(\<And>g. fault g = None) \<Longrightarrow> fst (shift_archives io fault path m n d) = Inr ()"
  by (induction n arbitrary: d) (simp_all add: Let_def split: option.split)

lemma compact_log_succeeds:
  assumes "line_codec c" "bm_get d path = Some (log_text c records)" "validate_retention (lc_name c) p = Inr ()"
    and "lf_read faults = None" "lf_utf8 faults (log_text c records) = None" "\<And>g. lf_rotate faults g = None"
    "lf_archive faults = None" "lf_active faults = None"
  shows "\<exists>report. fst (compact_log c faults p path d) = Inr report"
proof -
  obtain kept where kept: "retain_records c p records = Inr kept" using retain_records_correct[OF assms(1)] by blast
  obtain d1 where "shift_archives (lc_io_error c) (lf_rotate faults) path (rp_max_rotated_files p) (rp_max_rotated_files p) d = (Inr (), d1)"
    using shift_archives_succeeds[of "lf_rotate faults" "lc_io_error c" path "rp_max_rotated_files p" "rp_max_rotated_files p" d]
      assms(6)
    by (cases "shift_archives (lc_io_error c) (lf_rotate faults) path (rp_max_rotated_files p) (rp_max_rotated_files p) d") simp
  moreover have writes: "\<exists>d2. atomic_write None uuid name payload (lc_io_error c) d1 = (Inr (), d2)" for uuid name payload d1
    using atomic_write_result[of None uuid name payload "lc_io_error c" d1]
    by (cases "atomic_write None uuid name payload (lc_io_error c) d1") simp
  ultimately have "\<exists>n d2. rotate_active_payload c faults path (log_text c records) (rp_max_rotated_files p) d = (Inr n, d2)"
    using writes[of "lf_archive_uuid faults" "archive_path path 1" "log_text c records" d1] assms(7)
    by (auto simp: rotate_active_payload_def)
  then obtain n d2 where rotate: "rotate_active_payload c faults path (log_text c records) (rp_max_rotated_files p) d = (Inr n, d2)"
    by blast
  obtain d3 where "atomic_write None (lf_active_uuid faults) path (log_text c kept) (lc_io_error c) d2 = (Inr (), d3)"
    using writes by blast
  then show ?thesis using rotate assms(8)
    by (simp add: compact_log_def assms(2-5) parse_log_text[OF assms(1)] encode_log_text[OF assms(1)] kept Let_def)
qed

text \<open>A log of numbers.\<close>

definition number_codec :: "nat log_codec" where
  "number_codec = \<lparr>lc_name = ''number log'', lc_encode = (\<lambda>n. Inr (show_nat n)),
     lc_decode = (\<lambda>l. if l \<noteq> [] \<and> list_all is_ascii_digit l then Inr (read_nat l) else Inl ''not a number''),
     lc_io_error = Internal, lc_parse_error = Internal\<rparr>"

lemma show_nat_line: "show_nat n \<noteq> []" "list_all is_ascii_digit (show_nat n)"
  by (subst show_nat.simps, simp) (simp add: list_all_iff show_nat_digits)

lemma trim_digits: "list_all is_ascii_digit s \<Longrightarrow> trim s = s"
proof -
  assume digits: "list_all is_ascii_digit s"
  have "\<exists>x \<in> set w. \<not> is_ascii_digit x" if "w \<in> set whitespace" for w
    using that by (auto simp: whitespace_def is_ascii_digit_def)
  then have "\<not> prefix w s \<and> \<not> prefix (rev w) (rev s)" if "w \<in> set whitespace" for w
    using that digits set_mono_prefix[of w s] set_mono_prefix[of "rev w" "rev s"] by (fastforce simp: list_all_iff)
  then show ?thesis by (simp add: trim_id_iff stripped_def)
qed

lemma number_codec_lines: "line_codec number_codec"
proof -
  have "newline \<notin> set (show_nat n)" "CHR 0x0D \<notin> set (show_nat n)" for n
    using show_nat_digits[of newline n] show_nat_digits[of "CHR 0x0D" n] by (auto simp: is_ascii_digit_def newline_def)
  then show ?thesis
    using show_nat_line trim_digits[OF show_nat_line(2)] by (auto simp: line_codec_def number_codec_def simp del: read_nat.simps)
qed

definition no_faults :: log_faults where
  "no_faults = \<lparr>lf_read = None, lf_utf8 = (\<lambda>_. None), lf_rotate = (\<lambda>_. None), lf_archive = None, lf_active = None,
     lf_archive_uuid = ''u1'', lf_active_uuid = ''u2''\<rparr>"

theorem compaction_keeps_newest_witness:
  "case compact_log number_codec no_faults \<lparr>rp_max_records = Some 2, rp_max_bytes = Some 5, rp_max_rotated_files = 1\<rparr>
      ''log'' (bm_insert ''log'' (log_text number_codec [7, 10, 200]) bm_empty) of (res, d') \<Rightarrow>
   (\<exists>report. res = Inr report \<and> cr_records_dropped report = 2) \<and> list_records number_codec None ''log'' d' = Inr [200]"
proof -
  let ?p = "\<lparr>rp_max_records = Some 2, rp_max_bytes = Some 5, rp_max_rotated_files = 1\<rparr>"
  let ?d = "bm_insert ''log'' (log_text number_codec [7, 10, 200]) bm_empty"
  obtain res d' where run: "compact_log number_codec no_faults ?p ''log'' ?d = (res, d')" by (rule prod.exhaust)
  have valid: "validate_retention (lc_name number_codec) ?p = Inr ()" by code_simp
  have active: "bm_get ?d ''log'' = Some (log_text number_codec [7, 10, 200])" by (simp add: bm_get_insert)
  obtain report where ok: "res = Inr report"
    using compact_log_succeeds[OF number_codec_lines active valid, of no_faults] run by (auto simp: no_faults_def)
  from compaction_keeps_newest[OF number_codec_lines active valid run]
  obtain kept where kept: "newest_within number_codec ?p [7, 10, 200] kept" "list_records number_codec None ''log'' d' = Inr kept"
    "cr_records_dropped report = length [7, 10, 200 :: nat] - length kept"
    unfolding ok by blast
  have "retain_records number_codec ?p [7, 10, 200] = Inr [200]" by code_simp
  with retain_records_correct[OF number_codec_lines, of ?p "[7, 10, 200]"]
  have "newest_within number_codec ?p [7, 10, 200] [200]" by auto
  then have "kept = [200]" using kept(1) newest_within_unique by blast
  with kept ok show ?thesis unfolding run prod.case by simp
qed

end
