(* ===== verification/Telemetry.thy ===== *)
theory Telemetry
  imports Log_File Events
begin

text \<open>
  What the service keeps of its events: audit records and operation summaries with their stores
  (\<open>src/telemetry/audit.rs\<close>, \<open>src/telemetry/ops.rs\<close>), the recording sink (\<open>src/telemetry/sink.rs\<close>), the
  summaries query (\<open>src/api/operations.rs\<close>) and the counters (\<open>src/telemetry/metrics.rs\<close>).
\<close>

section \<open>Audit records (telemetry/audit.rs)\<close>

record AuditRecord =
  au_request_id :: string
  au_trace_id :: string
  au_tx_id :: "string option"
  au_device_id :: "DeviceId option"
  au_action :: string
  au_result :: string
  au_error_code :: "string option"
  au_error_message :: "string option"

fun action_name :: "UnderlayEventKind \<Rightarrow> string" where
  "action_name UnderlayDeviceRegistered = ''device.registered''"
| "action_name UnderlayDeviceCapabilityDetected = ''device.capability_detected''"
| "action_name UnderlayDriftDetected = ''drift.detected''"
| "action_name UnderlayDriftAuditCompleted = ''drift.audit_completed''"
| "action_name UnderlayDeviceLockTimeout = ''device.lock_timeout''"
| "action_name UnderlayForceUnlockRequested = ''device.force_unlock_requested''"
| "action_name UnderlayJournalGcCompleted = ''journal.gc_completed''"
| "action_name UnderlayApplyIdempotencyGcCompleted = ''apply_idempotency.gc_completed''"
| "action_name UnderlayRecoveryCompleted = ''recovery.completed''"
| "action_name UnderlayAuditWriteFailed = ''audit.write_failed''"
| "action_name UnderlayTransactionStarted = ''transaction.started''"
| "action_name UnderlayTransactionPhaseChanged = ''transaction.phase_changed''"
| "action_name UnderlayTransactionCompleted = ''transaction.completed''"
| "action_name UnderlayTransactionFailed = ''transaction.failed''"
| "action_name UnderlayTransactionInDoubt = ''transaction.in_doubt''"
| "action_name UnderlayTransactionForceResolved = ''transaction.force_resolved''"

definition audit_from_event :: "UnderlayEvent \<Rightarrow> AuditRecord" where
  "audit_from_event event =
     \<lparr>au_request_id = ue_request_id event, au_trace_id = ue_trace_id event, au_tx_id = ue_tx_id event,
      au_device_id = ue_device_id event, au_action = action_name (ue_kind event),
      au_result = (case ue_result event of Some r \<Rightarrow> r | None \<Rightarrow> ''observed''),
      au_error_code = ue_error_code event, au_error_message = ue_error_message event\<rparr>"

record OperationAuditRecord =
  oa_appended_at :: u64
  oa_request_id :: string
  oa_trace_id :: string
  oa_tx_id :: "string option"
  oa_device_id :: "DeviceId option"
  oa_action :: string
  oa_result :: string
  oa_operator_id :: "string option"
  oa_reason :: "string option"
  oa_error_code :: "string option"
  oa_error_message :: "string option"
  oa_fields :: "(string, string) bmap"

definition operation_audit_from_event :: "u64 \<Rightarrow> UnderlayEvent \<Rightarrow> OperationAuditRecord" where
  "operation_audit_from_event now event =
     (let audit = audit_from_event event; fields = ue_fields event in
      \<lparr>oa_appended_at = now, oa_request_id = au_request_id audit, oa_trace_id = au_trace_id audit,
       oa_tx_id = au_tx_id audit, oa_device_id = au_device_id audit, oa_action = au_action audit,
       oa_result = au_result audit,
       oa_operator_id = (case bm_get fields ''operator'' of
           Some operator \<Rightarrow> Some operator | None \<Rightarrow> bm_get fields ''operator_id''),
       oa_reason = bm_get fields ''reason'', oa_error_code = au_error_code audit,
       oa_error_message = au_error_message audit, oa_fields = fields\<rparr>)"

definition operation_audit_io_error :: "string \<Rightarrow> UnderlayError" where
  "operation_audit_io_error err = Internal (''operation audit io error: '' @ err)"

definition operation_audit_codec ::
  "(OperationAuditRecord \<Rightarrow> string + string) \<Rightarrow> (string \<Rightarrow> string + OperationAuditRecord) \<Rightarrow> OperationAuditRecord log_codec" where
  "operation_audit_codec to_json from_json =
     \<lparr>lc_name = ''operation audit'',
      lc_encode = (\<lambda>r. map_err (\<lambda>err. Internal (''serialize operation audit: '' @ err)) (to_json r)),
      lc_decode = from_json, lc_io_error = operation_audit_io_error, lc_parse_error = Internal\<rparr>"

definition operation_audit_record_event ::
  "OperationAuditRecord log_codec \<Rightarrow> io_fault \<Rightarrow> string \<Rightarrow> u64 \<Rightarrow> UnderlayEvent \<Rightarrow> char dir \<Rightarrow> unit result \<times> char dir" where
  "operation_audit_record_event c fault path now event d =
     append_record c fault path (operation_audit_from_event now event) d"

definition operation_audit_list ::
  "OperationAuditRecord log_codec \<Rightarrow> string option \<Rightarrow> string \<Rightarrow> char dir \<Rightarrow> OperationAuditRecord list result" where
  "operation_audit_list c read_fault path d = list_records c read_fault path d"

type_synonym OperationAuditRetentionPolicy = OperationSummaryRetentionPolicy
type_synonym OperationAuditCompactionReport = OperationSummaryCompactionReport

definition operation_audit_compact ::
  "OperationAuditRecord log_codec \<Rightarrow> log_faults \<Rightarrow> OperationAuditRetentionPolicy \<Rightarrow> string \<Rightarrow> char dir \<Rightarrow>
   OperationAuditCompactionReport result \<times> char dir" where
  "operation_audit_compact c faults policy path d = compact_log c faults policy path d"

section \<open>Operation summaries (telemetry/ops.rs)\<close>

record OperationSummary =
  os_request_id :: string
  os_trace_id :: string
  os_action :: string
  os_result :: string
  os_tx_id :: "string option"
  os_device_id :: "DeviceId option"
  os_attention_required :: bool
  os_fields :: "(string, string) bmap"

definition is_operator_event :: "UnderlayEventKind \<Rightarrow> bool" where
  "is_operator_event kind \<longleftrightarrow> kind \<in>
     {UnderlayDriftDetected, UnderlayDriftAuditCompleted, UnderlayJournalGcCompleted,
      UnderlayApplyIdempotencyGcCompleted, UnderlayRecoveryCompleted, UnderlayAuditWriteFailed,
      UnderlayTransactionForceResolved, UnderlayTransactionInDoubt}"

text \<open>\<open>str::parse::<u64>\<close>: digits with an optional plus sign, within the range.\<close>

definition parse_u64 :: "string \<Rightarrow> u64 option" where
  "parse_u64 s =
     (let digits = (case s of [] \<Rightarrow> [] | ch # rest \<Rightarrow> if ch = CHR ''+'' then rest else s) in
      if digits \<noteq> [] \<and> list_all is_ascii_digit digits \<and> read_nat digits < 2 ^ 64
      then Some (of_nat (read_nat digits)) else None)"

definition field_value :: "UnderlayEvent \<Rightarrow> string \<Rightarrow> u64" where
  "field_value event name =
     (case Option.bind (bm_get (ue_fields event) name) parse_u64 of Some n \<Rightarrow> n | None \<Rightarrow> 0)"

definition attention_required :: "UnderlayEvent \<Rightarrow> bool" where
  "attention_required event =
     (case ue_kind event of
        UnderlayDriftDetected \<Rightarrow> True
      | UnderlayDriftAuditCompleted \<Rightarrow>
          ue_result event = Some ''drift_detected'' \<or> ue_result event = Some ''partial_failure''
      | UnderlayRecoveryCompleted \<Rightarrow> field_value event ''in_doubt'' > 0 \<or> field_value event ''pending'' > 0
      | UnderlayAuditWriteFailed \<Rightarrow> True
      | UnderlayTransactionInDoubt \<Rightarrow> True
      | _ \<Rightarrow> False)"

definition summary_from_event :: "UnderlayEvent \<Rightarrow> OperationSummary option" where
  "summary_from_event event =
     (if \<not> is_operator_event (ue_kind event) then None
      else let audit = audit_from_event event in
        Some \<lparr>os_request_id = au_request_id audit, os_trace_id = au_trace_id audit, os_action = au_action audit,
          os_result = au_result audit, os_tx_id = au_tx_id audit, os_device_id = au_device_id audit,
          os_attention_required = attention_required event, os_fields = ue_fields event\<rparr>)"

text \<open>The store in memory.\<close>

definition summaries_record_event :: "UnderlayEvent \<Rightarrow> OperationSummary list \<Rightarrow> unit result \<times> OperationSummary list" where
  "summaries_record_event event summaries =
     (case summary_from_event event of
        None \<Rightarrow> (Inr (), summaries) | Some summary \<Rightarrow> (Inr (), summaries @ [summary]))"

definition list_attention_required :: "OperationSummary list \<Rightarrow> OperationSummary list" where
  "list_attention_required summaries = filter os_attention_required summaries"

text \<open>The store in a file.\<close>

definition summary_io_error :: "string \<Rightarrow> UnderlayError" where
  "summary_io_error err = Internal (''operation summary io error: '' @ err)"

definition summary_codec ::
  "(OperationSummary \<Rightarrow> string + string) \<Rightarrow> (string \<Rightarrow> string + OperationSummary) \<Rightarrow> OperationSummary log_codec" where
  "summary_codec to_json from_json =
     \<lparr>lc_name = ''operation summary'',
      lc_encode = (\<lambda>s. map_err (\<lambda>err. Internal (''serialize operation summary: '' @ err)) (to_json s)),
      lc_decode = from_json, lc_io_error = summary_io_error, lc_parse_error = Internal\<rparr>"

definition file_summaries_record_event ::
  "OperationSummary log_codec \<Rightarrow> io_fault \<Rightarrow> string \<Rightarrow> UnderlayEvent \<Rightarrow> char dir \<Rightarrow> unit result \<times> char dir" where
  "file_summaries_record_event c fault path event d =
     (case summary_from_event event of
        None \<Rightarrow> (Inr (), d) | Some summary \<Rightarrow> append_record c fault path summary d)"

section \<open>The recording sink (telemetry/sink.rs)\<close>

text \<open>The events that reach the inner sink, given how the two stores answered.\<close>

definition recording_emit :: "unit result \<Rightarrow> unit result option \<Rightarrow> UnderlayEvent \<Rightarrow> UnderlayEvent list" where
  "recording_emit summary_result audit_result event =
     (let action = au_action (audit_from_event event) in
      (case summary_result of
         Inl err \<Rightarrow> if ue_kind event \<noteq> UnderlayAuditWriteFailed
           then [audit_write_failed (ue_request_id event) (ue_trace_id event) action (error_display err)] else []
       | Inr _ \<Rightarrow> []) @
      (case audit_result of
         Some (Inl err) \<Rightarrow> if ue_kind event \<noteq> UnderlayAuditWriteFailed
           then [operation_audit_write_failed (ue_request_id event) (ue_trace_id event) action (error_display err)]
           else []
       | _ \<Rightarrow> []) @ [event])"

definition event_log_level :: "UnderlayEvent \<Rightarrow> string" where
  "event_log_level event =
     (if ue_error_code event \<noteq> None \<or> ue_kind event \<in>
           {UnderlayAuditWriteFailed, UnderlayTransactionFailed, UnderlayTransactionInDoubt} then ''error''
      else if ue_kind event \<in>
           {UnderlayDriftDetected, UnderlayDeviceLockTimeout, UnderlayForceUnlockRequested} then ''warn''
      else ''info'')"

definition is_unquoted_log_char :: "char \<Rightarrow> bool" where
  "is_unquoted_log_char ch \<longleftrightarrow> is_ascii_alphanumeric ch \<or> ch \<in> set ''_-./:,@''"

definition format_log_value :: "(string \<Rightarrow> string option) \<Rightarrow> string \<Rightarrow> string" where
  "format_log_value to_json v =
     (if list_all is_unquoted_log_char v then v
      else case to_json v of Some text \<Rightarrow> text | None \<Rightarrow> [CHR 0x22] @ ''<unprintable>'' @ [CHR 0x22])"

definition format_underlay_event_log_line :: "(string \<Rightarrow> string option) \<Rightarrow> u64 \<Rightarrow> UnderlayEvent \<Rightarrow> string" where
  "format_underlay_event_log_line to_json now event =
     (let audit = audit_from_event event;
          opt = (\<lambda>key v. case v of Some x \<Rightarrow> [(key, x)] | None \<Rightarrow> []);
          fields =
            [(''ts'', show_nat (unat now)), (''level'', event_log_level event), (''action'', au_action audit),
             (''result'', au_result audit), (''request_id'', au_request_id audit), (''trace_id'', au_trace_id audit)] @
            opt ''tx_id'' (au_tx_id audit) @ opt ''device_id'' (au_device_id audit) @
            opt ''phase'' (map_option debug_phase (ue_phase event)) @
            opt ''strategy'' (map_option debug_strategy (ue_strategy event)) @
            opt ''error_code'' (au_error_code audit) @ opt ''error_message'' (au_error_message audit) @
            map (\<lambda>(key, v). (''field.'' @ key, v)) (entries (ue_fields event)) in
      join_with '' '' (map (\<lambda>(key, v). key @ ''='' @ format_log_value to_json v) fields))"

section \<open>The summaries query (api/operations.rs, api/service.rs)\<close>

record ListOperationSummariesRequest =
  lo_attention_required_only :: bool
  lo_action :: "string option"
  lo_result :: "string option"
  lo_device_id :: "DeviceId option"
  lo_tx_id :: "string option"
  lo_limit :: "nat option"

record OperationSummaryOverview =
  ov_matched_records :: nat
  ov_returned_records :: nat
  ov_attention_required :: nat
  ov_by_action :: "(string, nat) bmap"
  ov_by_result :: "(string, nat) bmap"
  ov_by_device :: "(string, nat) bmap"

record ListOperationSummariesResponse =
  ls_summaries :: "OperationSummary list"
  ls_overview :: OperationSummaryOverview

definition increment :: "'k::linorder \<Rightarrow> ('k, nat) bmap \<Rightarrow> ('k, nat) bmap" where
  "increment key m = bm_insert key ((case bm_get m key of Some n \<Rightarrow> n | None \<Rightarrow> 0) + 1) m"

definition overview_step :: "OperationSummary \<Rightarrow> OperationSummaryOverview \<Rightarrow> OperationSummaryOverview" where
  "overview_step summary ov =
     ov\<lparr>ov_attention_required := ov_attention_required ov + (if os_attention_required summary then 1 else 0),
        ov_by_action := increment (os_action summary) (ov_by_action ov),
        ov_by_result := increment (os_result summary) (ov_by_result ov),
        ov_by_device := (case os_device_id summary of
            Some d \<Rightarrow> increment d (ov_by_device ov) | None \<Rightarrow> ov_by_device ov)\<rparr>"

definition overview_from_summaries :: "OperationSummary list \<Rightarrow> nat \<Rightarrow> OperationSummaryOverview" where
  "overview_from_summaries summaries returned_records =
     fold overview_step summaries
       \<lparr>ov_matched_records = length summaries, ov_returned_records = returned_records, ov_attention_required = 0,
        ov_by_action = bm_empty, ov_by_result = bm_empty, ov_by_device = bm_empty\<rparr>"

definition retain_if :: "'a option \<Rightarrow> ('b \<Rightarrow> 'a option) \<Rightarrow> 'b list \<Rightarrow> 'b list" where
  "retain_if wanted field xs = (case wanted of Some v \<Rightarrow> filter (\<lambda>x. field x = Some v) xs | None \<Rightarrow> xs)"

definition filtered_operation_summaries ::
  "OperationSummary list \<Rightarrow> ListOperationSummariesRequest \<Rightarrow> OperationSummary list" where
  "filtered_operation_summaries summaries request =
     retain_if (lo_tx_id request) os_tx_id
     (retain_if (lo_device_id request) os_device_id
     (retain_if (lo_result request) (\<lambda>s. Some (os_result s))
     (retain_if (lo_action request) (\<lambda>s. Some (os_action s)) summaries)))"

definition limit_newest :: "'a list \<Rightarrow> nat \<Rightarrow> 'a list" where
  "limit_newest items limit =
     (if length items \<le> limit then items else rev (take limit (rev items)))"

definition list_operation_summaries ::
  "OperationSummary list \<Rightarrow> ListOperationSummariesRequest \<Rightarrow> ListOperationSummariesResponse" where
  "list_operation_summaries stored request =
     (let summaries = filtered_operation_summaries
            (if lo_attention_required_only request then list_attention_required stored else stored) request;
          returned = (case lo_limit request of
              Some limit \<Rightarrow> if length summaries > limit then rev (take limit (rev summaries)) else summaries
            | None \<Rightarrow> summaries) in
      \<lparr>ls_summaries = returned, ls_overview = overview_from_summaries summaries (length returned)\<rparr>)"

section \<open>Counters (telemetry/metrics.rs)\<close>

datatype MetricName =
    TransactionTotal | TransactionFailedTotal | TransactionRollbackTotal | TransactionInDoubtTotal
  | OperationForceResolveTotal | OperationRecoveryTotal | OperationRecoveryInDoubtTotal
  | OperationDriftAuditTotal | OperationDriftDetectedTotal | OperationJournalGcTotal
  | OperationJournalGcDeletedTotal | OperationApplyIdempotencyGcTotal
  | OperationApplyIdempotencyGcDeletedTotal | OperationAuditWriteFailedTotal | NetconfRpcLatencyMs
  | DeviceSessionReconnectTotal

definition transaction_metrics :: "ApplyStatus \<Rightarrow> MetricName list" where
  "transaction_metrics status = TransactionTotal #
     (case status of
        PartialSuccess \<Rightarrow> [TransactionFailedTotal]
      | ApplyFailed \<Rightarrow> [TransactionFailedTotal]
      | ApplyRolledBack \<Rightarrow> [TransactionRollbackTotal]
      | ApplyInDoubt \<Rightarrow> [TransactionInDoubtTotal]
      | _ \<Rightarrow> [])"

definition event_metrics :: "UnderlayEvent \<Rightarrow> MetricName list" where
  "event_metrics event =
     (case ue_kind event of
        UnderlayTransactionForceResolved \<Rightarrow> [OperationForceResolveTotal]
      | UnderlayRecoveryCompleted \<Rightarrow> OperationRecoveryTotal #
          (if field_value event ''in_doubt'' > 0 then [OperationRecoveryInDoubtTotal] else [])
      | UnderlayDriftAuditCompleted \<Rightarrow> OperationDriftAuditTotal #
          (if field_value event ''drifted_device_count'' > 0 then [OperationDriftDetectedTotal] else [])
      | UnderlayJournalGcCompleted \<Rightarrow> OperationJournalGcTotal #
          (if field_value event ''journals_deleted'' + field_value event ''artifacts_deleted'' > 0
           then [OperationJournalGcDeletedTotal] else [])
      | UnderlayApplyIdempotencyGcCompleted \<Rightarrow> OperationApplyIdempotencyGcTotal #
          (if field_value event ''records_deleted'' > 0 then [OperationApplyIdempotencyGcDeletedTotal] else [])
      | UnderlayAuditWriteFailed \<Rightarrow> [OperationAuditWriteFailedTotal]
      | _ \<Rightarrow> [])"

type_synonym metrics = "MetricName \<Rightarrow> nat"

definition metrics_increment :: "MetricName \<Rightarrow> metrics \<Rightarrow> metrics" where
  "metrics_increment name m = m(name := m name + 1)"

definition record_transaction_status :: "ApplyStatus \<Rightarrow> metrics \<Rightarrow> metrics" where
  "record_transaction_status status m = fold metrics_increment (transaction_metrics status) m"

definition metrics_record_event :: "UnderlayEvent \<Rightarrow> metrics \<Rightarrow> metrics" where
  "metrics_record_event event m = fold metrics_increment (event_metrics event) m"

section \<open>Correctness\<close>

lemma limit_newest_suffix: "limit_newest items n = drop (length items - n) items"
  by (simp add: limit_newest_def take_rev)

lemma increment_get:
  "bm_get (increment k m) k' = (if k' = k then Some ((case bm_get m k of Some n \<Rightarrow> n | None \<Rightarrow> 0) + 1) else bm_get m k')"
  by (simp add: increment_def bm_get_insert)

text \<open>A counter of the overview counts.\<close>

definition counted :: "'k list \<Rightarrow> ('k::linorder, nat) bmap \<Rightarrow> bool" where
  "counted ks m \<longleftrightarrow> (\<forall>k. bm_get m k = (if count_list ks k = 0 then None else Some (count_list ks k)))"

lemma counted_increment: "counted ks m \<Longrightarrow> counted (ks @ [k]) (increment k m)"
  by (auto simp: counted_def increment_get)

lemma overview_counts:
  defines "ov \<equiv> \<lambda>summaries n. overview_from_summaries summaries n"
  shows "ov_matched_records (ov summaries n) = length summaries"
    and "ov_returned_records (ov summaries n) = n"
    and "ov_attention_required (ov summaries n) = length (filter os_attention_required summaries)"
    and "counted (map os_action summaries) (ov_by_action (ov summaries n))"
    and "counted (map os_result summaries) (ov_by_result (ov summaries n))"
    and "counted (List.map_filter os_device_id summaries) (ov_by_device (ov summaries n))"
proof -
  let ?init = "\<lambda>len. \<lparr>ov_matched_records = len, ov_returned_records = n, ov_attention_required = 0,
        ov_by_action = bm_empty, ov_by_result = bm_empty, ov_by_device = bm_empty\<rparr>"
  let ?ok = "\<lambda>len xs ov. ov_matched_records ov = len \<and> ov_returned_records ov = n \<and>
      ov_attention_required ov = length (filter os_attention_required xs) \<and>
      counted (map os_action xs) (ov_by_action ov) \<and> counted (map os_result xs) (ov_by_result ov) \<and>
      counted (List.map_filter os_device_id xs) (ov_by_device ov)"
  have "?ok len xs (fold overview_step xs (?init len))" for len xs
  proof (induction xs rule: rev_induct)
    case Nil
    then show ?case by (simp add: counted_def map_filter_simps)
  next
    case (snoc x xs)
    then show ?case
      by (auto simp: overview_step_def counted_increment map_filter_def split: option.split)
  qed
  then show "ov_matched_records (ov summaries n) = length summaries" "ov_returned_records (ov summaries n) = n"
    "ov_attention_required (ov summaries n) = length (filter os_attention_required summaries)"
    "counted (map os_action summaries) (ov_by_action (ov summaries n))"
    "counted (map os_result summaries) (ov_by_result (ov summaries n))"
    "counted (List.map_filter os_device_id summaries) (ov_by_device (ov summaries n))"
    by (simp_all add: ov_def overview_from_summaries_def)
qed

text \<open>A failed recording is announced once, and the announcement is never announced itself.\<close>

lemma recording_emit_last: "last (recording_emit a b event) = event"
  by (simp add: recording_emit_def Let_def)

lemma recording_emit_failures:
  "ue_kind event = UnderlayAuditWriteFailed \<Longrightarrow> recording_emit a b event = [event]"
  by (auto simp: recording_emit_def Let_def split: sum.split option.split)

lemma metrics_fold: "fold metrics_increment names m name = m name + count_list names name"
  by (induction names arbitrary: m) (simp_all add: metrics_increment_def)

lemma record_transaction_total: "record_transaction_status status m TransactionTotal = m TransactionTotal + 1"
  by (cases status) (simp_all add: record_transaction_status_def transaction_metrics_def metrics_increment_def)

end
