(* ===== verification/Alerts.thy ===== *)
theory Alerts
  imports Telemetry Schedule
begin

text \<open>
  Operation alerts: the alert of a summary, sinks, the lifecycle of an alert and the checkpoint of delivered
  alerts (\<open>src/telemetry/alerts.rs\<close>), the delivery worker (\<open>src/worker/operation_alerts.rs\<close>) and the
  alerts query (\<open>src/api/operation_alerts.rs\<close>).
\<close>

section \<open>Alerts\<close>

datatype OperationAlertSeverity = Warning | Critical

record OperationAlert =
  al_dedupe_key :: string
  al_severity :: OperationAlertSeverity
  al_request_id :: string
  al_trace_id :: string
  al_action :: string
  al_result :: string
  al_tx_id :: "string option"
  al_device_id :: "DeviceId option"
  al_fields :: "(string, string) bmap"

definition dedupe_key :: "OperationSummary \<Rightarrow> string" where
  "dedupe_key summary =
     os_action summary @ ''|'' @ os_result summary @ ''|'' @ os_request_id summary @ ''|'' @ os_trace_id summary @
     ''|'' @ (case os_tx_id summary of Some t \<Rightarrow> t | None \<Rightarrow> ''-'') @
     ''|'' @ (case os_device_id summary of Some d \<Rightarrow> d | None \<Rightarrow> ''-'')"

definition severity_for_summary :: "OperationSummary \<Rightarrow> OperationAlertSeverity" where
  "severity_for_summary summary =
     (if os_action summary \<in> {''transaction.in_doubt'', ''audit.write_failed''} \<or>
         os_result summary \<in> {''in_doubt'', ''failed''} then Critical else Warning)"

definition alert_from_summary :: "OperationSummary \<Rightarrow> OperationAlert" where
  "alert_from_summary summary =
     \<lparr>al_dedupe_key = dedupe_key summary, al_severity = severity_for_summary summary,
      al_request_id = os_request_id summary, al_trace_id = os_trace_id summary, al_action = os_action summary,
      al_result = os_result summary, al_tx_id = os_tx_id summary, al_device_id = os_device_id summary,
      al_fields = os_fields summary\<rparr>"

definition alert_io_error :: "string \<Rightarrow> UnderlayError" where
  "alert_io_error err = Internal (''operation alert io error: '' @ err)"

section \<open>Sinks and checkpoints\<close>

text \<open>In memory.\<close>

definition memory_deliver :: "OperationAlert list \<Rightarrow> OperationAlert list \<Rightarrow> unit result \<times> OperationAlert list" where
  "memory_deliver alerts sink = (Inr (), sink @ alerts)"

definition memory_record_delivered :: "string list \<Rightarrow> string bset \<Rightarrow> unit result \<times> string bset" where
  "memory_record_delivered keys delivered = (Inr (), fold bs_insert keys delivered)"

text \<open>In files.  The alerts of a delivery are written one by one; the write of alert \<open>i\<close> may fail after
  some of its bytes.\<close>

definition alert_codec ::
  "(OperationAlert \<Rightarrow> string + string) \<Rightarrow> (string \<Rightarrow> string + OperationAlert) \<Rightarrow> OperationAlert log_codec" where
  "alert_codec to_json from_json =
     \<lparr>lc_name = ''operation alert'',
      lc_encode = (\<lambda>a. map_err (\<lambda>err. Internal (''serialize operation alert: '' @ err)) (to_json a)),
      lc_decode = from_json, lc_io_error = alert_io_error, lc_parse_error = Internal\<rparr>"

primrec write_alerts ::
  "OperationAlert log_codec \<Rightarrow> (nat \<Rightarrow> (nat \<times> string) option) \<Rightarrow> nat \<Rightarrow> OperationAlert list \<Rightarrow> string \<Rightarrow> unit result \<times> string" where
  "write_alerts c fault i [] content = (Inr (), content)"
| "write_alerts c fault i (alert # rest) content =
     (case encode_line c alert of
        Inl e \<Rightarrow> (Inl e, content)
      | Inr payload \<Rightarrow>
         (case fault i of
            Some (n, err) \<Rightarrow> (Inl (alert_io_error err), content @ take n payload)
          | None \<Rightarrow> write_alerts c fault (Suc i) rest (content @ payload)))"

definition file_deliver ::
  "OperationAlert log_codec \<Rightarrow> io_fault \<Rightarrow> (nat \<Rightarrow> (nat \<times> string) option) \<Rightarrow> string \<Rightarrow> OperationAlert list \<Rightarrow>
   char dir \<Rightarrow> unit result \<times> char dir" where
  "file_deliver c fault write_fault path alerts d =
     (let err = Inl (alert_io_error (fault_text fault));
          old = (case bm_get d path of Some content \<Rightarrow> content | None \<Rightarrow> []) in
      if alerts = [] then (Inr (), d)
      else if fails_at fault CreateDirAll \<or> fails_at fault OpenTmp then (err, d)
      else case write_alerts c write_fault 0 alerts old of
        (Inl e, content) \<Rightarrow> (Inl e, bm_insert path content d)
      | (Inr _, content) \<Rightarrow> (if fails_at fault SyncAll then err else Inr (), bm_insert path content d))"

definition file_alerts :: "OperationAlert log_codec \<Rightarrow> string option \<Rightarrow> string \<Rightarrow> char dir \<Rightarrow> OperationAlert list result" where
  "file_alerts c read_fault path d = list_records c read_fault path d"

definition read_checkpoint_keys ::
  "(string \<Rightarrow> string + string bset) \<Rightarrow> string option \<Rightarrow> string \<Rightarrow> char dir \<Rightarrow> string bset result" where
  "read_checkpoint_keys from_json read_fault path d =
     (case bm_get d path of
        None \<Rightarrow> Inr bm_empty
      | Some payload \<Rightarrow>
         (case read_fault of
            Some err \<Rightarrow> Inl (alert_io_error err)
          | None \<Rightarrow> map_err (\<lambda>err. Internal (''parse operation alert checkpoint '' @ debug_str path @ '': '' @ err))
              (from_json payload)))"

definition file_record_delivered ::
  "(string \<Rightarrow> string + string bset) \<Rightarrow> (string bset \<Rightarrow> string + string) \<Rightarrow> string option \<Rightarrow> io_fault \<Rightarrow> string \<Rightarrow>
   string \<Rightarrow> string list \<Rightarrow> char dir \<Rightarrow> unit result \<times> char dir" where
  "file_record_delivered from_json to_json read_fault fault uuid path keys d =
     (if keys = [] then (Inr (), d)
      else case and_then (read_checkpoint_keys from_json read_fault path d) (\<lambda>delivered.
          map_err (\<lambda>err. Internal (''serialize operation alert checkpoint: '' @ err))
            (to_json (fold bs_insert keys delivered))) of
        Inl e \<Rightarrow> (Inl e, d)
      | Inr payload \<Rightarrow> atomic_write fault uuid path payload alert_io_error d)"

section \<open>Delivery (worker/operation_alerts.rs)\<close>

record OperationAlertDeliveryReport =
  dl_scanned_attention_required :: nat
  dl_already_delivered :: nat
  dl_newly_delivered :: nat

text \<open>One run, for any sink and checkpoint store.\<close>

definition deliver_once ::
  "(OperationAlert list \<Rightarrow> 's \<Rightarrow> unit result \<times> 's) \<Rightarrow> (string list \<Rightarrow> 'k \<Rightarrow> unit result \<times> 'k) \<Rightarrow>
   ('k \<Rightarrow> string bset result) \<Rightarrow> OperationSummary list result \<Rightarrow> 's \<Rightarrow> 'k \<Rightarrow>
   OperationAlertDeliveryReport result \<times> 's \<times> 'k" where
  "deliver_once deliver record_delivered delivered_keys stored sink checkpoint =
     (case and_then stored (\<lambda>summaries. and_then (delivered_keys checkpoint) (\<lambda>keys.
        Inr (list_attention_required summaries, keys))) of
        Inl e \<Rightarrow> (Inl e, sink, checkpoint)
      | Inr (summaries, keys) \<Rightarrow>
         (let all_alerts = map alert_from_summary summaries;
              alerts = filter (\<lambda>a. \<not> bs_member keys (al_dedupe_key a)) all_alerts;
              report = \<lparr>dl_scanned_attention_required = length summaries,
                dl_already_delivered = length (filter (\<lambda>a. bs_member keys (al_dedupe_key a)) all_alerts),
                dl_newly_delivered = length alerts\<rparr> in
          if alerts = [] then (Inr report, sink, checkpoint)
          else case deliver alerts sink of
            (Inl e, sink) \<Rightarrow> (Inl e, sink, checkpoint)
          | (Inr _, sink) \<Rightarrow>
             (case record_delivered (map al_dedupe_key alerts) checkpoint of
                (Inl e, checkpoint) \<Rightarrow> (Inl e, sink, checkpoint)
              | (Inr _, checkpoint) \<Rightarrow> (Inr report, sink, checkpoint))))"

definition memory_deliver_once ::
  "OperationSummary list \<Rightarrow> OperationAlert list \<Rightarrow> string bset \<Rightarrow>
   OperationAlertDeliveryReport result \<times> OperationAlert list \<times> string bset" where
  "memory_deliver_once summaries sink checkpoint =
     deliver_once memory_deliver memory_record_delivered Inr (Inr summaries) sink checkpoint"

definition default_alert_schedule :: WorkerSchedule where
  "default_alert_schedule = \<lparr>sc_interval_secs = 5 * 60, sc_run_immediately = True\<rparr>"

text \<open>The worker on its schedule; the summaries its runs read are part of the state.\<close>

definition run_alert_delivery ::
  "WorkerSchedule \<Rightarrow> ((OperationSummary list \<times> OperationAlert list \<times> string bset) \<Rightarrow>
     (OperationSummary list \<times> OperationAlert list \<times> string bset)) list \<Rightarrow>
   (OperationSummary list \<times> OperationAlert list \<times> string bset) \<Rightarrow>
   OperationAlertDeliveryReport SchedulerReport result \<times> (OperationSummary list \<times> OperationAlert list \<times> string bset)" where
  "run_alert_delivery schedule ticks =
     run_periodic ''operation alert delivery''
       (\<lambda>(summaries, sink, checkpoint). case memory_deliver_once summaries sink checkpoint of
          (r, sink, checkpoint) \<Rightarrow> (r, summaries, sink, checkpoint)) schedule ticks"

section \<open>Lifecycle\<close>

datatype OperationAlertLifecycleStatus = AlertOpen | Acknowledged | Resolved | Suppressed | Expired

fun debug_alert_status :: "OperationAlertLifecycleStatus \<Rightarrow> string" where
  "debug_alert_status AlertOpen = ''Open''"
| "debug_alert_status Acknowledged = ''Acknowledged''"
| "debug_alert_status Resolved = ''Resolved''"
| "debug_alert_status Suppressed = ''Suppressed''"
| "debug_alert_status Expired = ''Expired''"

record OperationAlertLifecycleEvent =
  le_status :: OperationAlertLifecycleStatus
  le_operator_id :: string
  le_reason :: "string option"
  le_request_id :: string
  le_trace_id :: string
  le_updated_at :: u64

record OperationAlertLifecycleRecord =
  lr_dedupe_key :: string
  lr_status :: OperationAlertLifecycleStatus
  lr_operator_id :: "string option"
  lr_reason :: "string option"
  lr_request_id :: string
  lr_trace_id :: string
  lr_updated_at :: u64
  lr_history :: "OperationAlertLifecycleEvent list"

record OperationAlertLifecycleTransition =
  lt_dedupe_key :: string
  lt_status :: OperationAlertLifecycleStatus
  lt_operator_id :: string
  lt_reason :: "string option"
  lt_request_id :: string
  lt_trace_id :: string

fun is_allowed_lifecycle_transition :: "OperationAlertLifecycleStatus \<Rightarrow> OperationAlertLifecycleStatus \<Rightarrow> bool" where
  "is_allowed_lifecycle_transition AlertOpen to_status \<longleftrightarrow>
     to_status \<in> {Acknowledged, Resolved, Suppressed, Expired}"
| "is_allowed_lifecycle_transition Acknowledged to_status \<longleftrightarrow> to_status \<in> {Resolved, Suppressed, Expired}"
| "is_allowed_lifecycle_transition _ to_status \<longleftrightarrow> False"

definition transition_lifecycle_record ::
  "u64 \<Rightarrow> OperationAlertLifecycleRecord option \<Rightarrow> OperationAlertLifecycleTransition \<Rightarrow>
   OperationAlertLifecycleRecord result" where
  "transition_lifecycle_record now current t =
     (let from_status = (case current of Some r \<Rightarrow> lr_status r | None \<Rightarrow> AlertOpen) in
      if \<not> is_allowed_lifecycle_transition from_status (lt_status t) then
        Inl (InvalidIntent (''cannot transition alert '' @ lt_dedupe_key t @ '' from '' @
          debug_alert_status from_status @ '' to '' @ debug_alert_status (lt_status t)))
      else
        let event = \<lparr>le_status = lt_status t, le_operator_id = lt_operator_id t, le_reason = lt_reason t,
              le_request_id = lt_request_id t, le_trace_id = lt_trace_id t, le_updated_at = now\<rparr>;
            r = (case current of
                Some r \<Rightarrow> r
              | None \<Rightarrow> \<lparr>lr_dedupe_key = lt_dedupe_key t, lr_status = AlertOpen, lr_operator_id = None,
                  lr_reason = None, lr_request_id = lt_request_id t, lr_trace_id = lt_trace_id t,
                  lr_updated_at = now, lr_history = []\<rparr>) in
        Inr (r\<lparr>lr_status := lt_status t, lr_operator_id := Some (lt_operator_id t), lr_reason := lt_reason t,
          lr_request_id := lt_request_id t, lr_trace_id := lt_trace_id t, lr_updated_at := now,
          lr_history := lr_history r @ [event]\<rparr>))"

type_synonym alert_states = "(string, OperationAlertLifecycleRecord) bmap"

definition lifecycle_transition ::
  "u64 \<Rightarrow> OperationAlertLifecycleTransition \<Rightarrow> alert_states \<Rightarrow> OperationAlertLifecycleRecord result \<times> alert_states" where
  "lifecycle_transition now t records =
     (case transition_lifecycle_record now (bm_get records (lt_dedupe_key t)) t of
        Inl e \<Rightarrow> (Inl e, records)
      | Inr r \<Rightarrow> (Inr r, bm_insert (lr_dedupe_key r) r records))"

definition read_lifecycle_records ::
  "(string \<Rightarrow> string + alert_states) \<Rightarrow> string option \<Rightarrow> string \<Rightarrow> char dir \<Rightarrow> alert_states result" where
  "read_lifecycle_records from_json read_fault path d =
     (case bm_get d path of
        None \<Rightarrow> Inr bm_empty
      | Some payload \<Rightarrow>
         (case read_fault of
            Some err \<Rightarrow> Inl (alert_io_error err)
          | None \<Rightarrow> map_err (\<lambda>err. Internal (''parse operation alert lifecycle '' @ debug_str path @ '': '' @ err))
              (from_json payload)))"

definition write_lifecycle_records ::
  "(alert_states \<Rightarrow> string + string) \<Rightarrow> io_fault \<Rightarrow> string \<Rightarrow> string \<Rightarrow> alert_states \<Rightarrow> char dir \<Rightarrow> unit result \<times> char dir" where
  "write_lifecycle_records to_json fault uuid path records d =
     (case to_json records of
        Inl err \<Rightarrow> (Inl (Internal (''serialize operation alert lifecycle: '' @ err)), d)
      | Inr payload \<Rightarrow> atomic_write fault uuid path payload alert_io_error d)"

definition file_lifecycle_get ::
  "(string \<Rightarrow> string + alert_states) \<Rightarrow> string option \<Rightarrow> string \<Rightarrow> string \<Rightarrow> char dir \<Rightarrow>
   OperationAlertLifecycleRecord option result" where
  "file_lifecycle_get from_json read_fault path key d =
     and_then (read_lifecycle_records from_json read_fault path d) (\<lambda>records. Inr (bm_get records key))"

definition file_lifecycle_transition ::
  "(string \<Rightarrow> string + alert_states) \<Rightarrow> (alert_states \<Rightarrow> string + string) \<Rightarrow> string option \<Rightarrow> io_fault \<Rightarrow> string \<Rightarrow>
   string \<Rightarrow> u64 \<Rightarrow> OperationAlertLifecycleTransition \<Rightarrow> char dir \<Rightarrow> OperationAlertLifecycleRecord result \<times> char dir" where
  "file_lifecycle_transition from_json to_json read_fault fault uuid path now t d =
     (case and_then (read_lifecycle_records from_json read_fault path d) (\<lambda>records.
        and_then (transition_lifecycle_record now (bm_get records (lt_dedupe_key t)) t) (\<lambda>r.
        Inr (records, r))) of
        Inl e \<Rightarrow> (Inl e, d)
      | Inr (records, r) \<Rightarrow>
         (case write_lifecycle_records to_json fault uuid path (bm_insert (lr_dedupe_key r) r records) d of
            (Inl e, d) \<Rightarrow> (Inl e, d) | (Inr _, d) \<Rightarrow> (Inr r, d)))"

section \<open>The alerts query (api/operation_alerts.rs)\<close>

record ListOperationAlertsRequest =
  la_operation_alert_path :: string
  la_alert_state_path :: "string option"
  la_severity :: "OperationAlertSeverity option"
  la_limit :: "nat option"

record OperationAlertView =
  av_alert :: OperationAlert
  av_lifecycle :: "OperationAlertLifecycleRecord option"

record OperationAlertOverview =
  ao_matched_alerts :: nat
  ao_returned_alerts :: nat
  ao_critical :: nat
  ao_warning :: nat
  ao_open :: nat
  ao_acknowledged :: nat
  ao_resolved :: nat
  ao_suppressed :: nat
  ao_expired :: nat
  ao_by_action :: "(string, nat) bmap"
  ao_by_result :: "(string, nat) bmap"
  ao_by_device :: "(string, nat) bmap"

record ListOperationAlertsResponse =
  lx_alerts :: "OperationAlertView list"
  lx_overview :: OperationAlertOverview

definition record_lifecycle_status ::
  "OperationAlertLifecycleStatus \<Rightarrow> OperationAlertOverview \<Rightarrow> OperationAlertOverview" where
  "record_lifecycle_status status ov =
     (case status of
        AlertOpen \<Rightarrow> ov\<lparr>ao_open := ao_open ov + 1\<rparr>
      | Acknowledged \<Rightarrow> ov\<lparr>ao_acknowledged := ao_acknowledged ov + 1\<rparr>
      | Resolved \<Rightarrow> ov\<lparr>ao_resolved := ao_resolved ov + 1\<rparr>
      | Suppressed \<Rightarrow> ov\<lparr>ao_suppressed := ao_suppressed ov + 1\<rparr>
      | Expired \<Rightarrow> ov\<lparr>ao_expired := ao_expired ov + 1\<rparr>)"

definition alert_status :: "alert_states \<Rightarrow> OperationAlert \<Rightarrow> OperationAlertLifecycleStatus" where
  "alert_status records alert =
     (case bm_get records (al_dedupe_key alert) of Some r \<Rightarrow> lr_status r | None \<Rightarrow> AlertOpen)"

definition alert_overview_step ::
  "alert_states \<Rightarrow> OperationAlert \<Rightarrow> OperationAlertOverview \<Rightarrow> OperationAlertOverview" where
  "alert_overview_step records alert ov =
     (let ov = (case al_severity alert of
            Critical \<Rightarrow> ov\<lparr>ao_critical := ao_critical ov + 1\<rparr>
          | Warning \<Rightarrow> ov\<lparr>ao_warning := ao_warning ov + 1\<rparr>);
          ov = ov\<lparr>ao_by_action := increment (al_action alert) (ao_by_action ov),
                 ao_by_result := increment (al_result alert) (ao_by_result ov)\<rparr>;
          ov = (case al_device_id alert of
              Some d \<Rightarrow> ov\<lparr>ao_by_device := increment d (ao_by_device ov)\<rparr> | None \<Rightarrow> ov) in
      record_lifecycle_status (alert_status records alert) ov)"

definition overview_from_alerts :: "OperationAlert list \<Rightarrow> nat \<Rightarrow> alert_states \<Rightarrow> OperationAlertOverview" where
  "overview_from_alerts alerts returned records =
     fold (alert_overview_step records) alerts
       \<lparr>ao_matched_alerts = length alerts, ao_returned_alerts = returned, ao_critical = 0, ao_warning = 0,
        ao_open = 0, ao_acknowledged = 0, ao_resolved = 0, ao_suppressed = 0, ao_expired = 0,
        ao_by_action = bm_empty, ao_by_result = bm_empty, ao_by_device = bm_empty\<rparr>"

definition filtered_alerts ::
  "OperationAlert log_codec \<Rightarrow> string option \<Rightarrow> ListOperationAlertsRequest \<Rightarrow> char dir \<Rightarrow> OperationAlert list result" where
  "filtered_alerts c read_fault request d =
     and_then (file_alerts c read_fault (la_operation_alert_path request) d) (\<lambda>alerts.
     Inr (filter (\<lambda>alert. case la_severity request of
       Some severity \<Rightarrow> al_severity alert = severity | None \<Rightarrow> True) alerts))"

definition lifecycle_records ::
  "(string \<Rightarrow> string + alert_states) \<Rightarrow> string option \<Rightarrow> ListOperationAlertsRequest \<Rightarrow> char dir \<Rightarrow> alert_states result" where
  "lifecycle_records from_json read_fault request d =
     (case la_alert_state_path request of
        None \<Rightarrow> Inr bm_empty
      | Some path \<Rightarrow>
         and_then (read_lifecycle_records from_json read_fault path d) (\<lambda>records.
         Inr (bm_of_list (map (\<lambda>r. (lr_dedupe_key r, r)) (bm_values records)))))"

definition limit_alerts :: "OperationAlert list \<Rightarrow> alert_states \<Rightarrow> nat option \<Rightarrow> OperationAlertView list" where
  "limit_alerts alerts records limit =
     map (\<lambda>alert. \<lparr>av_alert = alert, av_lifecycle = bm_get records (al_dedupe_key alert)\<rparr>)
       (take (case limit of Some n \<Rightarrow> n | None \<Rightarrow> length alerts) alerts)"

definition list_operation_alerts ::
  "OperationAlert log_codec \<Rightarrow> (string \<Rightarrow> string + alert_states) \<Rightarrow> string option \<Rightarrow> string option \<Rightarrow>
   ListOperationAlertsRequest \<Rightarrow> char dir \<Rightarrow> ListOperationAlertsResponse result" where
  "list_operation_alerts c from_json alert_fault state_fault request d =
     and_then (filtered_alerts c alert_fault request d) (\<lambda>alerts.
     and_then (lifecycle_records from_json state_fault request d) (\<lambda>records.
     let returned = limit_alerts alerts records (la_limit request) in
     Inr \<lparr>lx_alerts = returned, lx_overview = overview_from_alerts alerts (length returned) records\<rparr>))"

section \<open>Correctness\<close>

text \<open>What a delivery promises, for every sink and checkpoint store that keep their own contracts: a delivery
  that succeeds has taken every alert, one that fails has lost none, and a checkpoint never lists a key that
  was not recorded.\<close>

locale alert_delivery =
  fixes deliver :: "OperationAlert list \<Rightarrow> 's \<Rightarrow> unit result \<times> 's"
    and alerts_of :: "'s \<Rightarrow> OperationAlert set"
    and record_delivered :: "string list \<Rightarrow> 'k \<Rightarrow> unit result \<times> 'k"
    and delivered_keys :: "'k \<Rightarrow> string bset result"
  assumes deliver_keeps: "deliver alerts s = (r, s') \<Longrightarrow> alerts_of s \<subseteq> alerts_of s'"
    and deliver_ok: "deliver alerts s = (Inr u, s') \<Longrightarrow> set alerts \<subseteq> alerts_of s'"
    and record_sound: "record_delivered keys k = (r, k') \<Longrightarrow> delivered_keys k' = Inr ks' \<Longrightarrow> bs_member ks' key \<Longrightarrow>
      key \<in> set keys \<or> (\<exists>ks. delivered_keys k = Inr ks \<and> bs_member ks key)"
    and record_ok: "record_delivered keys k = (Inr u, k') \<Longrightarrow> delivered_keys k = Inr ks \<Longrightarrow>
      \<exists>ks'. delivered_keys k' = Inr ks' \<and> (\<forall>key. bs_member ks' key \<longleftrightarrow> bs_member ks key \<or> key \<in> set keys)"
begin

text \<open>Every key of the checkpoint has its alert in the sink.\<close>

definition backed :: "'s \<Rightarrow> 'k \<Rightarrow> bool" where
  "backed s k \<longleftrightarrow> (\<forall>ks key. delivered_keys k = Inr ks \<longrightarrow> bs_member ks key \<longrightarrow>
     (\<exists>alert \<in> alerts_of s. al_dedupe_key alert = key))"

lemma backed_deliver: "backed s k \<Longrightarrow> deliver alerts s = (r, s') \<Longrightarrow> backed s' k"
  using deliver_keeps unfolding backed_def by fast

lemma backed_record:
  assumes "backed s k" "record_delivered (map al_dedupe_key alerts) k = (r, k')" "set alerts \<subseteq> alerts_of s"
  shows "backed s k'"
  unfolding backed_def
proof (intro allI impI)
  fix ks key
  assume "delivered_keys k' = Inr ks" "bs_member ks key"
  from record_sound[OF assms(2) this]
  show "\<exists>alert \<in> alerts_of s. al_dedupe_key alert = key" using assms(1,3) unfolding backed_def by fastforce
qed

text \<open>The alerts of a run.\<close>

definition pending :: "OperationSummary list \<Rightarrow> string bset \<Rightarrow> OperationAlert list" where
  "pending summaries ks =
     filter (\<lambda>a. \<not> bs_member ks (al_dedupe_key a)) (map alert_from_summary (list_attention_required summaries))"

lemma pending_member:
  assumes "summary \<in> set summaries" "os_attention_required summary" "\<not> bs_member ks (dedupe_key summary)"
  shows "alert_from_summary summary \<in> set (pending summaries ks)"
  using assms by (auto simp: pending_def list_attention_required_def alert_from_summary_def)

lemma run_cases:
  assumes "deliver_once deliver record_delivered delivered_keys stored s k = (res, s', k')"
  obtains (failed) e where "res = Inl e" "s' = s" "k' = k"
  | (idle) report summaries ks where "stored = Inr summaries" "delivered_keys k = Inr ks" "res = Inr report"
      "pending summaries ks = []" "s' = s" "k' = k" "dl_newly_delivered report = 0"
  | (lost) e summaries ks where "stored = Inr summaries" "delivered_keys k = Inr ks"
      "deliver (pending summaries ks) s = (Inl e, s')" "k' = k" "res = Inl e"
  | (recorded) r u summaries ks where "stored = Inr summaries" "delivered_keys k = Inr ks"
      "deliver (pending summaries ks) s = (Inr u, s')"
      "record_delivered (map al_dedupe_key (pending summaries ks)) k = (r, k')" "isl res = isl r"
proof -
  consider (stop) e where "res = Inl e" "s' = s" "k' = k"
    | (go) summaries ks where "stored = Inr summaries" "delivered_keys k = Inr ks"
    using assms by (cases stored; cases "delivered_keys k") (auto simp: deliver_once_def)
  then show thesis
  proof cases
    case stop
    then show thesis by (rule failed)
  next
    case go
    obtain r1 s1 where d: "deliver (pending summaries ks) s = (r1, s1)" by (rule prod.exhaust)
    obtain r2 k2 where c: "record_delivered (map al_dedupe_key (pending summaries ks)) k = (r2, k2)" by (rule prod.exhaust)
    note run = assms[unfolded deliver_once_def go and_then_def sum.case prod.case Let_def, folded pending_def]
    show thesis
    proof (cases "pending summaries ks = []")
      case True
      with run have "res = Inr \<lparr>dl_scanned_attention_required = length (list_attention_required summaries),
          dl_already_delivered = length (filter (\<lambda>a. bs_member ks (al_dedupe_key a))
            (map alert_from_summary (list_attention_required summaries))), dl_newly_delivered = 0\<rparr>" "s' = s" "k' = k"
        by simp_all
      from idle[OF go this(1) True this(2,3)] show thesis by simp
    next
      case False
      show thesis
      proof (cases r1)
        case (Inl e)
        then show thesis using run False d lost[OF go, of e] by simp
      next
        case (Inr u)
        then show thesis using run False d c recorded[OF go, of u r2] by (cases r2) auto
      qed
    qed
  qed
qed

lemma run_backed:
  assumes "deliver_once deliver record_delivered delivered_keys stored s k = (res, s', k')" "backed s k"
  shows "backed s' k'"
  using assms(1)
proof (cases rule: run_cases)
  case (lost e summaries ks)
  then show ?thesis using backed_deliver[OF assms(2)] by blast
next
  case (recorded r u summaries ks)
  then show ?thesis using backed_record[OF backed_deliver[OF assms(2)]] deliver_ok by blast
qed (use assms(2) in simp_all)

lemma run_lists:
  assumes "deliver_once deliver record_delivered delivered_keys (Inr summaries) s k = (Inr report, s', k')"
    and "summary \<in> set summaries" "os_attention_required summary"
  shows "\<exists>ks'. delivered_keys k' = Inr ks' \<and> bs_member ks' (dedupe_key summary)"
  using assms(1)
proof (cases rule: run_cases)
  case (idle report' summaries' ks)
  then show ?thesis using pending_member[OF assms(2,3), of ks] by fastforce
next
  case (recorded r u summaries' ks)
  then obtain v where "r = Inr v" by (cases r) auto
  with recorded have done_run: "record_delivered (map al_dedupe_key (pending summaries ks)) k = (Inr v, k')" by simp
  have "dedupe_key summary \<in> set (map al_dedupe_key (pending summaries ks))" if "\<not> bs_member ks (dedupe_key summary)"
    using imageI[OF pending_member[OF assms(2,3) that], of al_dedupe_key] by (simp add: alert_from_summary_def)
  with record_ok[OF done_run recorded(2)] show ?thesis by blast
qed simp_all

lemma run_delivers:
  assumes "deliver_once deliver record_delivered delivered_keys (Inr summaries) s k = (Inr report, s', k')"
    and "backed s k" "summary \<in> set summaries" "os_attention_required summary"
  shows "\<exists>alert \<in> alerts_of s'. al_dedupe_key alert = dedupe_key summary"
  using run_lists[OF assms(1,3,4)] run_backed[OF assms(1,2)] unfolding backed_def by blast

end

lemma fold_bs_insert: "bs_member (fold bs_insert keys ks) key \<longleftrightarrow> bs_member ks key \<or> key \<in> set keys"
  by (induction keys arbitrary: ks) auto

interpretation memory_alerts: alert_delivery memory_deliver set memory_record_delivered Inr
  by unfold_locales (auto simp: memory_deliver_def memory_record_delivered_def fold_bs_insert)

text \<open>The lifecycle: at most two transitions, and a final status stays.\<close>

lemma lifecycle_final:
  "is_allowed_lifecycle_transition a b \<Longrightarrow> is_allowed_lifecycle_transition b c \<Longrightarrow>
   a = AlertOpen \<and> b = Acknowledged \<and> c \<in> {Resolved, Suppressed, Expired}"
  by (cases a; cases b) auto

text \<open>One run of the delivery in memory cannot fail, and leaves every summary that needs attention alerted.\<close>

definition alerted :: "OperationSummary list \<Rightarrow> OperationAlert list \<Rightarrow> bool" where
  "alerted summaries sink \<longleftrightarrow> (\<forall>summary \<in> set summaries. os_attention_required summary \<longrightarrow>
     (\<exists>alert \<in> set sink. al_dedupe_key alert = dedupe_key summary))"

lemma memory_run:
  assumes "memory_deliver_once summaries sink checkpoint = (res, sink', checkpoint')" "memory_alerts.backed sink checkpoint"
  shows "(\<exists>report. res = Inr report) \<and> memory_alerts.backed sink' checkpoint' \<and> alerted summaries sink'"
proof -
  obtain report where ok: "res = Inr report"
    using assms(1)
    by (auto simp: memory_deliver_once_def deliver_once_def memory_deliver_def memory_record_delivered_def Let_def
        split: if_splits)
  note run = assms(1)[unfolded memory_deliver_once_def ok]
  have "alerted summaries sink'" unfolding alerted_def using memory_alerts.run_delivers[OF run assms(2)] by blast
  then show ?thesis using ok memory_alerts.run_backed[OF run assms(2)] by blast
qed

definition arrivals ::
  "OperationSummary list \<Rightarrow> (OperationSummary list \<times> OperationAlert list \<times> string bset) \<Rightarrow>
   (OperationSummary list \<times> OperationAlert list \<times> string bset)" where
  "arrivals new s = (case s of (summaries, sink, checkpoint) \<Rightarrow> (summaries @ new, sink, checkpoint))"

definition delivery_run ::
  "(OperationSummary list \<times> OperationAlert list \<times> string bset) \<Rightarrow>
   OperationAlertDeliveryReport result \<times> (OperationSummary list \<times> OperationAlert list \<times> string bset)" where
  "delivery_run = (\<lambda>(summaries, sink, checkpoint). case memory_deliver_once summaries sink checkpoint of
     (r, sink, checkpoint) \<Rightarrow> (r, summaries, sink, checkpoint))"

lemma scheduled_delivery:
  assumes "memory_alerts.backed sink checkpoint"
  obtains report' sink' checkpoint' where
    "scheduled_run delivery_run report (summaries, sink, checkpoint) = (Inr report', summaries, sink', checkpoint')"
    "memory_alerts.backed sink' checkpoint'" "alerted summaries sink'"
proof -
  obtain r sink' checkpoint' where run: "memory_deliver_once summaries sink checkpoint = (r, sink', checkpoint')"
    by (rule prod_cases3)
  from memory_run[OF this assms] show thesis using run that by (auto simp: scheduled_run_def delivery_run_def)
qed

lemma run_ticks_alerts:
  assumes "memory_alerts.backed sink checkpoint" "news = [] \<Longrightarrow> alerted summaries sink"
  shows "\<exists>report' sink' checkpoint'.
    run_ticks delivery_run (map arrivals news) report (summaries, sink, checkpoint) =
      (Inr report', summaries @ concat news, sink', checkpoint') \<and> alerted (summaries @ concat news) sink'"
  using assms
proof (induction news arbitrary: summaries sink checkpoint report)
  case (Cons new news)
  obtain report' sink' checkpoint' where run:
    "scheduled_run delivery_run report (summaries @ new, sink, checkpoint) = (Inr report', summaries @ new, sink', checkpoint')"
    "memory_alerts.backed sink' checkpoint'" "alerted (summaries @ new) sink'"
    by (rule scheduled_delivery[OF Cons.prems(1)])
  from Cons.IH[OF run(2) run(3), of report'] show ?case using run(1) by (simp add: arrivals_def)
qed simp


definition stuck_summary :: OperationSummary where
  "stuck_summary =
     \<lparr>os_request_id = ''r1'', os_trace_id = ''t1'', os_action = ''transaction.in_doubt'', os_result = ''in_doubt'',
      os_tx_id = Some ''tx1'', os_device_id = Some ''leaf-1'', os_attention_required = True, os_fields = bm_empty\<rparr>"


text \<open>Two drift reports of the same device, in the order they are found.\<close>

definition drift_summaries :: "DriftReport list \<Rightarrow> OperationSummary list" where
  "drift_summaries reports =
     concat (map (\<lambda>report. case summary_from_event (drift_detected ''drift-audit'' ''drift-audit'' report) of
       Some summary \<Rightarrow> [summary] | None \<Rightarrow> []) reports)"

lemma drift_summary_key:
  assumes "summary_from_event (drift_detected ''drift-audit'' ''drift-audit'' report) = Some summary"
  shows "dedupe_key summary = ''drift.detected|'' @ (if dp_drift_detected report then ''drift_detected'' else ''clean'') @
    ''|drift-audit|drift-audit|-|'' @ dp_device_id report \<and> os_attention_required summary"
  using assms
  by (auto simp: summary_from_event_def is_operator_event_def Let_def audit_from_event_def drift_detected_def
      put_field_def bare_event_def dedupe_key_def attention_required_def split: list.splits if_splits)

lemma drift_summaries_member:
  "summary \<in> set (drift_summaries reports) \<Longrightarrow>
   \<exists>r \<in> set reports. summary_from_event (drift_detected ''drift-audit'' ''drift-audit'' r) = Some summary"
  unfolding drift_summaries_def
proof (induction reports)
  case (Cons r reports)
  then show ?case
    by (cases "summary_from_event (drift_detected ''drift-audit'' ''drift-audit'' r)") auto
qed simp

lemma drift_is_summarized:
  "\<exists>summary. summary_from_event (drift_detected request_id trace_id report) = Some summary"
  by (auto simp: summary_from_event_def is_operator_event_def Let_def drift_detected_def put_field_def bare_event_def
      split: list.splits)

lemma alert_key: "al_dedupe_key (alert_from_summary summary) = dedupe_key summary"
  by (simp add: alert_from_summary_def)

lemma memory_deliver_once_records:
  assumes "memory_deliver_once summaries sink checkpoint = (Inr report, sink', checkpoint')"
    and "summary \<in> set summaries" "os_attention_required summary"
  shows "bs_member checkpoint' (dedupe_key summary)"
  using memory_alerts.run_lists[OF assms(1)[unfolded memory_deliver_once_def] assms(2,3)] by simp

text \<open>C33: An alert of drift is delivered once per device for as long as the checkpoint lives: once the drift of
  a device has been alerted, no later drift of that device, whatever it consists of, is delivered, because drift
  events carry constant request and trace ids and these are all that the key has of the occasion.\<close>

theorem repeated_drift_not_alerted:
  assumes "memory_deliver_once (drift_summaries [first]) sink checkpoint = (Inr report, sink', checkpoint')"
    and "dp_drift_detected first" "\<forall>later \<in> set laters. dp_drift_detected later \<and> dp_device_id later = dp_device_id first"
  shows "\<exists>report'. memory_deliver_once (drift_summaries (first # laters)) sink' checkpoint' = (Inr report', sink', checkpoint') \<and>
    dl_newly_delivered report' = 0 \<and> dl_already_delivered report' = length (drift_summaries (first # laters))"
proof -
  let ?key = "''drift.detected|drift_detected|drift-audit|drift-audit|-|'' @ dp_device_id first"
  have keys: "dedupe_key summary = ?key \<and> os_attention_required summary"
    if "summary \<in> set (drift_summaries reports)" "set reports \<subseteq> set (first # laters)" for summary reports
  proof -
    from that obtain r where "r \<in> set (first # laters)"
      "summary_from_event (drift_detected ''drift-audit'' ''drift-audit'' r) = Some summary"
      using drift_summaries_member by blast
    then show ?thesis using drift_summary_key[of r summary] assms(2,3) by auto
  qed
  have "drift_summaries [first] \<noteq> []"
    using drift_is_summarized[of "''drift-audit''" "''drift-audit''" first] by (auto simp: drift_summaries_def)
  then obtain summary where summary: "summary \<in> set (drift_summaries [first])" by (cases "drift_summaries [first]") auto
  have "bs_member checkpoint' ?key"
    using memory_deliver_once_records[OF assms(1) summary] keys[OF summary] by auto
  then have "list_attention_required (drift_summaries (first # laters)) = drift_summaries (first # laters) \<and>
      filter (\<lambda>s. \<not> bs_member checkpoint' (dedupe_key s)) (drift_summaries (first # laters)) = []"
    using keys[of _ "first # laters"] by (auto simp: list_attention_required_def filter_id_conv filter_empty_conv)
  then show ?thesis
    by (simp add: memory_deliver_once_def deliver_once_def Let_def filter_map comp_def alert_key
        filter_empty_conv filter_id_conv)
qed

theorem repeated_drift_not_alerted_witness:
  "\<exists>sink' checkpoint' report'.
    memory_deliver_once (drift_summaries [\<lparr>dp_device_id = ''leaf-1'', dp_drift_detected = True, dp_findings = [],
      dp_warnings = [''monday'']\<rparr>]) [] bm_empty = (Inr report', sink', checkpoint') \<and> dl_newly_delivered report' = 1 \<and>
    (\<exists>report''. memory_deliver_once (drift_summaries [\<lparr>dp_device_id = ''leaf-1'', dp_drift_detected = True, dp_findings = [],
      dp_warnings = [''monday'']\<rparr>, \<lparr>dp_device_id = ''leaf-1'', dp_drift_detected = True, dp_findings = [],
      dp_warnings = [''friday'', ''again'']\<rparr>]) sink' checkpoint' = (Inr report'', sink', checkpoint') \<and>
      dl_newly_delivered report'' = 0)"
proof -
  let ?first = "\<lparr>dp_device_id = ''leaf-1'', dp_drift_detected = True, dp_findings = [], dp_warnings = [''monday'']\<rparr>"
  let ?later = "\<lparr>dp_device_id = ''leaf-1'', dp_drift_detected = True, dp_findings = [], dp_warnings = [''friday'', ''again'']\<rparr>"
  have "case memory_deliver_once (drift_summaries [?first]) [] bm_empty of
      (Inr report, _, _) \<Rightarrow> dl_newly_delivered report = 1 | (Inl _, _, _) \<Rightarrow> False"
    by code_simp
  then obtain report sink' checkpoint' where run:
    "memory_deliver_once (drift_summaries [?first]) [] bm_empty = (Inr report, sink', checkpoint')"
    "dl_newly_delivered report = 1"
    by (auto split: prod.splits sum.splits)
  from repeated_drift_not_alerted[OF run(1), of "[?later]"] show ?thesis using run by fastforce
qed

end
