(* ===== verification/Workers.thy ===== *)
theory Workers
  imports Gc Alerts Service
begin

text \<open>
  The remaining periodic workers (\<open>src/worker/drift_auditor.rs\<close>, \<open>operation_summary_compactor.rs\<close>,
  \<open>operation_audit_compactor.rs\<close>, \<open>confirmed_commit.rs\<close>, the idempotency worker of \<open>gc.rs\<close>) and the runtime that
  runs them together (\<open>src/worker/runtime.rs\<close>).  A task of the runtime is a worker kind; how a task ends is
  chosen by the list of joined tasks.
\<close>

section \<open>Workers\<close>

text \<open>What an audit reads is in the state, so that it may change between runs.\<close>

definition drift_run_once_and_emit ::
  "string \<Rightarrow> string \<Rightarrow> drift_auditor \<times> UnderlayEvent list \<Rightarrow> DriftAuditRunSummary result \<times> drift_auditor \<times> UnderlayEvent list" where
  "drift_run_once_and_emit request_id trace_id s =
     (case s of (auditor, events) \<Rightarrow>
        let summary = run_once_with_summary auditor in
        (Inr summary, auditor, events @ map (drift_detected request_id trace_id) (da_reports summary) @
          [drift_audit_completed_with_failures request_id trace_id (da_audited_devices summary)
            (da_drifted_devices summary) (da_failed_devices summary) (da_listing_error summary)]))"

definition run_drift_worker ::
  "string \<Rightarrow> string \<Rightarrow> WorkerSchedule \<Rightarrow> ((drift_auditor \<times> UnderlayEvent list) \<Rightarrow> (drift_auditor \<times> UnderlayEvent list)) list \<Rightarrow>
   (drift_auditor \<times> UnderlayEvent list) \<Rightarrow> DriftAuditRunSummary SchedulerReport result \<times> (drift_auditor \<times> UnderlayEvent list)" where
  "run_drift_worker request_id trace_id = run_periodic ''drift audit'' (drift_run_once_and_emit request_id trace_id)"

definition run_summary_compaction ::
  "OperationSummary log_codec \<Rightarrow> log_faults \<Rightarrow> OperationSummaryRetentionPolicy \<Rightarrow> string \<Rightarrow> WorkerSchedule \<Rightarrow>
   (char dir \<Rightarrow> char dir) list \<Rightarrow> char dir \<Rightarrow> OperationSummaryCompactionReport SchedulerReport result \<times> char dir" where
  "run_summary_compaction c faults policy path =
     run_periodic ''operation summary compaction'' (compact_log c faults policy path)"

definition run_audit_compaction ::
  "OperationAuditRecord log_codec \<Rightarrow> log_faults \<Rightarrow> OperationAuditRetentionPolicy \<Rightarrow> string \<Rightarrow> WorkerSchedule \<Rightarrow>
   (char dir \<Rightarrow> char dir) list \<Rightarrow> char dir \<Rightarrow> OperationAuditCompactionReport SchedulerReport result \<times> char dir" where
  "run_audit_compaction c faults policy path =
     run_periodic ''operation audit compaction'' (compact_log c faults policy path)"

definition default_watcher_schedule :: WorkerSchedule where
  "default_watcher_schedule = \<lparr>sc_interval_secs = 30, sc_run_immediately = True\<rparr>"

definition run_timeout_watcher ::
  "env \<Rightarrow> WorkerSchedule \<Rightarrow> (world \<Rightarrow> world) list \<Rightarrow> world \<Rightarrow> RecoveryReport SchedulerReport result \<times> world" where
  "run_timeout_watcher env =
     run_periodic ''confirmed-commit timeout watcher'' (State_Monad.run_state (recover_timed_out env))"

definition idempotency_run_once_and_emit ::
  "('b list \<Rightarrow> string + u64) \<Rightarrow> ApplyIdempotencyRetentionPolicy \<Rightarrow> string \<Rightarrow> string \<Rightarrow>
   gc_io \<times> ApplyIdempotencyGc \<times> 'b dir \<times> UnderlayEvent list \<Rightarrow>
   ApplyIdempotencyGcReport result \<times> gc_io \<times> ApplyIdempotencyGc \<times> 'b dir \<times> UnderlayEvent list" where
  "idempotency_run_once_and_emit dec policy request_id trace_id s =
     (case s of (io, gc, files, events) \<Rightarrow>
      case idempotency_gc_run_once dec io gc policy files of
        (Inl e, files) \<Rightarrow> (Inl e, io, gc, files, events)
      | (Inr report, files) \<Rightarrow>
          (Inr report, io, gc, files, events @ [apply_idempotency_gc_completed request_id trace_id report]))"

definition run_idempotency_gc_worker ::
  "('b list \<Rightarrow> string + u64) \<Rightarrow> ApplyIdempotencyRetentionPolicy \<Rightarrow> string \<Rightarrow> string \<Rightarrow> WorkerSchedule \<Rightarrow>
   ((gc_io \<times> ApplyIdempotencyGc \<times> 'b dir \<times> UnderlayEvent list) \<Rightarrow> (gc_io \<times> ApplyIdempotencyGc \<times> 'b dir \<times> UnderlayEvent list)) list \<Rightarrow>
   (gc_io \<times> ApplyIdempotencyGc \<times> 'b dir \<times> UnderlayEvent list) \<Rightarrow>
   ApplyIdempotencyGcReport SchedulerReport result \<times> (gc_io \<times> ApplyIdempotencyGc \<times> 'b dir \<times> UnderlayEvent list)" where
  "run_idempotency_gc_worker dec policy request_id trace_id =
     run_periodic ''apply idempotency GC'' (idempotency_run_once_and_emit dec policy request_id trace_id)"

section \<open>The runtime\<close>

datatype RuntimeWorkerKind =
    KJournalGc | KApplyIdempotencyGc | KConfirmedCommitTimeout | KDriftAudit | KOperationAlertDelivery
  | KOperationSummaryCompaction | KOperationAuditCompaction

fun runtime_worker_name :: "RuntimeWorkerKind \<Rightarrow> string" where
  "runtime_worker_name KJournalGc = ''journal_gc''"
| "runtime_worker_name KApplyIdempotencyGc = ''apply_idempotency_gc''"
| "runtime_worker_name KConfirmedCommitTimeout = ''confirmed_commit_timeout''"
| "runtime_worker_name KDriftAudit = ''drift_audit''"
| "runtime_worker_name KOperationAlertDelivery = ''operation_alert_delivery''"
| "runtime_worker_name KOperationSummaryCompaction = ''operation_summary_compaction''"
| "runtime_worker_name KOperationAuditCompaction = ''operation_audit_compaction''"

datatype 'r WorkerRun = Finished "'r result" | Panicked string

datatype RuntimeWorkerOutcome =
    OJournalGc "JournalGcReport SchedulerReport WorkerRun"
  | OApplyIdempotencyGc "ApplyIdempotencyGcReport SchedulerReport WorkerRun"
  | OConfirmedCommitTimeout "RecoveryReport SchedulerReport WorkerRun"
  | ODriftAudit "DriftAuditRunSummary SchedulerReport WorkerRun"
  | OOperationAlertDelivery "OperationAlertDeliveryReport SchedulerReport WorkerRun"
  | OOperationSummaryCompaction "OperationSummaryCompactionReport SchedulerReport WorkerRun"
  | OOperationAuditCompaction "OperationAuditCompactionReport SchedulerReport WorkerRun"
  | RestartSkipped

record UnderlayWorkerRuntimeReport =
  ur_journal_gc :: "JournalGcReport SchedulerReport option"
  ur_apply_idempotency_gc :: "ApplyIdempotencyGcReport SchedulerReport option"
  ur_confirmed_commit_timeout :: "RecoveryReport SchedulerReport option"
  ur_drift_audit :: "DriftAuditRunSummary SchedulerReport option"
  ur_operation_alert_delivery :: "OperationAlertDeliveryReport SchedulerReport option"
  ur_operation_summary_compaction :: "OperationSummaryCompactionReport SchedulerReport option"
  ur_operation_audit_compaction :: "OperationAuditCompactionReport SchedulerReport option"
  ur_worker_errors :: "string list"

definition default_runtime_report :: UnderlayWorkerRuntimeReport where
  "default_runtime_report =
     \<lparr>ur_journal_gc = None, ur_apply_idempotency_gc = None, ur_confirmed_commit_timeout = None, ur_drift_audit = None,
      ur_operation_alert_delivery = None, ur_operation_summary_compaction = None, ur_operation_audit_compaction = None,
      ur_worker_errors = []\<rparr>"

definition record_worker_error :: "string \<Rightarrow> UnderlayError \<Rightarrow> UnderlayWorkerRuntimeReport \<Rightarrow> UnderlayWorkerRuntimeReport" where
  "record_worker_error worker_name err report =
     report\<lparr>ur_worker_errors := ur_worker_errors report @ [worker_name @ '': '' @ error_display err]\<rparr>"

definition record_worker_join_error :: "string \<Rightarrow> UnderlayWorkerRuntimeReport \<Rightarrow> UnderlayWorkerRuntimeReport" where
  "record_worker_join_error err report =
     record_worker_error ''worker_runtime'' (Internal (''worker runtime task join error: '' @ err)) report"

definition record_worker_join_error_for ::
  "RuntimeWorkerKind \<Rightarrow> string \<Rightarrow> UnderlayWorkerRuntimeReport \<Rightarrow> UnderlayWorkerRuntimeReport" where
  "record_worker_join_error_for kind err report =
     record_worker_error ''worker_runtime'' (Internal (runtime_worker_name kind @ '' task join error: '' @ err)) report"

text \<open>The branch that every kind of outcome has: the kind to restart, and the report.\<close>

definition record_run ::
  "RuntimeWorkerKind \<Rightarrow> ('r \<Rightarrow> UnderlayWorkerRuntimeReport \<Rightarrow> UnderlayWorkerRuntimeReport) \<Rightarrow> 'r WorkerRun \<Rightarrow>
   UnderlayWorkerRuntimeReport \<Rightarrow> RuntimeWorkerKind option \<times> UnderlayWorkerRuntimeReport" where
  "record_run kind store run report =
     (case run of
        Finished (Inr r) \<Rightarrow> (None, store r report)
      | Finished (Inl err) \<Rightarrow> (None, record_worker_error (runtime_worker_name kind) err report)
      | Panicked err \<Rightarrow> (Some kind, record_worker_join_error_for kind err report))"

fun record_worker_outcome ::
  "RuntimeWorkerOutcome \<Rightarrow> UnderlayWorkerRuntimeReport \<Rightarrow> RuntimeWorkerKind option \<times> UnderlayWorkerRuntimeReport" where
  "record_worker_outcome (OJournalGc run) = record_run KJournalGc (\<lambda>r. ur_journal_gc_update (\<lambda>_. Some r)) run"
| "record_worker_outcome (OApplyIdempotencyGc run) =
     record_run KApplyIdempotencyGc (\<lambda>r. ur_apply_idempotency_gc_update (\<lambda>_. Some r)) run"
| "record_worker_outcome (OConfirmedCommitTimeout run) =
     record_run KConfirmedCommitTimeout (\<lambda>r. ur_confirmed_commit_timeout_update (\<lambda>_. Some r)) run"
| "record_worker_outcome (ODriftAudit run) = record_run KDriftAudit (\<lambda>r. ur_drift_audit_update (\<lambda>_. Some r)) run"
| "record_worker_outcome (OOperationAlertDelivery run) =
     record_run KOperationAlertDelivery (\<lambda>r. ur_operation_alert_delivery_update (\<lambda>_. Some r)) run"
| "record_worker_outcome (OOperationSummaryCompaction run) =
     record_run KOperationSummaryCompaction (\<lambda>r. ur_operation_summary_compaction_update (\<lambda>_. Some r)) run"
| "record_worker_outcome (OOperationAuditCompaction run) =
     record_run KOperationAuditCompaction (\<lambda>r. ur_operation_audit_compaction_update (\<lambda>_. Some r)) run"
| "record_worker_outcome RestartSkipped = Pair None"

text \<open>\<open>WORKER_RESTART_DELAY\<close> and the back-off, in milliseconds.\<close>

definition worker_restart_delay :: "u32 \<Rightarrow> nat" where
  "worker_restart_delay previous_restarts = min (100 * 2 ^ min (unat previous_restarts) 6) 5000"

section \<open>The loop of the runtime\<close>

text \<open>The workers a runtime has, the tasks in its set with their delays, and the restart counts.\<close>

record runtime_state =
  rt_specs :: "RuntimeWorkerKind list"
  rt_tasks :: "(RuntimeWorkerKind \<times> nat option) list"
  rt_attempts :: "RuntimeWorkerKind \<Rightarrow> u32"
  rt_report :: UnderlayWorkerRuntimeReport

text \<open>What \<open>join_next\<close> returns: the task at a position of the set with its outcome, or a join error.\<close>

definition restart_worker :: "RuntimeWorkerKind \<Rightarrow> runtime_state \<Rightarrow> runtime_state" where
  "restart_worker kind s =
     (if kind \<notin> set (rt_specs s) then s
      else let attempts = rt_attempts s kind in
        s\<lparr>rt_attempts := (rt_attempts s)(kind := if attempts = - 1 then attempts else attempts + 1),
          rt_tasks := rt_tasks s @ [(kind, Some (worker_restart_delay attempts))]\<rparr>)"

definition join_task :: "nat \<times> (string + RuntimeWorkerOutcome) \<Rightarrow> runtime_state \<Rightarrow> runtime_state" where
  "join_task joined s =
     (case joined of (i, res) \<Rightarrow>
        let s = s\<lparr>rt_tasks := take i (rt_tasks s) @ drop (Suc i) (rt_tasks s)\<rparr> in
        case res of
          Inl err \<Rightarrow> s\<lparr>rt_report := record_worker_join_error err (rt_report s)\<rparr>
        | Inr outcome \<Rightarrow>
           (case record_worker_outcome outcome (rt_report s) of
              (None, report) \<Rightarrow> s\<lparr>rt_report := report\<rparr>
            | (Some kind, report) \<Rightarrow> restart_worker kind (s\<lparr>rt_report := report\<rparr>)))"

text \<open>Joins until the set is empty or the shutdown is ready; after the shutdown the remaining tasks are
  joined without restarts.\<close>

primrec drain_tasks :: "(string + RuntimeWorkerOutcome) list \<Rightarrow> UnderlayWorkerRuntimeReport \<Rightarrow> UnderlayWorkerRuntimeReport" where
  "drain_tasks [] report = report"
| "drain_tasks (res # rest) report =
     drain_tasks rest (case res of
        Inl err \<Rightarrow> record_worker_join_error err report
      | Inr outcome \<Rightarrow> snd (record_worker_outcome outcome report))"

primrec run_joins :: "(nat \<times> (string + RuntimeWorkerOutcome)) list \<Rightarrow> runtime_state \<Rightarrow> runtime_state" where
  "run_joins [] s = s"
| "run_joins (joined # rest) s = (if rt_tasks s = [] then s else run_joins rest (join_task joined s))"

definition start_runtime :: "RuntimeWorkerKind list \<Rightarrow> runtime_state" where
  "start_runtime specs =
     \<lparr>rt_specs = specs, rt_tasks = map (\<lambda>k. (k, None)) specs, rt_attempts = (\<lambda>_. 0), rt_report = default_runtime_report\<rparr>"

section \<open>Restarts\<close>

lemma restart_delay_bounds: "100 \<le> worker_restart_delay n \<and> worker_restart_delay n \<le> 5000"
proof -
  have "(1::nat) \<le> 2 ^ min (unat n) 6" by simp
  then show ?thesis unfolding worker_restart_delay_def by linarith
qed

lemma restart_delay_mono: "m \<le> n \<Longrightarrow> worker_restart_delay m \<le> worker_restart_delay n"
proof -
  assume "m \<le> n"
  then have "(2::nat) ^ min (unat m) 6 \<le> 2 ^ min (unat n) 6"
    by (intro power_increasing) (simp_all add: word_le_nat_alt)
  then show ?thesis unfolding worker_restart_delay_def by linarith
qed

end
