(* ===== verification/Daemon.thy ===== *)
theory Daemon
  imports Workers
begin

text \<open>
  The worker daemon (\<open>src/worker/daemon.rs\<close>): its configuration and the checks on it, the workers it starts
  and the reload of a changed configuration.  A worker is described by the paths and policies it is made from.
  The file of the configuration and its JSON codec are what each poll reads; the checkpoint file is the last
  checkpoint that was stored.
\<close>

section \<open>Configuration\<close>

record WorkerReloadDaemonConfig =
  rl_enabled :: bool
  rl_poll_interval_secs :: u64
  rl_checkpoint_path :: "string option"

record OperationSummaryDaemonConfig =
  sd_path :: string
  sd_retention :: OperationSummaryRetentionPolicy
  sd_retention_schedule :: WorkerSchedule

record OperationAuditDaemonConfig =
  ad_path :: string
  ad_retention :: OperationAuditRetentionPolicy
  ad_retention_schedule :: WorkerSchedule

record OperationAlertDaemonConfig =
  ld_path :: string
  ld_checkpoint_path :: string
  ld_schedule :: WorkerSchedule

record JournalGcDaemonConfig =
  gdc_journal_root :: string
  gdc_artifact_root :: "string option"
  gdc_schedule :: WorkerSchedule
  gdc_retention :: RetentionPolicy

record ApplyIdempotencyGcDaemonConfig =
  id_root :: string
  id_schedule :: WorkerSchedule
  id_retention :: ApplyIdempotencyRetentionPolicy

record DriftAuditDaemonConfig =
  dd_expected_shadow_root :: string
  dd_observed_shadow_root :: string
  dd_schedule :: WorkerSchedule

record UnderlayWorkerDaemonConfig =
  wd_reload :: "WorkerReloadDaemonConfig option"
  wd_operation_summary :: "OperationSummaryDaemonConfig option"
  wd_operation_audit :: "OperationAuditDaemonConfig option"
  wd_operation_alert :: "OperationAlertDaemonConfig option"
  wd_journal_gc :: "JournalGcDaemonConfig option"
  wd_apply_idempotency_gc :: "ApplyIdempotencyGcDaemonConfig option"
  wd_drift_audit :: "DriftAuditDaemonConfig option"

definition default_worker_schedule :: WorkerSchedule where
  "default_worker_schedule = \<lparr>sc_interval_secs = 60 * 60, sc_run_immediately = True\<rparr>"

definition validate_worker_schedule :: "string \<Rightarrow> WorkerSchedule \<Rightarrow> unit result" where
  "validate_worker_schedule field schedule =
     ensure (sc_interval_secs schedule \<noteq> 0) (InvalidIntent (field @ ''.interval_secs must be greater than zero''))"

definition validate_reload_config :: "WorkerReloadDaemonConfig \<Rightarrow> unit result" where
  "validate_reload_config config =
     (if \<not> rl_enabled config then Inr ()
      else and_then (ensure (rl_poll_interval_secs config \<noteq> 0)
             (InvalidIntent ''reload.poll_interval_secs must be greater than zero'')) (\<lambda>_.
           ensure (rl_checkpoint_path config \<noteq> None)
             (InvalidIntent ''reload.checkpoint_path is required when enabled'')))"

text \<open>\<open>if let Some(part) = ...\<close>.\<close>

definition if_some :: "'a option \<Rightarrow> ('a \<Rightarrow> unit result) \<Rightarrow> unit result" where
  "if_some part check = (case part of Some c \<Rightarrow> check c | None \<Rightarrow> Inr ())"

definition validate_worker_config_for_runtime :: "UnderlayWorkerDaemonConfig \<Rightarrow> unit result" where
  "validate_worker_config_for_runtime config =
     and_then (ensure (\<not> (wd_operation_alert config \<noteq> None \<and> wd_operation_summary config = None))
       (InvalidIntent ''operation_alert requires operation_summary.path'')) (\<lambda>_.
     and_then (if_some (wd_operation_summary config) (\<lambda>c.
       and_then (validate_retention ''operation summary'' (sd_retention c)) (\<lambda>_.
       validate_worker_schedule ''operation_summary.retention_schedule'' (sd_retention_schedule c)))) (\<lambda>_.
     and_then (if_some (wd_operation_audit config) (\<lambda>c.
       and_then (validate_retention ''operation audit'' (ad_retention c)) (\<lambda>_.
       validate_worker_schedule ''operation_audit.retention_schedule'' (ad_retention_schedule c)))) (\<lambda>_.
     and_then (if_some (wd_operation_alert config) (\<lambda>c.
       validate_worker_schedule ''operation_alert.schedule'' (ld_schedule c))) (\<lambda>_.
     and_then (if_some (wd_journal_gc config) (\<lambda>c.
       and_then (validate_gc_policy (gdc_retention c)) (\<lambda>_.
       validate_worker_schedule ''journal_gc.schedule'' (gdc_schedule c)))) (\<lambda>_.
     and_then (if_some (wd_apply_idempotency_gc config) (\<lambda>c.
       and_then (validate_idempotency_policy (id_retention c)) (\<lambda>_.
       validate_worker_schedule ''apply_idempotency_gc.schedule'' (id_schedule c)))) (\<lambda>_.
     and_then (if_some (wd_drift_audit config) (\<lambda>c.
       validate_worker_schedule ''drift_audit.schedule'' (dd_schedule c))) (\<lambda>_.
     if_some (wd_reload config) validate_reload_config)))))))"

section \<open>The workers of a configuration\<close>

text \<open>Where the workers send their events: the log, or a recording sink before it with a summary file (or a
  summary store in memory) and perhaps an audit file.\<close>

datatype daemon_sink =
    LogSink
  | RecordingSink "string option" "string option"

record UnderlayWorkerRuntime =
  wr_journal_gc :: "((string \<times> string option \<times> RetentionPolicy \<times> daemon_sink) \<times> WorkerSchedule) option"
  wr_apply_idempotency_gc :: "((string \<times> ApplyIdempotencyRetentionPolicy \<times> daemon_sink) \<times> WorkerSchedule) option"
  wr_confirmed_commit_timeout :: "(unit \<times> WorkerSchedule) option"
  wr_drift_audit :: "((string \<times> string \<times> daemon_sink) \<times> WorkerSchedule) option"
  wr_operation_alert_delivery :: "((string \<times> string \<times> string) \<times> WorkerSchedule) option"
  wr_operation_summary_compaction :: "((string \<times> OperationSummaryRetentionPolicy) \<times> WorkerSchedule) option"
  wr_operation_audit_compaction :: "((string \<times> OperationAuditRetentionPolicy) \<times> WorkerSchedule) option"

definition daemon_event_sink :: "string option \<Rightarrow> string option \<Rightarrow> daemon_sink" where
  "daemon_event_sink summary_path audit_path =
     (if summary_path = None \<and> audit_path = None then LogSink else RecordingSink summary_path audit_path)"

definition from_config :: "UnderlayWorkerDaemonConfig \<Rightarrow> UnderlayWorkerRuntime result" where
  "from_config config =
     (let summary_path = map_option sd_path (wd_operation_summary config);
          audit_path = map_option ad_path (wd_operation_audit config);
          sink = daemon_event_sink summary_path audit_path in
      and_then (case wd_operation_alert config of
          None \<Rightarrow> Inr None
        | Some c \<Rightarrow>
           (case summary_path of
              None \<Rightarrow> Inl (InvalidIntent ''operation alert delivery requires operation_summary.path'')
            | Some path \<Rightarrow> Inr (Some ((path, ld_path c, ld_checkpoint_path c), ld_schedule c)))) (\<lambda>alerts.
      Inr \<lparr>wr_journal_gc = map_option (\<lambda>c. ((gdc_journal_root c, gdc_artifact_root c, gdc_retention c, sink), gdc_schedule c))
             (wd_journal_gc config),
           wr_apply_idempotency_gc = map_option (\<lambda>c. ((id_root c, id_retention c, sink), id_schedule c))
             (wd_apply_idempotency_gc config),
           wr_confirmed_commit_timeout = None,
           wr_drift_audit = map_option (\<lambda>c. ((dd_expected_shadow_root c, dd_observed_shadow_root c, sink), dd_schedule c))
             (wd_drift_audit config),
           wr_operation_alert_delivery = alerts,
           wr_operation_summary_compaction = Option.bind (wd_operation_summary config) (\<lambda>c.
             if retention_is_enabled (sd_retention c) then Some ((sd_path c, sd_retention c), sd_retention_schedule c) else None),
           wr_operation_audit_compaction = Option.bind (wd_operation_audit config) (\<lambda>c.
             if retention_is_enabled (ad_retention c) then Some ((ad_path c, ad_retention c), ad_retention_schedule c) else None)\<rparr>))"

text \<open>The checks of the runtime itself (runtime.rs).\<close>

definition validate_interval :: "string \<Rightarrow> u64 \<Rightarrow> unit result" where
  "validate_interval worker_name interval_secs =
     ensure (interval_secs \<noteq> 0)
       (InvalidIntent (worker_name @ '' runtime schedule interval_secs must be greater than zero''))"

definition validate_schedules :: "UnderlayWorkerRuntime \<Rightarrow> unit result" where
  "validate_schedules rt =
     and_then (if_some (wr_journal_gc rt) (\<lambda>(_, s). validate_interval ''journal GC'' (sc_interval_secs s))) (\<lambda>_.
     and_then (if_some (wr_apply_idempotency_gc rt) (\<lambda>(_, s). validate_interval ''apply idempotency GC'' (sc_interval_secs s))) (\<lambda>_.
     and_then (if_some (wr_confirmed_commit_timeout rt) (\<lambda>(_, s).
       validate_interval ''confirmed-commit timeout watcher'' (sc_interval_secs s))) (\<lambda>_.
     and_then (if_some (wr_drift_audit rt) (\<lambda>(_, s). validate_interval ''drift audit'' (sc_interval_secs s))) (\<lambda>_.
     and_then (if_some (wr_operation_alert_delivery rt) (\<lambda>(_, s).
       validate_interval ''operation alert delivery'' (sc_interval_secs s))) (\<lambda>_.
     and_then (if_some (wr_operation_summary_compaction rt) (\<lambda>(_, s).
       validate_interval ''operation summary compaction'' (sc_interval_secs s))) (\<lambda>_.
     if_some (wr_operation_audit_compaction rt) (\<lambda>(_, s).
       validate_interval ''operation audit compaction'' (sc_interval_secs s))))))))"

definition runtime_specs :: "UnderlayWorkerRuntime \<Rightarrow> RuntimeWorkerKind list" where
  "runtime_specs rt =
     (if wr_journal_gc rt \<noteq> None then [KJournalGc] else []) @
     (if wr_apply_idempotency_gc rt \<noteq> None then [KApplyIdempotencyGc] else []) @
     (if wr_confirmed_commit_timeout rt \<noteq> None then [KConfirmedCommitTimeout] else []) @
     (if wr_drift_audit rt \<noteq> None then [KDriftAudit] else []) @
     (if wr_operation_alert_delivery rt \<noteq> None then [KOperationAlertDelivery] else []) @
     (if wr_operation_summary_compaction rt \<noteq> None then [KOperationSummaryCompaction] else []) @
     (if wr_operation_audit_compaction rt \<noteq> None then [KOperationAuditCompaction] else [])"

definition run_until_shutdown ::
  "(nat \<times> (string + RuntimeWorkerOutcome)) list \<Rightarrow> (string + RuntimeWorkerOutcome) list \<Rightarrow> UnderlayWorkerRuntime \<Rightarrow>
   UnderlayWorkerRuntimeReport result" where
  "run_until_shutdown joins drained rt =
     and_then (validate_schedules rt) (\<lambda>_.
     let s = run_joins joins (start_runtime (runtime_specs rt)) in
     Inr (if rt_tasks s = [] then rt_report s else drain_tasks drained (rt_report s)))"

section \<open>Reload\<close>

datatype WorkerConfigReloadStatus = ReloadStarted | ReloadApplied | ReloadRejected | ReloadShutdown

record WorkerReloadCheckpoint =
  ck_config_path :: string
  ck_generation :: u64
  ck_fingerprint :: string
  ck_status :: WorkerConfigReloadStatus
  ck_updated_at :: u64
  ck_error :: "string option"

text \<open>FNV-1a over the bytes, in sixteen hexadecimal digits, and the length.\<close>

definition fnv_hash :: "8 word list \<Rightarrow> u64" where
  "fnv_hash payload = foldl (\<lambda>hash byte. xor hash (ucast byte) * 0x100000001b3) 0xcbf29ce484222325 payload"

definition hex16 :: "u64 \<Rightarrow> string" where
  "hex16 h = map (\<lambda>i. hex_digit (unat h div 16 ^ (15 - i) mod 16)) [0..<16]"

definition payload_fingerprint :: "8 word list \<Rightarrow> string" where
  "payload_fingerprint payload = hex16 (fnv_hash payload) @ '':'' @ show_nat (length payload)"

definition enabled_reload_config :: "UnderlayWorkerDaemonConfig \<Rightarrow> WorkerReloadDaemonConfig option" where
  "enabled_reload_config config =
     (case wd_reload config of Some reload \<Rightarrow> if rl_enabled reload then Some reload else None | None \<Rightarrow> None)"

definition parse_worker_config_payload ::
  "(8 word list \<Rightarrow> string + UnderlayWorkerDaemonConfig) \<Rightarrow> string \<Rightarrow> 8 word list \<Rightarrow> UnderlayWorkerDaemonConfig result" where
  "parse_worker_config_payload dec path payload =
     map_err (\<lambda>err. InvalidIntent (''parse worker daemon config '' @ debug_str path @ '': '' @ err)) (dec payload)"

definition worker_config_io_error :: "string \<Rightarrow> UnderlayError" where
  "worker_config_io_error err = Internal (''worker daemon config io error: '' @ err)"

record reload_state =
  rs_generation :: u64
  rs_adopted :: string
  rs_last_seen :: string
  rs_running :: "UnderlayWorkerRuntime option"
  rs_checkpoint :: "WorkerReloadCheckpoint option"

text \<open>What a poll meets: the file of the configuration, the clock, the write of the checkpoint and the end of
  the running workers.\<close>

record poll =
  po_read :: "string + 8 word list"
  po_now :: u64
  po_write :: put_outcome
  po_stop :: "unit result"

definition write_reload_checkpoint ::
  "string \<Rightarrow> poll \<Rightarrow> WorkerConfigReloadStatus \<Rightarrow> string option \<Rightarrow> reload_state \<Rightarrow> unit result \<times> reload_state" where
  "write_reload_checkpoint path poll status error s =
     (let checkpoint = \<lparr>ck_config_path = path, ck_generation = rs_generation s, ck_fingerprint = rs_adopted s,
            ck_status = status, ck_updated_at = po_now poll, ck_error = error\<rparr> in
      case po_write poll of
        Stored \<Rightarrow> (Inr (), s\<lparr>rs_checkpoint := Some checkpoint\<rparr>)
      | Lost e \<Rightarrow> (Inl e, s)
      | StoredButFailed e \<Rightarrow> (Inl e, s\<lparr>rs_checkpoint := Some checkpoint\<rparr>))"

definition poll_config ::
  "(8 word list \<Rightarrow> string + UnderlayWorkerDaemonConfig) \<Rightarrow> string \<Rightarrow> poll \<Rightarrow> reload_state \<Rightarrow> unit result \<times> reload_state" where
  "poll_config dec path poll s =
     (case po_read poll of
        Inl err \<Rightarrow> write_reload_checkpoint path poll ReloadRejected
          (Some (''read worker daemon config '' @ debug_str path @ '': '' @ err)) s
      | Inr payload \<Rightarrow>
         (let candidate_fingerprint = payload_fingerprint payload in
          if candidate_fingerprint = rs_last_seen s then (Inr (), s)
          else
            let s = s\<lparr>rs_last_seen := candidate_fingerprint\<rparr> in
            case and_then (parse_worker_config_payload dec path payload) (\<lambda>config.
                 and_then (validate_worker_config_for_runtime config) (\<lambda>_.
                 from_config config)) of
              Inl err \<Rightarrow> write_reload_checkpoint path poll ReloadRejected (Some (error_display err)) s
            | Inr candidate \<Rightarrow>
               (case po_stop poll of
                  Inl err \<Rightarrow> (Inl err, s)
                | Inr _ \<Rightarrow>
                    write_reload_checkpoint path poll ReloadApplied None
                      (s\<lparr>rs_running := Some candidate, rs_generation := rs_generation s + 1,
                         rs_adopted := candidate_fingerprint\<rparr>))))"

primrec poll_loop ::
  "(8 word list \<Rightarrow> string + UnderlayWorkerDaemonConfig) \<Rightarrow> string \<Rightarrow> poll list \<Rightarrow> reload_state \<Rightarrow> unit result \<times> reload_state" where
  "poll_loop dec path [] s = (Inr (), s)"
| "poll_loop dec path (poll # polls) s =
     (case poll_config dec path poll s of
        (Inl e, s) \<Rightarrow> (Inl e, s)
      | (Inr _, s) \<Rightarrow> poll_loop dec path polls s)"

text \<open>The whole reload loop: the first poll is the start, the last one the shutdown.\<close>

definition run_reloadable_config_path ::
  "(8 word list \<Rightarrow> string + UnderlayWorkerDaemonConfig) \<Rightarrow> string \<Rightarrow> 8 word list \<Rightarrow> UnderlayWorkerDaemonConfig \<Rightarrow>
   WorkerReloadDaemonConfig \<Rightarrow> poll \<Rightarrow> poll list \<Rightarrow> poll \<Rightarrow> unit result \<times> reload_state option" where
  "run_reloadable_config_path dec path payload config reload start polls stop =
     (if rl_checkpoint_path reload = None
      then (Inl (InvalidIntent ''reload.checkpoint_path is required when enabled''), None)
      else
        let fingerprint = payload_fingerprint payload;
            s = \<lparr>rs_generation = 1, rs_adopted = fingerprint, rs_last_seen = fingerprint, rs_running = None,
                 rs_checkpoint = None\<rparr> in
        case write_reload_checkpoint path start ReloadStarted None s of
          (Inl e, s) \<Rightarrow> (Inl e, Some s)
        | (Inr _, s) \<Rightarrow>
           (case from_config config of
              Inl e \<Rightarrow> (Inl e, Some s)
            | Inr runtime \<Rightarrow>
               (case poll_loop dec path polls (s\<lparr>rs_running := Some runtime\<rparr>) of
                  (Inl e, s) \<Rightarrow> (Inl e, Some s)
                | (Inr _, s) \<Rightarrow>
                   (case po_stop stop of
                      Inl e \<Rightarrow> (Inl e, Some s)
                    | Inr _ \<Rightarrow> (case write_reload_checkpoint path stop ReloadShutdown None s of (r, s) \<Rightarrow> (r, Some s))))))"

definition run_config_path_until_shutdown ::
  "(8 word list \<Rightarrow> string + UnderlayWorkerDaemonConfig) \<Rightarrow> string \<Rightarrow> string + 8 word list \<Rightarrow> poll \<Rightarrow> poll list \<Rightarrow> poll \<Rightarrow>
   unit result \<times> reload_state option" where
  "run_config_path_until_shutdown dec path contents start polls stop =
     (case and_then (map_err worker_config_io_error contents) (\<lambda>payload.
        and_then (parse_worker_config_payload dec path payload) (\<lambda>config.
        and_then (validate_worker_config_for_runtime config) (\<lambda>_.
        Inr (payload, config)))) of
        Inl e \<Rightarrow> (Inl e, None)
      | Inr (payload, config) \<Rightarrow>
         (case enabled_reload_config config of
            None \<Rightarrow> (and_then (from_config config) validate_schedules, None)
          | Some reload \<Rightarrow> run_reloadable_config_path dec path payload config reload start polls stop))"

section \<open>Correctness\<close>

lemma if_some_ok: "if_some part check = Inr () \<longleftrightarrow> (\<forall>c. part = Some c \<longrightarrow> check c = Inr ())"
  by (cases part) (simp_all add: if_some_def)

lemma worker_parts:
  assumes "from_config config = Inr rt"
  shows "wr_journal_gc rt \<noteq> None \<longleftrightarrow> wd_journal_gc config \<noteq> None"
    "wr_apply_idempotency_gc rt \<noteq> None \<longleftrightarrow> wd_apply_idempotency_gc config \<noteq> None"
    "wr_confirmed_commit_timeout rt \<noteq> None \<longleftrightarrow> False"
    "wr_drift_audit rt \<noteq> None \<longleftrightarrow> wd_drift_audit config \<noteq> None"
    "wr_operation_alert_delivery rt \<noteq> None \<longleftrightarrow> wd_operation_alert config \<noteq> None"
    "wr_operation_summary_compaction rt \<noteq> None \<longleftrightarrow>
       (\<exists>c. wd_operation_summary config = Some c \<and> retention_is_enabled (sd_retention c))"
    "wr_operation_audit_compaction rt \<noteq> None \<longleftrightarrow>
       (\<exists>c. wd_operation_audit config = Some c \<and> retention_is_enabled (ad_retention c))"
  using assms by (auto simp: from_config_def Let_def and_then_Inr_iff bind_eq_Some_conv split: option.splits if_splits)

lemma validated_starts:
  assumes "validate_worker_config_for_runtime config = Inr ()"
  shows "\<exists>rt. from_config config = Inr rt"
  using assms
  by (cases "wd_operation_alert config"; cases "wd_operation_summary config")
    (simp_all add: from_config_def Let_def validate_worker_config_for_runtime_def and_then_Inr_iff ensure_eq_iff)

text \<open>C36: A configuration that the daemon accepts starts: its workers can be made and the runtime accepts
  every schedule, so neither a start nor a reload fails after the checks.  The workers are exactly the parts of
  the configuration, a compaction only where its retention is enabled.\<close>

theorem validated_config_starts:
  assumes "validate_worker_config_for_runtime config = Inr ()"
  shows "\<exists>rt. from_config config = Inr rt \<and> validate_schedules rt = Inr () \<and>
    set (runtime_specs rt) =
      (if wd_journal_gc config \<noteq> None then {KJournalGc} else {}) \<union>
      (if wd_apply_idempotency_gc config \<noteq> None then {KApplyIdempotencyGc} else {}) \<union>
      (if wd_drift_audit config \<noteq> None then {KDriftAudit} else {}) \<union>
      (if wd_operation_alert config \<noteq> None then {KOperationAlertDelivery} else {}) \<union>
      (if \<exists>c. wd_operation_summary config = Some c \<and> retention_is_enabled (sd_retention c)
       then {KOperationSummaryCompaction} else {}) \<union>
      (if \<exists>c. wd_operation_audit config = Some c \<and> retention_is_enabled (ad_retention c)
       then {KOperationAuditCompaction} else {})"
proof -
  have valid: "\<And>c. wd_operation_summary config = Some c \<Longrightarrow> sc_interval_secs (sd_retention_schedule c) \<noteq> 0"
    "\<And>c. wd_operation_audit config = Some c \<Longrightarrow> sc_interval_secs (ad_retention_schedule c) \<noteq> 0"
    "\<And>c. wd_operation_alert config = Some c \<Longrightarrow> sc_interval_secs (ld_schedule c) \<noteq> 0"
    "\<And>c. wd_journal_gc config = Some c \<Longrightarrow> sc_interval_secs (gdc_schedule c) \<noteq> 0"
    "\<And>c. wd_apply_idempotency_gc config = Some c \<Longrightarrow> sc_interval_secs (id_schedule c) \<noteq> 0"
    "\<And>c. wd_drift_audit config = Some c \<Longrightarrow> sc_interval_secs (dd_schedule c) \<noteq> 0"
    using assms
    by (auto simp: validate_worker_config_for_runtime_def and_then_Inr_iff if_some_ok validate_worker_schedule_def
      ensure_eq_iff)
  obtain rt where rt: "from_config config = Inr rt" using validated_starts[OF assms] by blast
  have schedules: "validate_schedules rt = Inr ()"
    using rt valid
    by (auto simp: validate_schedules_def and_then_Inr_iff if_some_ok validate_interval_def ensure_eq_iff from_config_def Let_def
        bind_eq_Some_conv split: option.splits if_splits)
  have "set (runtime_specs rt) =
      (if wd_journal_gc config \<noteq> None then {KJournalGc} else {}) \<union>
      (if wd_apply_idempotency_gc config \<noteq> None then {KApplyIdempotencyGc} else {}) \<union>
      (if wd_drift_audit config \<noteq> None then {KDriftAudit} else {}) \<union>
      (if wd_operation_alert config \<noteq> None then {KOperationAlertDelivery} else {}) \<union>
      (if \<exists>c. wd_operation_summary config = Some c \<and> retention_is_enabled (sd_retention c)
       then {KOperationSummaryCompaction} else {}) \<union>
      (if \<exists>c. wd_operation_audit config = Some c \<and> retention_is_enabled (ad_retention c)
       then {KOperationAuditCompaction} else {})"
    unfolding runtime_specs_def worker_parts[OF rt] by (simp only: set_append if_distrib[of set] list.set Un_assoc if_False Un_empty_left)
  with rt schedules show ?thesis by blast
qed

text \<open>The running workers are those of a configuration that was read, parsed and accepted, and a stored
  checkpoint names it.\<close>

definition runs_accepted ::
  "(8 word list \<Rightarrow> string + UnderlayWorkerDaemonConfig) \<Rightarrow> 8 word list set \<Rightarrow> reload_state \<Rightarrow> bool" where
  "runs_accepted dec seen s \<longleftrightarrow> (\<exists>payload config rt. payload \<in> seen \<and> dec payload = Inr config \<and>
     validate_worker_config_for_runtime config = Inr () \<and> from_config config = Inr rt \<and>
     rs_running s = Some rt \<and> rs_adopted s = payload_fingerprint payload)"

definition checkpoint_current :: "reload_state \<Rightarrow> bool" where
  "checkpoint_current s \<longleftrightarrow> (\<exists>ck. rs_checkpoint s = Some ck \<and> ck_generation ck = rs_generation s \<and>
     ck_fingerprint ck = rs_adopted s)"

definition read_payloads :: "poll list \<Rightarrow> 8 word list set" where
  "read_payloads polls = {payload. \<exists>poll \<in> set polls. po_read poll = Inr payload}"

lemma runs_accepted_cong:
  "runs_accepted dec seen s \<Longrightarrow> rs_running s' = rs_running s \<Longrightarrow> rs_adopted s' = rs_adopted s \<Longrightarrow> seen \<subseteq> seen' \<Longrightarrow>
   runs_accepted dec seen' s'"
  unfolding runs_accepted_def by fastforce

lemma write_reload_checkpoint_result:
  assumes "write_reload_checkpoint path poll status error s = (r, s')"
  shows "rs_running s' = rs_running s \<and> rs_adopted s' = rs_adopted s \<and> rs_generation s' = rs_generation s \<and>
    rs_last_seen s' = rs_last_seen s \<and> (r = Inr () \<longrightarrow> checkpoint_current s')"
  using assms
  by (auto simp: write_reload_checkpoint_def checkpoint_current_def Let_def split: put_outcome.splits)

lemma poll_config_keeps:
  assumes "poll_config dec path poll s = (r, s')" "runs_accepted dec seen s" "checkpoint_current s"
  shows "runs_accepted dec (seen \<union> read_payloads [poll]) s' \<and> (r = Inr () \<longrightarrow> checkpoint_current s')"
proof (cases "po_read poll")
  case (Inl err)
  then show ?thesis
    using assms write_reload_checkpoint_result[of path poll] runs_accepted_cong[OF assms(2)]
    by (auto simp: poll_config_def)
next
  case (Inr payload)
  let ?s = "s\<lparr>rs_last_seen := payload_fingerprint payload\<rparr>"
  let ?candidate = "and_then (parse_worker_config_payload dec path payload) (\<lambda>config.
    and_then (validate_worker_config_for_runtime config) (\<lambda>_. from_config config))"
  show ?thesis
  proof (cases "payload_fingerprint payload = rs_last_seen s")
    case True
    then have "s' = s" "r = Inr ()" using assms(1) Inr by (simp_all add: poll_config_def Let_def)
    then show ?thesis using assms(2,3) runs_accepted_cong[OF assms(2)] by auto
  next
    case changed_payload: False
    show ?thesis
    proof (cases ?candidate)
      case (Inl err)
      then have "write_reload_checkpoint path poll ReloadRejected (Some (error_display err)) ?s = (r, s')"
        using assms(1) \<open>po_read poll = Inr payload\<close> changed_payload by (simp add: poll_config_def Let_def)
      from write_reload_checkpoint_result[OF this] show ?thesis using runs_accepted_cong[OF assms(2)] by auto
    next
      case candidate: (Inr rt)
      show ?thesis
      proof (cases "po_stop poll")
        case (Inl err)
        then have "s' = ?s" "r = Inl err"
          using assms(1) candidate \<open>po_read poll = Inr payload\<close> changed_payload by (simp_all add: poll_config_def Let_def)
        then show ?thesis using runs_accepted_cong[OF assms(2)] by auto
      next
        case (Inr u)
        then have written: "write_reload_checkpoint path poll ReloadApplied None
            (?s\<lparr>rs_running := Some rt, rs_generation := rs_generation s + 1, rs_adopted := payload_fingerprint payload\<rparr>) = (r, s')"
          using assms(1) candidate \<open>po_read poll = Inr payload\<close> changed_payload by (simp add: poll_config_def Let_def)
        obtain config where "dec payload = Inr config" "validate_worker_config_for_runtime config = Inr ()"
            "from_config config = Inr rt"
          using candidate by (cases "dec payload") (auto simp: parse_worker_config_payload_def and_then_Inr_iff)
        then have "runs_accepted dec (seen \<union> read_payloads [poll]) s'"
          using write_reload_checkpoint_result[OF written] \<open>po_read poll = Inr payload\<close>
          unfolding runs_accepted_def read_payloads_def by fastforce
        then show ?thesis using write_reload_checkpoint_result[OF written] by simp
      qed
    qed
  qed
qed

lemma poll_loop_keeps:
  assumes "poll_loop dec path polls s = (r, s')" "runs_accepted dec seen s" "checkpoint_current s"
  shows "runs_accepted dec (seen \<union> read_payloads polls) s' \<and> (r = Inr () \<longrightarrow> checkpoint_current s')"
  using assms
proof (induction polls arbitrary: s seen)
  case Nil
  then show ?case using runs_accepted_cong[OF Nil(2)] by auto
next
  case (Cons poll polls)
  obtain r1 s1 where step: "poll_config dec path poll s = (r1, s1)" by (rule prod.exhaust)
  note kept = poll_config_keeps[OF step Cons.prems(2,3)]
  have grow: "seen \<union> read_payloads [poll] \<union> read_payloads polls = seen \<union> read_payloads (poll # polls)"
    by (auto simp: read_payloads_def)
  show ?case
  proof (cases r1)
    case (Inl e)
    then show ?thesis
      using Cons.prems(1) step kept runs_accepted_cong[of dec "seen \<union> read_payloads [poll]" s1] grow by auto
  next
    case (Inr u)
    then show ?thesis using Cons.IH[of s1 "seen \<union> read_payloads [poll]"] Cons.prems(1) step kept grow by simp
  qed
qed

text \<open>C37: Whatever the configuration file holds at each poll, the daemon runs the workers of a configuration
  that was read from the file, parsed and accepted; a file that cannot be read, parsed or accepted changes
  nothing that runs.  When the daemon ends well, its checkpoint names the generation and the fingerprint of the
  configuration it ran last.\<close>

theorem reload_runs_accepted_config:
  assumes "run_config_path_until_shutdown dec path (Inr payload) start polls stop = (res, Some s)" "rs_running s \<noteq> None"
  shows "runs_accepted dec (insert payload (read_payloads polls)) s \<and>
    (res = Inr () \<longrightarrow> (\<exists>ck. rs_checkpoint s = Some ck \<and> ck_status ck = ReloadShutdown \<and>
       ck_generation ck = rs_generation s \<and> ck_fingerprint ck = rs_adopted s))"
proof -
  obtain config reload where config: "dec payload = Inr config" "validate_worker_config_for_runtime config = Inr ()"
    and run: "run_reloadable_config_path dec path payload config reload start polls stop = (res, Some s)"
    using assms(1)
    by (cases "dec payload") (auto simp: run_config_path_until_shutdown_def parse_worker_config_payload_def
        and_then_def split: sum.splits option.splits)
  let ?s = "\<lparr>rs_generation = 1, rs_adopted = payload_fingerprint payload, rs_last_seen = payload_fingerprint payload,
    rs_running = None, rs_checkpoint = None\<rparr>"
  obtain r1 s1 where w1: "write_reload_checkpoint path start ReloadStarted None ?s = (r1, s1)" by (rule prod.exhaust)
  note first = write_reload_checkpoint_result[OF w1]
  obtain rt where rt: "from_config config = Inr rt" using validated_starts[OF config(2)] by blast
  obtain r2 s2 where loop: "poll_loop dec path polls (s1\<lparr>rs_running := Some rt\<rparr>) = (r2, s2)" by (rule prod.exhaust)
  obtain r3 s3 where w3: "write_reload_checkpoint path stop ReloadShutdown None s2 = (r3, s3)" by (rule prod.exhaust)
  have path: "rl_checkpoint_path reload \<noteq> None" using run by (auto simp: run_reloadable_config_path_def split: if_splits)
  have started: "r1 = Inr ()"
    using run assms(2) first path by (cases r1) (auto simp: run_reloadable_config_path_def Let_def w1)
  have run: "(case (r2, s2) of (Inl e, s) \<Rightarrow> (Inl e, Some s) | (Inr _, s) \<Rightarrow>
      (case po_stop stop of Inl e \<Rightarrow> (Inl e, Some s) | Inr _ \<Rightarrow>
        (case write_reload_checkpoint path stop ReloadShutdown None s of (r, s) \<Rightarrow> (r, Some s)))) = (res, Some s)"
    using run path started w1 rt loop by (auto simp: run_reloadable_config_path_def Let_def)
  have accepted: "runs_accepted dec {payload} (s1\<lparr>rs_running := Some rt\<rparr>)"
    unfolding runs_accepted_def using config rt first by auto
  have "checkpoint_current (s1\<lparr>rs_running := Some rt\<rparr>)" using first started by (auto simp: checkpoint_current_def)
  from poll_loop_keeps[OF loop accepted this]
  have kept: "runs_accepted dec (insert payload (read_payloads polls)) s2" by simp
  note last = write_reload_checkpoint_result[OF w3]
  have status: "map_option ck_status (rs_checkpoint s3) = Some ReloadShutdown" if "r3 = Inr ()"
    using w3 that by (auto simp: write_reload_checkpoint_def Let_def split: put_outcome.splits)
  have "s = s2 \<and> res \<noteq> Inr () \<or> s = s3 \<and> res = r3"
  proof (cases r2)
    case (Inl e)
    with run have "res = Inl e" "s = s2" by auto
    then show ?thesis by simp
  next
    case r2: (Inr u)
    show ?thesis
    proof (cases "po_stop stop")
      case (Inl e)
      with run r2 have "res = Inl e" "s = s2" by auto
      then show ?thesis by simp
    next
      case (Inr v)
      with run r2 w3 show ?thesis by simp
    qed
  qed
  then consider "s = s2" "res \<noteq> Inr ()" | "s = s3" "res = r3" by blast
  then show ?thesis
  proof cases
    case 2
    have "runs_accepted dec (insert payload (read_payloads polls)) s3"
      by (rule runs_accepted_cong[OF kept]) (use last in auto)
    then show ?thesis
      using 2 last status by (cases r3) (auto simp: checkpoint_current_def)
  qed (use kept in simp)
qed

text \<open>A poll that cannot read the file marks the checkpoint rejected, and no later poll of the
  unchanged file takes the mark back, although the configuration in it is the one that runs.\<close>

theorem rejected_mark_stays:
  assumes "po_read failed = Inl err" "po_write failed = Stored"
    and "\<forall>poll \<in> set polls. \<exists>payload. po_read poll = Inr payload \<and> payload_fingerprint payload = rs_adopted s"
    and "rs_last_seen s = rs_adopted s"
  shows "\<exists>s' ck. poll_loop dec path (failed # polls) s = (Inr (), s') \<and> rs_running s' = rs_running s \<and>
    rs_adopted s' = rs_adopted s \<and> rs_checkpoint s' = Some ck \<and> ck_status ck = ReloadRejected"
proof -
  have stay: "poll_loop dec path ps t = (Inr (), t)"
    if "\<forall>poll \<in> set ps. \<exists>payload. po_read poll = Inr payload \<and> payload_fingerprint payload = rs_last_seen t" for ps t
    using that by (induction ps) (auto simp: poll_config_def Let_def)
  define s' where "s' = snd (poll_config dec path failed s)"
  have first: "poll_config dec path failed s = (Inr (), s')" "rs_running s' = rs_running s" "rs_adopted s' = rs_adopted s"
      "rs_last_seen s' = rs_last_seen s" "map_option ck_status (rs_checkpoint s') = Some ReloadRejected"
    using assms(1,2) by (simp_all add: s'_def poll_config_def write_reload_checkpoint_def Let_def)
  have "poll_loop dec path polls s' = (Inr (), s')" using stay[of polls s'] assms(3,4) first(4) by simp
  then show ?thesis using first by (auto simp: map_option_eq_Some)
qed

section \<open>A daemon\<close>

definition sample_config :: UnderlayWorkerDaemonConfig where
  "sample_config =
     \<lparr>wd_reload = Some \<lparr>rl_enabled = True, rl_poll_interval_secs = 5, rl_checkpoint_path = Some ''/run/reload.json''\<rparr>,
      wd_operation_summary = None, wd_operation_audit = None, wd_operation_alert = None,
      wd_journal_gc = Some \<lparr>gdc_journal_root = ''/journal'', gdc_artifact_root = None,
        gdc_schedule = default_worker_schedule, gdc_retention = default_gc_policy\<rparr>,
      wd_apply_idempotency_gc = None, wd_drift_audit = None\<rparr>"

definition sample_poll :: "string + 8 word list \<Rightarrow> poll" where
  "sample_poll contents = \<lparr>po_read = contents, po_now = 7, po_write = Stored, po_stop = Inr ()\<rparr>"

lemma sample_config_valid: "validate_worker_config_for_runtime sample_config = Inr ()"
  by (simp add: sample_config_def validate_worker_config_for_runtime_def if_some_def validate_gc_policy_def
      validate_worker_schedule_def validate_reload_config_def default_gc_policy_def default_worker_schedule_def
      ensure_eq_iff)

theorem validated_config_starts_witness:
  "\<exists>rt. from_config sample_config = Inr rt \<and> validate_schedules rt = Inr () \<and> set (runtime_specs rt) = {KJournalGc}"
  using validated_config_starts[OF sample_config_valid] by (simp add: sample_config_def)

theorem reload_runs_accepted_config_witness:
  "case run_config_path_until_shutdown (\<lambda>_. Inr sample_config) ''/etc/worker.json'' (Inr [1, 2]) (sample_poll (Inl []))
       [sample_poll (Inl ''busy'')] (sample_poll (Inl [])) of
     (_, Some s) \<Rightarrow> runs_accepted (\<lambda>_. Inr sample_config) {[1, 2]} s | (_, None) \<Rightarrow> False"
proof -
  let ?dec = "\<lambda>_ :: 8 word list. Inr sample_config :: string + UnderlayWorkerDaemonConfig"
  let ?run = "run_config_path_until_shutdown ?dec ''/etc/worker.json'' (Inr [1, 2]) (sample_poll (Inl []))
       [sample_poll (Inl ''busy'')] (sample_poll (Inl []))"
  obtain rt where rt: "from_config sample_config = Inr rt" using validated_starts[OF sample_config_valid] by blast
  have reload: "enabled_reload_config sample_config =
      Some \<lparr>rl_enabled = True, rl_poll_interval_secs = 5, rl_checkpoint_path = Some ''/run/reload.json''\<rparr>"
    by (simp add: enabled_reload_config_def sample_config_def)
  have "\<exists>res s. ?run = (res, Some s) \<and> rs_running s = Some rt"
    by (simp add: run_config_path_until_shutdown_def parse_worker_config_payload_def sample_config_valid reload rt
        run_reloadable_config_path_def write_reload_checkpoint_def sample_poll_def poll_config_def Let_def)
  then obtain res s where run: "?run = (res, Some s)" "rs_running s \<noteq> None" by auto
  have "read_payloads [sample_poll (Inl ''busy'')] = {}" by (simp add: read_payloads_def sample_poll_def)
  then show ?thesis using reload_runs_accepted_config[OF run] unfolding run(1) by simp
qed

theorem rejected_mark_stays_witness:
  "let s = \<lparr>rs_generation = 1, rs_adopted = payload_fingerprint [1], rs_last_seen = payload_fingerprint [1],
     rs_running = None, rs_checkpoint = None\<rparr> in
   \<exists>s' ck. poll_loop (\<lambda>_. Inr sample_config) ''/etc/worker.json'' [sample_poll (Inl ''busy''), sample_poll (Inr [1])] s =
     (Inr (), s') \<and> rs_checkpoint s' = Some ck \<and> ck_status ck = ReloadRejected"
  using rejected_mark_stays[of "sample_poll (Inl ''busy'')" "''busy''" "[sample_poll (Inr [1])]"
    "\<lparr>rs_generation = 1, rs_adopted = payload_fingerprint [1], rs_last_seen = payload_fingerprint [1],
     rs_running = None, rs_checkpoint = None\<rparr>" "\<lambda>_. Inr sample_config" "''/etc/worker.json''"]
  unfolding Let_def by (auto simp: sample_poll_def)

end
