(* ===== verification/World_Inv.thy ===== *)
theory World_Inv
  imports Workers Replay
begin

text \<open>
  Invariants of the world.  The locale \<open>world_invariant\<close> names the primitive changes of the world; a property
  that they keep is kept by every operation of the coordinators and of onboarding, in every environment.
\<close>

locale world_invariant =
  fixes I :: "world \<Rightarrow> bool"
  assumes tick: "I w \<Longrightarrow> I (w\<lparr>w_tick := n\<rparr>)"
    and journal: "I w \<Longrightarrow> I (w_journal_update (bm_insert (jr_tx_id r) r) w)"
    and shadow: "I w \<Longrightarrow> I (w_shadow_update (\<lambda>s. snd (shadow_put st s)) w)"
    and observed: "I w \<Longrightarrow> I (w_observed_update (\<lambda>s. snd (shadow_put st s)) w)"
    and working: "I w \<Longrightarrow> I (w\<lparr>w_record := r\<rparr>)"
    and events: "I w \<Longrightarrow> I (w\<lparr>w_events := w_events w @ es\<rparr>)"
    and log: "I w \<Longrightarrow> I (w\<lparr>w_log := w_log w @ [e]\<rparr>)"
    and insert: "I w \<Longrightarrow> I (w\<lparr>w_inventory := snd (inventory_insert info (w_inventory w))\<rparr>)"
    and set_state: "I w \<Longrightarrow> I (w\<lparr>w_inventory := snd (inventory_set_state d state (w_inventory w))\<rparr>)"
    and set_capability: "I w \<Longrightarrow> I (w\<lparr>w_inventory := snd (inventory_set_capability d c (w_inventory w))\<rparr>)"
begin

section \<open>Primitive steps\<close>

lemma k_ask: "keeps I (ask oracle)"
  by (rule keepsI) (simp add: wp_simps tick)

lemma k_journal_read: "keeps I (journal_read env f)"
  unfolding journal_read_def by (intro keeps_intros k_ask)

lemma k_put_journal: "keeps I (put_journal env r)"
  by (rule keepsI) (auto simp: wp_put_journal put_with_def tick journal split: put_outcome.split)

lemma k_get_shadow: "keeps I (get_shadow env d)"
  unfolding get_shadow_def by (intro keeps_intros k_ask)

lemma k_put_shadow: "keeps I (put_shadow env st)"
  by (rule keepsI) (auto simp: wp_put_shadow put_with_def tick shadow split: put_outcome.split)

lemma k_put_observed: "keeps I (put_observed env st)"
  by (rule keepsI) (auto simp: wp_put_observed put_with_def tick observed split: put_outcome.split)

lemma k_get_managed: "keeps I (get_managed d)"
  unfolding get_managed_def by (rule keeps_reads)

lemma k_open_client: "keeps I (open_client env)"
  unfolding open_client_def by (intro keeps_intros k_ask)

lemma k_call_as: "keeps I (call_as env tx_id op d)"
  by (rule keepsI) (simp add: call_as_def wp_simps tick log)

lemma k_set_record: "keeps I (set_record r)"
  by (rule keepsI) (simp add: set_record_def wp_simps working)

lemma k_update_record: "keeps I (update_record env f)"
  by (rule keepsI) (simp add: wp_update_record working[OF tick])

lemma k_transition: "keeps I (transition env phase)"
  unfolding transition_def by (intro keeps_intros k_ask k_set_record)

lemma k_put_record: "keeps I (put_record env)"
  unfolding put_record_def by (intro keeps_intros k_put_journal)

lemma k_call: "keeps I (call env op d)"
  unfolding call_def by (intro keeps_intros k_call_as)

lemma k_emit: "keeps I (modify (w_events_update (\<lambda>es. es @ new)))"
proof (rule keepsI)
  fix w assume "I w"
  then show "wp (modify (w_events_update (\<lambda>es. es @ new))) (\<lambda>_. I) w"
    using events[of w new] by (cases w) (simp add: wp_modify)
qed

lemma k_inventory:
  "keeps I (on_inventory (inventory_insert info))" "keeps I (on_inventory (inventory_set_state d st))"
  "keeps I (on_inventory (inventory_set_capability d c))"
  by (rule keepsI, simp add: wp_on_inventory split_beta insert set_state set_capability)+

lemmas primitives = k_ask k_journal_read k_put_journal k_get_shadow k_put_shadow k_put_observed k_get_managed
  k_open_client k_call_as k_set_record k_update_record k_transition k_put_record k_call k_emit k_inventory

section \<open>Applies\<close>

lemma k_drift_gate: "keeps I (ensure_drift_policy_allows_apply ds policy)"
  unfolding ensure_drift_policy_allows_apply_def by (intro keeps_intros)

lemma k_gate: "keeps I (ensure_no_in_doubt_for_devices env ds)"
  unfolding ensure_no_in_doubt_for_devices_def by (intro keeps_intros primitives)

lemma k_fetch: "keeps I (fetch_current_states env ds)"
  by (induction ds) (simp_all, (intro keeps_intros primitives; assumption)+)

lemma k_dry_run: "keeps I (dry_run_desired_states env ds)"
  unfolding dry_run_desired_states_def by (intro keeps_intros k_fetch)

lemma k_rollback: "keeps I (rollback_after_endpoint_failure env d)"
  unfolding rollback_after_endpoint_failure_def by (intro keeps_intros primitives)

lemma k_rollback_primary: "keeps I (rollback_preserving_primary env d e)"
  unfolding rollback_preserving_primary_def by (intro keeps_intros k_rollback)

lemma k_prepare: "keeps I (prepare_endpoint env d desired)"
  unfolding prepare_endpoint_def by (intro keeps_intros primitives k_rollback_primary)

lemma k_commit: "keeps I (commit_endpoint env d strategy checksum)"
  unfolding commit_endpoint_def by (intro keeps_intros primitives k_rollback_primary)

lemma k_verify: "keeps I (verify_endpoint env d desired cs)"
  unfolding verify_endpoint_def by (intro keeps_intros primitives k_rollback_primary)

lemma k_final_confirm: "keeps I (final_confirm_endpoint env d)"
  unfolding final_confirm_endpoint_def by (intro keeps_intros primitives k_rollback_primary)

lemma k_finalize: "keeps I (finalize_non_confirmed_commit env)"
  unfolding finalize_non_confirmed_commit_def by (intro keeps_intros primitives)

lemma k_changed_endpoint: "keeps I (apply_changed_endpoint env allow desired cs)"
  unfolding apply_changed_endpoint_def
  by (intro keeps_intros primitives k_prepare k_commit k_verify k_final_confirm k_finalize)

lemma k_changed_endpoints: "keeps I (apply_changed_endpoint_states env plan allow ds selected report)"
  by (induction env plan allow ds selected report rule: apply_changed_endpoint_states.induct)
    (simp_all only: apply_changed_endpoint_states.simps, (intro keeps_intros k_changed_endpoint; assumption?)+)

lemma k_finish_stale: "keeps I (finish_stale env d tx_id strategy warnings report code short warning e)"
  unfolding finish_stale_def by (intro keeps_intros primitives)

lemma k_finish_missing: "keeps I (finish_missing_change_set env d tx_id strategy warnings report)"
  unfolding finish_missing_change_set_def by (intro keeps_intros primitives)

lemma k_finish_shadow: "keeps I (finish_shadow_write env desired cs tx_id strategy warnings report existing)"
  unfolding finish_shadow_write_def by (intro keeps_intros primitives k_finish_stale)

lemma k_finish_successful: "keeps I (finish_successful_apply env desired plan tx_id strategy report)"
  unfolding finish_successful_apply_def
  by (intro keeps_intros primitives k_finish_stale k_finish_missing k_finish_shadow)

lemma k_finish_failed: "keeps I (finish_failed_apply env desired tx_id e)"
  unfolding finish_failed_apply_def Let_def by (intro keeps_intros primitives)

lemma k_admit: "keeps I (admit env desired policy)"
  unfolding admit_def by (intro keeps_intros primitives k_gate k_drift_gate k_dry_run)

lemma k_begin: "keeps I (begin_transaction env rid tid desired plan)"
  unfolding begin_transaction_def by (intro keeps_intros primitives)

lemma k_single: "keeps I (apply_single_endpoint_state env rid tid desired allow policy)"
  unfolding apply_single_endpoint_state_def
  by (intro keeps_intros k_admit k_begin k_changed_endpoints k_finish_failed k_finish_successful)

lemma k_apply_each: "keeps I (apply_each env rid tid allow policy ds)"
  by (induction ds) (simp_all, (intro keeps_intros k_single; assumption)+)

lemma k_apply_desired_states: "keeps I (apply_desired_states env rid tid ds allow policy)"
  unfolding apply_desired_states_def emit_apply_events_def by (intro keeps_intros k_apply_each k_emit)

section \<open>Recovery\<close>

lemma k_transport_retry: "keeps I (transport_retry env tx_id strategy action d n prior)"
proof (induction n arbitrary: prior)
  case (Suc n)
  show ?case
    unfolding transport_retry.simps
    by (intro keeps_intros primitives) (simp split: UnderlayError.split, intro conjI allI impI keeps_intros Suc.IH)
qed (simp only: transport_retry.simps, rule keeps_throw)

lemma k_recover_retry: "keeps I (recover_with_transport_retry env tx_id strategy action d)"
  unfolding recover_with_transport_retry_def by (rule k_transport_retry)

lemma k_recover_device: "keeps I (recover_device env r action acc d)"
  unfolding recover_device_def by (intro keeps_intros primitives k_recover_retry)

lemma k_try_final_confirm: "keeps I (try_final_confirm env r d)"
  unfolding try_final_confirm_def by (intro keeps_intros primitives)

lemma k_try_verify: "keeps I (try_verify env r d)"
  unfolding try_verify_def by (intro keeps_intros primitives)

lemma k_final_confirming_device: "keeps I (recover_final_confirming_device env r acc d)"
  unfolding recover_final_confirming_device_def
  by (intro keeps_intros primitives k_try_final_confirm k_try_verify k_recover_retry)

lemma k_recover_devices: "(\<And>acc d. keeps I (f acc d)) \<Longrightarrow> keeps I (recover_devices f ds acc)"
  by (induction ds arbitrary: acc) (simp_all, (intro keeps_intros; assumption)+)

lemma k_recovered_phase: "keeps I (recovered_phase r code lead acc)"
  unfolding recovered_phase_def by (intro keeps_intros)

lemma k_recover_record: "keeps I (recover_record env r action)"
  unfolding recover_record_def recover_final_confirming_record_def
  by (intro keeps_intros k_recover_devices k_recover_device k_final_confirming_device k_recovered_phase)

lemma k_persist_shadow: "keeps I (persist_recovered_shadow env r ds)"
  by (induction ds) (simp_all, (intro keeps_intros primitives; assumption)+)

lemma k_stamp: "keeps I (stamp_phase env phase r)"
  unfolding stamp_phase_def by (intro keeps_intros primitives)

lemma k_fail_recovery: "keeps I (fail_recovery env r run e)"
  unfolding fail_recovery_def by (intro keeps_intros primitives k_stamp)

lemma k_settle: "keeps I (settle_recovering env r recovering action run)"
  unfolding settle_recovering_def
  by (intro keeps_intros primitives k_recover_record k_fail_recovery k_persist_shadow k_stamp)

lemma k_by_action: "keeps I (recover_by_action env r action run)"
  unfolding recover_by_action_def by (intro keeps_intros primitives k_stamp k_settle)

lemma k_candidate: "keeps I (recover_candidate env gate candidate run)"
  unfolding recover_candidate_def
  by (intro keeps_intros primitives)
    (simp split: RecoveryAction.split, intro conjI impI keeps_intros primitives k_stamp k_by_action)

lemma k_candidates: "keeps I (recover_candidates env gate rs run)"
  by (induction rs arbitrary: run) (simp_all, (intro keeps_intros k_candidate; assumption)+)

lemma k_recover_records: "keeps I (recover_records env rs scope gate rid tid)"
  unfolding recover_records_def by (intro keeps_intros primitives k_candidates)

lemma k_recover_pending: "keeps I (recover_pending_transactions env)"
  unfolding recover_pending_transactions_def by (intro keeps_intros primitives k_recover_records)

lemma k_recover_timed_out: "keeps I (recover_timed_out env)"
  unfolding recover_timed_out_def recover_timed_out_confirmed_commits_def
  by (intro keeps_intros primitives k_recover_records)

section \<open>Devices, states and administration\<close>

lemma k_register: "keeps I (register_device endpoint_error request)"
  unfolding register_device_def by (intro keeps_intros primitives)

lemma k_onboard: "keeps I (onboard_device env d)"
  unfolding onboard_device_def fail_onboarding_def by (intro keeps_intros primitives)

lemma k_fetch_device: "keeps I (fetch_device_state_from_adapter env d)"
  unfolding fetch_device_state_from_adapter_def by (intro keeps_intros primitives)

lemma k_device_state: "keeps I (get_device_state env d)"
  unfolding get_device_state_def by (intro keeps_intros primitives k_fetch_device)

lemma k_refresh: "keeps I (refresh_state env ds)"
proof -
  have "keeps I (refresh_each env ds)"
    by (induction ds) (simp_all, (intro keeps_intros k_device_state; assumption)+)
  then show ?thesis unfolding refresh_state_def by (intro keeps_intros)
qed

lemma k_emit_event: "keeps I (emit_event event)"
  by (rule keepsI) (simp add: emit_event_def wp_modify events)

lemma k_audit_one: "keeps I (audit_one env d)"
  unfolding audit_one_def by (intro keeps_intros primitives k_fetch_device k_emit_event)

lemma k_drift_audit: "keeps I (run_drift_audit env ds)"
proof -
  have "keeps I (audit_each env ds)"
    by (induction ds) (simp_all, (intro keeps_intros k_audit_one; assumption)+)
  then show ?thesis unfolding run_drift_audit_def by (intro keeps_intros k_emit_event)
qed

lemma k_apply_intent: "keeps I (apply_intent env request)"
  unfolding apply_intent_def by (intro keeps_intros k_apply_desired_states)

lemma k_dry_runs: "keeps I (dry_run env request)" "keeps I (dry_run_domain env q)"
  unfolding dry_run_def dry_run_domain_def by (intro keeps_intros k_dry_run)+

lemma k_list_in_doubt: "keeps I (list_in_doubt_transactions env d)"
  unfolding list_in_doubt_transactions_def by (intro keeps_intros primitives)

lemma k_force_unlock: "keeps I (force_unlock env request)"
  unfolding force_unlock_def by (intro keeps_intros primitives)

lemma k_get_transaction: "keeps I (get_transaction env tx_id)"
  unfolding get_transaction_def by (intro keeps_intros primitives)

lemma k_resolve: "keeps I (resolve_record env request trace_id r)"
  unfolding resolve_record_def by (intro keeps_intros primitives)

end

end
