(* ===== verification/Ha.thy ===== *)
theory Ha
  imports Recovery
begin

text \<open>
  The active-passive lease (\<open>src/ha.rs\<close>).  A lease file is absent, holds a record, or holds bytes that do not
  parse.  The operations of a node come twice: as functions on the file, with every system call as an oracle,
  and, because several nodes share the file, as the step relation \<open>lease_step\<close> in which the calls of one operation
  interleave with those of other nodes.
\<close>

section \<open>Records and configuration\<close>

record ActiveLeaseRecord =
  lz_owner_id :: string
  lz_token :: string
  lz_acquired_at :: u64
  lz_updated_at :: u64

record ActiveLeaseConfig =
  lg_path :: string
  lg_owner_id :: string
  lg_ttl_secs :: u64
  lg_heartbeat_interval_secs :: u64

definition heartbeat_interval_for_ttl :: "u64 \<Rightarrow> u64" where
  "heartbeat_interval_for_ttl ttl_secs = max (ttl_secs div 3) 1"

definition new_lease_config :: "string \<Rightarrow> string \<Rightarrow> ActiveLeaseConfig" where
  "new_lease_config path owner_id =
     \<lparr>lg_path = path, lg_owner_id = owner_id, lg_ttl_secs = 30,
      lg_heartbeat_interval_secs = heartbeat_interval_for_ttl 30\<rparr>"

definition with_ttl_secs :: "u64 \<Rightarrow> ActiveLeaseConfig \<Rightarrow> ActiveLeaseConfig" where
  "with_ttl_secs ttl_secs config =
     config\<lparr>lg_ttl_secs := ttl_secs, lg_heartbeat_interval_secs := heartbeat_interval_for_ttl ttl_secs\<rparr>"

definition with_heartbeat_interval_secs :: "u64 \<Rightarrow> ActiveLeaseConfig \<Rightarrow> ActiveLeaseConfig" where
  "with_heartbeat_interval_secs secs config = config\<lparr>lg_heartbeat_interval_secs := secs\<rparr>"

definition validate_lease_config :: "ActiveLeaseConfig \<Rightarrow> unit result" where
  "validate_lease_config config =
     and_then (ensure (lg_path config \<noteq> []) (InvalidIntent ''active-passive lease path must not be empty'')) (\<lambda>_.
     and_then (ensure (trim (lg_owner_id config) \<noteq> [])
       (InvalidIntent ''active-passive lease owner_id must not be empty'')) (\<lambda>_.
     and_then (ensure (lg_ttl_secs config \<noteq> 0)
       (InvalidIntent ''active-passive lease ttl_secs must be greater than zero'')) (\<lambda>_.
     and_then (ensure (lg_heartbeat_interval_secs config \<noteq> 0)
       (InvalidIntent ''active-passive lease heartbeat_interval_secs must be greater than zero'')) (\<lambda>_.
     ensure (lg_heartbeat_interval_secs config \<le> lg_ttl_secs config)
       (InvalidIntent ''active-passive lease heartbeat_interval_secs must not exceed ttl_secs'')))))"

definition lease_is_stale :: "u64 \<Rightarrow> ActiveLeaseRecord \<Rightarrow> u64 \<Rightarrow> bool" where
  "lease_is_stale now r ttl_secs \<longleftrightarrow> ttl_secs < saturating_sub now (lz_updated_at r)"

definition active_lease_io_error :: "string \<Rightarrow> UnderlayError" where
  "active_lease_io_error err = Internal (''active-passive lease io error: '' @ err)"

definition active_lease_error :: "string \<Rightarrow> string \<Rightarrow> bool \<Rightarrow> UnderlayError" where
  "active_lease_error code message retryable =
     AdapterOperation code message retryable [\<lparr>ad_code = code, ad_message = message\<rparr>]"

section \<open>Operations on the file\<close>

text \<open>\<open>TornLease token\<close> is the file that the attempt drawing \<open>token\<close> has created and not written whole.\<close>

datatype lease_file = NoLease | TornLease string | LeaseOf ActiveLeaseRecord

text \<open>What the operating system answers; an operation that makes a call twice numbers it.  A write that fails says
  whether the record was complete: the newline and the flush come after it.\<close>

record lease_io =
  li_now :: "nat \<Rightarrow> u64"
  li_uuid :: string
  li_parent :: "string option"
  li_create :: "nat \<Rightarrow> string option"
  li_write :: "nat \<Rightarrow> (string \<times> bool) option"
  li_read :: "string option"
  li_parse_error :: string
  li_remove :: "string option"
  li_spawn :: "string option"

datatype create_error = AlreadyExists | OtherError string

definition create_lease_file ::
  "lease_io \<Rightarrow> nat \<Rightarrow> ActiveLeaseRecord \<Rightarrow> lease_file \<Rightarrow> (create_error + unit) \<times> lease_file" where
  "create_lease_file io n r f =
     (case li_create io n of
        Some err \<Rightarrow> (Inl (OtherError err), f)
      | None \<Rightarrow>
          if f \<noteq> NoLease then (Inl AlreadyExists, f)
          else case li_write io n of
            Some (err, complete) \<Rightarrow> (Inl (OtherError err), if complete then LeaseOf r else TornLease (lz_token r))
          | None \<Rightarrow> (Inr (), LeaseOf r))"

definition read_lease_record :: "lease_io \<Rightarrow> string \<Rightarrow> lease_file \<Rightarrow> ActiveLeaseRecord result" where
  "read_lease_record io path f =
     (case li_read io of
        Some err \<Rightarrow> Inl (active_lease_io_error err)
      | None \<Rightarrow>
         (case f of
            NoLease \<Rightarrow> Inl (active_lease_io_error ''No such file or directory (os error 2)'')
          | TornLease _ \<Rightarrow>
              Inl (Internal (''parse active-passive lease '' @ debug_str path @ '': '' @ li_parse_error io))
          | LeaseOf r \<Rightarrow> Inr r))"

definition remove_stale_lease :: "lease_io \<Rightarrow> lease_file \<Rightarrow> unit result \<times> lease_file" where
  "remove_stale_lease io f =
     (if f = NoLease then (Inr (), f)
      else case li_remove io of
        Some err \<Rightarrow> (Inl (active_lease_io_error err), f) | None \<Rightarrow> (Inr (), NoLease))"

definition release_lease_if_current :: "lease_io \<Rightarrow> string \<Rightarrow> string \<Rightarrow> lease_file \<Rightarrow> lease_file" where
  "release_lease_if_current io path token f =
     (case read_lease_record io path f of
        Inr r \<Rightarrow> if lz_token r = token \<and> li_remove io = None then NoLease else f
      | Inl _ \<Rightarrow> f)"

record ActiveLeaseGuard =
  gu_path :: string
  gu_owner_id :: string
  gu_token :: string
  gu_acquired_at :: u64
  gu_ttl_secs :: u64

definition from_acquired ::
  "lease_io \<Rightarrow> ActiveLeaseConfig \<Rightarrow> string \<Rightarrow> u64 \<Rightarrow> lease_file \<Rightarrow> ActiveLeaseGuard result \<times> lease_file" where
  "from_acquired io config token acquired_at f =
     (case li_spawn io of
        Some err \<Rightarrow> (Inl (Internal (''spawn active lease heartbeat: '' @ err)),
          release_lease_if_current io (lg_path config) token f)
      | None \<Rightarrow> (Inr \<lparr>gu_path = lg_path config, gu_owner_id = lg_owner_id config, gu_token = token,
          gu_acquired_at = acquired_at, gu_ttl_secs = lg_ttl_secs config\<rparr>, f))"

definition acquire_lease :: "lease_io \<Rightarrow> ActiveLeaseConfig \<Rightarrow> lease_file \<Rightarrow> ActiveLeaseGuard result \<times> lease_file" where
  "acquire_lease io config f =
     (case and_then (validate_lease_config config) (\<lambda>_.
        case li_parent io of Some err \<Rightarrow> Inl (active_lease_io_error err) | None \<Rightarrow> Inr ()) of
        Inl e \<Rightarrow> (Inl e, f)
      | Inr _ \<Rightarrow>
         (let token = li_uuid io; acquired_at = li_now io 0;
              r = \<lparr>lz_owner_id = lg_owner_id config, lz_token = token, lz_acquired_at = acquired_at,
                   lz_updated_at = acquired_at\<rparr> in
          case create_lease_file io 0 r f of
            (Inr _, f) \<Rightarrow> from_acquired io config token acquired_at f
          | (Inl (OtherError err), f) \<Rightarrow> (Inl (active_lease_io_error err), f)
          | (Inl AlreadyExists, f) \<Rightarrow>
             (case read_lease_record io (lg_path config) f of
                Inl e \<Rightarrow> (Inl e, f)
              | Inr current \<Rightarrow>
                  if \<not> lease_is_stale (li_now io 1) current (lg_ttl_secs config) then
                    (Inl (active_lease_error ''HA_LEASE_HELD'' (''active-passive lease '' @
                       debug_str (lg_path config) @ '' is held by '' @ lz_owner_id current) True), f)
                  else case remove_stale_lease io f of
                    (Inl e, f) \<Rightarrow> (Inl e, f)
                  | (Inr _, f) \<Rightarrow>
                     (case create_lease_file io 1 r f of
                        (Inl AlreadyExists, f) \<Rightarrow> (Inl (active_lease_io_error ''File exists (os error 17)''), f)
                      | (Inl (OtherError err), f) \<Rightarrow> (Inl (active_lease_io_error err), f)
                      | (Inr _, f) \<Rightarrow> from_acquired io config token acquired_at f))))"

definition ensure_current :: "lease_io \<Rightarrow> ActiveLeaseGuard \<Rightarrow> lease_file \<Rightarrow> unit result" where
  "ensure_current io g f =
     and_then (read_lease_record io (gu_path g) f) (\<lambda>r.
     and_then (ensure (lz_token r = gu_token g)
       (active_lease_error ''HA_LEASE_LOST'' (''active-passive lease '' @ debug_str (gu_path g) @ '' moved from '' @
          gu_owner_id g @ '' to '' @ lz_owner_id r) True)) (\<lambda>_.
     ensure (\<not> lease_is_stale (li_now io 0) r (gu_ttl_secs g))
       (active_lease_error ''HA_LEASE_STALE'' (''active-passive lease '' @ debug_str (gu_path g) @
          '' heartbeat is stale'') True)))"

text \<open>A heartbeat; \<open>write_outcome\<close> is the answer of \<open>atomic_write\<close>.\<close>

definition refresh_lease_record ::
  "lease_io \<Rightarrow> put_outcome \<Rightarrow> ActiveLeaseGuard \<Rightarrow> lease_file \<Rightarrow> unit result \<times> lease_file" where
  "refresh_lease_record io write_outcome g f =
     (case read_lease_record io (gu_path g) f of
        Inl e \<Rightarrow> (Inl e, f)
      | Inr current \<Rightarrow>
          if lz_token current \<noteq> gu_token g then
            (Inl (active_lease_error ''HA_LEASE_LOST'' (''active-passive lease '' @ debug_str (gu_path g) @
               '' is no longer held by this process'') True), f)
          else
            let updated = LeaseOf \<lparr>lz_owner_id = gu_owner_id g, lz_token = gu_token g,
                  lz_acquired_at = gu_acquired_at g, lz_updated_at = li_now io 0\<rparr> in
            case write_outcome of
              Stored \<Rightarrow> (Inr (), updated) | Lost e \<Rightarrow> (Inl e, f) | StoredButFailed e \<Rightarrow> (Inl e, updated))"

text \<open>Dropping the guard.\<close>

definition drop_lease :: "lease_io \<Rightarrow> ActiveLeaseGuard \<Rightarrow> lease_file \<Rightarrow> lease_file" where
  "drop_lease io g f = release_lease_if_current io (gu_path g) (gu_token g) f"

section \<open>Several nodes\<close>

text \<open>Where a node is in its operation: it waits, it has drawn a token and read the clock, it has judged the
  lease stale, it has removed it, it has created the file, it holds a lease, its heartbeat has found its token and
  read the clock, or its release has found its token.\<close>

datatype lease_node =
    Waiting
  | Drawn string u64
  | Judged string u64
  | Removed string u64
  | Writing string u64
  | Holding string u64
  | Beating string u64 u64
  | Leaving string

record lease_world =
  lw_file :: lease_file
  lw_now :: u64
  lw_nodes :: "nat \<Rightarrow> lease_node"
  lw_used :: "string set"

definition node_lease :: "nat \<Rightarrow> string \<Rightarrow> u64 \<Rightarrow> u64 \<Rightarrow> ActiveLeaseRecord" where
  "node_lease i token acquired_at updated_at =
     \<lparr>lz_owner_id = show_nat i, lz_token = token, lz_acquired_at = acquired_at, lz_updated_at = updated_at\<rparr>"

definition moves :: "nat \<Rightarrow> lease_node \<Rightarrow> lease_file \<Rightarrow> lease_world \<Rightarrow> lease_world" where
  "moves i node f w = w\<lparr>lw_file := f, lw_nodes := (lw_nodes w)(i := node)\<rparr>"

text \<open>Tokens are UUIDs: an attempt to acquire draws one that no other attempt has drawn.  A write goes to the
  file the node created, which another node may have removed since.  \<open>quits\<close> is a crash, and also every operation
  that ends without touching the file.\<close>

inductive lease_step :: "(nat \<Rightarrow> u64) \<Rightarrow> lease_world \<Rightarrow> lease_world \<Rightarrow> bool" for ttl where
  clock: "lease_step ttl w (w\<lparr>lw_now := n\<rparr>)"
| draw: "lw_nodes w i = Waiting \<Longrightarrow> token \<notin> lw_used w \<Longrightarrow>
    lease_step ttl w (moves i (Drawn token (lw_now w)) (lw_file w) (w\<lparr>lw_used := insert token (lw_used w)\<rparr>))"
| create: "lw_nodes w i = Drawn token t \<or> lw_nodes w i = Removed token t \<Longrightarrow> lw_file w = NoLease \<Longrightarrow>
    lease_step ttl w (moves i (Writing token t) (TornLease token) w)"
| fill: "lw_nodes w i = Writing token t \<Longrightarrow>
    lease_step ttl w (moves i (Holding token t)
      (if lw_file w = TornLease token then LeaseOf (node_lease i token t t) else lw_file w) w)"
| judge: "lw_nodes w i = Drawn token t \<Longrightarrow> lw_file w = LeaseOf r \<Longrightarrow> lease_is_stale (lw_now w) r (ttl i) \<Longrightarrow>
    lease_step ttl w (moves i (Judged token t) (lw_file w) w)"
| remove: "lw_nodes w i = Judged token t \<Longrightarrow> lease_step ttl w (moves i (Removed token t) NoLease w)"
| beat_check: "lw_nodes w i = Holding token t \<Longrightarrow> lw_file w = LeaseOf r \<Longrightarrow> lz_token r = token \<Longrightarrow>
    lease_step ttl w (moves i (Beating token t (lw_now w)) (lw_file w) w)"
| beat_write: "lw_nodes w i = Beating token t u \<Longrightarrow>
    lease_step ttl w (moves i (Holding token t) (LeaseOf (node_lease i token t u)) w)"
| leave_check: "lw_nodes w i = Holding token t \<Longrightarrow> lw_file w = LeaseOf r \<Longrightarrow> lz_token r = token \<Longrightarrow>
    lease_step ttl w (moves i (Leaving token) (lw_file w) w)"
| leave: "lw_nodes w i = Leaving token \<Longrightarrow> lease_step ttl w (moves i Waiting NoLease w)"
| quits: "lease_step ttl w (moves i Waiting (lw_file w) w)"

definition lease_start :: lease_world where
  "lease_start = \<lparr>lw_file = NoLease, lw_now = 0, lw_nodes = (\<lambda>_. Waiting), lw_used = {}\<rparr>"

definition lease_reachable :: "(nat \<Rightarrow> u64) \<Rightarrow> lease_world \<Rightarrow> bool" where
  "lease_reachable ttl w \<longleftrightarrow> (lease_step ttl)\<^sup>*\<^sup>* lease_start w"

text \<open>The guard of a node that holds the lease, as far as it knows.\<close>

definition guard_of :: "string \<Rightarrow> (nat \<Rightarrow> u64) \<Rightarrow> lease_world \<Rightarrow> nat \<Rightarrow> ActiveLeaseGuard option" where
  "guard_of path ttl w i =
     (let guard = \<lambda>token t. Some \<lparr>gu_path = path, gu_owner_id = show_nat i, gu_token = token,
            gu_acquired_at = t, gu_ttl_secs = ttl i\<rparr> in
      case lw_nodes w i of Holding token t \<Rightarrow> guard token t | Beating token t _ \<Rightarrow> guard token t | _ \<Rightarrow> None)"

fun node_token :: "lease_node \<Rightarrow> string option" where
  "node_token Waiting = None"
| "node_token (Drawn token _) = Some token"
| "node_token (Judged token _) = Some token"
| "node_token (Removed token _) = Some token"
| "node_token (Writing token _) = Some token"
| "node_token (Holding token _) = Some token"
| "node_token (Beating token _ _) = Some token"
| "node_token (Leaving token) = Some token"

section \<open>One holder at a time\<close>

text \<open>No two nodes work with the same token.\<close>

definition tokens_apart :: "lease_world \<Rightarrow> bool" where
  "tokens_apart w \<longleftrightarrow>
     (\<forall>i token. node_token (lw_nodes w i) = Some token \<longrightarrow>
        token \<in> lw_used w \<and> (\<forall>j. node_token (lw_nodes w j) = Some token \<longrightarrow> i = j))"

text \<open>A node that keeps or gives up its token.\<close>

lemma moves_apart:
  assumes "tokens_apart w" and "node = Waiting \<or> node_token node = node_token (lw_nodes w i)"
  shows "tokens_apart (moves i node f w)"
  using assms unfolding tokens_apart_def moves_def
  by (simp split: if_splits) (metis node_token.simps(1) option.distinct(1))

lemma draw_apart:
  assumes "tokens_apart w" and "token \<notin> lw_used w"
  shows "tokens_apart (moves i (Drawn token t) f (w\<lparr>lw_used := insert token (lw_used w)\<rparr>))"
  using assms unfolding tokens_apart_def moves_def by (simp split: if_splits) metis

lemma lease_step_apart: "lease_step ttl w w' \<Longrightarrow> tokens_apart w \<Longrightarrow> tokens_apart w'"
proof (induction rule: lease_step.induct)
  case (clock w n)
  then show ?case by (simp add: tokens_apart_def)
next
  case (draw w i token)
  then show ?case by (simp add: draw_apart)
next
  case (create w i token t)
  then have "node_token (lw_nodes w i) = Some token" by auto
  then show ?case using create by (simp add: moves_apart)
qed (simp_all add: moves_apart)

lemma lease_reachable_apart: "lease_reachable ttl w \<Longrightarrow> tokens_apart w"
proof -
  have "tokens_apart w" if "(lease_step ttl)\<^sup>*\<^sup>* lease_start w"
    using that by (induction rule: rtranclp_induct)
      (simp add: tokens_apart_def lease_start_def, rule lease_step_apart)
  then show "lease_reachable ttl w \<Longrightarrow> tokens_apart w" by (simp add: lease_reachable_def)
qed

lemma guard_of_token: "guard_of path ttl w i = Some g \<Longrightarrow> node_token (lw_nodes w i) = Some (gu_token g)"
  by (auto simp: guard_of_def Let_def split: lease_node.splits)

lemma ensure_current_iff:
  "ensure_current io g f = Inr () \<longleftrightarrow>
     li_read io = None \<and> (\<exists>r. f = LeaseOf r \<and> lz_token r = gu_token g \<and> \<not> lease_is_stale (li_now io 0) r (gu_ttl_secs g))"
  by (auto simp: ensure_current_def read_lease_record_def and_then_Inr_iff ensure_eq_iff
      split: option.splits lease_file.splits)

lemma one_current_node:
  assumes "lease_reachable ttl w"
    and "guard_of path ttl w i = Some g" "guard_of path ttl w j = Some h"
    and "ensure_current io g (lw_file w) = Inr ()" "ensure_current io' h (lw_file w) = Inr ()"
  shows "i = j"
proof -
  have "gu_token g = gu_token h"
    using assms(4,5) by (auto simp: ensure_current_iff)
  then show ?thesis
    using lease_reachable_apart[OF assms(1)] guard_of_token[OF assms(2)] guard_of_token[OF assms(3)]
    unfolding tokens_apart_def by metis
qed

section \<open>The operations as steps\<close>

lemma validate_lease_config_iff:
  "validate_lease_config config = Inr () \<longleftrightarrow>
     lg_path config \<noteq> [] \<and> trim (lg_owner_id config) \<noteq> [] \<and> 0 < lg_heartbeat_interval_secs config \<and>
     lg_heartbeat_interval_secs config \<le> lg_ttl_secs config"
  by (auto simp: validate_lease_config_def and_then_Inr_iff ensure_eq_iff word_gt_0)

lemma with_ttl_secs_valid:
  assumes "validate_lease_config config = Inr ()" and "0 < ttl_secs"
  shows "validate_lease_config (with_ttl_secs ttl_secs config) = Inr ()"
proof -
  have "ttl_secs div 3 \<le> ttl_secs" by (simp add: word_le_nat_alt unat_div)
  moreover have "1 \<le> ttl_secs" using assms(2) by (simp add: word_le_nat_alt word_less_nat_alt)
  ultimately show ?thesis
    using assms by (auto simp: validate_lease_config_iff with_ttl_secs_def heartbeat_interval_for_ttl_def max_def
      word_le_nat_alt word_less_nat_alt)
qed

text \<open>An acquisition that succeeds, undisturbed, is a run of the node's steps.\<close>

definition owned_config :: "nat \<Rightarrow> u64 \<Rightarrow> ActiveLeaseConfig \<Rightarrow> bool" where
  "owned_config i ttl config \<longleftrightarrow> lg_owner_id config = show_nat i \<and> lg_ttl_secs config = ttl"

lemma create_lease_file_ok:
  "create_lease_file io n r f = (Inr u, f') \<Longrightarrow> f = NoLease \<and> f' = LeaseOf r"
  by (auto simp: create_lease_file_def split: option.splits if_splits prod.splits)

lemma create_lease_file_exists:
  "create_lease_file io n r f = (Inl AlreadyExists, f') \<Longrightarrow> f' = f"
  by (auto simp: create_lease_file_def split: option.splits if_splits prod.splits)

lemma from_acquired_ok:
  "from_acquired io config token t f = (Inr g, f') \<Longrightarrow> f' = f \<and>
     g = \<lparr>gu_path = lg_path config, gu_owner_id = lg_owner_id config, gu_token = token, gu_acquired_at = t,
          gu_ttl_secs = lg_ttl_secs config\<rparr>"
  by (auto simp: from_acquired_def split: option.splits)

lemma acquire_lease_ok:
  assumes "acquire_lease io config f = (Inr g, f')"
  shows "f = NoLease \<or> (\<exists>r. f = LeaseOf r \<and> lease_is_stale (li_now io 1) r (lg_ttl_secs config))"
    and "f' = LeaseOf \<lparr>lz_owner_id = lg_owner_id config, lz_token = li_uuid io, lz_acquired_at = li_now io 0,
           lz_updated_at = li_now io 0\<rparr>"
    and "g = \<lparr>gu_path = lg_path config, gu_owner_id = lg_owner_id config, gu_token = li_uuid io,
           gu_acquired_at = li_now io 0, gu_ttl_secs = lg_ttl_secs config\<rparr>"
  using assms unfolding acquire_lease_def Let_def
  by (auto split: sum.splits prod.splits create_error.splits if_splits
      dest!: create_lease_file_ok create_lease_file_exists from_acquired_ok
      simp: read_lease_record_def split: option.splits lease_file.splits)

lemma moves_simps [simp]:
  "lw_file (moves i node f w) = f" "lw_now (moves i node f w) = lw_now w"
  "lw_nodes (moves i node f w) = (lw_nodes w)(i := node)" "lw_used (moves i node f w) = lw_used w"
  by (simp_all add: moves_def)

lemma moves_moves [simp]: "moves i node f (moves i node' f' w) = moves i node f w"
  by (simp add: moves_def)

lemma take_free_file:
  assumes "lw_nodes w i = Drawn token t \<or> lw_nodes w i = Removed token t" "lw_file w = NoLease"
  shows "(lease_step ttl)\<^sup>*\<^sup>* w (moves i (Holding token t) (LeaseOf (node_lease i token t t)) w)"
proof -
  let ?w = "moves i (Writing token t) (TornLease token) w"
  have "lease_step ttl w ?w" using assms by (rule lease_step.create)
  moreover have "lease_step ttl ?w (moves i (Holding token t) (LeaseOf (node_lease i token t t)) w)"
    using lease_step.fill[of ?w i token t ttl] by simp
  ultimately show ?thesis by (meson converse_rtranclp_into_rtranclp rtranclp.rtrancl_refl)
qed

text \<open>A node that has once judged a lease stale takes the lease, whatever the file holds by then.\<close>

lemma judged_takes_over:
  assumes "lw_nodes w i = Judged token t"
  shows "(lease_step ttl)\<^sup>*\<^sup>* w (moves i (Holding token t) (LeaseOf (node_lease i token t t)) w)"
proof -
  let ?w = "moves i (Removed token t) NoLease w"
  have "lease_step ttl w ?w" using assms by (rule lease_step.remove)
  moreover have "(lease_step ttl)\<^sup>*\<^sup>* ?w (moves i (Holding token t) (LeaseOf (node_lease i token t t)) w)"
    using take_free_file[of ?w i token t ttl] by simp
  ultimately show ?thesis by (rule converse_rtranclp_into_rtranclp)
qed

lemma judge_then_take:
  assumes "lw_nodes w i = Drawn token t" "lw_file w = LeaseOf r" "lease_is_stale (lw_now w) r (ttl i)"
  shows "(lease_step ttl)\<^sup>*\<^sup>* w (moves i (Holding token t) (LeaseOf (node_lease i token t t)) w)"
proof -
  let ?w = "moves i (Judged token t) (lw_file w) w"
  have "lease_step ttl w ?w" using assms by (rule lease_step.judge)
  moreover have "(lease_step ttl)\<^sup>*\<^sup>* ?w (moves i (Holding token t) (LeaseOf (node_lease i token t t)) w)"
    using judged_takes_over[of ?w i token t ttl] by simp
  ultimately show ?thesis by (rule converse_rtranclp_into_rtranclp)
qed

lemma acquire_lease_steps:
  assumes run: "acquire_lease io config (lw_file w) = (Inr g, f')"
    and node: "lw_nodes w i = Waiting" "owned_config i (ttl i) config" "li_uuid io \<notin> lw_used w"
    and time: "li_now io 0 = lw_now w" "li_now io 1 = lw_now w"
  shows "\<exists>w'. (lease_step ttl)\<^sup>*\<^sup>* w w' \<and> lw_file w' = f' \<and> guard_of (lg_path config) ttl w' i = Some g"
proof -
  let ?w = "moves i (Drawn (li_uuid io) (lw_now w)) (lw_file w) (w\<lparr>lw_used := insert (li_uuid io) (lw_used w)\<rparr>)"
  let ?lease = "LeaseOf (node_lease i (li_uuid io) (lw_now w) (lw_now w))"
  let ?w' = "moves i (Holding (li_uuid io) (lw_now w)) ?lease ?w"
  have f': "f' = ?lease" and g: "guard_of (lg_path config) ttl ?w' i = Some g"
    using acquire_lease_ok(2,3)[OF run] node(2) time
    by (simp_all add: node_lease_def owned_config_def guard_of_def)
  have drawn: "lease_step ttl w ?w" using node(1,3) by (rule lease_step.draw)
  have "(lease_step ttl)\<^sup>*\<^sup>* ?w ?w'"
    using acquire_lease_ok(1)[OF run]
  proof
    assume "lw_file w = NoLease"
    then show ?thesis by (intro take_free_file) simp_all
  next
    assume "\<exists>r. lw_file w = LeaseOf r \<and> lease_is_stale (li_now io 1) r (lg_ttl_secs config)"
    then obtain r where "lw_file w = LeaseOf r" "lease_is_stale (li_now io 1) r (lg_ttl_secs config)" by blast
    then show ?thesis using node(2) time by (intro judge_then_take[of ?w i _ _ r]) (simp_all add: owned_config_def)
  qed
  then show ?thesis using drawn f' g
    by (intro exI[of _ ?w']) (auto intro: converse_rtranclp_into_rtranclp)
qed

section \<open>What the file does not exclude\<close>

text \<open>The answers of a system in which every call succeeds.\<close>

definition quiet_io :: "u64 \<Rightarrow> string \<Rightarrow> lease_io" where
  "quiet_io now uuid =
     \<lparr>li_now = (\<lambda>_. now), li_uuid = uuid, li_parent = None, li_create = (\<lambda>_. None), li_write = (\<lambda>_. None),
      li_read = None, li_parse_error = [], li_remove = None, li_spawn = None\<rparr>"

text \<open>A crash between creating the file and writing it: no acquisition succeeds, and none repairs the file.\<close>

lemma torn_lease_not_acquired: "\<exists>e. acquire_lease io config (TornLease token) = (Inl e, TornLease token)"
  by (auto simp: acquire_lease_def create_lease_file_def read_lease_record_def Let_def
      split: sum.splits option.splits)

definition torn_for_good :: "string \<Rightarrow> lease_world \<Rightarrow> bool" where
  "torn_for_good token w \<longleftrightarrow> lw_file w = TornLease token \<and> token \<in> lw_used w \<and>
     (\<forall>i. case lw_nodes w i of
        Waiting \<Rightarrow> True | Drawn other _ \<Rightarrow> other \<noteq> token | Holding other _ \<Rightarrow> True | _ \<Rightarrow> False)"

lemma torn_step: "lease_step ttl w w' \<Longrightarrow> torn_for_good token w \<Longrightarrow> torn_for_good token w'"
  by (induction rule: lease_step.induct)
    (auto simp: torn_for_good_def moves_def split: lease_node.splits if_splits)

lemma torn_steps: "(lease_step ttl)\<^sup>*\<^sup>* w w' \<Longrightarrow> torn_for_good token w \<Longrightarrow> torn_for_good token w'"
  by (induction rule: rtranclp_induct) (auto intro: torn_step)

text \<open>A race for the lease of a node that died: two nodes have judged it stale, the first takes it, the second takes
  it from the first.\<close>

definition dead_lease :: ActiveLeaseRecord where
  "dead_lease = node_lease 2 ''a'' 0 0"

definition race_judged :: lease_world where
  "race_judged = \<lparr>lw_file = LeaseOf dead_lease, lw_now = 100,
     lw_nodes = (\<lambda>_. Waiting)(2 := Waiting, 0 := Judged ''b'' 100, 1 := Judged ''c'' 100),
     lw_used = {''c'', ''b'', ''a''}\<rparr>"

definition race_first :: lease_world where
  "race_first = moves 0 (Holding ''b'' 100) (LeaseOf (node_lease 0 ''b'' 100 100)) race_judged"

definition race_second :: lease_world where
  "race_second = moves 1 (Holding ''c'' 100) (LeaseOf (node_lease 1 ''c'' 100 100)) race_first"

lemma race_judged_reachable: "lease_reachable (\<lambda>_. 30) race_judged"
proof -
  let ?ttl = "(\<lambda>_. 30) :: nat \<Rightarrow> u64"
  let ?run = "(lease_step ?ttl)\<^sup>*\<^sup>*"
  let ?old = "LeaseOf dead_lease"
  let ?w1 = "moves 2 (Drawn ''a'' 0) NoLease (lease_start\<lparr>lw_used := {''a''}\<rparr>)"
  let ?w2 = "moves 2 (Holding ''a'' 0) ?old ?w1"
  let ?w3 = "moves 2 Waiting ?old ?w2\<lparr>lw_now := 100\<rparr>"
  let ?w4 = "moves 0 (Drawn ''b'' 100) ?old (?w3\<lparr>lw_used := {''b'', ''a''}\<rparr>)"
  let ?w5 = "moves 1 (Drawn ''c'' 100) ?old (?w4\<lparr>lw_used := {''c'', ''b'', ''a''}\<rparr>)"
  let ?w6 = "moves 0 (Judged ''b'' 100) ?old ?w5"
  let ?w7 = "moves 1 (Judged ''c'' 100) ?old ?w6"
  have stale: "lease_is_stale 100 dead_lease 30"
    by (simp add: lease_is_stale_def saturating_sub_def node_lease_def dead_lease_def)
  have "lease_step ?ttl lease_start ?w1"
    using lease_step.draw[of lease_start 2 "''a''" ?ttl] by (simp add: lease_start_def)
  moreover have "?run ?w1 ?w2" unfolding dead_lease_def by (rule take_free_file) simp_all
  moreover have "lease_step ?ttl ?w2 (moves 2 Waiting ?old ?w2)"
    using lease_step.quits[of ?ttl ?w2 2] by simp
  moreover have "lease_step ?ttl (moves 2 Waiting ?old ?w2) ?w3" by (rule lease_step.clock)
  moreover have "lease_step ?ttl ?w3 ?w4"
    using lease_step.draw[of ?w3 0 "''b''" ?ttl] by (simp add: lease_start_def)
  moreover have "lease_step ?ttl ?w4 ?w5"
    using lease_step.draw[of ?w4 1 "''c''" ?ttl] by (simp add: lease_start_def)
  moreover have "lease_step ?ttl ?w5 ?w6"
    using lease_step.judge[of ?w5 0 "''b''" 100 dead_lease ?ttl] stale by simp
  moreover have "lease_step ?ttl ?w6 ?w7"
    using lease_step.judge[of ?w6 1 "''c''" 100 dead_lease ?ttl] stale by simp
  ultimately have "?run lease_start ?w7"
    by (meson converse_rtranclp_into_rtranclp rtranclp.rtrancl_into_rtrancl rtranclp_trans)
  moreover have "?w7 = race_judged"
    by (simp add: race_judged_def moves_def lease_start_def fun_eq_iff)
  ultimately show ?thesis by (simp add: lease_reachable_def)
qed

lemma race_runs:
  "(lease_step ttl)\<^sup>*\<^sup>* race_judged race_first" "(lease_step ttl)\<^sup>*\<^sup>* race_first race_second"
  unfolding race_first_def race_second_def
  by (rule judged_takes_over, simp add: race_judged_def)+

lemma race_first_reachable: "lease_reachable (\<lambda>_. 30) race_first"
  using race_judged_reachable race_runs(1) unfolding lease_reachable_def by (rule rtranclp_trans)

lemma race_second_reachable: "lease_reachable (\<lambda>_. 30) race_second"
  using race_first_reachable race_runs(2) unfolding lease_reachable_def by (rule rtranclp_trans)

definition race_guard :: "string \<Rightarrow> nat \<Rightarrow> string \<Rightarrow> ActiveLeaseGuard" where
  "race_guard path i token = \<lparr>gu_path = path, gu_owner_id = show_nat i, gu_token = token,
     gu_acquired_at = 100, gu_ttl_secs = 30\<rparr>"

lemma race_guards:
  "guard_of path (\<lambda>_. 30) race_first 0 = Some (race_guard path 0 ''b'')"
  "guard_of path (\<lambda>_. 30) race_second 0 = Some (race_guard path 0 ''b'')"
  "guard_of path (\<lambda>_. 30) race_second 1 = Some (race_guard path 1 ''c'')"
  by (simp_all add: guard_of_def race_first_def race_second_def race_guard_def)

lemma race_holders:
  "ensure_current (quiet_io 100 uuid) (race_guard path 0 ''b'') (lw_file race_first) = Inr ()"
  "ensure_current (quiet_io 100 uuid) (race_guard path 1 ''c'') (lw_file race_second) = Inr ()"
  by (simp_all add: ensure_current_iff race_first_def race_second_def race_guard_def quiet_io_def node_lease_def
      lease_is_stale_def saturating_sub_def)

text \<open>C40: A lease that is still fresh can be taken from its holder.  Two nodes judge a dead node's lease stale;
  the first replaces it and is the current holder; the second then removes the file it judged before, which is now
  the lease of the first, and becomes the current holder while no time passes.\<close>

theorem fresh_lease_taken:
  "\<exists>w w' g h.
     lease_reachable (\<lambda>_. 30) w \<and> guard_of path (\<lambda>_. 30) w 0 = Some g \<and>
     ensure_current (quiet_io (lw_now w) []) g (lw_file w) = Inr () \<and>
     (lease_step (\<lambda>_. 30))\<^sup>*\<^sup>* w w' \<and> lw_now w' = lw_now w \<and> guard_of path (\<lambda>_. 30) w' 0 = Some g \<and>
     ensure_current (quiet_io (lw_now w') []) g (lw_file w') = Inl (active_lease_error ''HA_LEASE_LOST''
       (''active-passive lease '' @ debug_str path @ '' moved from '' @ show_nat 0 @ '' to '' @ show_nat 1) True) \<and>
     guard_of path (\<lambda>_. 30) w' 1 = Some h \<and> ensure_current (quiet_io (lw_now w') []) h (lw_file w') = Inr ()"
proof -
  have now: "lw_now race_first = 100" "lw_now race_second = 100"
    by (simp_all add: race_first_def race_second_def race_judged_def)
  have "ensure_current (quiet_io 100 []) (race_guard path 0 ''b'') (lw_file race_second) = Inl (active_lease_error
      ''HA_LEASE_LOST'' (''active-passive lease '' @ debug_str path @ '' moved from '' @ show_nat 0 @ '' to '' @
        show_nat 1) True)"
    by (simp add: ensure_current_def read_lease_record_def quiet_io_def race_second_def race_guard_def
        node_lease_def and_then_def ensure_def)
  then show ?thesis
    using race_first_reachable race_runs(2) race_guards race_holders[of "[]"] now
    by (intro exI[of _ race_first] exI[of _ race_second]) simp
qed

text \<open>A lease file that was created and never written stays as it is: once no node is about to write or remove
  it, no run of the nodes repairs it, no acquisition succeeds, and no node passes the check.\<close>

theorem torn_lease_blocks:
  assumes "torn_for_good token w" "(lease_step ttl)\<^sup>*\<^sup>* w w'"
  shows "lw_file w' = TornLease token \<and> (\<exists>e. acquire_lease io config (lw_file w') = (Inl e, lw_file w')) \<and>
    ensure_current io g (lw_file w') \<noteq> Inr ()"
proof -
  have "lw_file w' = TornLease token"
    using torn_steps[OF assms(2,1)] by (simp add: torn_for_good_def)
  then show ?thesis
    using torn_lease_not_acquired[of io config token] by (simp add: ensure_current_iff)
qed

definition torn_world :: lease_world where
  "torn_world = moves 0 Waiting (TornLease ''a'') (lease_start\<lparr>lw_used := {''a''}\<rparr>)"

lemma torn_world_reachable: "lease_reachable ttl torn_world"
proof -
  let ?w1 = "moves 0 (Drawn ''a'' 0) NoLease (lease_start\<lparr>lw_used := {''a''}\<rparr>)"
  let ?w2 = "moves 0 (Writing ''a'' 0) (TornLease ''a'') ?w1"
  have "lease_step ttl lease_start ?w1"
    using lease_step.draw[of lease_start 0 "''a''" ttl] by (simp add: lease_start_def)
  moreover have "lease_step ttl ?w1 ?w2" by (rule lease_step.create) simp_all
  moreover have "lease_step ttl ?w2 torn_world"
    using lease_step.quits[of ttl ?w2 0] by (simp add: torn_world_def)
  ultimately show ?thesis
    unfolding lease_reachable_def by (meson rtranclp.rtrancl_into_rtrancl rtranclp.rtrancl_refl)
qed

theorem torn_lease_blocks_witness:
  "lease_reachable (\<lambda>_. 30) torn_world \<and>
   (\<exists>e. acquire_lease (quiet_io 1000 ''b'') (new_lease_config ''lease'' ''node-b'') (lw_file torn_world) =
     (Inl e, TornLease ''a''))"
proof -
  have "torn_for_good ''a'' torn_world"
    by (simp add: torn_for_good_def torn_world_def lease_start_def)
  from torn_lease_blocks[OF this rtranclp.rtrancl_refl, where io = "quiet_io 1000 ''b''"
      and config = "new_lease_config ''lease'' ''node-b''" and g = "\<lparr>gu_path = ''lease'', gu_owner_id = ''node-a'',
        gu_token = ''a'', gu_acquired_at = 0, gu_ttl_secs = 30\<rparr>"]
  have blocked: "lw_file torn_world = TornLease ''a''" "\<exists>e. acquire_lease (quiet_io 1000 ''b'')
      (new_lease_config ''lease'' ''node-b'') (lw_file torn_world) = (Inl e, lw_file torn_world)"
    by (rule conjunct1, rule conjunct1[OF conjunct2])
  show ?thesis using torn_world_reachable blocked(2) unfolding blocked(1) by (rule conjI)
qed

end
