(* ===== verification/Api.thy ===== *)
theory Api
  imports World_Inv Telemetry Ha
begin

text \<open>
  The service as its callers see it: the operations of the trait \<open>UnderlayService\<close>
  (\<open>src/api/underlay_service.rs\<close>) and the further ones of \<open>AriaUnderlayService\<close> as one dispatcher, the wrappers
  that check the lease before an operation, and the activation of a node (\<open>src/api/service.rs\<close>).
\<close>

section \<open>Calls and replies\<close>

datatype ApiCall =
    CallInitializeSite InitializeUnderlaySiteRequest
  | CallRegisterDevice RegisterDeviceRequest
  | CallOnboardDevice DeviceId
  | CallApplyIntent ApplyIntentRequest
  | CallDryRun ApplyIntentRequest
  | CallRefreshState "DeviceId list"
  | CallGetDeviceState DeviceId
  | CallRecoverPending
  | CallListInDoubt "DeviceId option"
  | CallDriftAudit "DeviceId list"
  | CallForceUnlock ForceUnlockRequest
  | CallForceResolve ForceResolveTransactionRequest
  | CallListSummaries ListOperationSummariesRequest
  | CallApplyDomainIntent ApplyDomainIntentRequest
  | CallCompensationPlan string
  | CallRetryFailed RetryFailedDomainEndpointsRequest
  | CallDryRunDomain ApplyDomainIntentRequest

datatype ApiReply =
    is_SiteReply: SiteReply InitializeUnderlaySiteResponse
  | is_RegisterReply: RegisterReply RegisterDeviceResponse
  | is_OnboardReply: OnboardReply DeviceLifecycleState
  | is_ApplyReply: ApplyReply ApplyIntentResponse
  | is_DryRunReply: DryRunReply DryRunResponse
  | is_DevicesReply: DevicesReply "DeviceId list"
  | is_StateReply: StateReply DeviceShadowState
  | is_RecoveryReply: RecoveryReply RecoveryReport
  | is_InDoubtReply: InDoubtReply "InDoubtTransactionSummary list"
  | is_UnlockReply: UnlockReply ForceUnlockResponse
  | is_ResolveReply: ResolveReply ForceResolveTransactionResponse
  | is_SummariesReply: SummariesReply ListOperationSummariesResponse
  | is_PlanReply: PlanReply DomainApplyCompensationPlan

definition reply :: "('a \<Rightarrow> ApiReply) \<Rightarrow> 'a svc \<Rightarrow> ApiReply svc" where
  "reply wrap m = try_then m (\<lambda>x. ok (wrap x))"

text \<open>\<open>AriaUnderlayService\<close>; the summaries of the in-memory store are those of the events emitted so far.\<close>

primrec serve :: "service_env \<Rightarrow> ApiCall \<Rightarrow> ApiReply svc" where
  "serve senv (CallInitializeSite request) = reply SiteReply (initialize_site senv request)"
| "serve senv (CallRegisterDevice request) = reply RegisterReply (lift (register_device (se_endpoint_error senv) request))"
| "serve senv (CallOnboardDevice d) = reply OnboardReply (lift (onboard_device (se_env senv) d))"
| "serve senv (CallApplyIntent request) = reply ApplyReply (lift (apply_intent (se_env senv) request))"
| "serve senv (CallDryRun request) = reply DryRunReply (lift (dry_run (se_env senv) request))"
| "serve senv (CallRefreshState ds) = reply DevicesReply (lift (refresh_state (se_env senv) ds))"
| "serve senv (CallGetDeviceState d) = reply StateReply (lift (get_device_state (se_env senv) d))"
| "serve senv CallRecoverPending = reply RecoveryReply (lift (recover_pending_transactions (se_env senv)))"
| "serve senv (CallListInDoubt d) = reply InDoubtReply (lift (list_in_doubt_transactions (se_env senv) d))"
| "serve senv (CallDriftAudit ds) = reply DevicesReply (lift (run_drift_audit (se_env senv) ds))"
| "serve senv (CallForceUnlock request) = reply UnlockReply (lift (force_unlock (se_env senv) request))"
| "serve senv (CallForceResolve request) = reply ResolveReply (force_resolve_transaction senv request)"
| "serve senv (CallListSummaries request) =
     State_Monad.bind (reads (\<lambda>s. List.map_filter summary_from_event (w_events (sv_world s)))) (\<lambda>stored.
     ok (SummariesReply (list_operation_summaries stored request)))"
| "serve senv (CallApplyDomainIntent request) = reply ApplyReply (apply_domain_intent senv request)"
| "serve senv (CallCompensationPlan request_id) = reply PlanReply (get_domain_apply_compensation_plan senv request_id)"
| "serve senv (CallRetryFailed request) = reply ApplyReply (retry_failed_domain_endpoints senv request)"
| "serve senv (CallDryRunDomain request) = reply DryRunReply (lift (dry_run_domain (se_env senv) request))"

section \<open>Active and passive nodes\<close>

text \<open>\<open>ActivePassiveAriaUnderlayService\<close>: every operation but the compensation plan checks the lease first.\<close>

fun lease_checked :: "ApiCall \<Rightarrow> bool" where
  "lease_checked (CallCompensationPlan _) = False"
| "lease_checked _ = True"

definition serve_active_passive ::
  "lease_io \<Rightarrow> ActiveLeaseGuard \<Rightarrow> lease_file \<Rightarrow> service_env \<Rightarrow> ApiCall \<Rightarrow> ApiReply svc" where
  "serve_active_passive io lease f senv c =
     (if lease_checked c
      then try_then (of_result (ensure_current io lease f)) (\<lambda>_. serve senv c)
      else serve senv c)"

datatype HaLeaseMode = StandaloneAllowed | RequireActiveLease

record HaLeaseStartupPolicy =
  hp_mode :: HaLeaseMode
  hp_lease_config :: "ActiveLeaseConfig option"

definition standalone_allowed :: HaLeaseStartupPolicy where
  "standalone_allowed = \<lparr>hp_mode = StandaloneAllowed, hp_lease_config = None\<rparr>"

definition require_active_lease :: "ActiveLeaseConfig option \<Rightarrow> HaLeaseStartupPolicy" where
  "require_active_lease config = \<lparr>hp_mode = RequireActiveLease, hp_lease_config = config\<rparr>"

datatype HaProtected = HaStandalone | HaActivePassive ActiveLeaseGuard RecoveryReport

fun ha_startup_recovery :: "HaProtected \<Rightarrow> RecoveryReport option" where
  "ha_startup_recovery HaStandalone = None"
| "ha_startup_recovery (HaActivePassive _ report) = Some report"

fun serve_ha :: "lease_io \<Rightarrow> HaProtected \<Rightarrow> lease_file \<Rightarrow> service_env \<Rightarrow> ApiCall \<Rightarrow> ApiReply svc" where
  "serve_ha io HaStandalone f senv c = serve senv c"
| "serve_ha io (HaActivePassive lease _) f senv c = serve_active_passive io lease f senv c"

text \<open>A failed startup recovery drops the guard, which releases the lease.\<close>

definition activate_active_passive ::
  "lease_io \<Rightarrow> ActiveLeaseConfig \<Rightarrow> service_env \<Rightarrow> lease_file \<Rightarrow> service \<Rightarrow> HaProtected result \<times> lease_file \<times> service" where
  "activate_active_passive io lease_config senv f s =
     (case acquire_lease io lease_config f of
        (Inl e, f) \<Rightarrow> (Inl e, f, s)
      | (Inr lease, f) \<Rightarrow>
         (case run_state (lift (recover_pending_transactions (se_env senv))) s of
            (Inl e, s) \<Rightarrow> (Inl e, drop_lease io lease f, s)
          | (Inr startup_recovery, s) \<Rightarrow> (Inr (HaActivePassive lease startup_recovery), f, s)))"

definition activate_with_ha_policy ::
  "lease_io \<Rightarrow> HaLeaseStartupPolicy \<Rightarrow> service_env \<Rightarrow> lease_file \<Rightarrow> service \<Rightarrow> HaProtected result \<times> lease_file \<times> service" where
  "activate_with_ha_policy io policy senv f s =
     (case hp_mode policy of
        StandaloneAllowed \<Rightarrow> (Inr HaStandalone, f, s)
      | RequireActiveLease \<Rightarrow>
         (case hp_lease_config policy of
            None \<Rightarrow> (Inl ha_lease_required_error, f, s)
          | Some lease_config \<Rightarrow> activate_active_passive io lease_config senv f s))"

section \<open>Well-formedness and history\<close>

text \<open>Every store files an entry under its own identifier, and a filled idempotency slot agrees with the store.\<close>

definition world_wf :: "world \<Rightarrow> bool" where
  "world_wf w \<longleftrightarrow> inventory_inv (w_inventory w) \<and> journal_inv (w_journal w) \<and> memory_inv (w_shadow w) \<and>
     memory_inv (w_observed w)"

definition records_inv :: "memory_apply_records \<Rightarrow> bool" where
  "records_inv rs \<longleftrightarrow> (\<forall>k r. bm_get rs k = Some r \<longrightarrow> dq_request_id (rec_request r) = k)"

definition service_wf :: "service \<Rightarrow> bool" where
  "service_wf s \<longleftrightarrow> world_wf (sv_world s) \<and> records_inv (sv_apply_records s) \<and> idempotency_inv s"

text \<open>Nothing the service has learnt is forgotten: devices, transactions, shadow states, events, calls, audit
  records and idempotency records.\<close>

definition world_grown :: "world \<Rightarrow> world \<Rightarrow> bool" where
  "world_grown w w' \<longleftrightarrow>
     dom (bm_get (w_inventory w)) \<subseteq> dom (bm_get (w_inventory w')) \<and>
     dom (bm_get (w_journal w)) \<subseteq> dom (bm_get (w_journal w')) \<and>
     dom (bm_get (w_shadow w)) \<subseteq> dom (bm_get (w_shadow w')) \<and>
     (\<exists>es. w_events w' = w_events w @ es) \<and> (\<exists>cs. w_log w' = w_log w @ cs)"

definition service_grown :: "service \<Rightarrow> service \<Rightarrow> bool" where
  "service_grown s s' \<longleftrightarrow> world_grown (sv_world s) (sv_world s') \<and>
     (\<exists>rs. sv_audit s' = sv_audit s @ rs) \<and> (\<forall>key v. recorded key v s \<longrightarrow> recorded key v s')"

lemma world_grown_refl [simp]: "world_grown w w"
  by (simp add: world_grown_def)

lemma service_grown_refl [simp]: "service_grown s s"
  by (simp add: service_grown_def)

lemma world_grown_trans: "world_grown a b \<Longrightarrow> world_grown b c \<Longrightarrow> world_grown a c"
  unfolding world_grown_def by (elim conjE exE) (intro conjI; (erule (1) subset_trans | simp))

lemma service_grown_trans: "service_grown a b \<Longrightarrow> service_grown b c \<Longrightarrow> service_grown a c"
  unfolding service_grown_def by (auto intro: world_grown_trans)

definition world_from :: "world \<Rightarrow> world \<Rightarrow> bool" where
  "world_from w0 w \<longleftrightarrow> world_wf w \<and> world_grown w0 w"

lemma inventory_grows:
  "dom (bm_get iv) \<subseteq> dom (bm_get (snd (inventory_insert info iv)))"
  "dom (bm_get iv) \<subseteq> dom (bm_get (snd (inventory_set_state d state iv)))"
  "dom (bm_get iv) \<subseteq> dom (bm_get (snd (inventory_set_capability d c iv)))"
  by (auto simp: inventory_insert_def inventory_set_state_def inventory_set_capability_def bm_get_insert
      split: option.splits if_splits)

lemma shadow_put_grows: "dom (bm_get sh) \<subseteq> dom (bm_get (snd (shadow_put st sh)))"
  by (auto simp: shadow_put_eq Let_def bm_get_insert split: if_splits)

lemma journal_insert_inv: "journal_inv j \<Longrightarrow> journal_inv (bm_insert (jr_tx_id r) r j)"
  by (auto simp: journal_inv_def bm_get_insert split: if_splits)

lemma shadow_put_inv: "memory_inv sh \<Longrightarrow> memory_inv (snd (shadow_put st sh))"
  by (auto simp: shadow_put_eq Let_def memory_inv_def bm_get_insert split: if_splits)

interpretation grown: world_invariant "world_from w0" for w0
proof unfold_locales
  fix w n assume "world_from w0 w"
  then show "world_from w0 (w\<lparr>w_tick := n\<rparr>)" by (simp add: world_from_def world_wf_def world_grown_def)
next
  fix w r assume "world_from w0 w"
  then show "world_from w0 (w_journal_update (bm_insert (jr_tx_id r) r) w)"
    by (auto simp: world_from_def world_wf_def world_grown_def journal_insert_inv bm_get_insert)
next
  fix w st assume "world_from w0 w"
  then show "world_from w0 (w_shadow_update (\<lambda>s. snd (shadow_put st s)) w)"
    using shadow_put_grows[of "w_shadow w" st]
    by (simp add: world_from_def world_wf_def world_grown_def shadow_put_inv) blast
next
  fix w st assume "world_from w0 w"
  then show "world_from w0 (w_observed_update (\<lambda>s. snd (shadow_put st s)) w)"
    by (simp add: world_from_def world_wf_def world_grown_def shadow_put_inv)
next
  fix w info assume "world_from w0 w"
  then show "world_from w0 (w\<lparr>w_inventory := snd (inventory_insert info (w_inventory w))\<rparr>)"
    using inventory_grows(1)[of "w_inventory w" info]
    by (simp add: world_from_def world_wf_def world_grown_def inventory_invariant) blast
next
  fix w d state assume "world_from w0 w"
  then show "world_from w0 (w\<lparr>w_inventory := snd (inventory_set_state d state (w_inventory w))\<rparr>)"
    using inventory_grows(2)[of "w_inventory w" d state]
    by (simp add: world_from_def world_wf_def world_grown_def inventory_invariant) blast
next
  fix w d c assume "world_from w0 w"
  then show "world_from w0 (w\<lparr>w_inventory := snd (inventory_set_capability d c (w_inventory w))\<rparr>)"
    using inventory_grows(3)[of "w_inventory w" d c]
    by (simp add: world_from_def world_wf_def world_grown_def inventory_invariant) blast
qed (auto simp: world_from_def world_wf_def world_grown_def)

section \<open>The operations of the service\<close>

definition service_from :: "service \<Rightarrow> service \<Rightarrow> bool" where
  "service_from s0 s \<longleftrightarrow> service_wf s \<and> service_grown s0 s"

lemma keeps_lift:
  assumes "\<And>w0. keeps (world_from w0) m"
  shows "keeps (service_from s0) (lift m)"
proof (rule keepsI, unfold wp_lift)
  fix s assume from_s0: "service_from s0 s"
  then have "world_from (sv_world s0) (sv_world s)"
    by (simp add: service_from_def service_wf_def service_grown_def world_from_def)
  then have "wp m (\<lambda>_. world_from (sv_world s0)) (sv_world s)" by (rule keeps_wp[OF assms])
  then show "wp m (\<lambda>_ w. service_from s0 (s\<lparr>sv_world := w\<rparr>)) (sv_world s)"
    by (rule wp_mono) (use from_s0 in \<open>auto simp: service_from_def service_wf_def service_grown_def world_from_def
      idempotency_inv_def recorded_def\<close>)
qed

lemma service_from_tick: "service_from s0 s \<Longrightarrow> service_from s0 (sv_tick s)"
  unfolding sv_tick_def
  using grown.tick[of "sv_world s0" "sv_world s"]
  by (auto simp: service_from_def service_wf_def service_grown_def world_from_def idempotency_inv_def recorded_def)

lemma keeps_read_store: "keeps (service_from s0) (read_store oracle f)"
  by (rule keepsI) (auto simp: wp_simps service_from_tick split: option.split)

lemma keeps_write_store:
  assumes "\<And>s. service_from s0 s \<Longrightarrow> service_from s0 (store s)"
  shows "keeps (service_from s0) (write_store oracle store)"
  by (rule keepsI) (auto simp: wp_stores assms service_from_tick split: put_outcome.split)

lemma keeps_ask: "keeps (service_from s0) (lift (ask oracle))"
  by (rule keeps_lift) (rule grown.k_ask)

lemma keeps_persist: "keeps (service_from s0) (persist_domain_apply_record senv request response)"
proof -
  have store: "service_from s0 (sv_apply_records_update
      (\<lambda>rs. snd (apply_record_put (new_domain_apply_record now request response) rs)) s)"
    if "service_from s0 s" for s now
    using that by (auto simp: service_from_def service_wf_def service_grown_def records_inv_def apply_record_put_def
        idempotency_inv_def recorded_def bm_get_insert split: if_splits)
  show ?thesis
    unfolding persist_domain_apply_record_def by (intro keeps_intros keeps_ask keeps_write_store store)
qed

lemma keeps_append_audit: "keeps (service_from s0) (append_audit senv r)"
proof -
  have store: "service_from s0 (sv_audit_update (\<lambda>rs. rs @ [r]) s)" if "service_from s0 s" for s
    using that by (auto simp: service_from_def service_wf_def service_grown_def idempotency_inv_def recorded_def)
  show ?thesis unfolding append_audit_def by (intro keeps_intros keeps_write_store store)
qed

lemma keeps_on_secrets: "keeps (service_from s0) (on_secrets f)"
  by (rule keepsI) (auto simp: wp_simps service_from_def service_wf_def service_grown_def idempotency_inv_def
    recorded_def split: prod.split)

lemma keeps_run_apply: "keeps (service_from s0) (run_apply senv request_id trace_id ds options)"
  unfolding run_apply_def by (rule keeps_lift) (rule grown.k_apply_desired_states)

text \<open>A new record fills a slot that was empty.\<close>

lemma service_from_put:
  assumes "service_from s0 s" "bm_get (sv_slots s) key \<notin> Some ` (range Some)"
    and "bm_get (sv_idempotency s) key = None \<or> (\<forall>v. \<not> recorded key v s0)"
  shows "service_from s0 (sv_idempotency_update (bm_insert key v) s)"
    and "service_from s0 (sv_slots_update (bm_insert key (Some v)) (sv_idempotency_update (bm_insert key v) s))"
  using assms
  by (auto simp: service_from_def service_wf_def service_grown_def idempotency_inv_def recorded_def bm_get_insert
      image_iff split: if_splits)

lemma unrecorded_from: "service_from s0 s \<Longrightarrow> (\<And>v. \<not> recorded key v s) \<Longrightarrow> \<forall>v. \<not> recorded key v s0"
  by (auto simp: service_from_def service_grown_def)

lemma wp_apply_and_record_from:
  assumes "service_from s0 s" "bm_get (sv_slots s) key \<notin> Some ` (range Some)" "\<forall>v. \<not> recorded key v s0"
  shows "wp (apply_and_record senv q key f ds) (\<lambda>_. service_from s0) s"
proof -
  let ?fit = "\<lambda>s1. service_from s0 s1 \<and> same_keys s s1"
  have ran: "wp (run_apply senv rid tid ds options) (\<lambda>_. ?fit) s" for rid tid options
    using keeps_wp[OF keeps_run_apply assms(1)] wp_run_apply_same_keys by (rule wp_conj)
  have kept: "wp (persist_domain_apply_record senv q response) (\<lambda>_. ?fit) s1" if "?fit s1" for s1 response
    using keeps_wp[OF keeps_persist conjunct1[OF that]] wp_persist_same_keys[OF conjunct2[OF that]] by (rule wp_conj)
  have put: "service_from s0 (sv_idempotency_update (bm_insert key v) (sv_tick s1))"
      "service_from s0 (sv_slots_update (bm_insert key (Some v)) (sv_idempotency_update (bm_insert key v) (sv_tick s1)))"
      "service_from s0 (sv_tick s1)" "?fit (sv_tick s1)"
    if "?fit s1" for s1 v
  proof -
    show tick: "?fit (sv_tick s1)" using that by (simp add: service_from_tick same_keys_def)
    then show "service_from s0 (sv_tick s1)" by (rule conjunct1)
    have "bm_get (sv_slots (sv_tick s1)) key \<notin> Some ` (range Some)"
      using assms(2) tick by (simp add: same_keys_def)
    from service_from_put[OF conjunct1[OF tick] this] assms(3)
    show "service_from s0 (sv_idempotency_update (bm_insert key v) (sv_tick s1))"
      "service_from s0 (sv_slots_update (bm_insert key (Some v)) (sv_idempotency_update (bm_insert key v) (sv_tick s1)))"
      by blast+
  qed
  have asked: "wp (lift (ask h)) (\<lambda>_. ?fit) s1" if "?fit s1" for s1 h
    using put(4)[OF that] by (simp add: wp_simps sv_tick_def)
  show ?thesis
    unfolding apply_and_record_def Let_def wp_bind
    by (rule wp_mono[OF ran], rule wp_mono[OF kept], assumption, rule wp_mono[OF asked], assumption)
      (simp add: wp_simps wp_stores idempotency_put_def put split: put_outcome.split)
qed

lemma keeps_apply_with_key: "keeps (service_from s0) (apply_with_key senv q key f ds)"
proof (rule keepsI)
  fix s assume s: "service_from s0 s"
  show "wp (apply_with_key senv q key f ds) (\<lambda>_. service_from s0) s"
  proof (cases "bm_get (sv_slots s) key")
    case None
    have loaded: "service_from s0 (sv_slots_update (bm_insert key (bm_get (sv_idempotency s) key)) (sv_tick s))"
      using service_from_tick[OF s] None
      by (auto simp: service_from_def service_wf_def service_grown_def idempotency_inv_def recorded_def bm_get_insert)
    have new: "wp (apply_and_record senv q key f ds) (\<lambda>_. service_from s0)
        (sv_slots_update (bm_insert key None) (sv_tick s))" if "bm_get (sv_idempotency s) key = None"
    proof (rule wp_apply_and_record_from)
      show "\<forall>v. \<not> recorded key v s0" using that by (intro unrecorded_from[OF s]) (simp add: recorded_def)
    qed (use loaded that in \<open>simp_all add: bm_get_insert image_iff\<close>)
    show ?thesis
      using None loaded new service_from_tick[OF s]
      unfolding apply_with_key_def Let_def wp_try_then wp_idempotency_slot
      by (cases "bm_get (sv_idempotency s) key") (simp_all add: wp_simps split: option.split)
  next
    case (Some content)
    show ?thesis
    proof (cases content)
      case None
      have "\<forall>v. \<not> recorded key v s0"
        using Some None by (intro unrecorded_from[OF s]) (simp add: recorded_def)
      then have "wp (apply_and_record senv q key f ds) (\<lambda>_. service_from s0) s"
        using s Some None by (intro wp_apply_and_record_from) auto
      then show ?thesis
        using Some None unfolding apply_with_key_def Let_def wp_try_then wp_idempotency_slot by (simp add: wp_simps)
    next
      case v: (Some v)
      then show ?thesis
        using s Some unfolding apply_with_key_def Let_def wp_try_then wp_idempotency_slot by (simp add: wp_simps)
    qed
  qed
qed

lemma keeps_apply_domain_intent: "keeps (service_from s0) (apply_domain_intent senv q)"
  unfolding apply_domain_intent_def Let_def
  by (intro keeps_intros keeps_apply_with_key keeps_run_apply keeps_persist)

lemma keeps_domain_apply_record: "keeps (service_from s0) (domain_apply_record senv request_id)"
  unfolding domain_apply_record_def by (intro keeps_intros keeps_read_store)

lemma keeps_retry: "keeps (service_from s0) (retry_failed_domain_endpoints senv request)"
  unfolding retry_failed_domain_endpoints_def
  by (intro keeps_intros keeps_domain_apply_record keeps_apply_domain_intent)

lemma keeps_compensation_plan: "keeps (service_from s0) (get_domain_apply_compensation_plan senv request_id)"
  unfolding get_domain_apply_compensation_plan_def by (intro keeps_intros keeps_domain_apply_record)

lemma keeps_force_resolve: "keeps (service_from s0) (force_resolve_transaction senv request)"
  unfolding force_resolve_transaction_def Let_def
  by (intro keeps_intros keeps_ask keeps_append_audit keeps_lift[OF grown.k_get_transaction]
      keeps_lift[OF grown.k_resolve] keeps_lift[OF grown.k_emit_event])

lemma keeps_delete_secret_call: "keeps (service_from s0) (delete_secret_call senv secret_ref)"
  unfolding delete_secret_call_def by (intro keeps_intros keeps_ask keeps_on_secrets)

lemma keeps_initialize_switch: "keeps (service_from s0) (initialize_switch senv request switch)"
  unfolding initialize_switch_def registration_failure_result_with_secret_cleanup_def
  by (intro keeps_intros keeps_on_secrets keeps_delete_secret_call keeps_lift[OF grown.k_register]
      keeps_lift[OF grown.k_onboard])

lemma keeps_initialize_switches: "keeps (service_from s0) (initialize_switches senv request switches)"
  by (induction switches) (simp_all, (intro keeps_intros keeps_initialize_switch; assumption)+)

lemma keeps_initialize_site: "keeps (service_from s0) (initialize_site senv request)"
  unfolding initialize_site_def by (intro keeps_intros keeps_initialize_switches)

lemma keeps_reply: "keeps I m \<Longrightarrow> keeps I (reply wrap m)"
  unfolding reply_def by (intro keeps_intros)

lemma keeps_serve: "keeps (service_from s0) (serve senv c)"
  by (cases c) (simp_all add: keeps_reply keeps_initialize_site keeps_force_resolve keeps_apply_domain_intent
    keeps_compensation_plan keeps_retry keeps_intros keeps_lift
    grown.k_register grown.k_onboard grown.k_apply_intent grown.k_dry_runs grown.k_refresh
    grown.k_device_state grown.k_recover_pending grown.k_list_in_doubt grown.k_drift_audit grown.k_force_unlock)

section \<open>Sessions\<close>

text \<open>The reply that belongs to a call.\<close>

primrec answers :: "ApiCall \<Rightarrow> ApiReply \<Rightarrow> bool" where
  "answers (CallInitializeSite _) r = is_SiteReply r"
| "answers (CallRegisterDevice _) r = is_RegisterReply r"
| "answers (CallOnboardDevice _) r = is_OnboardReply r"
| "answers (CallApplyIntent _) r = is_ApplyReply r"
| "answers (CallDryRun _) r = is_DryRunReply r"
| "answers (CallRefreshState _) r = is_DevicesReply r"
| "answers (CallGetDeviceState _) r = is_StateReply r"
| "answers CallRecoverPending r = is_RecoveryReply r"
| "answers (CallListInDoubt _) r = is_InDoubtReply r"
| "answers (CallDriftAudit _) r = is_DevicesReply r"
| "answers (CallForceUnlock _) r = is_UnlockReply r"
| "answers (CallForceResolve _) r = is_ResolveReply r"
| "answers (CallListSummaries _) r = is_SummariesReply r"
| "answers (CallApplyDomainIntent _) r = is_ApplyReply r"
| "answers (CallCompensationPlan _) r = is_PlanReply r"
| "answers (CallRetryFailed _) r = is_ApplyReply r"
| "answers (CallDryRunDomain _) r = is_DryRunReply r"

lemma wp_True: "wp m (\<lambda>_ _. True) s"
  by (auto intro: wpI)

lemma wp_reply: "(\<And>x. P (Inr (wrap x))) \<Longrightarrow> (\<And>e. P (Inl e)) \<Longrightarrow> wp (reply wrap m) (\<lambda>x _. P x) s"
  unfolding reply_def wp_try_then by (rule wp_mono[OF wp_True]) (auto simp: on_result_iff wp_simps)

lemma serve_answers: "wp (serve senv c) (\<lambda>x _. \<forall>r. x = Inr r \<longrightarrow> answers c r) s"
  by (cases c) (simp_all add: wp_reply wp_simps)

text \<open>Calls one after another, each in an environment of its own.\<close>

primrec serve_calls :: "(service_env \<times> ApiCall) list \<Rightarrow> service \<Rightarrow> ApiReply result list \<times> service" where
  "serve_calls [] s = ([], s)"
| "serve_calls (c # cs) s =
     (let (x, s') = run_state (serve (fst c) (snd c)) s; (xs, s'') = serve_calls cs s' in (x # xs, s''))"

lemma serve_calls_from:
  "service_wf s \<Longrightarrow> serve_calls cs s = (xs, s') \<Longrightarrow>
     service_from s s' \<and> list_all2 (\<lambda>c x. \<forall>r. x = Inr r \<longrightarrow> answers (snd c) r) cs xs"
proof (induction cs arbitrary: s xs)
  case Nil
  then show ?case by (simp add: service_from_def)
next
  case (Cons c cs)
  obtain x s1 where first: "run_state (serve (fst c) (snd c)) s = (x, s1)" by (rule prod.exhaust)
  obtain ys where rest: "serve_calls cs s1 = (ys, s')" and xs: "xs = x # ys"
    using Cons.prems(2) first by (auto split: prod.splits)
  have "service_from s s" using Cons.prems(1) by (simp add: service_from_def)
  with keepsD[OF keeps_serve _ first] have "service_from s s1" by blast
  moreover from this have "service_wf s1" by (simp add: service_from_def)
  from Cons.IH[OF this rest] have "service_from s1 s'"
    "list_all2 (\<lambda>c x. \<forall>r. x = Inr r \<longrightarrow> answers (snd c) r) cs ys" by auto
  ultimately show ?case
    using wpD[OF serve_answers first] xs by (auto simp: service_from_def intro: service_grown_trans)
qed


lemma known_service_wf: "service_wf known_service"
  by (simp add: service_wf_def world_wf_def known_service_def sample_service_def sample_world_def known_device_def
      sample_info_def inventory_inv_def journal_inv_def memory_inv_def records_inv_def idempotency_inv_def
      bm_get_of_list)


text \<open>C39: At any moment of any interleaving of the nodes, when the check of one node succeeds, a call to any other
  node is refused and changes nothing, except that it may read a compensation plan.\<close>

theorem ha_single_writer:
  assumes "lease_reachable ttl w" "i \<noteq> j"
    and "guard_of path ttl w i = Some g" "guard_of path ttl w j = Some h"
    and "ensure_current io g (lw_file w) = Inr ()" "lease_checked c"
  shows "\<exists>e. run_state (serve_ha io' (HaActivePassive h report) (lw_file w) senv c) s = (Inl e, s)"
proof -
  obtain e where "ensure_current io' h (lw_file w) = Inl e"
    using one_current_node[OF assms(1,3,4,5), of io'] assms(2) by (cases "ensure_current io' h (lw_file w)") auto
  then show ?thesis
    using assms(6) by (simp add: serve_active_passive_def try_then_def of_result_def throw_def)
qed

definition nothing_recovered :: RecoveryReport where
  "nothing_recovered = \<lparr>rr_recovered = 0, rr_in_doubt = 0, rr_pending = 0, rr_tx_ids = [], rr_decisions = []\<rparr>"

theorem ha_single_writer_witness:
  "lease_reachable (\<lambda>_. 30) race_second \<and> guard_of ''lease'' (\<lambda>_. 30) race_second 0 = Some (race_guard ''lease'' 0 ''b'') \<and>
   (\<exists>e. run_state (serve_ha (quiet_io 100 []) (HaActivePassive (race_guard ''lease'' 0 ''b'') nothing_recovered)
      (lw_file race_second) sample_senv CallRecoverPending) known_service = (Inl e, known_service))"
  using ha_single_writer[OF race_second_reachable _ race_guards(3,2) race_holders(2), where c = CallRecoverPending
      and io' = "quiet_io 100 []" and report = nothing_recovered and senv = sample_senv and s = known_service]
    race_second_reachable race_guards(2)
  by (simp del: serve_ha.simps)

end
