(* ===== verification/Spec2Isabelle.thy ===== *)
theory Spec2Isabelle
  imports Convergence Apply_Results Recovery_Results Replay Admin_Safety Daemon Api
begin

text \<open>
  A verification development for aria-underlay, a controller that turns network intents into
  configuration transactions on switches.

  \<^bold>\<open>The program.\<close>  A request carries an intent for a site or a pair of switches.  The service validates
  it, plans one desired state per device, compares it with the shadow state of the device, and applies the
  difference as a transaction: it announces each phase in a journal, calls the device through an adapter, verifies,
  confirms, and stores the new shadow state.  After a crash the journal tells recovery which transactions to finish,
  roll back or hand to an operator.  Workers audit drift, collect garbage, compact logs and deliver alerts; a daemon
  starts them from a configuration file and reloads it.  A lease file lets one of several nodes be active.

  \<^bold>\<open>Conventions.\<close>  File names are relative to \<open>src/src\<close>.  Strings are byte lists, machine integers are
  words, a \<open>Result\<close> is a sum type with \<open>UnderlayError\<close> on the left and \<open>?\<close> is \<open>and_then\<close>, a \<open>BTreeMap\<close> is the
  ordered map \<open>bmap\<close>, a struct is a record whose fields carry a prefix of the struct.  Stateful code is in the state
  monad over the record \<open>world\<close> (journal, shadow and observed states, inventory, events, log of device calls) or over
  \<open>service\<close>, which adds the secret store, the idempotency slots and store, the apply records and the product audit.
  What the outside answers (clock, adapter, disk) is an oracle of the record \<open>env\<close> or \<open>service_env\<close>, indexed by a
  counter that every question advances, so a theorem for all environments covers every sequence of failures.  A put
  may succeed, be lost, or be stored and still fail.  JSON codecs, the endpoint parser and the fingerprint of a payload
  belong to other packages and are parameters.

  \<^bold>\<open>Theories.\<close>

  \<^item> Prelude, Strings, Btree: results and early returns, byte strings, ordered maps and sets with a locale of maps.
  \<^item> Model, Intent, Validation, Plan: \<open>model/\<close>, \<open>intent/\<close>, \<open>planner/\<close>.  The validators accept exactly the
    intents that satisfy declarative rules, the domain planner refines a declarative plan.
  \<^item> Normalize, Diff, Convergence: \<open>engine/normalize.rs\<close>, \<open>engine/diff.rs\<close>.  Applying a change set equals
    overlaying the desired state, leaves no orphans, and a second diff is empty.
  \<^item> Atomic_File, Shadow: \<open>utils/atomic_file.rs\<close> with each system call as a step, and \<open>state/shadow.rs\<close>; both
    stores implement one locale.
  \<^item> Phase, Journal, Locks: \<open>tx/\<close>.  The phase machine settles, the journal gates devices, ordered locking does not
    deadlock and ends within its deadline.
  \<^item> Change_Plan, Drift, Device, Events, Response, Authz: \<open>engine/change_plan.rs\<close>, \<open>engine/dry_run.rs\<close>,
    \<open>state/drift.rs\<close>, \<open>worker/drift_auditor.rs\<close>, \<open>device/\<close>, \<open>telemetry/events.rs\<close>, \<open>api/response.rs\<close>,
    \<open>api/apply.rs\<close>, \<open>authz.rs\<close>.
  \<^item> Effects, Wp, Apply, Apply_Safety, Apply_Results, Sample_World: \<open>api/apply_coordinator.rs\<close> with a calculus of
    weakest preconditions.  In every environment an apply writes ahead, and its status is faithful.
  \<^item> Recovery, Recovery_Safety, Recovery_Results: \<open>api/recovery_coordinator.rs\<close>, \<open>api/recovery_ops.rs\<close>.  Recovery
    writes ahead, never guesses an outcome, and returns.
  \<^item> Idempotency, Compensation, Service_Base, Service, Onboarding: \<open>api/idempotency.rs\<close>,
    \<open>api/apply_compensation.rs\<close>, \<open>api/service.rs\<close>, \<open>api/admin_ops.rs\<close>, \<open>device/\<close>.
  \<^item> Replay, Admin_Safety: a key is applied once, also across restarts; force resolve is guarded.
  \<^item> Log_File, Telemetry, Alerts: \<open>telemetry/\<close>, \<open>api/operations.rs\<close>, \<open>api/operation_alerts.rs\<close>.  Compaction
    keeps the newest records, alerts are delivered at least once.
  \<^item> Schedule, Gc, Workers, Daemon: \<open>worker/\<close>.  Garbage collection spares unsettled transactions, an accepted
    configuration starts, and a reload runs only accepted configurations.
  \<^item> Ha: \<open>ha.rs\<close>, as functions and as a step relation in which the calls of several nodes interleave.
  \<^item> World_Inv, Api: the locale of world invariants that every operation keeps, the dispatcher of
    \<open>api/underlay_service.rs\<close> with the wrappers that check the lease, the well-formedness of the service in every
    session, and that a second node is refused while the first is current.

  \<^bold>\<open>Bounds.\<close>  No definition runs on fuel that could end early: loops over data are structural, the transport
  retry of recovery is bounded by the constant 3 of the source, the lock loop by its deadline, and a periodic worker by
  the list of ticks it gets, which is arbitrary.

  \<^bold>\<open>Map.\<close>  A definition that models a part of a longer function, such as a loop body, is mapped to the lines of
  that part; small helpers that share the lines of a mapped definition have no entry of their own.

  \<^bold>\<open>Not modelled.\<close>  The gRPC client, the command line and the binaries are I/O over other packages, and so is
  the core of the HTTP product API (listener, request bodies, tokens).  The conversions from the wire types
  (\<open>adapter_client/mapper.rs\<close>, \<open>device/model_profile.rs\<close>) read types that the build generates.  The product
  operations beyond the summary filter, the alert lifecycle manager and the worker configuration administration are
  left out: they check the authorization, append a product audit record and then call the alert lifecycle store and
  rewrite the daemon configuration, of which the store and the configuration are modelled.  The deployment preflight
  probes the paths of a configuration and changes no state, and \<open>sot/snapshot.rs\<close> validates an import format that
  no other part calls.  Threads and the async runtime appear only as the interleavings of Locks, Ha and Workers; the
  operations of one service run one after another, and the wait for an endpoint lock inside an apply is not part of
  the world.  The Python adapter, examples and scripts are separate programs.
\<close>

end
